(* ===== verification/Prelude.thy ===== *)
theory Prelude
  imports Main "HOL-Library.AList" "HOL-Library.Char_ord" "HOL-Library.List_Lexorder"
    "HOL-Library.Multiset"
begin

text \<open>
  Conventions shared by every component of the development.

  Run-time panics of Go (index out of range, nil dereference, an explicit
  \<^verbatim>\<open>panic\<close>) are the value \<^verbatim>\<open>Panic\<close> of the type \<^verbatim>\<open>go\<close>; a Go pair
  \<^verbatim>\<open>(value, error)\<close> is a value of \<^verbatim>\<open>'a res\<close>, the error on the left with the text
  that its \<^verbatim>\<open>Error()\<close> method returns.  A Go map is an association list with
  distinct keys; the order of the list stands for the order in which the
  runtime happens to iterate over the map, so that a theorem over all lists is a
  theorem over all iteration orders.
\<close>

section \<open>Collections of facts\<close>

named_theorems go_simps \<open>evaluation of panics, results and Go maps\<close>
named_theorems inv_intros \<open>preservation of component invariants\<close>

section \<open>Panics\<close>

datatype 'a go = Ret (the_ret: 'a) | Panic

fun go_bind :: "'a go \<Rightarrow> ('a \<Rightarrow> 'b go) \<Rightarrow> 'b go" where
  "go_bind (Ret a) f = f a"
| "go_bind Panic f = Panic"

fun go_map :: "('a \<Rightarrow> 'b) \<Rightarrow> 'a go \<Rightarrow> 'b go" where
  "go_map f (Ret a) = Ret (f a)"
| "go_map f Panic = Panic"

declare go_bind.simps [go_simps] go_map.simps [go_simps]

lemma go_bind_eq_Ret [go_simps]:
  "go_bind m f = Ret b \<longleftrightarrow> (\<exists>a. m = Ret a \<and> f a = Ret b)"
  by (cases m) auto

lemma go_bind_eq_Panic [go_simps]:
  "go_bind m f = Panic \<longleftrightarrow> m = Panic \<or> (\<exists>a. m = Ret a \<and> f a = Panic)"
  by (cases m) auto

lemma go_bind_assoc: "go_bind (go_bind m f) g = go_bind m (\<lambda>a. go_bind (f a) g)"
  by (cases m) auto

lemma go_map_eq_Ret [go_simps]: "go_map f m = Ret b \<longleftrightarrow> (\<exists>a. m = Ret a \<and> f a = b)"
  by (cases m) auto

lemma go_map_eq_Panic [go_simps]: "go_map f m = Panic \<longleftrightarrow> m = Panic"
  by (cases m) auto

lemma not_Panic_iff: "m \<noteq> Panic \<longleftrightarrow> (\<exists>a. m = Ret a)"
  by (cases m) auto

text \<open>Indexing a slice panics out of range.\<close>

fun go_index :: "'a list \<Rightarrow> nat \<Rightarrow> 'a go" where
  "go_index [] i = Panic"
| "go_index (x # xs) 0 = Ret x"
| "go_index (x # xs) (Suc i) = go_index xs i"

lemma go_index_nth: "go_index xs i = (if i < length xs then Ret (xs ! i) else Panic)"
  by (induction xs i rule: go_index.induct) auto

lemma go_index_eq_Panic [go_simps]: "go_index xs i = Panic \<longleftrightarrow> length xs \<le> i"
  by (simp add: go_index_nth not_less)

section \<open>Results\<close>

type_synonym gerror = string
type_synonym 'a res = "gerror + 'a"

fun res_bind :: "'a res \<Rightarrow> ('a \<Rightarrow> 'b res) \<Rightarrow> 'b res" where
  "res_bind (Inl e) f = Inl e"
| "res_bind (Inr a) f = f a"

declare res_bind.simps [go_simps]

lemma res_bind_eq_Inr [go_simps]:
  "res_bind m f = Inr b \<longleftrightarrow> (\<exists>a. m = Inr a \<and> f a = Inr b)"
  by (cases m) auto

lemma res_bind_eq_Inl [go_simps]:
  "res_bind m f = Inl e \<longleftrightarrow> m = Inl e \<or> (\<exists>a. m = Inr a \<and> f a = Inl e)"
  by (cases m) auto

section \<open>Go maps\<close>

text \<open>
  \<^verbatim>\<open>AList.update\<close> overwrites an existing key in place and appends a new one,
  \<^verbatim>\<open>AList.delete\<close> removes it; both keep the keys distinct.
\<close>

type_synonym ('k, 'v) gomap = "('k \<times> 'v) list"

definition gm_keys :: "('k, 'v) gomap \<Rightarrow> 'k list" where
  "gm_keys m = map fst m"

definition gm_ok :: "('k, 'v) gomap \<Rightarrow> bool" where
  "gm_ok m \<longleftrightarrow> distinct (map fst m)"

definition gm_has :: "('k, 'v) gomap \<Rightarrow> 'k \<Rightarrow> bool" where
  "gm_has m k \<longleftrightarrow> map_of m k \<noteq> None"

text \<open>Reading an absent key yields the zero value of the element type.\<close>

definition gm_get :: "'v \<Rightarrow> ('k, 'v) gomap \<Rightarrow> 'k \<Rightarrow> 'v" where
  "gm_get z m k = (case map_of m k of None \<Rightarrow> z | Some v \<Rightarrow> v)"

lemma gm_ok_Nil [simp]: "gm_ok []"
  by (simp add: gm_ok_def)

lemma gm_ok_update [simp, inv_intros]: "gm_ok m \<Longrightarrow> gm_ok (AList.update k v m)"
  by (simp add: gm_ok_def distinct_update)

lemma gm_ok_delete [simp, inv_intros]: "gm_ok m \<Longrightarrow> gm_ok (AList.delete k m)"
  by (simp add: gm_ok_def distinct_delete)

lemma gm_has_iff: "gm_has m k \<longleftrightarrow> k \<in> set (map fst m)"
  by (simp add: gm_has_def map_of_eq_None_iff)

lemma gm_has_update [simp]: "gm_has (AList.update k v m) k' \<longleftrightarrow> k' = k \<or> gm_has m k'"
  by (auto simp: gm_has_def update_conv')

lemma gm_has_delete [simp]: "gm_has (AList.delete k m) k' \<longleftrightarrow> k' \<noteq> k \<and> gm_has m k'"
  by (auto simp: gm_has_def delete_conv')

lemma gm_has_Nil [simp]: "\<not> gm_has [] k"
  by (simp add: gm_has_def)

lemma gm_get_update [simp]:
  "gm_get z (AList.update k v m) k' = (if k' = k then v else gm_get z m k')"
  by (simp add: gm_get_def update_conv')

lemma set_update_subset: "set (AList.update k v m) \<subseteq> insert (k, v) (set m)"
  by (induction m) auto

lemma gm_ok_map_of: "gm_ok m \<Longrightarrow> (k, v) \<in> set m \<longleftrightarrow> map_of m k = Some v"
  by (simp add: gm_ok_def)

lemma set_gm_keys: "set (gm_keys m) = {k. gm_has m k}"
  by (auto simp: gm_keys_def gm_has_iff)

lemma fold_update_map_of:
  "map_of (fold (\<lambda>k. AList.update k (f k)) ks m) x =
     (if x \<in> set ks then Some (f x) else map_of m x)"
  by (induction ks arbitrary: m) (auto simp: update_conv')

lemma gm_ok_fold_update [simp]: "gm_ok m \<Longrightarrow> gm_ok (fold (\<lambda>k. AList.update (g k) (f k)) ks m)"
  by (induction ks arbitrary: m) auto

section \<open>Lists\<close>

text \<open>Sorting by insertion stands for \<^verbatim>\<open>sort.Sort\<close>, whose result is only
  determined up to the order of elements that compare equal.\<close>

lemma sorted_wrt_mono_set:
  "sorted_wrt P xs \<Longrightarrow> (\<And>x y. x \<in> set xs \<Longrightarrow> y \<in> set xs \<Longrightarrow> P x y \<Longrightarrow> Q x y)
    \<Longrightarrow> sorted_wrt Q xs"
  by (induction xs) auto

lemma length_concat_map_single: "length (concat (map (\<lambda>x. if P x then [f x] else []) xs)) =
    length (filter P xs)"
  by (induction xs) auto

lemma concat_map_if: "concat (map (\<lambda>x. if P x then [f x] else []) xs) = map f (filter P xs)"
  by (induction xs) auto

end
