(* ===== verification/GoStrings.thy ===== *)
theory GoStrings
  imports Prelude
begin

text \<open>
  The functions of Go's \<^verbatim>\<open>strings\<close> and \<^verbatim>\<open>strconv\<close> packages that the agent calls, on
  byte strings as character lists.  Upper and lower case and white space are those
  of ASCII.
\<close>

section \<open>Definitions\<close>

definition has_prefix :: "string \<Rightarrow> string \<Rightarrow> bool" where
  "has_prefix s p \<longleftrightarrow> take (length p) s = p"

definition has_suffix :: "string \<Rightarrow> string \<Rightarrow> bool" where
  "has_suffix s p \<longleftrightarrow> length p \<le> length s \<and> drop (length s - length p) s = p"

fun contains :: "string \<Rightarrow> string \<Rightarrow> bool" where
  "contains [] sub \<longleftrightarrow> sub = []"
| "contains (c # s) sub \<longleftrightarrow> has_prefix (c # s) sub \<or> contains s sub"

text \<open>\<^verbatim>\<open>strings.Index\<close>, with \<^verbatim>\<open>None\<close> for the result -1.\<close>

fun index_of :: "string \<Rightarrow> string \<Rightarrow> nat option" where
  "index_of [] sub = (if sub = [] then Some 0 else None)"
| "index_of (c # s) sub =
     (if has_prefix (c # s) sub then Some 0 else map_option Suc (index_of s sub))"

text \<open>\<^verbatim>\<open>strings.Split\<close> with a separator of one byte.\<close>

fun split_char :: "string \<Rightarrow> char \<Rightarrow> string list" where
  "split_char [] d = [[]]"
| "split_char (c # s) d =
     (if c = d then [] # split_char s d
      else (case split_char s d of [] \<Rightarrow> [[c]] | w # ws \<Rightarrow> (c # w) # ws))"

text \<open>\<^verbatim>\<open>strings.SplitN(s, sep, 2)\<close> with a separator of one byte.\<close>

fun split2_char :: "string \<Rightarrow> char \<Rightarrow> string list" where
  "split2_char [] d = [[]]"
| "split2_char (c # s) d =
     (if c = d then [[], s]
      else (case split2_char s d of [] \<Rightarrow> [[c]] | w # ws \<Rightarrow> (c # w) # ws))"

fun join :: "string list \<Rightarrow> string \<Rightarrow> string" where
  "join [] sep = []"
| "join [w] sep = w"
| "join (w # v # ws) sep = w @ sep @ join (v # ws) sep"

definition is_space :: "char \<Rightarrow> bool" where
  "is_space c \<longleftrightarrow> c \<in> {CHR 0x09, CHR 0x0A, CHR 0x0B, CHR 0x0C, CHR 0x0D, CHR 0x20}"

definition trim_left :: "(char \<Rightarrow> bool) \<Rightarrow> string \<Rightarrow> string" where
  "trim_left P s = dropWhile P s"

definition trim_right :: "(char \<Rightarrow> bool) \<Rightarrow> string \<Rightarrow> string" where
  "trim_right P s = rev (dropWhile P (rev s))"

definition trim_space :: "string \<Rightarrow> string" where
  "trim_space s = trim_right is_space (trim_left is_space s)"

definition trim_cutset :: "string \<Rightarrow> string \<Rightarrow> string" where
  "trim_cutset s cutset =
     trim_right (\<lambda>c. c \<in> set cutset) (trim_left (\<lambda>c. c \<in> set cutset) s)"

definition trim_prefix :: "string \<Rightarrow> string \<Rightarrow> string" where
  "trim_prefix s p = (if has_prefix s p then drop (length p) s else s)"

definition trim_suffix :: "string \<Rightarrow> string \<Rightarrow> string" where
  "trim_suffix s p = (if has_suffix s p then take (length s - length p) s else s)"

fun fields_acc :: "string \<Rightarrow> string \<Rightarrow> string list" where
  "fields_acc [] acc = (if acc = [] then [] else [rev acc])"
| "fields_acc (c # s) acc =
     (if is_space c then (if acc = [] then fields_acc s [] else rev acc # fields_acc s [])
      else fields_acc s (c # acc))"

definition strings_Fields :: "string \<Rightarrow> string list" where
  "strings_Fields s = fields_acc s []"

definition lower_char :: "char \<Rightarrow> char" where
  "lower_char c = (let n = of_char c :: nat in
     if 65 \<le> n \<and> n \<le> 90 then char_of (n + 32) else c)"

definition to_lower :: "string \<Rightarrow> string" where
  "to_lower s = map lower_char s"

text \<open>\<^verbatim>\<open>strings.Replace(s, old, new, 1)\<close> for a non-empty \<^verbatim>\<open>old\<close>.\<close>

fun replace1 :: "string \<Rightarrow> string \<Rightarrow> string \<Rightarrow> string" where
  "replace1 [] old new = []"
| "replace1 (c # s) old new =
     (if has_prefix (c # s) old then new @ drop (length old) (c # s)
      else c # replace1 s old new)"

fun nat_digits :: "nat \<Rightarrow> string" where
  "nat_digits n = (if n < 10 then [char_of (48 + n)]
     else nat_digits (n div 10) @ [char_of (48 + n mod 10)])"

declare nat_digits.simps [simp del]

definition int_str :: "int \<Rightarrow> string" where
  "int_str i = (if i < 0 then ''-'' @ nat_digits (nat (- i)) else nat_digits (nat i))"

section \<open>Prefixes and suffixes\<close>

lemma has_prefix_append [simp]: "has_prefix (p @ s) p"
  by (simp add: has_prefix_def)

lemma has_prefix_iff: "has_prefix s p \<longleftrightarrow> (\<exists>r. s = p @ r)"
  unfolding has_prefix_def by (metis append_eq_conv_conj append_take_drop_id)

lemma has_prefix_shorter: "has_prefix (u @ v) p \<Longrightarrow> length p \<le> length u \<Longrightarrow> has_prefix u p"
  by (simp add: has_prefix_def)

lemma has_suffix_iff: "has_suffix s p \<longleftrightarrow> (\<exists>r. s = r @ p)"
proof
  assume "has_suffix s p"
  then show "\<exists>r. s = r @ p"
    unfolding has_suffix_def by (metis append_take_drop_id)
qed (auto simp: has_suffix_def)

lemma trim_prefix_append [simp]: "trim_prefix (p @ s) p = s"
  by (simp add: trim_prefix_def)

lemma trim_suffix_append [simp]: "trim_suffix (s @ p) p = s"
  by (auto simp: trim_suffix_def has_suffix_iff)

section \<open>Contains\<close>

lemma contains_iff: "contains s sub \<longleftrightarrow> (\<exists>a b. s = a @ sub @ b)"
proof (induction s)
  case Nil
  then show ?case by auto
next
  case (Cons c s)
  show ?case
  proof
    assume "contains (c # s) sub"
    then consider "has_prefix (c # s) sub" | "contains s sub" by auto
    then show "\<exists>a b. c # s = a @ sub @ b"
    proof cases
      case 1
      then show ?thesis by (metis append_Nil has_prefix_iff)
    next
      case 2
      then show ?thesis using Cons.IH by (metis append_Cons)
    qed
  next
    assume "\<exists>a b. c # s = a @ sub @ b"
    then obtain a b where ab: "c # s = a @ sub @ b" by blast
    show "contains (c # s) sub"
    proof (cases a)
      case Nil
      with ab have "has_prefix (c # s) sub" by (auto simp: has_prefix_iff)
      then show ?thesis by simp
    next
      case (Cons x xs)
      with ab have "s = xs @ sub @ b" by simp
      then show ?thesis using Cons.IH by auto
    qed
  qed
qed

lemma contains_append_left: "contains s sub \<Longrightarrow> contains (a @ s) sub"
  by (metis append.assoc contains_iff)

lemma contains_append_right: "contains s sub \<Longrightarrow> contains (s @ b) sub"
  by (metis append.assoc contains_iff)

lemma contains_self [simp]: "contains (a @ sub @ b) sub"
  by (auto simp: contains_iff)

lemma index_of_None: "index_of s sub = None \<longleftrightarrow> \<not> contains s sub"
  by (induction s) auto

lemma index_of_le: "index_of s sub = Some i \<Longrightarrow> i + length sub \<le> length s"
proof (induction s arbitrary: i)
  case (Cons c s)
  show ?case
  proof (cases "has_prefix (c # s) sub")
    case True
    then have "length sub \<le> length (c # s)" by (metis has_prefix_iff le_add1 length_append)
    with Cons.prems True show ?thesis by simp
  next
    case False
    with Cons show ?thesis by auto
  qed
qed (auto split: if_splits)

lemma index_of_char: "d \<notin> set a \<Longrightarrow> index_of (a @ d # b) [d] = Some (length a)"
  by (induction a) (auto simp: has_prefix_def)

lemma contains_char: "contains s [d] \<longleftrightarrow> d \<in> set s"
  by (auto simp: contains_iff in_set_conv_decomp)

lemma index_of_no_char: "d \<notin> set s \<Longrightarrow> index_of s [d] = None"
  by (simp add: index_of_None contains_char)

lemma index_of_first:
  assumes "\<not> contains (a @ butlast sub) sub" "sub \<noteq> []"
  shows "index_of (a @ sub @ b) sub = Some (length a)"
  using assms(1)
proof (induction a)
  case Nil
  then show ?case using assms(2) has_prefix_append [of sub b] by (cases "sub @ b") auto
next
  case (Cons c a)
  have "\<not> has_prefix (c # a @ sub @ b) sub"
  proof
    assume "has_prefix (c # a @ sub @ b) sub"
    moreover have "c # a @ sub @ b = (c # a @ butlast sub) @ [last sub] @ b"
      using append_butlast_last_id [OF assms(2)] by (metis append.assoc append_Cons)
    ultimately have "has_prefix ((c # a @ butlast sub) @ [last sub] @ b) sub" by simp
    then have "has_prefix (c # a @ butlast sub) sub" by (rule has_prefix_shorter) simp
    with Cons.prems show False by simp
  qed
  with Cons show ?case by simp
qed

section \<open>Split and join\<close>

lemma split_char_not_Nil [simp]: "split_char s d \<noteq> []"
  by (induction s) (auto split: list.splits)

lemma split_char_notin [simp]: "d \<notin> set s \<Longrightarrow> split_char s d = [s]"
  by (induction s) auto

lemma split_char_sep [simp]: "d \<notin> set a \<Longrightarrow> split_char (a @ d # b) d = a # split_char b d"
  by (induction a) auto

lemma split_char_parts: "w \<in> set (split_char s d) \<Longrightarrow> d \<notin> set w"
  by (induction s arbitrary: w) (auto split: list.splits if_splits)

lemma length_split_part: "w \<in> set (split_char s d) \<Longrightarrow> length w \<le> length s"
proof (induction s arbitrary: w)
  case (Cons c s)
  obtain v vs where s: "split_char s d = v # vs"
    by (metis list.exhaust split_char_not_Nil)
  show ?case
  proof (cases "c = d \<or> w \<in> set vs")
    case True
    with Cons.prems s Cons.IH [of w] show ?thesis by auto
  next
    case False
    with Cons.prems s Cons.IH [of v] show ?thesis by auto
  qed
qed simp

lemma join_Cons: "ws \<noteq> [] \<Longrightarrow> join (w # ws) sep = w @ sep @ join ws sep"
  by (cases ws) auto

lemma join_split_char [simp]: "join (split_char s d) [d] = s"
proof (induction s)
  case Nil
  then show ?case by simp
next
  case (Cons c s)
  obtain w ws where s: "split_char s d = w # ws"
    by (metis list.exhaust split_char_not_Nil)
  with Cons.IH have *: "join (w # ws) [d] = s" by simp
  then show ?case
    by (cases ws) (auto simp: s)
qed

lemma split_char_join:
  "ws \<noteq> [] \<Longrightarrow> \<forall>w \<in> set ws. d \<notin> set w \<Longrightarrow> split_char (join ws [d]) d = ws"
proof (induction ws)
  case (Cons w ws)
  then show ?case by (cases ws) (auto simp: join_Cons)
qed simp

lemma length_split_char: "length (split_char s d) = Suc (count_list s d)"
proof (induction s)
  case (Cons c s)
  obtain w ws where "split_char s d = w # ws"
    by (metis list.exhaust split_char_not_Nil)
  with Cons show ?case by auto
qed simp

lemma split2_char_sep [simp]: "d \<notin> set a \<Longrightarrow> split2_char (a @ d # b) d = [a, b]"
  by (induction a) auto

lemma split2_char_notin [simp]: "d \<notin> set s \<Longrightarrow> split2_char s d = [s]"
  by (induction s) auto

section \<open>Trimming\<close>

lemma trim_right_Nil [simp]: "trim_right P [] = []"
  by (simp add: trim_right_def)

lemma trim_left_all: "trim_left P s = [] \<longleftrightarrow> (\<forall>c \<in> set s. P c)"
  by (auto simp: trim_left_def)

lemma trim_right_all: "trim_right P s = [] \<longleftrightarrow> (\<forall>c \<in> set s. P c)"
  by (auto simp: trim_right_def)

lemma trim_space_eq_Nil: "trim_space s = [] \<longleftrightarrow> (\<forall>c \<in> set s. is_space c)"
proof -
  have "(\<forall>c \<in> set (dropWhile is_space s). is_space c) \<longleftrightarrow> (\<forall>c \<in> set s. is_space c)"
    by (induction s) auto
  then show ?thesis by (simp add: trim_space_def trim_right_all trim_left_def)
qed

lemma trim_space_id:
  assumes "s \<noteq> [] \<Longrightarrow> \<not> is_space (hd s) \<and> \<not> is_space (last s)"
  shows "trim_space s = s"
proof (cases s)
  case (Cons c t)
  with assms have "\<not> is_space c" "\<not> is_space (last s)" by auto
  moreover have "rev s = last s # rev (butlast s)"
    using Cons by (metis append_butlast_last_id list.distinct(1) rev.simps(2) rev_rev_ident)
  ultimately show ?thesis using Cons
    by (simp add: trim_space_def trim_left_def trim_right_def)
qed (simp add: trim_space_def trim_left_def)

lemma fields_acc_no_space:
  assumes "\<forall>c \<in> set acc. \<not> is_space c" and "w \<in> set (fields_acc s acc)"
  shows "w \<noteq> [] \<and> (\<forall>c \<in> set w. \<not> is_space c)"
  using assms
proof (induction s arbitrary: acc)
  case Nil
  then show ?case by (simp split: if_splits)
next
  case (Cons c s)
  consider "is_space c" "acc = []" | "is_space c" "acc \<noteq> []" | "\<not> is_space c" by blast
  then show ?case
  proof cases
    case 1
    with Cons.prems Cons.IH [of "[]"] show ?thesis by simp
  next
    case 2
    have "w = rev acc \<or> w \<in> set (fields_acc s [])" using 2 Cons.prems(2) by simp
    then show ?thesis
    proof
      assume "w = rev acc"
      with 2 Cons.prems(1) show ?thesis by simp
    next
      assume "w \<in> set (fields_acc s [])"
      with Cons.IH [of "[]"] show ?thesis by simp
    qed
  next
    case 3
    with Cons.prems Cons.IH [of "c # acc"] show ?thesis by simp
  qed
qed

section \<open>Lower case\<close>

lemma lower_char_not_upper: "\<not> (65 \<le> (of_char (lower_char c) :: nat) \<and> of_char (lower_char c) \<le> (90 :: nat))"
  by (auto simp: lower_char_def Let_def)

lemma lower_char_idem [simp]: "lower_char (lower_char c) = lower_char c"
  using lower_char_not_upper [of c] by (subst lower_char_def) (auto simp: Let_def)

lemma to_lower_idem [simp]: "to_lower (to_lower s) = to_lower s"
  by (simp add: to_lower_def)

lemma to_lower_append [simp]: "to_lower (a @ b) = to_lower a @ to_lower b"
  by (simp add: to_lower_def)

lemma length_to_lower [simp]: "length (to_lower s) = length s"
  by (simp add: to_lower_def)

end
