(* ===== verification/Packets.thy ===== *)
theory Packets
  imports GoStrings
begin

text \<open>
  The messages of the agent (\<^verbatim>\<open>pkg/agent/model\<close>), the label and command constants the
  rest of the development uses, and the error packets of \<^verbatim>\<open>pkg/util/command\<close>.
\<close>

section \<open>Packets\<close>

record packet =
  pkKey :: string
  pkType :: string
  pkPayload :: string

definition mk_packet :: "string \<Rightarrow> string \<Rightarrow> string \<Rightarrow> packet" where
  "mk_packet k t p = \<lparr>pkKey = k, pkType = t, pkPayload = p\<rparr>"

lemma mk_packet_simps [simp]:
  "pkKey (mk_packet k t p) = k" "pkType (mk_packet k t p) = t" "pkPayload (mk_packet k t p) = p"
  "mk_packet k t p = mk_packet k' t' p' \<longleftrightarrow> k = k' \<and> t = t' \<and> p = p'"
  by (auto simp: mk_packet_def)

definition packet_String :: "packet \<Rightarrow> string" where
  "packet_String c =
     ''{key: '' @ pkKey c @ '', type: '' @ pkType c @ ''}  '' @ pkPayload c"

text \<open>The loop of \<^verbatim>\<open>Packet.Namespace\<close> over the dot-separated parts of the key.\<close>

fun namespace_loop :: "string list \<Rightarrow> string go" where
  "namespace_loop [] = Ret []"
| "namespace_loop (kv # kvs) =
     (if contains kv ''env'' then go_index (split_char kv CHR '':'') 1
      else namespace_loop kvs)"

definition packet_Namespace :: "packet \<Rightarrow> string go" where
  "packet_Namespace c = namespace_loop (split_char (pkKey c) CHR ''.'')"

section \<open>Commands and labels\<close>

text \<open>The packet types (\<^verbatim>\<open>const.go\<close>).\<close>

definition InitAgent :: string where "InitAgent = ''agent_init''"
definition AgentUpgrade :: string where "AgentUpgrade = ''agent_upgrade''"
definition InitAgentFailed :: string where "InitAgentFailed = ''init_agent_failed''"
definition EnvCreateFailed :: string where "EnvCreateFailed = ''env_create_failed''"
definition EnvDeleteSucceed :: string where "EnvDeleteSucceed = ''env_stop_succeed''"
definition EnvDelete :: string where "EnvDelete = ''env_delete''"
definition EnvCreate :: string where "EnvCreate = ''env_create''"
definition CertManagerInstall :: string where "CertManagerInstall = ''cert_manager_install''"
definition CertManagerStatus :: string where "CertManagerStatus = ''cert_manager_status''"
definition CertManagerUninstall :: string where "CertManagerUninstall = ''cert_manager_uninstall''"
definition DeletePod :: string where "DeletePod = ''delete_pod''"
definition HelmReleaseUpgrade :: string where "HelmReleaseUpgrade = ''helm_release_upgrade''"
definition HelmReleaseSyncedFailed :: string where "HelmReleaseSyncedFailed = ''helm_release_sync_failed''"
definition HelmReleaseInstallFailed :: string where "HelmReleaseInstallFailed = ''helm_release_install_failed''"
definition HelmInstallJobInfo :: string where "HelmInstallJobInfo = ''helm_install_job_info''"
definition HelmUpgradeJobInfo :: string where "HelmUpgradeJobInfo = ''helm_upgrade_job_info''"
definition HelmJobLog :: string where "HelmJobLog = ''helm_job_log''"
definition HelmJobEvent :: string where "HelmJobEvent = ''helm_job_event''"
definition HelmReleaseStart :: string where "HelmReleaseStart = ''helm_release_start''"
definition HelmReleaseStartFailed :: string where "HelmReleaseStartFailed = ''helm_release_start_failed''"
definition HelmReleaseStop :: string where "HelmReleaseStop = ''helm_release_stop''"
definition HelmReleaseStopFailed :: string where "HelmReleaseStopFailed = ''helm_release_stop_failed''"
definition HelmReleaseDelete :: string where "HelmReleaseDelete = ''helm_release_delete''"
definition HelmReleaseDeleteFailed :: string where "HelmReleaseDeleteFailed = ''helm_release_delete_failed''"
definition HelmReleaseGetContent :: string where "HelmReleaseGetContent = ''helm_release_get_content''"
definition HelmReleaseGetContentFailed :: string where "HelmReleaseGetContentFailed = ''helm_release_get_content_failed''"
definition ChartMuseumAuthentication :: string where "ChartMuseumAuthentication = ''chart_museum_authentication''"
definition ChartMuseumAuthenticationFailed :: string where "ChartMuseumAuthenticationFailed = ''chart_museum_authentication_failed''"
definition HelmReleaseInstallResourceInfo :: string where "HelmReleaseInstallResourceInfo = ''helm_install_resource_info''"
definition HelmReleaseUpgradeResourceInfo :: string where "HelmReleaseUpgradeResourceInfo = ''helm_upgrade_resource_info''"
definition HelmPodEvent :: string where "HelmPodEvent = ''helm_pod_event''"
definition TestExecute :: string where "TestExecute = ''test_execute''"
definition ExecuteTestSucceed :: string where "ExecuteTestSucceed = ''execute_test_succeed''"
definition ExecuteTestFailed :: string where "ExecuteTestFailed = ''execute_test_failed''"
definition TestJobLog :: string where "TestJobLog = ''test_job_log''"
definition TestPodEvent :: string where "TestPodEvent = ''test_pod_event''"
definition TestPodUpdate :: string where "TestPodUpdate = ''test_pod_update''"
definition TestStatusRequest :: string where "TestStatusRequest = ''test_status''"
definition TestStatusResponse :: string where "TestStatusResponse = ''test_status_response''"
definition Cert_Issued :: string where "Cert_Issued = ''cert_issued''"
definition Cert_Faild :: string where "Cert_Faild = ''cert_failed''"
definition ResourceUpdate :: string where "ResourceUpdate = ''resource_update''"
definition ConfigUpdate :: string where "ConfigUpdate = ''config_update''"
definition NodeUpdate :: string where "NodeUpdate = ''node_update''"
definition NodeDelete :: string where "NodeDelete = ''node_delete''"
definition ResourceDelete :: string where "ResourceDelete = ''resource_delete''"
definition ResourceSync :: string where "ResourceSync = ''resource_sync''"
definition NodeSync :: string where "NodeSync = ''node_sync''"
definition PodMetricsSync :: string where "PodMetricsSync = ''pod_metrics_sync''"
definition KubernetesGetLogs :: string where "KubernetesGetLogs = ''kubernetes_get_logs''"
definition KubernetesGetLogsFailed :: string where "KubernetesGetLogsFailed = ''kubernetes_get_logs_failed''"
definition KubernetesDownloadLogs :: string where "KubernetesDownloadLogs = ''kubernetes_download_logs''"
definition KubernetesDownloadLogsFailed :: string where "KubernetesDownloadLogsFailed = ''kubernetes_download_logs_failed''"
definition KubernetesDownloadPreviousLogs :: string where "KubernetesDownloadPreviousLogs = ''kubernetes_download_previous_logs''"
definition KubernetesDownloadPreviousLogsFailed :: string where "KubernetesDownloadPreviousLogsFailed = ''kubernetes_download_previous_logs_failed''"
definition KubernetesExec :: string where "KubernetesExec = ''kubernetes_exec''"
definition KubernetesExecFailed :: string where "KubernetesExecFailed = ''kubernetes_exec_failed''"
definition OperatePodCount :: string where "OperatePodCount = ''operate_pod_count''"
definition OperatePodCountFailed :: string where "OperatePodCountFailed = ''operate_pod_count_failed''"
definition OperatePodCountSuccess :: string where "OperatePodCountSuccess = ''operate_pod_count_succeed''"
definition OperateDockerRegistrySecret :: string where "OperateDockerRegistrySecret = ''operate_docker_registry_secret''"
definition OperateDockerRegistrySecretFailed :: string where "OperateDockerRegistrySecretFailed = ''operate_docker_registry_secret_failed''"
definition DeletePersistentVolumeClaimByLabels :: string where "DeletePersistentVolumeClaimByLabels = ''delete_persistent_volume_claim_by_labels''"
definition GitOpsSync :: string where "GitOpsSync = ''git_ops_sync''"
definition GitOpsSyncFailed :: string where "GitOpsSyncFailed = ''git_ops_sync_failed''"
definition GitOpsSyncEvent :: string where "GitOpsSyncEvent = ''git_ops_sync_event''"
definition ResourceStatusSyncEvent :: string where "ResourceStatusSyncEvent = ''resource_status_sync_event''"
definition ResourceStatusSync :: string where "ResourceStatusSync = ''resource_status_sync''"
definition ResourceDescribe :: string where "ResourceDescribe = ''resource_describe''"
definition CertManagerInfo :: string where "CertManagerInfo = ''cert_manager_info''"
definition PolarisRequest :: string where "PolarisRequest = ''polaris_scan_cluster''"
definition ClusterGetInfo :: string where "ClusterGetInfo = ''cluster_info''"
definition ClusterGetInfoFailed :: string where "ClusterGetInfoFailed = ''cluster_info_failed''"
definition WorkloadPodEvent :: string where "WorkloadPodEvent = ''workload_pod_event''"
definition INSTALL :: string where "INSTALL = ''INSTALL''"
definition UPGRADE :: string where "UPGRADE = ''UPGRADE''"
definition CROSS_UPGRADE :: string where "CROSS_UPGRADE = ''CROSS-UPGRADE''"

text \<open>The labels and annotations of the managed objects (\<^verbatim>\<open>label.go\<close>).\<close>

definition ParentWorkloadNameLabel :: string where "ParentWorkloadNameLabel = ''choerodon.io/parent-workload-name''"
definition ParentWorkloadLabel :: string where "ParentWorkloadLabel = ''choerodon.io/parent-workload''"
definition WorkloadLabel :: string where "WorkloadLabel = ''choerodon.io/workload''"
definition HelmVersion :: string where "HelmVersion = ''choerodon.io/helm-version''"
definition MicroServiceConfig :: string where "MicroServiceConfig = ''choerodon.io/feature''"
definition ReleaseLabel :: string where "ReleaseLabel = ''choerodon.io/release''"
definition NetworkLabel :: string where "NetworkLabel = ''choerodon.io/network''"
definition NetworkNoDelLabel :: string where "NetworkNoDelLabel = ''choerodon.io/no_delete''"
definition AgentVersionLabel :: string where "AgentVersionLabel = ''choerodon.io''"
definition CommitLabel :: string where "CommitLabel = ''choerodon.io/commit''"
definition TlsSecretLabel :: string where "TlsSecretLabel = ''choerodon.io/tls-secret''"
definition C7NHelmReleaseClusterLabel :: string where "C7NHelmReleaseClusterLabel = ''choerodon.io/C7NHelmRelease-cluster''"
definition C7NHelmReleaseOperateAnnotation :: string where "C7NHelmReleaseOperateAnnotation = ''choerodon.io/C7NHelmRelease-operate''"
definition TestLabel :: string where "TestLabel = ''choerodon.io/test''"
definition EnvLabel :: string where "EnvLabel = ''choerodon.io/env''"
definition PvLabel :: string where "PvLabel = ''choerodon.io/pv''"
definition NameLabel :: string where "NameLabel = ''choerodon.io/name''"
definition PvcLabel :: string where "PvcLabel = ''choerodon.io/pvc''"
definition PvLabelValueFormat :: string where "PvLabelValueFormat = ''pv-cluster-%s''"
definition PvcLabelValueFormat :: string where "PvcLabelValueFormat = ''pvc-cluster-%s''"

lemmas label_defs = ReleaseLabel_def NetworkLabel_def NetworkNoDelLabel_def AgentVersionLabel_def
  CommitLabel_def TlsSecretLabel_def WorkloadLabel_def ParentWorkloadLabel_def
  ParentWorkloadNameLabel_def TestLabel_def PvLabel_def PvcLabel_def NameLabel_def EnvLabel_def
  C7NHelmReleaseClusterLabel_def C7NHelmReleaseOperateAnnotation_def

section \<open>Error packets\<close>

text \<open>
  A nil error has no \<^verbatim>\<open>Error\<close> method to call: \<^verbatim>\<open>NewResponseError\<close> panics on it.
\<close>

fun NewResponseError :: "string \<Rightarrow> string \<Rightarrow> gerror option \<Rightarrow> packet go" where
  "NewResponseError key cmdType None = Panic"
| "NewResponseError key cmdType (Some err) = Ret (mk_packet key cmdType err)"

fun NewResponseErrorWithCommit :: "string \<Rightarrow> string \<Rightarrow> string \<Rightarrow> gerror option \<Rightarrow> packet go" where
  "NewResponseErrorWithCommit key commit cmdType None = Panic"
| "NewResponseErrorWithCommit key commit cmdType (Some err) =
     Ret (mk_packet (key @ ''.commit:'' @ commit) cmdType err)"

section \<open>Keys\<close>

text \<open>
  \<^verbatim>\<open>Packet.Namespace\<close> as a search: the first part of the key that contains
  \<^verbatim>\<open>env\<close> decides.
\<close>

lemma namespace_loop_find:
  "namespace_loop kvs = (case find (\<lambda>kv. contains kv ''env'') kvs of
     None \<Rightarrow> Ret [] | Some kv \<Rightarrow> go_index (split_char kv CHR '':'') 1)"
  by (induction kvs) auto

lemma go_index_split_char_1:
  "go_index (split_char s d) 1 = Panic \<longleftrightarrow> d \<notin> set s"
  by (simp add: go_index_eq_Panic length_split_char count_list_0_iff)

lemma go_index_1_split:
  "d \<notin> set a \<Longrightarrow> d \<notin> set b \<Longrightarrow> go_index (split_char (a @ d # b) d) 1 = Ret b"
  by simp

text \<open>The key the handlers build for an environment: \<^verbatim>\<open>env:<namespace>\<close> and what follows.\<close>

lemma namespace_env_key:
  assumes "CHR ''.'' \<notin> set ns" "CHR '':'' \<notin> set ns"
  shows "packet_Namespace (mk_packet (''env:'' @ ns @ ''.'' @ rest) t p) = Ret ns"
    and "packet_Namespace (mk_packet (''env:'' @ ns) t p) = Ret ns"
proof -
  have c: "contains (''env:'' @ ns) ''env''" by (simp add: has_prefix_def)
  have i: "go_index (split_char (''env:'' @ ns) CHR '':'') 1 = Ret ns"
    using go_index_1_split [of "CHR '':''" "''env''" ns] assms(2) by simp
  have "split_char (''env:'' @ ns @ ''.'' @ rest) CHR ''.'' =
      (''env:'' @ ns) # split_char rest CHR ''.''"
    using split_char_sep [of "CHR ''.''" "''env:'' @ ns" rest] assms(1) by simp
  then show "packet_Namespace (mk_packet (''env:'' @ ns @ ''.'' @ rest) t p) = Ret ns"
    using c i by (simp only: packet_Namespace_def mk_packet_simps namespace_loop.simps if_True)
  have "split_char (''env:'' @ ns) CHR ''.'' = [''env:'' @ ns]"
    using assms(1) by (intro split_char_notin) simp
  then show "packet_Namespace (mk_packet (''env:'' @ ns) t p) = Ret ns"
    using c i by (simp only: packet_Namespace_def mk_packet_simps namespace_loop.simps if_True)
qed

lemma namespace_panic_iff:
  "packet_Namespace c = Panic \<longleftrightarrow>
     (\<exists>kv. find (\<lambda>kv. contains kv ''env'') (split_char (pkKey c) CHR ''.'') = Some kv
       \<and> CHR '':'' \<notin> set kv)"
  by (auto simp: packet_Namespace_def namespace_loop_find go_index_split_char_1
      simp del: One_nat_def split: option.splits)

end
