(* ===== verification/Namespaces.thy ===== *)
theory Namespaces
  imports Packets
begin

text \<open>
  The shared sets of the agent: the namespaces under management
  (\<^verbatim>\<open>pkg/agent/namespace\<close>) and the controller managers of each namespace
  (\<^verbatim>\<open>pkg/util/operator\<close>).  Both promise the contract of the locale \<^verbatim>\<open>key_store\<close>.
\<close>

section \<open>The contract of a store of keys\<close>

locale key_store =
  fixes empty :: "'s"
    and put :: "'k \<Rightarrow> 's \<Rightarrow> 's"
    and del :: "'k \<Rightarrow> 's \<Rightarrow> 's"
    and mem :: "'s \<Rightarrow> 'k \<Rightarrow> bool"
    and keys :: "'s \<Rightarrow> 'k list"
    and inv :: "'s \<Rightarrow> bool"
  assumes mem_empty: "\<not> mem empty k"
    and mem_put: "inv s \<Longrightarrow> mem (put k s) k' \<longleftrightarrow> k' = k \<or> mem s k'"
    and mem_del: "inv s \<Longrightarrow> mem (del k s) k' \<longleftrightarrow> k' \<noteq> k \<and> mem s k'"
    and set_keys: "inv s \<Longrightarrow> set (keys s) = {k. mem s k}"
    and distinct_keys: "inv s \<Longrightarrow> distinct (keys s)"
    and inv_empty: "inv empty"
    and inv_put: "inv s \<Longrightarrow> inv (put k s)"
    and inv_del: "inv s \<Longrightarrow> inv (del k s)"
begin

definition put_all :: "'k list \<Rightarrow> 's \<Rightarrow> 's" where
  "put_all ks s = fold put ks s"

lemma inv_put_all: "inv s \<Longrightarrow> inv (put_all ks s)"
  by (induction ks arbitrary: s) (auto simp: put_all_def inv_put)

lemma mem_put_all: "inv s \<Longrightarrow> mem (put_all ks s) k \<longleftrightarrow> k \<in> set ks \<or> mem s k"
proof (induction ks arbitrary: s)
  case (Cons x ks)
  have "mem (put_all ks (put x s)) k \<longleftrightarrow> k \<in> set ks \<or> mem (put x s) k"
    using Cons by (simp add: inv_put)
  with Cons.prems show ?case by (auto simp: put_all_def mem_put)
qed (simp add: put_all_def)

lemma mem_rebuild: "mem (put_all ks empty) k \<longleftrightarrow> k \<in> set ks"
  using mem_put_all [OF inv_empty] mem_empty by simp

lemma put_del_cancel: "inv s \<Longrightarrow> \<not> mem s k \<Longrightarrow> mem (del k (put k s)) k' \<longleftrightarrow> mem s k'"
  by (metis inv_put mem_del mem_put)

lemma length_keys: "inv s \<Longrightarrow> length (keys s) = card {k. mem s k}"
  using distinct_card [OF distinct_keys] set_keys by metis

lemma keys_rebuild: "set (keys (put_all ks empty)) = set ks"
  using set_keys [OF inv_put_all [OF inv_empty]] mem_rebuild by auto

end

section \<open>Namespaces\<close>

text \<open>The lock of \<^verbatim>\<open>Namespaces\<close> makes every method one atomic step.\<close>

type_synonym namespaces = "(string, bool) gomap"

definition NewNamespaces :: namespaces where
  "NewNamespaces = []"

definition ns_Add :: "string \<Rightarrow> namespaces \<Rightarrow> namespaces" where
  "ns_Add ns m = AList.update ns True m"

definition ns_Remove :: "string \<Rightarrow> namespaces \<Rightarrow> namespaces" where
  "ns_Remove ns m = AList.delete ns m"

definition ns_Contain :: "namespaces \<Rightarrow> string \<Rightarrow> bool" where
  "ns_Contain m ns = gm_has m ns"

fun ns_AddAll :: "string list \<Rightarrow> namespaces \<Rightarrow> namespaces" where
  "ns_AddAll [] m = m"
| "ns_AddAll (ns # nss) m = ns_AddAll nss (AList.update ns True m)"

definition ns_Set :: "string list \<Rightarrow> namespaces \<Rightarrow> namespaces" where
  "ns_Set nsList m = ns_AddAll nsList []"

definition ns_GetAll :: "namespaces \<Rightarrow> string list" where
  "ns_GetAll m = map fst m"

interpretation nss: key_store NewNamespaces ns_Add ns_Remove ns_Contain ns_GetAll gm_ok
  by unfold_locales
    (auto simp: NewNamespaces_def ns_Add_def ns_Remove_def ns_Contain_def ns_GetAll_def gm_has_iff
      gm_ok_def distinct_update distinct_delete dom_update delete_keys distinct_removeAll)

lemma ns_AddAll_fold: "ns_AddAll nss m = fold ns_Add nss m"
  by (induction nss arbitrary: m) (auto simp: ns_Add_def)

lemma ns_AddAll_put_all: "ns_AddAll nss m = nss.put_all nss m"
  by (simp add: ns_AddAll_fold nss.put_all_def)

lemma ns_Set_put_all: "ns_Set nss m = nss.put_all nss NewNamespaces"
  by (simp add: ns_Set_def ns_AddAll_put_all NewNamespaces_def)

lemma ns_Set_ok [inv_intros]: "gm_ok (ns_Set nss m)"
  by (simp add: ns_Set_put_all nss.inv_put_all nss.inv_empty)

lemma ns_AddAll_ok [inv_intros]: "gm_ok m \<Longrightarrow> gm_ok (ns_AddAll nss m)"
  by (simp add: ns_AddAll_put_all nss.inv_put_all)

text \<open>
  \<^verbatim>\<open>Namespaces.Set\<close> replaces the set: afterwards exactly the listed namespaces are
  contained, \<^verbatim>\<open>GetAll\<close> returns each of them once, whatever the set held before.
\<close>

theorem ns_Set_correct:
  "(ns_Contain (ns_Set nsl m) ns \<longleftrightarrow> ns \<in> set nsl)
   \<and> set (ns_GetAll (ns_Set nsl m)) = set nsl
   \<and> distinct (ns_GetAll (ns_Set nsl m))"
  unfolding ns_Set_put_all
  by (simp add: nss.mem_rebuild nss.keys_rebuild nss.distinct_keys nss.inv_put_all nss.inv_empty)

section \<open>Controller managers\<close>

text \<open>
  A manager is represented by the identity of its stop channel; the channels that
  were closed are part of the state, since closing a channel twice, or a nil
  channel, panics.  A nil pointer in the map is \<^verbatim>\<open>None\<close>.
\<close>

record mgr_list =
  mlMap :: "(string, nat option option) gomap"
  mlClosed :: "nat list"

definition close_chan :: "nat option \<Rightarrow> nat list \<Rightarrow> nat list go" where
  "close_chan ch closed = (case ch of None \<Rightarrow> Panic
     | Some c \<Rightarrow> if c \<in> set closed then Panic else Ret (c # closed))"

definition mgr_Get :: "mgr_list \<Rightarrow> string \<Rightarrow> nat option option" where
  "mgr_Get ms ns = gm_get None (mlMap ms) ns"

definition mgr_IsExist :: "mgr_list \<Rightarrow> string \<Rightarrow> bool" where
  "mgr_IsExist ms ns \<longleftrightarrow> gm_has (mlMap ms) ns \<and> gm_get None (mlMap ms) ns \<noteq> None"

definition mgr_Add :: "string \<Rightarrow> nat option option \<Rightarrow> mgr_list \<Rightarrow> bool \<times> mgr_list" where
  "mgr_Add ns mgr ms =
     (if gm_has (mlMap ms) ns \<and> gm_get None (mlMap ms) ns \<noteq> None then (False, ms)
      else (True, ms\<lparr>mlMap := AList.update ns mgr (mlMap ms)\<rparr>))"

definition mgr_AddStop :: "string \<Rightarrow> nat option \<Rightarrow> mgr_list \<Rightarrow> bool \<times> mgr_list" where
  "mgr_AddStop ns stopCh ms =
     (if gm_has (mlMap ms) ns \<and> gm_get None (mlMap ms) ns \<noteq> None then (False, ms)
      else (True, ms\<lparr>mlMap := AList.update ns (Some stopCh) (mlMap ms)\<rparr>))"

definition mgr_Remove :: "string \<Rightarrow> mgr_list \<Rightarrow> (bool \<times> mgr_list) go" where
  "mgr_Remove ns ms = (case map_of (mlMap ms) ns of
     None \<Rightarrow> Ret (False, ms)
   | Some None \<Rightarrow> Panic
   | Some (Some ch) \<Rightarrow> go_bind (close_chan ch (mlClosed ms)) (\<lambda>closed.
       Ret (True, ms\<lparr>mlMap := AList.delete ns (mlMap ms), mlClosed := closed\<rparr>)))"

fun close_all :: "nat option option list \<Rightarrow> nat list \<Rightarrow> nat list go" where
  "close_all [] closed = Ret closed"
| "close_all (None # ms) closed = Panic"
| "close_all (Some ch # ms) closed = go_bind (close_chan ch closed) (close_all ms)"

definition mgr_StopAll :: "mgr_list \<Rightarrow> (bool \<times> mgr_list) go" where
  "mgr_StopAll ms = go_bind (close_all (map snd (mlMap ms)) (mlClosed ms))
     (\<lambda>closed. Ret (True, ms\<lparr>mlClosed := closed\<rparr>))"

text \<open>
  The invariant of the list: keys are distinct, every entry has an open stop channel
  of its own.  \<^verbatim>\<open>AddStop\<close> with a fresh channel keeps it; under it neither \<^verbatim>\<open>Remove\<close>
  nor \<^verbatim>\<open>StopAll\<close> panics.
\<close>

definition mgr_inv :: "mgr_list \<Rightarrow> bool" where
  "mgr_inv ms \<longleftrightarrow> gm_ok (mlMap ms) \<and> distinct (map snd (mlMap ms))
     \<and> (\<forall>m \<in> set (map snd (mlMap ms)). \<exists>c. m = Some (Some c) \<and> c \<notin> set (mlClosed ms))"

definition mgr_chans :: "mgr_list \<Rightarrow> nat set" where
  "mgr_chans ms = {c. Some (Some c) \<in> set (map snd (mlMap ms))} \<union> set (mlClosed ms)"

lemma mgr_inv_empty [inv_intros]: "mgr_inv \<lparr>mlMap = [], mlClosed = []\<rparr>"
  by (simp add: mgr_inv_def)

lemma mgr_inv_not_nil:
  assumes "mgr_inv ms"
  shows "gm_has (mlMap ms) ns \<longleftrightarrow> gm_has (mlMap ms) ns \<and> gm_get None (mlMap ms) ns \<noteq> None"
proof (cases "map_of (mlMap ms) ns")
  case (Some m)
  then have "m \<in> set (map snd (mlMap ms))" by (force dest: map_of_SomeD)
  with assms Some show ?thesis by (auto simp: mgr_inv_def gm_has_def gm_get_def)
qed (simp add: gm_has_def)

lemma update_new: "k \<notin> fst ` set m \<Longrightarrow> AList.update k v m = m @ [(k, v)]"
  by (induction m) auto

lemma mgr_inv_AddStop [inv_intros]:
  assumes "mgr_inv ms" "c \<notin> mgr_chans ms"
  shows "mgr_inv (snd (mgr_AddStop ns (Some c) ms))"
proof (cases "gm_has (mlMap ms) ns")
  case True
  with mgr_inv_not_nil [OF assms(1), of ns] have "mgr_AddStop ns (Some c) ms = (False, ms)"
    by (simp add: mgr_AddStop_def)
  then show ?thesis by (simp add: assms(1))
next
  case False
  then have "ns \<notin> fst ` set (mlMap ms)" by (simp add: gm_has_iff)
  then have "AList.update ns (Some (Some c)) (mlMap ms) = mlMap ms @ [(ns, Some (Some c))]"
    by (rule update_new)
  then have "mgr_AddStop ns (Some c) ms = (True, ms\<lparr>mlMap := mlMap ms @ [(ns, Some (Some c))]\<rparr>)"
    using False by (simp add: mgr_AddStop_def)
  moreover have "gm_ok (mlMap ms @ [(ns, Some (Some c))])"
    using assms(1) False by (auto simp: mgr_inv_def gm_ok_def gm_has_iff)
  moreover have "\<forall>m \<in> set (map snd (mlMap ms)). \<exists>c. m = Some (Some c) \<and> c \<notin> set (mlClosed ms)"
    using assms(1) by (simp add: mgr_inv_def)
  moreover have "distinct (map snd (mlMap ms @ [(ns, Some (Some c))]))"
    using assms by (auto simp: mgr_inv_def mgr_chans_def)
  ultimately show ?thesis
    using assms(2) by (auto simp: mgr_inv_def mgr_chans_def)
qed

lemma snd_delete_subset: "set (map snd (AList.delete k m)) \<subseteq> set (map snd m)"
  by (auto simp: AList.delete_eq)

lemma distinct_snd_delete: "distinct (map snd m) \<Longrightarrow> distinct (map snd (AList.delete k m))"
  by (simp add: AList.delete_eq distinct_map_filter)

lemma mgr_Remove_ok:
  assumes "mgr_inv ms" "map_of (mlMap ms) ns = Some m"
  shows "\<exists>c. m = Some (Some c) \<and> mgr_Remove ns ms =
     Ret (True, ms\<lparr>mlMap := AList.delete ns (mlMap ms), mlClosed := c # mlClosed ms\<rparr>)"
proof -
  have "m \<in> set (map snd (mlMap ms))" using assms(2) by (force dest: map_of_SomeD)
  with assms(1) obtain c where "m = Some (Some c)" "c \<notin> set (mlClosed ms)"
    by (auto simp: mgr_inv_def)
  with assms(2) show ?thesis by (simp add: mgr_Remove_def close_chan_def)
qed

lemma delete_no_chan:
  assumes "mgr_inv ms" "map_of (mlMap ms) ns = Some m"
  shows "m \<notin> set (map snd (AList.delete ns (mlMap ms)))"
proof
  assume "m \<in> set (map snd (AList.delete ns (mlMap ms)))"
  then obtain k where k: "(k, m) \<in> set (mlMap ms)" "k \<noteq> ns"
    by (auto simp: AList.delete_eq)
  have "(ns, m) \<in> set (mlMap ms)" using assms(2) by (rule map_of_SomeD)
  moreover have "distinct (map snd (mlMap ms))" using assms(1) by (simp add: mgr_inv_def)
  ultimately show False using k by (metis distinct_map inj_onD prod.inject snd_conv)
qed

lemma mgr_inv_Remove [inv_intros]:
  assumes inv: "mgr_inv ms"
  shows "\<exists>b ms'. mgr_Remove ns ms = Ret (b, ms') \<and> mgr_inv ms'
     \<and> (b \<longleftrightarrow> mgr_IsExist ms ns) \<and> \<not> mgr_IsExist ms' ns"
proof (cases "map_of (mlMap ms) ns")
  case None
  then have "mgr_Remove ns ms = Ret (False, ms)" "\<not> mgr_IsExist ms ns"
    by (simp_all add: mgr_Remove_def mgr_IsExist_def gm_has_def)
  then show ?thesis using inv by (intro exI [of _ False] exI [of _ ms]) simp
next
  case (Some m)
  obtain c where m: "m = Some (Some c)" and r: "mgr_Remove ns ms =
      Ret (True, ms\<lparr>mlMap := AList.delete ns (mlMap ms), mlClosed := c # mlClosed ms\<rparr>)"
    using mgr_Remove_ok [OF inv Some] by blast
  let ?d = "AList.delete ns (mlMap ms)"
  have "\<forall>x \<in> set (map snd ?d). \<exists>d. x = Some (Some d) \<and> d \<notin> set (c # mlClosed ms)"
  proof
    fix x assume x: "x \<in> set (map snd ?d)"
    then have "x \<noteq> m" using delete_no_chan [OF inv Some] by blast
    moreover have "x \<in> set (map snd (mlMap ms))" using x snd_delete_subset [of ns "mlMap ms"] by (rule rev_subsetD)
    then obtain d where "x = Some (Some d)" "d \<notin> set (mlClosed ms)"
      using inv unfolding mgr_inv_def by blast
    ultimately show "\<exists>d. x = Some (Some d) \<and> d \<notin> set (c # mlClosed ms)"
      using m by auto
  qed
  moreover have "gm_ok ?d" "distinct (map snd ?d)"
    using inv by (auto simp: mgr_inv_def distinct_snd_delete)
  ultimately have "mgr_inv (ms\<lparr>mlMap := ?d, mlClosed := c # mlClosed ms\<rparr>)"
    by (simp add: mgr_inv_def)
  moreover have "mgr_IsExist ms ns"
    using Some m by (simp add: mgr_IsExist_def gm_has_def gm_get_def)
  moreover have "\<not> mgr_IsExist (ms\<lparr>mlMap := ?d, mlClosed := c # mlClosed ms\<rparr>) ns"
    by (simp add: mgr_IsExist_def)
  ultimately show ?thesis using r
    by (intro exI [of _ True] exI [of _ "ms\<lparr>mlMap := ?d, mlClosed := c # mlClosed ms\<rparr>"]) simp
qed

lemma close_all_ok:
  "distinct ms \<Longrightarrow> \<forall>m \<in> set ms. \<exists>c. m = Some (Some c) \<and> c \<notin> set closed \<Longrightarrow>
   \<exists>closed'. close_all ms closed = Ret closed' \<and>
     set closed' = {c. Some (Some c) \<in> set ms} \<union> set closed"
proof (induction ms arbitrary: closed)
  case (Cons m ms)
  from Cons.prems obtain c where m: "m = Some (Some c)" "c \<notin> set closed" by auto
  have "\<forall>x \<in> set ms. \<exists>d. x = Some (Some d) \<and> d \<notin> set (c # closed)"
    using Cons.prems m by auto
  from Cons.IH [OF _ this] Cons.prems(1) obtain cl where
    "close_all ms (c # closed) = Ret cl" "set cl = {c. Some (Some c) \<in> set ms} \<union> set (c # closed)"
    by auto
  then show ?case using m by (auto simp: close_chan_def)
qed simp

text \<open>
  The managers of a namespace list in which every entry owns an open stop channel
  can be removed or stopped without a panic: \<^verbatim>\<open>Remove\<close> reports whether the namespace was
  there, leaves it absent and keeps the invariant, and \<^verbatim>\<open>StopAll\<close> closes exactly the stop
  channels of the list.  \<^verbatim>\<open>StopAll\<close> leaves the entries in place, so a later \<^verbatim>\<open>Remove\<close> of
  any of them closes its channel a second time and panics.
\<close>

theorem mgr_list_safe:
  assumes "mgr_inv ms"
  shows "(\<exists>b ms'. mgr_Remove ns ms = Ret (b, ms') \<and> mgr_inv ms'
       \<and> (b \<longleftrightarrow> mgr_IsExist ms ns) \<and> \<not> mgr_IsExist ms' ns)
    \<and> (\<exists>ms'. mgr_StopAll ms = Ret (True, ms') \<and> set (mlClosed ms') = mgr_chans ms
       \<and> (mgr_IsExist ms ns \<longrightarrow> mgr_Remove ns ms' = Panic))"
proof
  show "\<exists>b ms'. mgr_Remove ns ms = Ret (b, ms') \<and> mgr_inv ms'
       \<and> (b \<longleftrightarrow> mgr_IsExist ms ns) \<and> \<not> mgr_IsExist ms' ns"
    using assms by (rule mgr_inv_Remove)
  obtain cl where cl: "close_all (map snd (mlMap ms)) (mlClosed ms) = Ret cl"
    "set cl = mgr_chans ms"
    using close_all_ok [of "map snd (mlMap ms)" "mlClosed ms"] assms
    unfolding mgr_inv_def mgr_chans_def by blast
  have "mgr_Remove ns (ms\<lparr>mlClosed := cl\<rparr>) = Panic" if ex: "mgr_IsExist ms ns"
  proof -
    obtain m where m: "map_of (mlMap ms) ns = Some m"
      using ex by (auto simp: mgr_IsExist_def gm_has_def)
    then obtain c where c: "m = Some (Some c)" using mgr_Remove_ok [OF assms m] by blast
    have "m \<in> set (map snd (mlMap ms))" using m by (force dest: map_of_SomeD)
    then have "c \<in> set cl" using c cl(2) by (simp add: mgr_chans_def)
    then show ?thesis using m c by (simp add: mgr_Remove_def close_chan_def)
  qed
  then show "\<exists>ms'. mgr_StopAll ms = Ret (True, ms') \<and> set (mlClosed ms') = mgr_chans ms
       \<and> (mgr_IsExist ms ns \<longrightarrow> mgr_Remove ns ms' = Panic)"
    using cl by (intro exI [of _ "ms\<lparr>mlClosed := cl\<rparr>"]) (simp add: mgr_StopAll_def)
qed

lemma mgr_list_safe_witness:
  "\<exists>b ms'. mgr_Remove ''a'' \<lparr>mlMap = [(''a'', Some (Some 1))], mlClosed = [0]\<rparr> = Ret (b, ms') \<and> b"
proof -
  let ?ms = "\<lparr>mlMap = [(''a'', Some (Some 1))], mlClosed = [0]\<rparr>"
  have "mgr_inv ?ms" by (simp add: mgr_inv_def gm_ok_def)
  moreover have "mgr_IsExist ?ms ''a''" by (simp add: mgr_IsExist_def gm_has_def gm_get_def)
  ultimately show ?thesis using mgr_list_safe [of ?ms "''a''"] by blast
qed

end
