(* ===== verification/ResourceId.thy ===== *)
theory ResourceId
  imports Namespaces
begin

text \<open>
  Resource identifiers (\<^verbatim>\<open>pkg/util/resource\<close>): their text, the parser of the text, and
  the sets and slices of identifiers.  An identifier whose interface field is nil is
  \<^verbatim>\<open>None\<close>; printing it dereferences nil and panics.
\<close>

section \<open>Identifiers\<close>

datatype rid_impl = legacyServiceID string string | resourceID string string string

type_synonym resource_id = "rid_impl option"

fun impl_String :: "rid_impl \<Rightarrow> string" where
  "impl_String (legacyServiceID ns service) = ns @ ''/'' @ service"
| "impl_String (resourceID ns kind name) = kind @ ''/'' @ name"

definition rid_String :: "resource_id \<Rightarrow> string go" where
  "rid_String i = (case i of None \<Rightarrow> Panic | Some impl \<Rightarrow> Ret (impl_String impl))"

text \<open>The class \<^verbatim>\<open>[a-zA-Z0-9_-]\<close> of the three regular expressions.\<close>

definition id_char :: "char \<Rightarrow> bool" where
  "id_char c \<longleftrightarrow> (let n = of_char c :: nat in
     (97 \<le> n \<and> n \<le> 122) \<or> (65 \<le> n \<and> n \<le> 90) \<or> (48 \<le> n \<and> n \<le> 57) \<or> n = 95 \<or> n = 45)"

definition id_word :: "string \<Rightarrow> bool" where
  "id_word s \<longleftrightarrow> s \<noteq> [] \<and> list_all id_char s"

text \<open>
  The expressions \<^verbatim>\<open>^(w)/(w)$\<close> (twice) and \<^verbatim>\<open>^(w):(w)/(w)$\<close>: neither \<^verbatim>\<open>:\<close> nor \<^verbatim>\<open>/\<close> belongs to
  the class, so a match is a split at the separators.
\<close>

definition LegacyServiceIDRegexp :: "string \<Rightarrow> (string \<times> string) option" where
  "LegacyServiceIDRegexp s = (case split_char s CHR ''/'' of
     [a, b] \<Rightarrow> if id_word a \<and> id_word b then Some (a, b) else None
   | _ \<Rightarrow> None)"

definition UnqualifiedResourceIDRegexp :: "string \<Rightarrow> (string \<times> string) option" where
  "UnqualifiedResourceIDRegexp s = (case split_char s CHR ''/'' of
     [a, b] \<Rightarrow> if id_word a \<and> id_word b then Some (a, b) else None
   | _ \<Rightarrow> None)"

definition ResourceIDRegexp :: "string \<Rightarrow> (string \<times> string \<times> string) option" where
  "ResourceIDRegexp s = (case split_char s CHR '':'' of
     [a, r] \<Rightarrow> (case split_char r CHR ''/'' of
        [b, c] \<Rightarrow> if id_word a \<and> id_word b \<and> id_word c then Some (a, b, c) else None
      | _ \<Rightarrow> None)
   | _ \<Rightarrow> None)"

definition ErrInvalidServiceID :: gerror where
  "ErrInvalidServiceID = ''invalid service ID''"

text \<open>\<^verbatim>\<open>errors.Wrap(err, msg)\<close> prints as the message, a colon and the error.\<close>

definition err_wrap :: "gerror \<Rightarrow> string \<Rightarrow> gerror" where
  "err_wrap err msg = msg @ '': '' @ err"

definition ParseResourceID :: "string \<Rightarrow> resource_id res" where
  "ParseResourceID s = (case ResourceIDRegexp s of
     Some (m1, m2, m3) \<Rightarrow> Inr (Some (resourceID m1 (to_lower m2) m3))
   | None \<Rightarrow> (case LegacyServiceIDRegexp s of
       Some (m1, m2) \<Rightarrow> Inr (Some (legacyServiceID m1 m2))
     | None \<Rightarrow> Inl (err_wrap ErrInvalidServiceID (''parsing '' @ s))))"

definition MustParseResourceID :: "string \<Rightarrow> resource_id go" where
  "MustParseResourceID s = (case ParseResourceID s of Inl e \<Rightarrow> Panic | Inr i \<Rightarrow> Ret i)"

definition ParseResourceIDOptionalNamespace :: "string \<Rightarrow> string \<Rightarrow> resource_id res" where
  "ParseResourceIDOptionalNamespace ns s = (case ResourceIDRegexp s of
     Some (m1, m2, m3) \<Rightarrow> Inr (Some (resourceID m1 (to_lower m2) m3))
   | None \<Rightarrow> (case UnqualifiedResourceIDRegexp s of
       Some (m1, m2) \<Rightarrow> Inr (Some (resourceID ns (to_lower m1) m2))
     | None \<Rightarrow> Inl (err_wrap ErrInvalidServiceID (''parsing '' @ s))))"

definition MakeResourceID :: "string \<Rightarrow> string \<Rightarrow> string \<Rightarrow> resource_id" where
  "MakeResourceID ns kind name = Some (resourceID ns (to_lower kind) name)"

definition rid_Components :: "resource_id \<Rightarrow> (string \<times> string \<times> string) go" where
  "rid_Components i = (case i of
     Some (resourceID ns kind name) \<Rightarrow> Ret (ns, kind, name)
   | Some (legacyServiceID ns service) \<Rightarrow> Ret (ns, ''service'', service)
   | None \<Rightarrow> Panic)"

definition rid_MarshalText :: "resource_id \<Rightarrow> string go" where
  "rid_MarshalText i = rid_String i"

definition rid_UnmarshalText :: "string \<Rightarrow> resource_id res" where
  "rid_UnmarshalText text = (case ParseResourceID text of Inl e \<Rightarrow> Inl e | Inr r \<Rightarrow> Inr r)"

section \<open>Sets and slices of identifiers\<close>

text \<open>A set is a map without values, hence a list of distinct keys, or the nil map.\<close>

type_synonym resource_id_set = "resource_id list option"

definition ids_Add :: "resource_id_set \<Rightarrow> resource_id list \<Rightarrow> resource_id_set go" where
  "ids_Add s ids = (case s of
     None \<Rightarrow> (if ids = [] then Ret None else Panic)
   | Some ks \<Rightarrow> Ret (Some (fold (\<lambda>k ks. if k \<in> set ks then ks else ks @ [k]) ids ks)))"

definition ids_Contains :: "resource_id_set \<Rightarrow> resource_id \<Rightarrow> bool" where
  "ids_Contains s i = (case s of None \<Rightarrow> False | Some ks \<Rightarrow> i \<in> set ks)"

definition ids_Without :: "resource_id_set \<Rightarrow> resource_id_set \<Rightarrow> resource_id_set" where
  "ids_Without s others = (case (s, others) of
     (Some ks, Some os) \<Rightarrow>
       if ks = [] \<or> os = [] then s else Some (filter (\<lambda>i. \<not> ids_Contains others i) ks)
   | _ \<Rightarrow> s)"

definition ids_Intersection :: "resource_id_set \<Rightarrow> resource_id_set \<Rightarrow> resource_id_set" where
  "ids_Intersection s others = (case (s, others) of
     (None, _) \<Rightarrow> others
   | (_, None) \<Rightarrow> s
   | (Some ks, Some os) \<Rightarrow> Some (filter (\<lambda>i. i \<in> set os) ks))"

definition ids_ToSlice :: "resource_id_set \<Rightarrow> resource_id list" where
  "ids_ToSlice s = (case s of None \<Rightarrow> [] | Some ks \<Rightarrow> ks)"

definition idl_Less :: "resource_id \<Rightarrow> resource_id \<Rightarrow> bool go" where
  "idl_Less a b = go_bind (rid_String a) (\<lambda>x. go_bind (rid_String b) (\<lambda>y. Ret (x < y)))"

text \<open>Sorting two or more elements compares each of them.\<close>

definition idl_Sort :: "resource_id list \<Rightarrow> resource_id list go" where
  "idl_Sort p = (if 2 \<le> length p \<and> None \<in> set p then Panic
     else Ret (sort_key (\<lambda>i. case i of None \<Rightarrow> [] | Some impl \<Rightarrow> impl_String impl) p))"

definition idl_Without :: "resource_id list \<Rightarrow> resource_id_set \<Rightarrow> resource_id list" where
  "idl_Without ids others = filter (\<lambda>i. \<not> ids_Contains others i) ids"

definition idl_Contains :: "resource_id list \<Rightarrow> resource_id \<Rightarrow> bool go" where
  "idl_Contains ids i = go_map (\<lambda>s. ids_Contains s i) (ids_Add (Some []) ids)"

definition idl_Intersection :: "resource_id list \<Rightarrow> resource_id_set \<Rightarrow> resource_id_set go" where
  "idl_Intersection ids others = go_map (\<lambda>s. ids_Intersection s others) (ids_Add (Some []) ids)"

definition idset_String :: "resource_id_set \<Rightarrow> string go" where
  "idset_String s = (if None \<in> set (ids_ToSlice s) then Panic else
     Ret (''{'' @ join (map (\<lambda>i. case i of None \<Rightarrow> [] | Some m \<Rightarrow> impl_String m) (ids_ToSlice s)) '', ''
          @ ''}''))"

section \<open>Matching\<close>

lemma id_word_no_sep: "id_word w \<Longrightarrow> CHR ''/'' \<notin> set w \<and> CHR '':'' \<notin> set w"
  by (auto simp: id_word_def list_all_iff id_char_def)

lemma split_char_two: "split_char s d = [a, b] \<longleftrightarrow> s = a @ d # b \<and> d \<notin> set a \<and> d \<notin> set b"
proof
  assume sp: "split_char s d = [a, b]"
  have "join (split_char s d) [d] = s" by simp
  moreover have "d \<notin> set a" "d \<notin> set b"
    using split_char_parts [of _ s d] sp by auto
  ultimately show "s = a @ d # b \<and> d \<notin> set a \<and> d \<notin> set b" using sp by simp
qed auto

lemma LegacyServiceIDRegexp_iff:
  "LegacyServiceIDRegexp s = Some (a, b) \<longleftrightarrow> s = a @ ''/'' @ b \<and> id_word a \<and> id_word b"
proof
  assume "LegacyServiceIDRegexp s = Some (a, b)"
  then have "split_char s CHR ''/'' = [a, b] \<and> id_word a \<and> id_word b"
    by (simp add: LegacyServiceIDRegexp_def split: list.splits if_splits)
  then show "s = a @ ''/'' @ b \<and> id_word a \<and> id_word b" by (simp add: split_char_two)
next
  assume *: "s = a @ ''/'' @ b \<and> id_word a \<and> id_word b"
  then have "split_char s CHR ''/'' = [a, b]" using id_word_no_sep by (simp add: split_char_two)
  with * show "LegacyServiceIDRegexp s = Some (a, b)" by (simp add: LegacyServiceIDRegexp_def)
qed

lemma ResourceIDRegexp_iff:
  "ResourceIDRegexp s = Some (a, b, c) \<longleftrightarrow>
     s = a @ '':'' @ b @ ''/'' @ c \<and> id_word a \<and> id_word b \<and> id_word c"
proof
  assume "ResourceIDRegexp s = Some (a, b, c)"
  then obtain r where "split_char s CHR '':'' = [a, r]" "split_char r CHR ''/'' = [b, c]"
    "id_word a" "id_word b" "id_word c"
    by (simp add: ResourceIDRegexp_def split: list.splits if_splits)
  then show "s = a @ '':'' @ b @ ''/'' @ c \<and> id_word a \<and> id_word b \<and> id_word c"
    by (simp add: split_char_two)
next
  assume *: "s = a @ '':'' @ b @ ''/'' @ c \<and> id_word a \<and> id_word b \<and> id_word c"
  then have "split_char s CHR '':'' = [a, b @ ''/'' @ c]" "split_char (b @ ''/'' @ c) CHR ''/'' = [b, c]"
    using id_word_no_sep by (simp_all add: split_char_two)
  with * show "ResourceIDRegexp s = Some (a, b, c)" by (simp add: ResourceIDRegexp_def)
qed

lemma ResourceIDRegexp_None_no_colon: "CHR '':'' \<notin> set s \<Longrightarrow> ResourceIDRegexp s = None"
  by (simp add: ResourceIDRegexp_def)

lemma UnqualifiedResourceIDRegexp_Legacy: "UnqualifiedResourceIDRegexp s = LegacyServiceIDRegexp s"
  by (simp add: UnqualifiedResourceIDRegexp_def LegacyServiceIDRegexp_def)

section \<open>Parsing and printing\<close>

lemma parse_qualified:
  "id_word ns \<Longrightarrow> id_word kind \<Longrightarrow> id_word name \<Longrightarrow>
   ParseResourceID (ns @ '':'' @ kind @ ''/'' @ name) = Inr (MakeResourceID ns kind name)"
  using ResourceIDRegexp_iff [of "ns @ '':'' @ kind @ ''/'' @ name" ns kind name]
  by (simp add: ParseResourceID_def MakeResourceID_def)

lemma parse_legacy:
  assumes "id_word a" "id_word b"
  shows "ParseResourceID (a @ ''/'' @ b) = Inr (Some (legacyServiceID a b))"
proof -
  have "CHR '':'' \<notin> set (a @ ''/'' @ b)" using assms id_word_no_sep by auto
  then have "ResourceIDRegexp (a @ ''/'' @ b) = None" by (rule ResourceIDRegexp_None_no_colon)
  then show ?thesis using LegacyServiceIDRegexp_iff [of "a @ ''/'' @ b" a b] assms
    by (simp add: ParseResourceID_def)
qed

text \<open>
  C11: The text of an identifier determines it only for the old form.  A qualified text
  \<^verbatim>\<open>namespace:kind/name\<close> is parsed to the identifier with these components, its kind in
  lower case; the legacy form survives \<^verbatim>\<open>UnmarshalText\<close> after \<^verbatim>\<open>MarshalText\<close>; an
  identifier made by \<^verbatim>\<open>MakeResourceID\<close> does not: its text has no namespace, and reading it
  back takes the kind for the namespace and answers \<^verbatim>\<open>service\<close> for the kind.
\<close>

theorem resource_id_text:
  assumes "id_word ns" "id_word kind" "id_word name"
  shows "ParseResourceID (ns @ '':'' @ kind @ ''/'' @ name) = Inr (MakeResourceID ns kind name)
    \<and> rid_Components (MakeResourceID ns kind name) = Ret (ns, to_lower kind, name)
    \<and> go_map rid_UnmarshalText (rid_MarshalText (Some (legacyServiceID ns name)))
        = Ret (Inr (Some (legacyServiceID ns name)))
    \<and> go_map rid_UnmarshalText (rid_MarshalText (Some (resourceID ns kind name)))
        = Ret (Inr (Some (legacyServiceID kind name)))
    \<and> rid_Components (Some (legacyServiceID kind name)) = Ret (kind, ''service'', name)"
  using assms parse_qualified [OF assms] parse_legacy [of ns name] parse_legacy [of kind name]
  by (simp add: rid_MarshalText_def rid_UnmarshalText_def rid_String_def rid_Components_def
      MakeResourceID_def)

lemma resource_id_text_witness:
  "go_map rid_UnmarshalText (rid_MarshalText (Some (resourceID ''dev'' ''deployment'' ''web-1'')))
     = Ret (Inr (Some (legacyServiceID ''deployment'' ''web-1'')))"
  using resource_id_text [of "''dev''" "''deployment''" "''web-1''"]
  by (simp add: id_word_def id_char_def)

section \<open>Sets\<close>

definition id_add :: "resource_id \<Rightarrow> resource_id list \<Rightarrow> resource_id list" where
  "id_add k ks = (if k \<in> set ks then ks else ks @ [k])"

interpretation idset: key_store "[]" id_add "\<lambda>k ks. removeAll k ks" "\<lambda>ks k. k \<in> set ks" "\<lambda>ks. ks"
    distinct
  by unfold_locales (auto simp: id_add_def distinct_removeAll)

lemma ids_Add_put_all: "ids_Add (Some ks) ids = Ret (Some (idset.put_all ids ks))"
  unfolding ids_Add_def idset.put_all_def by (simp add: id_add_def [abs_def])

lemma ids_Add_mem: "ids_Contains (the_ret (ids_Add (Some ks) ids)) i \<longleftrightarrow> i \<in> set ids \<or> i \<in> set ks"
proof (induction ids arbitrary: ks)
  case (Cons x ids)
  have "ids_Add (Some ks) (x # ids) = ids_Add (Some (id_add x ks)) ids"
    by (simp add: ids_Add_def id_add_def)
  with Cons [of "id_add x ks"] show ?case by (auto simp: id_add_def)
qed (simp add: ids_Add_def ids_Contains_def)

lemma ids_Without_mem:
  "ids_Contains (ids_Without s others) i \<longleftrightarrow> ids_Contains s i \<and> \<not> ids_Contains others i"
  by (auto simp: ids_Without_def ids_Contains_def split: option.splits)

lemma idl_Contains_iff: "idl_Contains ids i = Ret (i \<in> set ids)"
  using ids_Add_mem [of "[]" ids i] by (auto simp: idl_Contains_def ids_Add_put_all)

text \<open>
  The set operations of \<^verbatim>\<open>ResourceIDSet\<close> and \<^verbatim>\<open>ResourceIDs\<close> are those of sets: \<^verbatim>\<open>Add\<close> makes
  the added identifiers members and keeps the others, \<^verbatim>\<open>Without\<close> removes exactly the
  members of the other set (also where the early return keeps the receiver), the slice
  versions agree, and \<^verbatim>\<open>Intersection\<close> of two sets that are not nil is the intersection,
  while a nil operand is neutral instead of empty.
\<close>

theorem resource_id_sets:
  "(\<exists>s. ids_Add (Some ks) ids = Ret s \<and> (\<forall>i. ids_Contains s i = (i \<in> set ids \<or> i \<in> set ks)))
   \<and> ids_Contains (ids_Without s others) i = (ids_Contains s i \<and> \<not> ids_Contains others i)
   \<and> (i \<in> set (idl_Without ids others)) = (i \<in> set ids \<and> \<not> ids_Contains others i)
   \<and> idl_Contains ids i = Ret (i \<in> set ids)
   \<and> ids_Contains (ids_Intersection (Some ks) (Some os)) i = (i \<in> set ks \<and> i \<in> set os)
   \<and> ids_Contains (ids_Intersection None (Some os)) i = (i \<in> set os)"
proof -
  have "\<exists>s. ids_Add (Some ks) ids = Ret s \<and> (\<forall>i. ids_Contains s i = (i \<in> set ids \<or> i \<in> set ks))"
    using ids_Add_mem [of ks ids] by (intro exI [of _ "the_ret (ids_Add (Some ks) ids)"])
      (simp add: ids_Add_put_all)
  then show ?thesis
    by (simp add: ids_Without_mem idl_Contains_iff idl_Without_def) (simp add: ids_Contains_def
        ids_Intersection_def)
qed

end
