(* ===== verification/Manifests.thy ===== *)
theory Manifests
  imports ResourceId
begin

text \<open>
  Reading the manifests of an environment (\<^verbatim>\<open>pkg/kubernetes/resource\<close>): splitting a file
  into YAML documents, parsing the documents into resources, and walking the
  directories of a working clone.  The YAML parser, the file system walk and file
  reading are parameters.
\<close>

section \<open>Resources\<close>

record base_object =
  boSource :: string
  boBytes :: string
  boKind :: string
  boNamespace :: string
  boName :: string
  boAnnotations :: "(string, string) gomap"
  boOriginalKey :: string

datatype resource = BaseObj base_object | ListObj base_object "base_object list"

definition bo_ResourceID :: "base_object \<Rightarrow> resource_id" where
  "bo_ResourceID o1 = (let ns = boNamespace o1 in
     MakeResourceID (if ns = [] then ''default'' else ns) (boKind o1) (boName o1))"

fun res_base :: "resource \<Rightarrow> base_object" where
  "res_base (BaseObj b) = b"
| "res_base (ListObj b items) = b"

text \<open>The text of the identifier: kind in lower case, a slash, the name.\<close>

definition bo_key :: "base_object \<Rightarrow> string" where
  "bo_key o1 = to_lower (boKind o1) @ ''/'' @ boName o1"

lemma bo_ResourceID_String [simp]: "rid_String (bo_ResourceID o1) = Ret (bo_key o1)"
  by (simp add: bo_ResourceID_def MakeResourceID_def rid_String_def bo_key_def Let_def)

text \<open>
  \<^verbatim>\<open>yaml.Unmarshal(bytes, &base)\<close>: the parser receives the bytes and the object to fill.
  It fails, sets the pointer to nil (\<^verbatim>\<open>None\<close>, for a document that is an explicit null)
  or returns the filled object.
\<close>

type_synonym yaml_unmarshal = "string \<Rightarrow> base_object \<Rightarrow> base_object option res"

definition unmarshalObject ::
  "yaml_unmarshal \<Rightarrow> string \<Rightarrow> string \<Rightarrow> string \<Rightarrow> resource res go" where
  "unmarshalObject um ns source bytes =
     (let base = \<lparr>boSource = source, boBytes = bytes, boKind = [], boNamespace = [], boName = [],
                   boAnnotations = [], boOriginalKey = []\<rparr>
      in case um bytes base of
           Inl e \<Rightarrow> Ret (Inl e)
         | Inr None \<Rightarrow> Panic
         | Inr (Some b) \<Rightarrow> Ret (Inr (BaseObj (b\<lparr>boNamespace := ns\<rparr>))))"

text \<open>
  \<^verbatim>\<open>unmarshalList\<close> prints each raw item of the list (\<^verbatim>\<open>yaml.Marshal\<close>, a parameter) and
  parses it again; the first error aborts.
\<close>

fun unmarshalItems :: "yaml_unmarshal \<Rightarrow> ('i \<Rightarrow> string res) \<Rightarrow> string \<Rightarrow> string \<Rightarrow> 'i list
    \<Rightarrow> base_object list res go" where
  "unmarshalItems um marshal ns source [] = Ret (Inr [])"
| "unmarshalItems um marshal ns source (i # is) = (case marshal i of
     Inl e \<Rightarrow> Ret (Inl e)
   | Inr bytes \<Rightarrow> go_bind (unmarshalObject um ns source bytes) (\<lambda>r. case r of
       Inl e \<Rightarrow> Ret (Inl e)
     | Inr obj \<Rightarrow> go_map (map_sum id (\<lambda>bs. res_base obj # bs)) (unmarshalItems um marshal ns source is)))"

definition unmarshalList :: "yaml_unmarshal \<Rightarrow> ('i \<Rightarrow> string res) \<Rightarrow> string \<Rightarrow> base_object \<Rightarrow> 'i list
    \<Rightarrow> resource res go" where
  "unmarshalList um marshal ns base raw =
     go_map (map_sum id (ListObj base)) (unmarshalItems um marshal ns (boSource base) raw)"

section \<open>Splitting a stream into documents\<close>

definition yamlSeparator :: string where
  "yamlSeparator = CHR 0x0A # ''---''"

lemma length_yamlSeparator [simp]: "length yamlSeparator = 4"
  by (simp add: yamlSeparator_def)

text \<open>The split function: how many bytes to advance, and the token, if any.\<close>

definition splitYAMLDocument :: "string \<Rightarrow> bool \<Rightarrow> nat \<times> string option" where
  "splitYAMLDocument data atEOF =
     (if atEOF \<and> data = [] then (0, None) else
      (let sep = length yamlSeparator in
       case index_of data yamlSeparator of
         Some i0 \<Rightarrow>
           (let i = i0 + sep; after = drop i data in
            if after = [] then
              (if atEOF then (length data, Some (take (length data - sep) data)) else (0, None))
            else (case index_of after [CHR 0x0A] of
                Some j \<Rightarrow> (i + j + 1, Some (take (i - sep) data))
              | None \<Rightarrow> (0, None)))
       | None \<Rightarrow> if atEOF then (length data, Some data) else (0, None)))"

text \<open>
  \<^verbatim>\<open>bufio.Scanner\<close> with this split function: it offers growing windows of the rest of the
  stream until the function advances.  What the function returns for a window that is not at the end of the
  stream it also returns for every longer one, so the answer for the whole rest decides, provided
  it was reached within \<^verbatim>\<open>max\<close> bytes: either the end of the stream lies before the window
  is full, or the document with its separator line fits.  The flag says that the scanner
  stopped with \<^verbatim>\<open>ErrTooLong\<close>.
\<close>

definition window_ok :: "nat \<Rightarrow> string \<Rightarrow> nat \<Rightarrow> bool" where
  "window_ok mx data adv \<longleftrightarrow> length data < mx
     \<or> (adv \<le> mx \<and> fst (splitYAMLDocument (take adv data) False) = adv)"

lemma splitYAML_advance:
  assumes "splitYAMLDocument data True = (adv, Some tok)"
  shows "0 < adv" "adv \<le> length data"
proof -
  have len: "i0 + 4 \<le> length data" if "index_of data yamlSeparator = Some i0" for i0
    using index_of_le [OF that] by simp
  have j: "i0 + 4 + j + 1 \<le> length data"
    if "index_of data yamlSeparator = Some i0"
      "index_of (drop (i0 + 4) data) [CHR 0x0A] = Some j" for i0 j
    using index_of_le [OF that(2)] len [OF that(1)] by simp
  have "data \<noteq> []" using assms by (auto simp: splitYAMLDocument_def)
  with assms show "0 < adv"
    by (auto simp: splitYAMLDocument_def Let_def split: option.splits if_splits)
  show "adv \<le> length data"
    using assms by (auto simp: splitYAMLDocument_def Let_def split: option.splits if_splits dest!: j)
qed

lemma splitYAML_shrink:
  "(adv, Some tok) = splitYAMLDocument data True \<Longrightarrow> length data - adv < length data"
  using splitYAML_advance [of data adv tok] by simp

function yaml_docs :: "nat \<Rightarrow> string \<Rightarrow> string list \<times> bool" where
  "yaml_docs mx data = (case splitYAMLDocument data True of
     (adv, None) \<Rightarrow> ([], data \<noteq> [] \<and> mx \<le> length data)
   | (adv, Some tok) \<Rightarrow>
       if window_ok mx data adv then
         (let r = yaml_docs mx (drop adv data) in (tok # fst r, snd r))
       else ([], True))"
  by pat_completeness auto
termination
  by (relation "measure (\<lambda>(mx, data). length data)") (auto dest!: splitYAML_shrink)

declare yaml_docs.simps [simp del]

section \<open>Parsing a file\<close>

definition yaml_max :: nat where
  "yaml_max = 1048576"

definition add_resource :: "resource \<Rightarrow> (string, resource) gomap \<Rightarrow> (string, resource) gomap" where
  "add_resource obj objs = (case obj of
     ListObj b items \<Rightarrow> fold (\<lambda>item. AList.update (bo_key item) (BaseObj item)) items objs
   | BaseObj b \<Rightarrow> AList.update (bo_key b) obj objs)"

fun parse_docs :: "yaml_unmarshal \<Rightarrow> string \<Rightarrow> string \<Rightarrow> string list \<Rightarrow> (string, resource) gomap
    \<Rightarrow> ((string, resource) gomap \<times> gerror option) go" where
  "parse_docs um ns source [] objs = Ret (objs, None)"
| "parse_docs um ns source (d # ds) objs =
     (if trim_space d = [] then parse_docs um ns source ds objs
      else go_bind (unmarshalObject um ns source d) (\<lambda>r. case r of
          Inl e \<Rightarrow> Ret ([], Some (err_wrap e (''parsing YAML doc from '' @ source)))
        | Inr obj \<Rightarrow> parse_docs um ns source ds (add_resource obj objs)))"

definition ParseMultidoc :: "yaml_unmarshal \<Rightarrow> string \<Rightarrow> string \<Rightarrow> string
    \<Rightarrow> ((string, resource) gomap \<times> gerror option) go" where
  "ParseMultidoc um ns multidoc source =
     (let docs = yaml_docs yaml_max multidoc in
      go_bind (parse_docs um ns source (fst docs) []) (\<lambda>(objs, err).
        case err of Some e \<Rightarrow> Ret (objs, Some e)
        | None \<Rightarrow> if snd docs
            then Ret (objs, Some (err_wrap ''bufio.Scanner: token too long''
                                    (''scanning multidoc from '' @ source)))
            else Ret (objs, None)))"

section \<open>Loading directories\<close>

text \<open>\<^verbatim>\<open>filepath.Ext\<close>: the last dot of the last path element and what follows.\<close>

fun ext_rev :: "string \<Rightarrow> string \<Rightarrow> string" where
  "ext_rev [] acc = []"
| "ext_rev (c # s) acc =
     (if c = CHR ''/'' then [] else if c = CHR ''.'' then c # acc else ext_rev s (c # acc))"

definition filepath_Ext :: "string \<Rightarrow> string" where
  "filepath_Ext path = ext_rev (rev path) []"

text \<open>
  The entries \<^verbatim>\<open>filepath.Walk\<close> visits below a root, in its order: path, whether it is a
  directory, and the error the walk reports for it.
\<close>

record walk_entry =
  wePath :: string
  weIsDir :: bool
  weErr :: "gerror option"

record file_system =
  fsWalk :: "string \<Rightarrow> walk_entry list"
  fsReadFile :: "string \<Rightarrow> string res"
  fsRel :: "string \<Rightarrow> string \<Rightarrow> string res"

text \<open>
  The condition of the source, with the precedence of its operators: a directory
  named \<^verbatim>\<open>*.yml\<close> counts as a manifest.
\<close>

definition is_manifest :: "walk_entry \<Rightarrow> bool" where
  "is_manifest e \<longleftrightarrow> (\<not> weIsDir e \<and> filepath_Ext (wePath e) = ''.yaml'')
     \<or> filepath_Ext (wePath e) = ''.yml''"

type_synonym objs = "(string, resource) gomap"

fun merge_docs :: "string \<Rightarrow> objs \<Rightarrow> objs \<Rightarrow> objs \<times> gerror option" where
  "merge_docs source [] objs = (objs, None)"
| "merge_docs source ((i, obj) # docs) objs = (case map_of objs i of
     Some old \<Rightarrow> (objs, Some (''duplicate definition of '' @ [CHR 0x27] @ i @ [CHR 0x27] @ '' (in ''
        @ boSource (res_base old) @ '' and '' @ source @ '')''))
   | None \<Rightarrow> merge_docs source docs (AList.update i obj objs))"

type_synonym load_state = "objs \<times> string list"

definition load_entry :: "yaml_unmarshal \<Rightarrow> file_system \<Rightarrow> string \<Rightarrow> string \<Rightarrow> walk_entry
    \<Rightarrow> load_state \<Rightarrow> (load_state \<times> gerror option) go" where
  "load_entry um fs ns base e st =
     (case weErr e of
        Some er \<Rightarrow> Ret (st, Some (err_wrap er (''walking '' @ wePath e @ '' for yaml'')))
      | None \<Rightarrow>
         if \<not> is_manifest e then Ret (st, None)
         else (case fsReadFile fs (wePath e) of
            Inl er \<Rightarrow> Ret (st, Some (err_wrap er (''unable to read file at '' @ wePath e)))
          | Inr bytes \<Rightarrow> (case fsRel fs base (wePath e) of
              Inl er \<Rightarrow> Ret (st, Some (err_wrap er
                 (''path to scan '' @ wePath e @ '' is not under base '' @ base)))
            | Inr source \<Rightarrow>
                (let objs = fst st; files = snd st @ [source] in
                 go_bind (ParseMultidoc um ns bytes source) (\<lambda>(docs, err).
                   case err of Some er \<Rightarrow> Ret ((objs, files), Some er)
                   | None \<Rightarrow> (let r = merge_docs source docs objs in
                        Ret ((fst r, files), snd r)))))))"

fun load_entries :: "yaml_unmarshal \<Rightarrow> file_system \<Rightarrow> string \<Rightarrow> string \<Rightarrow> walk_entry list
    \<Rightarrow> load_state \<Rightarrow> (load_state \<times> gerror option) go" where
  "load_entries um fs ns base [] st = Ret (st, None)"
| "load_entries um fs ns base (e # es) st =
     go_bind (load_entry um fs ns base e st) (\<lambda>(st', err).
       case err of Some er \<Rightarrow> Ret (st', Some er) | None \<Rightarrow> load_entries um fs ns base es st')"

fun load_roots :: "yaml_unmarshal \<Rightarrow> file_system \<Rightarrow> string \<Rightarrow> string \<Rightarrow> string list
    \<Rightarrow> load_state \<Rightarrow> (load_state \<times> gerror option) go" where
  "load_roots um fs ns base [] st = Ret (st, None)"
| "load_roots um fs ns base (r # rs) st =
     go_bind (load_entries um fs ns base (fsWalk fs r) st) (\<lambda>(st', err).
       case err of Some er \<Rightarrow> Ret (st', Some er) | None \<Rightarrow> load_roots um fs ns base rs st')"

definition Load :: "yaml_unmarshal \<Rightarrow> file_system \<Rightarrow> string \<Rightarrow> string \<Rightarrow> string \<Rightarrow> string list
    \<Rightarrow> (load_state \<times> gerror option) go" where
  "Load um fs ns base atLeastOne roots = load_roots um fs ns base (atLeastOne # roots) ([], [])"

section \<open>Documents of a stream\<close>

text \<open>The separator line does not straddle the end of a document.\<close>

lemma sep_straddle:
  assumes "\<not> contains d yamlSeparator"
  shows "\<not> contains (d @ butlast yamlSeparator) yamlSeparator"
proof
  assume "contains (d @ butlast yamlSeparator) yamlSeparator"
  then obtain a b where ab: "d @ butlast yamlSeparator = a @ yamlSeparator @ b"
    by (auto simp: contains_iff)
  show False
  proof (cases "length (a @ yamlSeparator) \<le> length d")
    case True
    then have "take (length (a @ yamlSeparator)) d = a @ yamlSeparator"
      using arg_cong [OF ab, of "take (length (a @ yamlSeparator))"] by simp
    then have "contains d yamlSeparator"
      by (metis append.assoc append_take_drop_id contains_self)
    with assms show False by simp
  next
    case False
    then have "length d < length a + 4" "length d + 3 = length a + 4 + length b"
      using arg_cong [OF ab, of length] by simp_all
    then obtain k where k: "length d = length a + k" "k = 1 \<or> k = 2 \<or> k = 3"
      by (intro that [of "length d - length a"]) arith+
    have "(a @ yamlSeparator @ b) ! (length a + k) = CHR ''-''"
      using k(2) by (auto simp: yamlSeparator_def nth_append)
    moreover have "(d @ butlast yamlSeparator) ! length d = CHR 0x0A"
      by (simp add: yamlSeparator_def nth_append)
    ultimately show False using ab k(1) by simp
  qed
qed

lemma index_of_sep: "\<not> contains d yamlSeparator \<Longrightarrow>
    index_of (d @ yamlSeparator @ b) yamlSeparator = Some (length d)"
  by (rule index_of_first [OF sep_straddle]) (simp_all add: yamlSeparator_def)

lemma split_sep_line:
  assumes "\<not> contains d yamlSeparator" "CHR 0x0A \<notin> set t"
  shows "splitYAMLDocument (d @ yamlSeparator @ t @ CHR 0x0A # r) eof =
    (length d + 4 + length t + 1, Some d)"
  using index_of_sep [OF assms(1), of "t @ CHR 0x0A # r"] index_of_char [OF assms(2), of r]
  by (simp add: splitYAMLDocument_def Let_def)

lemma split_unterminated:
  assumes "\<not> contains d yamlSeparator" "CHR 0x0A \<notin> set t" "t \<noteq> []"
  shows "splitYAMLDocument (d @ yamlSeparator @ t) eof = (0, None)"
  using index_of_sep [OF assms(1), of t] index_of_no_char [OF assms(2)] assms(3)
  by (simp add: splitYAMLDocument_def Let_def)

lemma split_last: "d \<noteq> [] \<Longrightarrow> \<not> contains d yamlSeparator \<Longrightarrow>
    splitYAMLDocument d True = (length d, Some d)"
  by (simp add: splitYAMLDocument_def Let_def index_of_None [symmetric])

definition doc_sep :: string where
  "doc_sep = yamlSeparator @ [CHR 0x0A]"

lemma yaml_docs_sep:
  assumes "\<not> contains d yamlSeparator" "length d + 5 \<le> mx"
  shows "yaml_docs mx (d @ doc_sep @ r) =
    (d # fst (yaml_docs mx r), snd (yaml_docs mx r))"
proof -
  have s: "splitYAMLDocument (d @ doc_sep @ r) eof = (length d + 5, Some d)" for r eof
    using split_sep_line [OF assms(1), of "[]" r eof] by (simp add: doc_sep_def)
  have "take (length d + 5) (d @ doc_sep @ r) = d @ doc_sep @ []"
    by (simp add: doc_sep_def)
  then have "window_ok mx (d @ doc_sep @ r) (length d + 5)"
    using assms(2) s [of "[]" False] by (simp only: window_ok_def fst_conv simp_thms)
  moreover have "drop (length d + 5) (d @ doc_sep @ r) = r" by (simp add: doc_sep_def)
  ultimately show ?thesis
    by (subst yaml_docs.simps) (simp only: s [of r True] prod.case option.case if_True Let_def)
qed

lemma yaml_docs_Nil [simp]: "yaml_docs mx [] = ([], False)"
  by (subst yaml_docs.simps) (simp add: splitYAMLDocument_def)

lemma yaml_docs_last:
  assumes "d \<noteq> []" "\<not> contains d yamlSeparator" "length d < mx"
  shows "yaml_docs mx d = ([d], False)"
proof -
  have "window_ok mx d (length d)" using assms(3) by (simp add: window_ok_def)
  then show ?thesis
    by (subst yaml_docs.simps) (simp add: split_last [OF assms(1,2)])
qed

lemma yaml_docs_roundtrip_aux:
  assumes "ds \<noteq> []" "last ds \<noteq> []"
    and "\<forall>d \<in> set ds. \<not> contains d yamlSeparator \<and> length d + 5 \<le> mx"
  shows "yaml_docs mx (join ds doc_sep) = (ds, False)"
  using assms
proof (induction ds)
  case (Cons d ds)
  show ?case
  proof (cases ds)
    case Nil
    with Cons.prems have "d \<noteq> []" "\<not> contains d yamlSeparator" "length d < mx" by auto
    then have "yaml_docs mx d = ([d], False)" by (rule yaml_docs_last)
    then show ?thesis using Nil by simp
  next
    case (Cons x xs)
    then have "yaml_docs mx (join ds doc_sep) = (ds, False)"
      using Cons.IH Cons.prems by simp
    with Cons yaml_docs_sep [of d mx "join ds doc_sep"] Cons.prems show ?thesis
      by (simp add: join_Cons)
  qed
qed simp

text \<open>
  C10: Writing documents one after the other, separated by \<^verbatim>\<open>---\<close> lines, and scanning the
  stream gives back exactly these documents, when none contains a separator itself, the
  last one is not empty, and all are within the buffer of the scanner.
\<close>

theorem yaml_docs_roundtrip:
  assumes "ds \<noteq> []" "last ds \<noteq> []"
    and "\<forall>d \<in> set ds. \<not> contains d yamlSeparator \<and> length d + 5 \<le> mx"
  shows "yaml_docs mx (join ds doc_sep) = (ds, False)"
  using assms by (rule yaml_docs_roundtrip_aux)

lemma yaml_docs_roundtrip_witness:
  "yaml_docs 100 (join [''kind: A'', ''kind: B''] doc_sep) = ([''kind: A'', ''kind: B''], False)"
  by (rule yaml_docs_roundtrip) (simp_all add: yamlSeparator_def has_prefix_def)

text \<open>
  A stream that ends inside a separator line (\<^verbatim>\<open>---\<close> followed by something other than a
  newline, such as a blank or a comment, and then the end of the file) loses the document
  before the separator: the scanner returns neither the document nor an error.
\<close>

theorem yaml_docs_unterminated_lost:
  assumes "\<not> contains d yamlSeparator" "t \<noteq> []" "CHR 0x0A \<notin> set t"
    and "length (d @ yamlSeparator @ t) < mx"
  shows "yaml_docs mx (d @ yamlSeparator @ t) = ([], False)"
proof -
  have "splitYAMLDocument (d @ yamlSeparator @ t) True = (0, None)"
    using assms by (intro split_unterminated)
  then show ?thesis using assms(4) by (subst yaml_docs.simps) simp
qed

lemma yaml_docs_unterminated_lost_witness:
  "yaml_docs 100 (''kind: A'' @ yamlSeparator @ '' '') = ([], False)"
  by (rule yaml_docs_unterminated_lost) (simp_all add: yamlSeparator_def has_prefix_def)

section \<open>Keys of loaded resources\<close>

text \<open>
  The invariant every map of resources of an environment has: the key of an entry is the text of its
  identifier, and the resource is in the namespace of the environment.
\<close>

definition objs_ok :: "string \<Rightarrow> objs \<Rightarrow> bool" where
  "objs_ok ns objs \<longleftrightarrow> gm_ok objs
     \<and> (\<forall>(k, r) \<in> set objs. k = bo_key (res_base r) \<and> boNamespace (res_base r) = ns)"

lemma objs_ok_Nil [simp]: "objs_ok ns []"
  by (simp add: objs_ok_def)

lemma objs_ok_update [inv_intros]:
  "objs_ok ns objs \<Longrightarrow> k = bo_key (res_base r) \<Longrightarrow> boNamespace (res_base r) = ns
   \<Longrightarrow> objs_ok ns (AList.update k r objs)"
  using set_update_subset [of k r objs] unfolding objs_ok_def by fastforce

lemma unmarshalObject_base:
  "unmarshalObject um ns source bytes = Ret (Inr obj) \<Longrightarrow>
   \<exists>b. obj = BaseObj b \<and> boNamespace b = ns"
  by (auto simp: unmarshalObject_def Let_def split: sum.splits option.splits)

lemma parse_docs_ok:
  assumes "parse_docs um ns source ds objs = Ret (objs', err)" "objs_ok ns objs"
  shows "objs_ok ns objs'"
  using assms
proof (induction ds arbitrary: objs)
  case (Cons d ds)
  show ?case
  proof (cases "trim_space d = []")
    case False
    with Cons.prems(1) obtain r where r: "unmarshalObject um ns source d = Ret r"
      by (cases "unmarshalObject um ns source d") auto
    show ?thesis
    proof (cases r)
      case (Inr obj)
      then obtain b where b: "obj = BaseObj b" "boNamespace b = ns"
        using r unmarshalObject_base by blast
      then have "objs_ok ns (add_resource obj objs)"
        using Cons.prems(2) by (simp add: add_resource_def objs_ok_update)
      then show ?thesis using Cons.IH Cons.prems(1) False r Inr by simp
    qed (use Cons.prems(1) False r in simp)
  qed (use Cons in simp)
qed simp

lemma ParseMultidoc_ok:
  assumes "ParseMultidoc um ns multidoc source = Ret (objs, err)"
  shows "objs_ok ns objs"
proof -
  obtain o1 e1 where
    p: "parse_docs um ns source (fst (yaml_docs yaml_max multidoc)) [] = Ret (o1, e1)"
    and "objs = o1"
    using assms by (auto simp: ParseMultidoc_def Let_def go_simps split: option.splits if_splits)
  then show ?thesis using parse_docs_ok [OF p] by simp
qed

lemma merge_docs_ok [inv_intros]:
  "objs_ok ns objs \<Longrightarrow> objs_ok ns docs \<Longrightarrow> objs_ok ns (fst (merge_docs source docs objs))"
proof (induction source docs objs rule: merge_docs.induct)
  case (2 source i obj docs objs)
  then have "objs_ok ns docs" "i = bo_key (res_base obj)" "boNamespace (res_base obj) = ns"
    by (auto simp: objs_ok_def gm_ok_def)
  with 2 show ?case by (auto split: option.splits intro: objs_ok_update)
qed simp

lemma merge_docs_map:
  assumes "merge_docs source docs objs = (objs', None)"
  shows "map_of objs \<subseteq>\<^sub>m map_of objs' \<and> (\<forall>(k, r) \<in> set docs. map_of objs' k = Some r)"
  using assms
proof (induction source docs objs rule: merge_docs.induct)
  case (2 source i obj docs objs)
  then have n: "map_of objs i = None" and
    m: "merge_docs source docs (AList.update i obj objs) = (objs', None)"
    by (auto split: option.splits)
  then have IH: "map_of (AList.update i obj objs) \<subseteq>\<^sub>m map_of objs'"
    "\<forall>(k, r) \<in> set docs. map_of objs' k = Some r"
    using "2.IH" by blast+
  moreover have "map_of objs \<subseteq>\<^sub>m map_of (AList.update i obj objs)"
    using n by (auto simp: map_le_def update_conv' domIff)
  moreover have "map_of objs' i = Some obj"
    using IH(1) by (simp add: map_le_def update_conv' domIff)
  ultimately show ?case by (auto intro: map_le_trans)
qed simp

text \<open>What a successful entry leaves behind: the resources of its file are in the result.\<close>

definition loaded :: "yaml_unmarshal \<Rightarrow> file_system \<Rightarrow> string \<Rightarrow> string \<Rightarrow> load_state \<Rightarrow> walk_entry \<Rightarrow> bool"
where "loaded um fs ns base st e \<longleftrightarrow> (is_manifest e \<longrightarrow> (\<exists>bytes source docs.
     fsReadFile fs (wePath e) = Inr bytes \<and> fsRel fs base (wePath e) = Inr source
     \<and> source \<in> set (snd st) \<and> ParseMultidoc um ns bytes source = Ret (docs, None)
     \<and> (\<forall>(k, r) \<in> set docs. map_of (fst st) k = Some r)))"

definition load_le :: "load_state \<Rightarrow> load_state \<Rightarrow> bool" where
  "load_le st st' \<longleftrightarrow> map_of (fst st) \<subseteq>\<^sub>m map_of (fst st') \<and> set (snd st) \<subseteq> set (snd st')"

lemma load_le_refl [simp]: "load_le st st"
  by (simp add: load_le_def)

lemma load_le_trans: "load_le a b \<Longrightarrow> load_le b c \<Longrightarrow> load_le a c"
  by (auto simp: load_le_def intro: map_le_trans)

lemma map_leD: "m \<subseteq>\<^sub>m m' \<Longrightarrow> m k = Some v \<Longrightarrow> m' k = Some v"
  by (metis domI map_le_def)

lemma loaded_mono:
  assumes l: "loaded um fs ns base st e" and le: "load_le st st'"
  shows "loaded um fs ns base st' e"
  unfolding loaded_def
proof
  assume "is_manifest e"
  with l obtain bytes source docs where *: "fsReadFile fs (wePath e) = Inr bytes"
    "fsRel fs base (wePath e) = Inr source" "source \<in> set (snd st)"
    "ParseMultidoc um ns bytes source = Ret (docs, None)"
    "\<forall>(k, r) \<in> set docs. map_of (fst st) k = Some r"
    unfolding loaded_def by blast
  have "source \<in> set (snd st')" using *(3) le by (auto simp: load_le_def)
  moreover have "\<forall>(k, r) \<in> set docs. map_of (fst st') k = Some r"
    using *(5) le map_leD unfolding load_le_def by fast
  ultimately show "\<exists>bytes source docs. fsReadFile fs (wePath e) = Inr bytes
     \<and> fsRel fs base (wePath e) = Inr source \<and> source \<in> set (snd st')
     \<and> ParseMultidoc um ns bytes source = Ret (docs, None)
     \<and> (\<forall>(k, r) \<in> set docs. map_of (fst st') k = Some r)"
    using * by blast
qed

lemma load_entry_step:
  assumes le: "load_entry um fs ns base e st = Ret (st', err)"
  shows "objs_ok ns (fst st) \<Longrightarrow> objs_ok ns (fst st')"
    and "err = None \<Longrightarrow> load_le st st' \<and> loaded um fs ns base st' e"
proof -
  consider "st' = st" "err \<noteq> None" | "st' = st" "\<not> is_manifest e"
    | bytes source docs er where "fsReadFile fs (wePath e) = Inr bytes"
        "fsRel fs base (wePath e) = Inr source"
        "ParseMultidoc um ns bytes source = Ret (docs, er)"
        "er \<noteq> None \<and> st' = (fst st, snd st @ [source]) \<and> err = er
         \<or> er = None \<and> st' = (fst (merge_docs source docs (fst st)), snd st @ [source])
           \<and> err = snd (merge_docs source docs (fst st))"
    using le by (fastforce simp: load_entry_def Let_def go_simps split: option.splits sum.splits if_splits)
  note c = this
  show "objs_ok ns (fst st) \<Longrightarrow> objs_ok ns (fst st')"
    using c by cases (auto intro: merge_docs_ok [OF _ ParseMultidoc_ok])
  assume "err = None"
  with c show "load_le st st' \<and> loaded um fs ns base st' e"
  proof cases
    case (3 bytes source docs er)
    then have er: "er = None" and m: "merge_docs source docs (fst st) = (fst st', None)"
      and f: "snd st' = snd st @ [source]"
      using \<open>err = None\<close> by (auto simp: prod_eq_iff)
    from merge_docs_map [OF m] 3(1-3) er f show ?thesis
      unfolding load_le_def loaded_def by auto
  qed (auto simp: loaded_def)
qed

lemma load_entries_step:
  assumes "load_entries um fs ns base es st = Ret (st', err)"
  shows "(objs_ok ns (fst st) \<longrightarrow> objs_ok ns (fst st'))
    \<and> (err = None \<longrightarrow> load_le st st' \<and> (\<forall>e \<in> set es. loaded um fs ns base st' e))"
  using assms
proof (induction es arbitrary: st)
  case (Cons e es)
  then obtain st1 er where e: "load_entry um fs ns base e st = Ret (st1, er)"
    and k: "(case er of Some x \<Rightarrow> Ret (st1, Some x) | None \<Rightarrow> load_entries um fs ns base es st1)
      = Ret (st', err)"
    by (auto simp: go_simps)
  note step = load_entry_step [OF e]
  show ?case
  proof (cases er)
    case None
    with k have "load_entries um fs ns base es st1 = Ret (st', err)" by simp
    from Cons.IH [OF this] step None show ?thesis
      using load_le_trans loaded_mono by (metis set_ConsD)
  next
    case (Some x)
    with k step show ?thesis by auto
  qed
qed simp

lemma load_roots_step:
  assumes "load_roots um fs ns base rs st = Ret (st', err)"
  shows "(objs_ok ns (fst st) \<longrightarrow> objs_ok ns (fst st'))
    \<and> (err = None \<longrightarrow> load_le st st'
         \<and> (\<forall>r \<in> set rs. \<forall>e \<in> set (fsWalk fs r). loaded um fs ns base st' e))"
  using assms
proof (induction rs arbitrary: st)
  case (Cons r rs)
  then obtain st1 er where e: "load_entries um fs ns base (fsWalk fs r) st = Ret (st1, er)"
    and k: "(case er of Some x \<Rightarrow> Ret (st1, Some x) | None \<Rightarrow> load_roots um fs ns base rs st1)
      = Ret (st', err)"
    by (auto simp: go_simps)
  note step = load_entries_step [OF e]
  show ?case
  proof (cases er)
    case None
    with k have "load_roots um fs ns base rs st1 = Ret (st', err)" by simp
    from Cons.IH [OF this] step None show ?thesis
      using load_le_trans loaded_mono by (metis set_ConsD)
  next
    case (Some x)
    with k step show ?thesis by auto
  qed
qed simp


definition demo_um :: yaml_unmarshal where
  "demo_um = (\<lambda>bytes b. Inr (Some (b\<lparr>boKind := ''Service'', boName := bytes\<rparr>)))"

definition demo_fs :: file_system where
  "demo_fs = \<lparr>fsWalk = (\<lambda>r. [\<lparr>wePath = ''/w/a.yaml'', weIsDir = False, weErr = None\<rparr>]),
     fsReadFile = (\<lambda>p. Inr ''web''), fsRel = (\<lambda>b p. Inr ''a.yaml'')\<rparr>"

lemma demo_Load:
  "\<exists>objs. Load demo_um demo_fs ''dev'' ''/w'' ''/w'' [] = Ret ((objs, [''a.yaml'']), None)
     \<and> gm_has objs ''service/web''"
proof -
  have lower: "to_lower ''Service'' = ''service''" by code_simp
  have "yaml_docs yaml_max ''web'' = ([''web''], False)"
    by (rule yaml_docs_last) (simp_all add: yaml_max_def yamlSeparator_def has_prefix_def)
  then show ?thesis
    by (simp add: Load_def demo_fs_def load_entry_def is_manifest_def filepath_Ext_def
        ParseMultidoc_def unmarshalObject_def demo_um_def trim_space_eq_Nil is_space_def
        add_resource_def bo_key_def gm_has_def lower)
qed


end
