(* ===== verification/Cluster.thy ===== *)
theory Cluster
  imports Manifests
begin

text \<open>
  The cluster side of a synchronisation (\<^verbatim>\<open>pkg/kubernetes\<close>): listing the objects the
  agent manages, exporting them as one YAML stream, and turning a list of actions into a
  change set.  The API server's lists, the YAML printer and parser and the applier of
  change sets are parameters.
\<close>

section \<open>Objects of the API server\<close>

text \<open>Metadata of an object; \<^verbatim>\<open>koBody\<close> stands for the rest of it.\<close>

record k8s_obj =
  koName :: string
  koNamespace :: string
  koLabels :: "(string, string) gomap"
  koAnnotations :: "(string, string) gomap"
  koBody :: string

text \<open>Errors of the API: those whose status says \<^verbatim>\<open>NotFound\<close>, and all others.\<close>

datatype api_err = NotFoundErr (api_text: gerror) | OtherErr (api_text: gerror)

definition IsNotFound :: "api_err \<Rightarrow> bool" where
  "IsNotFound e = (case e of NotFoundErr _ \<Rightarrow> True | OtherErr _ \<Rightarrow> False)"

definition label :: "k8s_obj \<Rightarrow> string \<Rightarrow> string" where
  "label o1 l = gm_get [] (koLabels o1) l"

definition has_label :: "k8s_obj \<Rightarrow> string \<Rightarrow> bool" where
  "has_label o1 l = gm_has (koLabels o1) l"

record globals =
  glCertManagerVersion :: string
  glClusterId :: string
  glAgentNamespace :: string
  glAgentVersion :: string
  glRestrictedModel :: bool

record k8s_resource =
  krObj :: k8s_obj
  krApiVersion :: string
  krKind :: string
  krName :: string

type_synonym lister = "string \<Rightarrow> api_err + k8s_obj list"

record cluster_client =
  ccV1alpha1Certificates :: lister
  ccV1Certificates :: lister
  ccServices :: lister
  ccIngresses :: lister
  ccReleases :: lister
  ccConfigMaps :: lister
  ccSecrets :: lister
  ccPVCs :: lister
  ccPVs :: lister
  ccDeployments :: lister
  ccStatefulSets :: lister
  ccJobs :: lister
  ccCronJobs :: lister
  ccDaemonSets :: lister
  ccHasMgr :: "string \<Rightarrow> bool"

definition make_resource :: "string \<Rightarrow> string \<Rightarrow> k8s_obj \<Rightarrow> k8s_resource" where
  "make_resource ver kind o1 = \<lparr>krObj = o1, krApiVersion = ver, krKind = kind, krName = koName o1\<rparr>"

text \<open>Every \<^verbatim>\<open>GetResources\<close> lists its kind and keeps some of the items.\<close>

definition list_keep :: "api_err + k8s_obj list \<Rightarrow> (k8s_obj \<Rightarrow> bool) \<Rightarrow> (k8s_obj \<Rightarrow> k8s_resource)
    \<Rightarrow> api_err + k8s_resource list" where
  "list_keep items keep mk = map_sum id (\<lambda>os. map mk (filter keep os)) items"

definition network_keep :: "k8s_obj \<Rightarrow> bool" where
  "network_keep o1 \<longleftrightarrow> \<not> (\<not> has_label o1 NetworkLabel \<or> has_label o1 NetworkNoDelLabel)"

definition certificate_GetResources ::
  "globals \<Rightarrow> cluster_client \<Rightarrow> string \<Rightarrow> api_err + k8s_resource list" where
  "certificate_GetResources g cl ns =
     (let a = (if glCertManagerVersion g = ''0.1.0'' then
            list_keep (ccV1alpha1Certificates cl ns) (\<lambda>_. True) (make_resource ''v1alpha1'' ''Certificate'')
          else Inr []);
          b = (if glCertManagerVersion g = ''1.1.1'' then
            list_keep (ccV1Certificates cl ns) (\<lambda>_. True) (make_resource ''v1'' ''Certificate'')
          else Inr [])
      in case a of Inl e \<Rightarrow> Inl e | Inr xs \<Rightarrow> (case b of Inl e \<Rightarrow> Inl e | Inr ys \<Rightarrow> Inr (xs @ ys)))"

definition service_GetResources :: "cluster_client \<Rightarrow> string \<Rightarrow> api_err + k8s_resource list" where
  "service_GetResources cl ns =
     list_keep (ccServices cl ns) network_keep (make_resource ''v1'' ''Service'')"

definition ingress_GetResources :: "cluster_client \<Rightarrow> string \<Rightarrow> api_err + k8s_resource list" where
  "ingress_GetResources cl ns =
     list_keep (ccIngresses cl ns) network_keep (make_resource ''extensions/v1beta1'' ''Ingress'')"

text \<open>Without a manager for the namespace the client is taken from a nil pointer.\<close>

definition release_keep :: "globals \<Rightarrow> string \<Rightarrow> k8s_obj \<Rightarrow> bool" where
  "release_keep g ns o1 \<longleftrightarrow>
     (if ns = glAgentNamespace g then label o1 C7NHelmReleaseClusterLabel = glClusterId g else True)"

definition release_GetResources ::
  "globals \<Rightarrow> cluster_client \<Rightarrow> string \<Rightarrow> (api_err + k8s_resource list) go" where
  "release_GetResources g cl ns =
     (if \<not> ccHasMgr cl ns then Panic
      else Ret (list_keep (ccReleases cl ns) (release_keep g ns)
             (make_resource ''choerodon.io/v1alpha1'' ''C7NHelmRelease'')))"

definition configmap_keep :: "k8s_obj \<Rightarrow> bool" where
  "configmap_keep o1 \<longleftrightarrow> label o1 ReleaseLabel = [] \<and> label o1 AgentVersionLabel \<noteq> []"

definition configmap_GetResources :: "cluster_client \<Rightarrow> string \<Rightarrow> api_err + k8s_resource list" where
  "configmap_GetResources cl ns =
     list_keep (ccConfigMaps cl ns) configmap_keep (make_resource ''v1'' ''ConfigMap'')"

definition secret_keep :: "k8s_obj \<Rightarrow> bool" where
  "secret_keep o1 \<longleftrightarrow>
     label o1 TlsSecretLabel = [] \<and> label o1 ReleaseLabel = [] \<and> label o1 AgentVersionLabel \<noteq> []"

definition secret_GetResources :: "cluster_client \<Rightarrow> string \<Rightarrow> api_err + k8s_resource list" where
  "secret_GetResources cl ns =
     list_keep (ccSecrets cl ns) secret_keep (make_resource ''v1'' ''Secret'')"

definition pvc_keep :: "globals \<Rightarrow> k8s_obj \<Rightarrow> bool" where
  "pvc_keep g o1 \<longleftrightarrow> label o1 ReleaseLabel = [] \<and> label o1 AgentVersionLabel \<noteq> []
     \<and> label o1 PvcLabel = ''pvc-cluster-'' @ glClusterId g"

definition pvc_GetResources ::
  "globals \<Rightarrow> cluster_client \<Rightarrow> string \<Rightarrow> api_err + k8s_resource list" where
  "pvc_GetResources g cl ns =
     list_keep (ccPVCs cl ns) (pvc_keep g) (make_resource ''v1'' ''PersistentVolumeClaim'')"

text \<open>Not in the table of kinds: its registration is commented out.\<close>

definition pv_GetResources ::
  "globals \<Rightarrow> cluster_client \<Rightarrow> string \<Rightarrow> api_err + k8s_resource list" where
  "pv_GetResources g cl ns =
     (if glRestrictedModel g then Inr []
      else list_keep (ccPVs cl ns)
        (\<lambda>o1. label o1 ReleaseLabel = [] \<and> label o1 AgentVersionLabel \<noteq> []
           \<and> label o1 PvLabel = ''pv-cluster-'' @ glClusterId g \<and> label o1 EnvLabel = ns)
        (make_resource ''v1'' ''PersistentVolume''))"

definition workload_keep :: "string \<Rightarrow> k8s_obj \<Rightarrow> bool" where
  "workload_keep kind o1 \<longleftrightarrow> label o1 WorkloadLabel = kind"

definition deployment_GetResources :: "cluster_client \<Rightarrow> string \<Rightarrow> api_err + k8s_resource list" where
  "deployment_GetResources cl ns =
     list_keep (ccDeployments cl ns) (workload_keep ''Deployment'') (make_resource ''apps/v1'' ''Deployment'')"

definition statefulset_GetResources :: "cluster_client \<Rightarrow> string \<Rightarrow> api_err + k8s_resource list" where
  "statefulset_GetResources cl ns =
     list_keep (ccStatefulSets cl ns) (workload_keep ''StatefulSet'') (make_resource ''apps/v1'' ''StatefulSet'')"

definition job_GetResources :: "cluster_client \<Rightarrow> string \<Rightarrow> api_err + k8s_resource list" where
  "job_GetResources cl ns =
     list_keep (ccJobs cl ns) (workload_keep ''Job'') (make_resource ''batch/v1'' ''Job'')"

definition cronjob_GetResources :: "cluster_client \<Rightarrow> string \<Rightarrow> api_err + k8s_resource list" where
  "cronjob_GetResources cl ns =
     list_keep (ccCronJobs cl ns) (workload_keep ''CronJob'') (make_resource ''batch/v1beta1'' ''CronJob'')"

definition daemonset_GetResources :: "cluster_client \<Rightarrow> string \<Rightarrow> api_err + k8s_resource list" where
  "daemonset_GetResources cl ns =
     list_keep (ccDaemonSets cl ns) (workload_keep ''DaemonSet'') (make_resource ''apps/v1'' ''DaemonSet'')"

datatype resource_kind = ServiceKind | IngressKind | ReleaseKind | ConfigMapKind | SecretKind
  | PVCKind | CertificateKind | DeploymentKind | DaemonSetKind | JobKind | CronJobKind
  | StatefulSetKind

definition ResourceKinds :: "(string, resource_kind) gomap" where
  "ResourceKinds = [(''service'', ServiceKind), (''ingress'', IngressKind),
     (''c7nhelmrelease'', ReleaseKind), (''configmap'', ConfigMapKind), (''secret'', SecretKind),
     (''persistentvolumeclaim'', PVCKind), (''certificate'', CertificateKind),
     (''Deployment'', DeploymentKind), (''DaemonSet'', DaemonSetKind), (''Job'', JobKind),
     (''CronJob'', CronJobKind), (''StatefulSet'', StatefulSetKind)]"

fun GetResources :: "globals \<Rightarrow> cluster_client \<Rightarrow> string \<Rightarrow> resource_kind
    \<Rightarrow> (api_err + k8s_resource list) go" where
  "GetResources g cl ns ServiceKind = Ret (service_GetResources cl ns)"
| "GetResources g cl ns IngressKind = Ret (ingress_GetResources cl ns)"
| "GetResources g cl ns ReleaseKind = release_GetResources g cl ns"
| "GetResources g cl ns ConfigMapKind = Ret (configmap_GetResources cl ns)"
| "GetResources g cl ns SecretKind = Ret (secret_GetResources cl ns)"
| "GetResources g cl ns PVCKind = Ret (pvc_GetResources g cl ns)"
| "GetResources g cl ns CertificateKind = Ret (certificate_GetResources g cl ns)"
| "GetResources g cl ns DeploymentKind = Ret (deployment_GetResources cl ns)"
| "GetResources g cl ns DaemonSetKind = Ret (daemonset_GetResources cl ns)"
| "GetResources g cl ns JobKind = Ret (job_GetResources cl ns)"
| "GetResources g cl ns CronJobKind = Ret (cronjob_GetResources cl ns)"
| "GetResources g cl ns StatefulSetKind = Ret (statefulset_GetResources cl ns)"

section \<open>Export\<close>

definition isAgent :: "k8s_obj \<Rightarrow> string \<Rightarrow> bool" where
  "isAgent o1 name \<longleftrightarrow> koName o1 = name"

definition appendYAML :: "(k8s_obj \<Rightarrow> string res) \<Rightarrow> string \<Rightarrow> string \<Rightarrow> string \<Rightarrow> k8s_obj \<Rightarrow> string res"
where
  "appendYAML marshal buffer apiVersion kind o1 = (case marshal o1 of
     Inl e \<Rightarrow> Inl e
   | Inr yamlBytes \<Rightarrow> Inr (buffer @ ''---'' @ [CHR 0x0A] @ ''apiVersion: '' @ apiVersion @ [CHR 0x0A]
       @ ''kind: '' @ kind @ [CHR 0x0A] @ yamlBytes))"

fun export_resources :: "(k8s_obj \<Rightarrow> string res) \<Rightarrow> string \<Rightarrow> k8s_resource list \<Rightarrow> string
    \<Rightarrow> string res" where
  "export_resources marshal ns [] buf = Inr buf"
| "export_resources marshal ns (r # rs) buf =
     (if isAgent (krObj r) ns then export_resources marshal ns rs buf
      else (case appendYAML marshal buf (krApiVersion r) (krKind r) (krObj r) of
          Inl e \<Rightarrow> Inl e | Inr buf' \<Rightarrow> export_resources marshal ns rs buf'))"

text \<open>The kinds come in the order in which the runtime iterates over \<^verbatim>\<open>ResourceKinds\<close>.\<close>

fun export_kinds :: "globals \<Rightarrow> cluster_client \<Rightarrow> (k8s_obj \<Rightarrow> string res) \<Rightarrow> string
    \<Rightarrow> resource_kind list \<Rightarrow> string \<Rightarrow> string res go" where
  "export_kinds g cl marshal ns [] buf = Ret (Inr buf)"
| "export_kinds g cl marshal ns (k # ks) buf =
     go_bind (GetResources g cl ns k) (\<lambda>r. case r of
       Inl e \<Rightarrow> if IsNotFound e then export_kinds g cl marshal ns ks buf else Ret (Inl (api_text e))
     | Inr rs \<Rightarrow> (case export_resources marshal ns rs buf of
           Inl e \<Rightarrow> Ret (Inl e) | Inr buf' \<Rightarrow> export_kinds g cl marshal ns ks buf'))"

definition Export :: "globals \<Rightarrow> cluster_client \<Rightarrow> (k8s_obj \<Rightarrow> string res) \<Rightarrow> resource_kind list
    \<Rightarrow> string \<Rightarrow> string res go" where
  "Export g cl marshal order ns = export_kinds g cl marshal ns order []"

section \<open>Change sets\<close>

record api_object =
  aoResource :: resource
  aoKind :: string
  aoName :: string
  aoNamespace :: string

type_synonym change_set = "(string, api_object list) gomap"

definition DeleteObj :: "change_set \<Rightarrow> api_object list" where
  "DeleteObj cs = gm_get [] cs ''delete''"

definition ApplyObj :: "change_set \<Rightarrow> api_object list" where
  "ApplyObj cs = gm_get [] cs ''apply''"

definition makeChangeSet :: change_set where
  "makeChangeSet = []"

definition cs_stage :: "string \<Rightarrow> api_object \<Rightarrow> change_set \<Rightarrow> change_set" where
  "cs_stage cmd o1 cs = AList.update cmd (gm_get [] cs cmd @ [o1]) cs"

record sync_action =
  saDelete :: "resource option"
  saApply :: "resource option"

record resource_error =
  reResource :: resource
  reError :: gerror

definition SyncError_Error :: "resource_error list \<Rightarrow> string" where
  "SyncError_Error err =
     join (map (\<lambda>e. bo_key (res_base (reResource e)) @ '': '' @ reError e) err) ''; ''"

text \<open>\<^verbatim>\<open>parseObj\<close>: the parser yields kind, name and namespace of the bytes.\<close>

type_synonym obj_parser = "string \<Rightarrow> (string \<times> string \<times> string) res"

fun sync_stages :: "obj_parser \<Rightarrow> (resource option \<times> string) list
    \<Rightarrow> change_set \<times> resource_error list \<Rightarrow> change_set \<times> resource_error list" where
  "sync_stages parse [] st = st"
| "sync_stages parse ((None, cmd) # ss) st = sync_stages parse ss st"
| "sync_stages parse ((Some r, cmd) # ss) (cs, errs) =
     (case parse (boBytes (res_base r)) of
        Inr (kind, name, ns) \<Rightarrow> sync_stages parse ss
          (cs_stage cmd \<lparr>aoResource = r, aoKind = kind, aoName = name, aoNamespace = ns\<rparr> cs, errs)
      | Inl e \<Rightarrow> (cs, errs @ [\<lparr>reResource = r, reError = e\<rparr>]))"

fun sync_actions :: "obj_parser \<Rightarrow> sync_action list
    \<Rightarrow> change_set \<times> resource_error list \<Rightarrow> change_set \<times> resource_error list" where
  "sync_actions parse [] st = st"
| "sync_actions parse (a # as) st =
     sync_actions parse as (sync_stages parse [(saDelete a, ''delete''), (saApply a, ''apply'')] st)"

text \<open>An empty list of errors is the nil error.\<close>

definition cluster_Sync :: "obj_parser \<Rightarrow> (string \<Rightarrow> change_set \<Rightarrow> 'w \<Rightarrow> resource_error list \<times> 'w)
    \<Rightarrow> string \<Rightarrow> sync_action list \<Rightarrow> 'w \<Rightarrow> resource_error list \<times> 'w" where
  "cluster_Sync parse applier ns actions w =
     (let st = sync_actions parse actions (makeChangeSet, []);
          r = applier ns (fst st) w
      in (snd st @ fst r, snd r))"

definition cluster_DescribeResource :: "(string \<Rightarrow> string \<Rightarrow> string \<Rightarrow> 'w \<Rightarrow> string \<times> 'w)
    \<Rightarrow> string \<Rightarrow> string \<Rightarrow> string \<Rightarrow> 'w \<Rightarrow> string \<times> 'w" where
  "cluster_DescribeResource describer ns sourceKind sourceName w = describer ns sourceKind sourceName w"

definition cluster_ScaleResource ::
  "(string \<Rightarrow> string \<Rightarrow> string \<Rightarrow> string \<Rightarrow> 'w \<Rightarrow> gerror option \<times> 'w)
    \<Rightarrow> string \<Rightarrow> string \<Rightarrow> string \<Rightarrow> string \<Rightarrow> 'w \<Rightarrow> gerror option \<times> 'w" where
  "cluster_ScaleResource scaler ns sourceKind sourceName replicas w =
     scaler ns sourceKind sourceName replicas w"

section \<open>What is exported\<close>

definition kind_listed :: "globals \<Rightarrow> cluster_client \<Rightarrow> string \<Rightarrow> resource_kind \<Rightarrow> k8s_resource list" where
  "kind_listed g cl ns k = (case GetResources g cl ns k of Ret (Inr rs) \<Rightarrow> rs | _ \<Rightarrow> [])"

definition exported :: "globals \<Rightarrow> cluster_client \<Rightarrow> string \<Rightarrow> resource_kind list \<Rightarrow> k8s_resource list" where
  "exported g cl ns order =
     filter (\<lambda>r. \<not> isAgent (krObj r) ns) (concat (map (kind_listed g cl ns) order))"

text \<open>The body of an exported document; \<^verbatim>\<open>appendYAML\<close> puts a separator line in front.\<close>

definition export_body :: "(k8s_obj \<Rightarrow> string res) \<Rightarrow> k8s_resource \<Rightarrow> string" where
  "export_body marshal r = ''apiVersion: '' @ krApiVersion r @ [CHR 0x0A] @ ''kind: '' @ krKind r
     @ [CHR 0x0A] @ (case marshal (krObj r) of Inr y \<Rightarrow> y | Inl e \<Rightarrow> [])"

definition export_doc :: "(k8s_obj \<Rightarrow> string res) \<Rightarrow> k8s_resource \<Rightarrow> string" where
  "export_doc marshal r = ''---'' @ [CHR 0x0A] @ export_body marshal r"

lemma appendYAML_doc:
  "appendYAML marshal buf (krApiVersion r) (krKind r) (krObj r) = Inr buf' \<Longrightarrow>
   buf' = buf @ export_doc marshal r \<and> (\<exists>y. marshal (krObj r) = Inr y)"
  by (auto simp: appendYAML_def export_doc_def export_body_def split: sum.splits)

lemma export_resources_text:
  "export_resources marshal ns rs buf = Inr buf' \<Longrightarrow>
   buf' = buf @ concat (map (export_doc marshal) (filter (\<lambda>r. \<not> isAgent (krObj r) ns) rs))
   \<and> (\<forall>r \<in> set rs. \<not> isAgent (krObj r) ns \<longrightarrow> (\<exists>y. marshal (krObj r) = Inr y))"
proof (induction rs arbitrary: buf)
  case (Cons r rs)
  show ?case
  proof (cases "isAgent (krObj r) ns")
    case False
    with Cons.prems obtain b where
      "appendYAML marshal buf (krApiVersion r) (krKind r) (krObj r) = Inr b"
      "export_resources marshal ns rs b = Inr buf'"
      by (auto split: sum.splits)
    with Cons.IH [of b] appendYAML_doc False show ?thesis by fastforce
  qed (use Cons in simp)
qed simp

lemma export_kinds_text:
  "export_kinds g cl marshal ns order buf = Ret (Inr buf') \<Longrightarrow>
   buf' = buf @ concat (map (export_doc marshal) (exported g cl ns order))"
proof (induction order arbitrary: buf)
  case (Cons k ks)
  then obtain r where r: "GetResources g cl ns k = Ret r" by (auto simp: go_simps)
  show ?case
  proof (cases r)
    case (Inl e)
    with Cons r have "IsNotFound e" by (auto split: if_splits)
    with Cons r Inl show ?thesis by (simp add: exported_def kind_listed_def)
  next
    case (Inr rs)
    with Cons.prems r obtain b where b: "export_resources marshal ns rs buf = Inr b"
      "export_kinds g cl marshal ns ks b = Ret (Inr buf')"
      by (auto split: sum.splits)
    from Cons.IH [OF b(2)] export_resources_text [OF b(1)] r Inr show ?thesis
      by (simp add: exported_def kind_listed_def)
  qed
qed (simp add: exported_def)

text \<open>Which objects of the cluster the agent treats as its own, by kind.\<close>

definition managed :: "globals \<Rightarrow> string \<Rightarrow> k8s_resource \<Rightarrow> bool" where
  "managed g ns r \<longleftrightarrow> koName (krObj r) \<noteq> ns \<and> krName r = koName (krObj r) \<and>
     (if krKind r \<in> {''Service'', ''Ingress''}
        then has_label (krObj r) NetworkLabel \<and> \<not> has_label (krObj r) NetworkNoDelLabel
      else if krKind r = ''C7NHelmRelease'' then release_keep g ns (krObj r)
      else if krKind r = ''ConfigMap''
        then label (krObj r) ReleaseLabel = [] \<and> label (krObj r) AgentVersionLabel \<noteq> []
      else if krKind r = ''Secret''
        then label (krObj r) TlsSecretLabel = [] \<and> label (krObj r) ReleaseLabel = []
          \<and> label (krObj r) AgentVersionLabel \<noteq> []
      else if krKind r = ''PersistentVolumeClaim'' then pvc_keep g (krObj r)
      else if krKind r \<in> {''Deployment'', ''StatefulSet'', ''Job'', ''CronJob'', ''DaemonSet''}
        then label (krObj r) WorkloadLabel = krKind r
      else krKind r = ''Certificate'')"

lemma list_keep_make:
  assumes "list_keep items keep (make_resource ver kd) = Inr rs" "r \<in> set rs"
  shows "keep (krObj r) \<and> krKind r = kd \<and> krName r = koName (krObj r)"
  using assms by (cases items) (auto simp: list_keep_def make_resource_def)

lemmas get_defs = service_GetResources_def ingress_GetResources_def release_GetResources_def
  configmap_GetResources_def secret_GetResources_def pvc_GetResources_def deployment_GetResources_def
  daemonset_GetResources_def job_GetResources_def cronjob_GetResources_def
  statefulset_GetResources_def

lemmas keep_defs = network_keep_def configmap_keep_def secret_keep_def workload_keep_def

definition keep_of :: "globals \<Rightarrow> string \<Rightarrow> string \<Rightarrow> k8s_obj \<Rightarrow> bool" where
  "keep_of g ns kd o1 \<longleftrightarrow> (if kd \<in> {''Service'', ''Ingress''} then network_keep o1
     else if kd = ''C7NHelmRelease'' then release_keep g ns o1
     else if kd = ''ConfigMap'' then configmap_keep o1
     else if kd = ''Secret'' then secret_keep o1
     else if kd = ''PersistentVolumeClaim'' then pvc_keep g o1
     else if kd \<in> {''Deployment'', ''StatefulSet'', ''Job'', ''CronJob'', ''DaemonSet''}
       then workload_keep kd o1
     else kd = ''Certificate'')"

lemma keep_of_simps:
  "keep_of g ns ''Service'' = network_keep" "keep_of g ns ''Ingress'' = network_keep"
  "keep_of g ns ''C7NHelmRelease'' = release_keep g ns"
  "keep_of g ns ''ConfigMap'' = configmap_keep" "keep_of g ns ''Secret'' = secret_keep"
  "keep_of g ns ''PersistentVolumeClaim'' = pvc_keep g"
  "keep_of g ns ''Deployment'' = workload_keep ''Deployment''"
  "keep_of g ns ''StatefulSet'' = workload_keep ''StatefulSet''"
  "keep_of g ns ''Job'' = workload_keep ''Job''" "keep_of g ns ''CronJob'' = workload_keep ''CronJob''"
  "keep_of g ns ''DaemonSet'' = workload_keep ''DaemonSet''" "keep_of g ns ''Certificate'' = (\<lambda>_. True)"
  by (simp_all add: keep_of_def fun_eq_iff)

lemma kind_listed_managed:
  assumes "r \<in> set (kind_listed g cl ns k)" "\<not> isAgent (krObj r) ns"
  shows "managed g ns r"
proof -
  obtain rs where rs: "GetResources g cl ns k = Ret (Inr rs)" "r \<in> set rs"
    using assms(1) by (cases "GetResources g cl ns k")
      (auto simp: kind_listed_def split: sum.splits)
  have "\<exists>kd. krKind r = kd \<and> krName r = koName (krObj r) \<and> keep_of g ns kd (krObj r)"
    using rs by (cases k) (auto simp: get_defs keep_of_simps certificate_GetResources_def Let_def
        split: sum.splits if_splits dest!: list_keep_make)
  then have k: "krName r = koName (krObj r)" "keep_of g ns (krKind r) (krObj r)" by auto
  show ?thesis unfolding managed_def
    by (intro conjI) (use k(1) assms(2) in \<open>simp add: isAgent_def\<close>, rule k(1),
      use k(2) in \<open>simp only: keep_of_def keep_defs de_Morgan_disj not_not\<close>)
qed

lemma exported_managed: "r \<in> set (exported g cl ns order) \<Longrightarrow> managed g ns r"
  by (auto simp: exported_def intro: kind_listed_managed)


definition no_objects :: cluster_client where
  "no_objects = \<lparr>ccV1alpha1Certificates = (\<lambda>_. Inr []), ccV1Certificates = (\<lambda>_. Inr []),
     ccServices = (\<lambda>_. Inr []), ccIngresses = (\<lambda>_. Inr []), ccReleases = (\<lambda>_. Inr []),
     ccConfigMaps = (\<lambda>_. Inr []), ccSecrets = (\<lambda>_. Inr []), ccPVCs = (\<lambda>_. Inr []),
     ccPVs = (\<lambda>_. Inr []), ccDeployments = (\<lambda>_. Inr []), ccStatefulSets = (\<lambda>_. Inr []),
     ccJobs = (\<lambda>_. Inr []), ccCronJobs = (\<lambda>_. Inr []), ccDaemonSets = (\<lambda>_. Inr []),
     ccHasMgr = (\<lambda>_. True)\<rparr>"

definition demo_obj :: "string \<Rightarrow> (string, string) gomap \<Rightarrow> k8s_obj" where
  "demo_obj name ls = \<lparr>koName = name, koNamespace = ''dev'', koLabels = ls, koAnnotations = [],
     koBody = []\<rparr>"

definition demo_cluster :: cluster_client where
  "demo_cluster = no_objects\<lparr>ccServices := (\<lambda>_. Inr [demo_obj ''web'' [(NetworkLabel, ''n'')],
     demo_obj ''own'' []])\<rparr>"

definition demo_globals :: globals where
  "demo_globals = \<lparr>glCertManagerVersion = ''1.1.1'', glClusterId = ''1'',
     glAgentNamespace = ''choerodon'', glAgentVersion = ''0.22'', glRestrictedModel = False\<rparr>"

definition demo_marshal :: "k8s_obj \<Rightarrow> string res" where
  "demo_marshal o1 = Inr (''name: '' @ koName o1 @ [CHR 0x0A])"

lemma has_label_demo [simp]:
  "has_label (demo_obj n ls) l \<longleftrightarrow> gm_has ls l"
  "koName (demo_obj n ls) = n"
  by (simp_all add: has_label_def demo_obj_def)

lemma exported_demo:
  "exported demo_globals demo_cluster ''dev'' [ServiceKind]
     = [make_resource ''v1'' ''Service'' (demo_obj ''web'' [(NetworkLabel, ''n'')])]"
  by (simp add: exported_def kind_listed_def get_defs list_keep_def demo_cluster_def keep_defs
      isAgent_def make_resource_def gm_has_iff label_defs)


section \<open>Scanning an export\<close>

definition export_tokens :: "string list \<Rightarrow> string list \<Rightarrow> bool" where
  "export_tokens docs bs \<longleftrightarrow> list_all2 (\<lambda>d b. \<exists>pre post. pre \<in> {[], ''---'' @ [CHR 0x0A]}
     \<and> post \<in> {[], [CHR 0x0A]} \<and> d = pre @ b @ post) docs bs"

lemma export_join:
  "bs \<noteq> [] \<Longrightarrow> concat (map (\<lambda>b. ''---'' @ [CHR 0x0A] @ b @ [CHR 0x0A]) bs)
     = ''---'' @ [CHR 0x0A] @ join bs doc_sep @ [CHR 0x0A]"
proof (induction bs)
  case (Cons b bs)
  then show ?case
    by (cases bs) (auto simp: join_Cons doc_sep_def yamlSeparator_def)
qed simp

lemma sep_not_in_prefixed:
  assumes "\<not> contains b yamlSeparator"
    and "\<not> has_prefix b ''---''"
  shows "\<not> contains (''---'' @ [CHR 0x0A] @ b) yamlSeparator"
  using assms by (simp add: has_prefix_def yamlSeparator_def)

lemma contains_snoc_newline:
  assumes "\<not> contains b yamlSeparator"
  shows "\<not> contains (b @ [CHR 0x0A]) yamlSeparator"
proof
  assume "contains (b @ [CHR 0x0A]) yamlSeparator"
  then obtain u v where uv: "b @ [CHR 0x0A] = u @ yamlSeparator @ v" by (auto simp: contains_iff)
  show False
  proof (cases v rule: rev_cases)
    case Nil
    then have "last (b @ [CHR 0x0A]) = last (u @ yamlSeparator)" using uv by simp
    then show False by (simp add: yamlSeparator_def)
  next
    case (snoc v' c)
    then have "b @ [CHR 0x0A] = (u @ yamlSeparator @ v') @ [c]" using uv by simp
    then have "b = u @ yamlSeparator @ v'" by simp
    then have "contains b yamlSeparator" by simp
    then show False using assms by simp
  qed
qed

text \<open>
  An export is scanned into one document per object: up to the separator in front of the first
  and the newline after the last, the documents are the bodies that were written.
\<close>

lemma yaml_docs_export_bodies:
  assumes "bs \<noteq> []"
    and "\<forall>b \<in> set bs. \<not> contains b yamlSeparator \<and> \<not> has_prefix b ''---'' \<and> length b + 10 \<le> mx"
  shows "\<exists>docs. yaml_docs mx (concat (map (\<lambda>b. ''---'' @ [CHR 0x0A] @ b @ [CHR 0x0A]) bs)) = (docs, False)
    \<and> export_tokens docs bs"
proof -
  obtain b cs where bs: "bs = b # cs" using assms(1) by (cases bs) auto
  let ?pre = "''---'' @ [CHR 0x0A]" and ?nl = "[CHR 0x0A]"
  have pre: "\<not> contains (?pre @ b) yamlSeparator"
    using assms(2) bs sep_not_in_prefixed by (metis append.assoc list.set_intros(1))
  define docs where "docs = (if cs = [] then [?pre @ b @ ?nl]
      else (?pre @ b) # butlast cs @ [last cs @ ?nl])"
  have "yaml_docs mx (join docs doc_sep) = (docs, False)"
  proof (rule yaml_docs_roundtrip_aux)
    show "docs \<noteq> []" "last docs \<noteq> []" by (simp_all add: docs_def)
    have *: "\<not> contains (last cs @ ?nl) yamlSeparator \<and> length (last cs) + 10 \<le> mx" if "cs \<noteq> []"
      using assms(2) bs last_in_set [OF that] contains_snoc_newline by auto
    have **: "\<forall>c \<in> set (butlast cs). \<not> contains c yamlSeparator \<and> length c + 5 \<le> mx"
    proof
      fix c assume "c \<in> set (butlast cs)"
      then have "c \<in> set bs" using bs by (simp add: in_set_butlastD)
      with assms(2) have "\<not> contains c yamlSeparator" "length c + 10 \<le> mx" by auto
      then show "\<not> contains c yamlSeparator \<and> length c + 5 \<le> mx" by simp
    qed
    have pn: "\<not> contains (?pre @ b @ ?nl) yamlSeparator"
      using contains_snoc_newline [OF pre] by simp
    show "\<forall>d \<in> set docs. \<not> contains d yamlSeparator \<and> length d + 5 \<le> mx"
    proof (cases "cs = []")
      case True
      then show ?thesis using pn assms(2) bs
        by (simp only: docs_def if_True list.set ball_simps) simp
    next
      case False
      have "length (last cs) + 10 \<le> mx" "\<not> contains (last cs @ ?nl) yamlSeparator"
        using * [OF False] by simp_all
      moreover have "length b + 10 \<le> mx" using assms(2) bs by simp
      ultimately show ?thesis using pre ** False
        by (simp only: docs_def if_False list.set set_append ball_simps ball_Un) simp
    qed
  qed
  moreover have "join docs doc_sep = ?pre @ join bs doc_sep @ ?nl"
  proof (cases "cs = []")
    case False
    have snoc: "join (xs @ [y @ ?nl]) doc_sep = join (xs @ [y]) doc_sep @ ?nl" for xs y
      by (induction xs) (auto simp: join_Cons)
    have "join (butlast cs @ [last cs @ ?nl]) doc_sep = join cs doc_sep @ ?nl"
      using False by (simp add: snoc)
    then show ?thesis using False bs by (simp add: docs_def join_Cons)
  qed (simp add: docs_def bs)
  moreover have "export_tokens docs bs"
  proof (cases "cs = []")
    case False
    have "list_all2 (\<lambda>d b. \<exists>pre post. pre \<in> {[], ?pre} \<and> post \<in> {[], ?nl} \<and> d = pre @ b @ post)
        (butlast cs @ [last cs @ ?nl]) (butlast cs @ [last cs])"
      by (rule list_all2_appendI) (auto simp: list_all2_same)
    then have "list_all2 (\<lambda>d b. \<exists>pre post. pre \<in> {[], ?pre} \<and> post \<in> {[], ?nl} \<and> d = pre @ b @ post)
        (butlast cs @ [last cs @ ?nl]) cs" using False by simp
    then show ?thesis using False bs by (auto simp: export_tokens_def docs_def)
  qed (auto simp: export_tokens_def docs_def bs)
  ultimately show ?thesis using export_join [OF assms(1)] by (metis append.assoc)
qed

section \<open>Change sets of single actions\<close>

definition parse_obj :: "obj_parser \<Rightarrow> resource \<Rightarrow> api_object option" where
  "parse_obj parse r = (case parse (boBytes (res_base r)) of
     Inr (kind, name, ns) \<Rightarrow> Some \<lparr>aoResource = r, aoKind = kind, aoName = name, aoNamespace = ns\<rparr>
   | Inl e \<Rightarrow> None)"

definition staged :: "obj_parser \<Rightarrow> resource list \<Rightarrow> api_object list" where
  "staged parse rs = List.map_filter (parse_obj parse) rs"

definition parse_errs :: "obj_parser \<Rightarrow> resource list \<Rightarrow> resource_error list" where
  "parse_errs parse rs = List.map_filter (\<lambda>r. case parse (boBytes (res_base r)) of
     Inl e \<Rightarrow> Some \<lparr>reResource = r, reError = e\<rparr> | Inr _ \<Rightarrow> None) rs"

lemma staged_simps [simp]:
  "staged parse [] = []"
  "staged parse (r # rs) = (case parse_obj parse r of None \<Rightarrow> staged parse rs | Some a \<Rightarrow> a # staged parse rs)"
  by (auto simp: staged_def split: option.split)

lemma parse_errs_simps [simp]:
  "parse_errs parse [] = []"
  "parse_errs parse (r # rs) = (case parse (boBytes (res_base r)) of
     Inl e \<Rightarrow> \<lparr>reResource = r, reError = e\<rparr> # parse_errs parse rs | Inr _ \<Rightarrow> parse_errs parse rs)"
  by (auto simp: parse_errs_def split: sum.split)

lemma staged_resource: "a \<in> set (staged parse rs) \<Longrightarrow> aoResource a \<in> set rs"
  by (induction rs) (auto simp: parse_obj_def split: option.splits sum.splits)

lemma staged_map:
  "\<forall>r \<in> set rs. \<exists>x. parse (boBytes (res_base r)) = Inr x \<Longrightarrow> map aoResource (staged parse rs) = rs"
  by (induction rs) (auto simp: parse_obj_def)

lemma parse_errs_iff: "parse_errs parse rs = [] \<longleftrightarrow> (\<forall>r \<in> set rs. \<exists>x. parse (boBytes (res_base r)) = Inr x)"
  by (induction rs) (auto split: sum.splits)

definition del_action :: "resource \<Rightarrow> sync_action" where
  "del_action r = \<lparr>saDelete = Some r, saApply = None\<rparr>"

definition app_action :: "resource \<Rightarrow> sync_action" where
  "app_action r = \<lparr>saDelete = None, saApply = Some r\<rparr>"

lemma cs_stage_simps [simp]:
  "DeleteObj (cs_stage ''delete'' o1 cs) = DeleteObj cs @ [o1]"
  "ApplyObj (cs_stage ''delete'' o1 cs) = ApplyObj cs"
  "DeleteObj (cs_stage ''apply'' o1 cs) = DeleteObj cs"
  "ApplyObj (cs_stage ''apply'' o1 cs) = ApplyObj cs @ [o1]"
  by (simp_all add: DeleteObj_def ApplyObj_def cs_stage_def)

lemma sync_deletes:
  "sync_actions parse (map del_action rs @ as) (cs, errs) =
   sync_actions parse as (fst (sync_actions parse (map del_action rs) (cs, errs)), errs @ parse_errs parse rs)
   \<and> DeleteObj (fst (sync_actions parse (map del_action rs) (cs, errs))) = DeleteObj cs @ staged parse rs
   \<and> ApplyObj (fst (sync_actions parse (map del_action rs) (cs, errs))) = ApplyObj cs"
proof (induction rs arbitrary: cs errs)
  case (Cons r rs)
  show ?case
  proof (cases "parse (boBytes (res_base r))")
    case (Inl e)
    then show ?thesis using Cons.IH [of cs "errs @ [\<lparr>reResource = r, reError = e\<rparr>]"]
      by (simp add: del_action_def parse_obj_def)
  next
    case (Inr x)
    obtain kind name ns where x: "x = (kind, name, ns)" by (cases x) auto
    show ?thesis using Inr x Cons.IH [of "cs_stage ''delete''
        \<lparr>aoResource = r, aoKind = kind, aoName = name, aoNamespace = ns\<rparr> cs" errs]
      by (simp add: del_action_def parse_obj_def)
  qed
qed simp

lemma sync_applies:
  "snd (sync_actions parse (map app_action rs) (cs, errs)) = errs @ parse_errs parse rs
   \<and> DeleteObj (fst (sync_actions parse (map app_action rs) (cs, errs))) = DeleteObj cs
   \<and> ApplyObj (fst (sync_actions parse (map app_action rs) (cs, errs))) = ApplyObj cs @ staged parse rs"
proof (induction rs arbitrary: cs errs)
  case (Cons r rs)
  show ?case
  proof (cases "parse (boBytes (res_base r))")
    case (Inl e)
    then show ?thesis using Cons.IH [of cs "errs @ [\<lparr>reResource = r, reError = e\<rparr>]"]
      by (simp add: app_action_def parse_obj_def)
  next
    case (Inr x)
    obtain kind name ns where x: "x = (kind, name, ns)" by (cases x) auto
    show ?thesis using Inr x Cons.IH [of "cs_stage ''apply''
        \<lparr>aoResource = r, aoKind = kind, aoName = name, aoNamespace = ns\<rparr> cs" errs]
      by (simp add: app_action_def parse_obj_def)
  qed
qed simp

lemma cluster_Sync_split:
  "\<exists>cs. cluster_Sync parse applier ns (map del_action ds @ map app_action as) w =
      (parse_errs parse ds @ parse_errs parse as @ fst (applier ns cs w), snd (applier ns cs w))
    \<and> DeleteObj cs = staged parse ds \<and> ApplyObj cs = staged parse as"
proof -
  let ?c1 = "fst (sync_actions parse (map del_action ds) (makeChangeSet, []))"
  let ?s = "sync_actions parse (map app_action as) (?c1, parse_errs parse ds)"
  have 0: "DeleteObj makeChangeSet = []" "ApplyObj makeChangeSet = []"
    by (simp_all add: DeleteObj_def ApplyObj_def makeChangeSet_def gm_get_def)
  have 1: "sync_actions parse (map del_action ds @ map app_action as) (makeChangeSet, []) = ?s"
    "DeleteObj ?c1 = staged parse ds" "ApplyObj ?c1 = []"
    using sync_deletes [of parse ds "map app_action as" makeChangeSet "[]"] 0 by simp_all
  have 2: "snd ?s = parse_errs parse ds @ parse_errs parse as"
    "DeleteObj (fst ?s) = staged parse ds" "ApplyObj (fst ?s) = staged parse as"
    using sync_applies [of parse as ?c1 "parse_errs parse ds"] 1 by simp_all
  show ?thesis using 1 2
    by (intro exI [of _ "fst ?s"]) (simp add: cluster_Sync_def Let_def)
qed

text \<open>
  C7: A list of deletions followed by a list of applications is staged without loss: the change
  set handed to the applier deletes the parsed objects of the former and applies those of the
  latter, in their order, and the resources whose bytes do not parse are exactly those
  reported ahead of the applier's own errors.
\<close>

theorem cluster_Sync_staging:
  "\<exists>cs. cluster_Sync parse applier ns (map del_action ds @ map app_action as) w =
      (parse_errs parse ds @ parse_errs parse as @ fst (applier ns cs w), snd (applier ns cs w))
    \<and> DeleteObj cs = staged parse ds \<and> ApplyObj cs = staged parse as"
  by (rule cluster_Sync_split)

end
