(* ===== verification/GoSort.thy ===== *)
theory GoSort
  imports Prelude
begin

text \<open>
  Go's \<^verbatim>\<open>sort.Sort\<close>.  It sorts with respect to a \<^verbatim>\<open>Less\<close> method that has to be a strict
  weak order and leaves the order of equivalent elements open; insertion sort is one of
  its possible results, and the facts stated here hold for all of them.
\<close>

fun insert_by :: "('a \<Rightarrow> 'a \<Rightarrow> bool) \<Rightarrow> 'a \<Rightarrow> 'a list \<Rightarrow> 'a list" where
  "insert_by lt x [] = [x]"
| "insert_by lt x (y # ys) = (if lt y x then y # insert_by lt x ys else x # y # ys)"

definition sort_by :: "('a \<Rightarrow> 'a \<Rightarrow> bool) \<Rightarrow> 'a list \<Rightarrow> 'a list" where
  "sort_by lt xs = foldr (insert_by lt) xs []"

lemma sort_by_simps [simp]:
  "sort_by lt [] = []"
  "sort_by lt (x # xs) = insert_by lt x (sort_by lt xs)"
  by (simp_all add: sort_by_def)

lemma mset_insert_by [simp]: "mset (insert_by lt x xs) = add_mset x (mset xs)"
  by (induction xs) auto

lemma mset_sort_by [simp]: "mset (sort_by lt xs) = mset xs"
  by (induction xs) auto

lemma set_sort_by [simp]: "set (sort_by lt xs) = set xs"
  by (metis mset_sort_by set_mset_mset)

lemma length_sort_by [simp]: "length (sort_by lt xs) = length xs"
  by (metis mset_sort_by size_mset)

lemma sort_by_Nil_iff [simp]: "sort_by lt xs = [] \<longleftrightarrow> xs = []"
  by (metis length_0_conv length_sort_by)

locale weak_order =
  fixes lt :: "'a \<Rightarrow> 'a \<Rightarrow> bool"
  assumes irrefl: "\<not> lt x x"
    and trans: "lt x y \<Longrightarrow> lt y z \<Longrightarrow> lt x z"
    and neg_trans: "\<not> lt x y \<Longrightarrow> \<not> lt y z \<Longrightarrow> \<not> lt x z"
begin

lemma asym: "lt x y \<Longrightarrow> \<not> lt y x"
  using trans irrefl by blast

lemma sorted_insert_by:
  "sorted_wrt (\<lambda>x y. \<not> lt y x) xs \<Longrightarrow> sorted_wrt (\<lambda>x y. \<not> lt y x) (insert_by lt x xs)"
proof (induction xs)
  case (Cons y ys)
  show ?case
  proof (cases "lt y x")
    case True
    have "set (insert_by lt x ys) = insert x (set ys)"
      by (metis mset_insert_by set_mset_add_mset_insert set_mset_mset)
    with True Cons asym show ?thesis by auto
  next
    case False
    then have "\<forall>z \<in> set ys. \<not> lt z x" using Cons.prems neg_trans by auto
    with False Cons.prems show ?thesis by simp
  qed
qed simp

lemma sorted_sort_by: "sorted_wrt (\<lambda>x y. \<not> lt y x) (sort_by lt xs)"
  by (induction xs) (auto intro: sorted_insert_by)

text \<open>An element never comes after one that it is less than.\<close>

lemma order_sort_by:
  assumes "sort_by lt xs = us @ a # vs @ b # ws"
  shows "\<not> lt b a"
proof -
  have "sorted_wrt (\<lambda>x y. \<not> lt y x) (us @ a # vs @ b # ws)"
    using sorted_sort_by [of xs] assms by simp
  then show ?thesis by (simp add: sorted_wrt_append)
qed

end

text \<open>Sorting in reverse order sorts with the converse relation, again a weak order.\<close>

sublocale weak_order \<subseteq> rev: weak_order "\<lambda>x y. lt y x"
  by unfold_locales (use irrefl trans neg_trans in blast)+

text \<open>\<^verbatim>\<open>sort.Strings\<close>: its result is determined, strings being linearly ordered.\<close>

interpretation str_order: weak_order "\<lambda>a b :: string. a < b"
  by unfold_locales auto

lemma sort_by_less: "sort_by (\<lambda>a b :: string. a < b) xs = sort xs"
proof (rule sym, rule properties_for_sort)
  show "mset (sort_by (<) xs) = mset xs" by simp
  show "sorted (sort_by (<) xs)"
    using str_order.sorted_sort_by [of xs] by (simp add: not_less sorted_wrt_iff_nth_less)
qed

end
