(* ===== verification/Kubectl.thy ===== *)
theory Kubectl
  imports Cluster GoSort
begin

text \<open>
  The kubectl front end (\<^verbatim>\<open>pkg/kubectl/kubectl.go\<close>): the order in which the objects of a
  change set are deleted and applied, the batch command and its fall-back to one command
  per object, and the other commands the agent runs.  The executable is a parameter: the
  outcome of a command may depend on everything that was run before it.
\<close>

section \<open>Commands\<close>

record kube_config =
  kfHost :: string
  kfUsername :: string
  kfPassword :: string
  kfCertFile :: string
  kfCAFile :: string
  kfKeyFile :: string
  kfBearerToken :: string

record kubectl_cfg =
  kcExe :: string
  kcConfig :: kube_config

text \<open>A command: the executable with its arguments, and its standard input.\<close>

type_synonym kcmd = "string list \<times> string"

record kc_out =
  koErr :: "gerror option"
  koStdout :: string
  koStderr :: string

type_synonym kc_run = "kcmd list \<Rightarrow> kcmd \<Rightarrow> kc_out"

definition flag :: "string \<Rightarrow> string \<Rightarrow> string list" where
  "flag name v = (if v \<noteq> [] then [name @ v] else [])"

definition connectArgs :: "kubectl_cfg \<Rightarrow> string list" where
  "connectArgs c = (let f = kcConfig c in
     flag ''--server='' (kfHost f) @ flag ''--username='' (kfUsername f)
     @ flag ''--password='' (kfPassword f) @ flag ''--client-certificate='' (kfCertFile f)
     @ flag ''--certificate-authority='' (kfCAFile f) @ flag ''--client-key='' (kfKeyFile f)
     @ flag ''--token='' (kfBearerToken f))"

definition kubectlCommand :: "kubectl_cfg \<Rightarrow> string list \<Rightarrow> string list" where
  "kubectlCommand c args = kcExe c # connectArgs c @ args"

definition kubectlCommandInShell :: "kubectl_cfg \<Rightarrow> string \<Rightarrow> string list" where
  "kubectlCommandInShell c command = [''sh'', ''-c'', kcExe c @ '' '' @ command]"

definition doCommand :: "kubectl_cfg \<Rightarrow> kc_run \<Rightarrow> string \<Rightarrow> string list \<Rightarrow> kcmd list
    \<Rightarrow> gerror option \<times> kcmd list" where
  "doCommand c run stdin args h =
     (let cmd = (kubectlCommand c (args @ [''-f'', ''-'']), stdin); r = run h cmd in
      (case koErr r of None \<Rightarrow> None
       | Some _ \<Rightarrow> Some (err_wrap (trim_space (koStderr r)) ''running kubectl''), h @ [cmd]))"

section \<open>Order of objects\<close>

definition rankOfKind :: "string \<Rightarrow> nat" where
  "rankOfKind kind =
     (if kind = ''Namespace'' then 0
      else if kind \<in> {''ServiceAccount'', ''ClusterRole'', ''Role'', ''PersistentVolume'', ''Service''} then 1
      else if kind \<in> {''ResourceQuota'', ''LimitRange'', ''Secret'', ''ConfigMap'', ''RoleBinding'',
        ''ClusterRoleBinding'', ''PersistentVolumeClaim'', ''Ingress''} then 2
      else if kind \<in> {''DaemonSet'', ''Deployment'', ''ReplicationController'', ''ReplicaSet'', ''Job'',
        ''CronJob'', ''StatefulSet''} then 3
      else 4)"

definition applyOrder_Less :: "api_object \<Rightarrow> api_object \<Rightarrow> bool" where
  "applyOrder_Less a b =
     (let ranki = rankOfKind (aoKind a); rankj = rankOfKind (aoKind b) in
      if ranki = rankj then aoName a < aoName b else ranki < rankj)"

interpretation apply_order: weak_order applyOrder_Less
  by unfold_locales (auto simp: applyOrder_Less_def Let_def split: if_splits)

section \<open>Applying a change set\<close>

fun makeMultidoc :: "api_object list \<Rightarrow> string" where
  "makeMultidoc [] = []"
| "makeMultidoc (o1 # os) = CHR 0x0A # ''---'' @ [CHR 0x0A] @ boBytes (res_base (aoResource o1))
     @ makeMultidoc os"

fun each_obj :: "kubectl_cfg \<Rightarrow> kc_run \<Rightarrow> string list \<Rightarrow> api_object list \<Rightarrow> kcmd list
    \<Rightarrow> resource_error list \<times> kcmd list" where
  "each_obj c run args [] h = ([], h)"
| "each_obj c run args (o1 # os) h =
     (let r = doCommand c run (boBytes (res_base (aoResource o1))) args h;
          s = each_obj c run args os (snd r)
      in (case fst r of
            Some e \<Rightarrow> \<lparr>reResource = aoResource o1, reError = e\<rparr> # fst s
          | None \<Rightarrow> fst s, snd s))"

definition apply_group :: "kubectl_cfg \<Rightarrow> kc_run \<Rightarrow> string \<Rightarrow> api_object list \<Rightarrow> string \<Rightarrow> kcmd list
    \<Rightarrow> resource_error list \<times> kcmd list" where
  "apply_group c run ns objs cmd h =
     (if objs = [] then ([], h) else
      (let args = [cmd, ''-n'', ns, ''--wait=false''];
           r = doCommand c run (makeMultidoc objs) args h
       in case fst r of None \<Rightarrow> ([], snd r) | Some e \<Rightarrow> each_obj c run args objs (snd r)))"

definition kubectl_apply :: "kubectl_cfg \<Rightarrow> kc_run \<Rightarrow> string \<Rightarrow> change_set \<Rightarrow> kcmd list
    \<Rightarrow> resource_error list \<times> kcmd list" where
  "kubectl_apply c run ns cs h =
     (let d = apply_group c run ns (sort_by (\<lambda>a b. applyOrder_Less b a) (DeleteObj cs)) ''delete'' h;
          a = apply_group c run ns (sort_by applyOrder_Less (ApplyObj cs)) ''apply'' (snd d)
      in (fst d @ fst a, snd a))"

definition ApplySingleObj :: "kubectl_cfg \<Rightarrow> kc_run \<Rightarrow> string \<Rightarrow> kcmd list \<Rightarrow> gerror option \<times> kcmd list"
where
  "ApplySingleObj c run resourceFile h = doCommand c run resourceFile [''apply''] h"

definition run_plain :: "kc_run \<Rightarrow> string list \<Rightarrow> kcmd list \<Rightarrow> kc_out \<times> kcmd list" where
  "run_plain run argv h = (run h (argv, []), h @ [(argv, [])])"

definition DeletePrometheusCrd :: "kubectl_cfg \<Rightarrow> kc_run \<Rightarrow> kcmd list \<Rightarrow> gerror option \<times> kcmd list"
where
  "DeletePrometheusCrd c run h =
     (let r = run_plain run (kubectlCommand c [''delete'', ''crd'',
            ''prometheuses.monitoring.coreos.com'', ''prometheusrules.monitoring.coreos.com'',
            ''servicemonitors.monitoring.coreos.com'', ''podmonitors.monitoring.coreos.com'',
            ''alertmanagers.monitoring.coreos.com'']) h
      in (case koErr (fst r) of None \<Rightarrow> None
          | Some _ \<Rightarrow> Some (err_wrap (trim_space (koStderr (fst r))) ''running kubectl''), snd r))"

definition kubectl_describe :: "kubectl_cfg \<Rightarrow> kc_run \<Rightarrow> string \<Rightarrow> string \<Rightarrow> string \<Rightarrow> kcmd list
    \<Rightarrow> string \<times> kcmd list" where
  "kubectl_describe c run ns sourceKind sourceName h =
     (let r = run_plain run (kubectlCommand c ([''describe'', sourceKind, sourceName]
                @ (if ns \<noteq> [] then [''-n'', ns] else []))) h
      in (case koErr (fst r) of Some _ \<Rightarrow> trim_space (koStderr (fst r))
          | None \<Rightarrow> trim_space (koStdout (fst r)), snd r))"

definition kubectl_scaler :: "kubectl_cfg \<Rightarrow> kc_run \<Rightarrow> string \<Rightarrow> string \<Rightarrow> string \<Rightarrow> string \<Rightarrow> kcmd list
    \<Rightarrow> gerror option \<times> kcmd list" where
  "kubectl_scaler c run ns sourceKind sourceName replicas h =
     (let r = run_plain run (kubectlCommand c ([''scale'', ''--replicas'', replicas, sourceKind, sourceName]
                @ (if ns \<noteq> [] then [''-n'', ns] else []))) h
      in (koErr (fst r), snd r))"

definition kubectl_do :: "kubectl_cfg \<Rightarrow> kc_run \<Rightarrow> string \<Rightarrow> kcmd list \<Rightarrow> string res \<times> kcmd list" where
  "kubectl_do c run command h =
     (let r = run_plain run (kubectlCommandInShell c command) h
      in (case koErr (fst r) of Some e \<Rightarrow> Inl e | None \<Rightarrow> Inr (koStdout (fst r)), snd r))"

section \<open>Which commands are run, which errors reported\<close>

text \<open>The command of one object, and the closed form of the fall-back loop.\<close>

definition obj_cmd :: "kubectl_cfg \<Rightarrow> string list \<Rightarrow> string \<Rightarrow> kcmd" where
  "obj_cmd c args stdin = (kubectlCommand c (args @ [''-f'', ''-'']), stdin)"

definition group_args :: "string \<Rightarrow> string \<Rightarrow> string list" where
  "group_args ns cmd = [cmd, ''-n'', ns, ''--wait=false'']"

abbreviation bytes_of :: "api_object \<Rightarrow> string" where
  "bytes_of o1 \<equiv> boBytes (res_base (aoResource o1))"

definition fails :: "kc_run \<Rightarrow> kcmd list \<Rightarrow> kcmd \<Rightarrow> bool" where
  "fails run h cmd \<longleftrightarrow> koErr (run h cmd) \<noteq> None"

lemma doCommand_log [simp]: "snd (doCommand c run stdin args h) = h @ [obj_cmd c args stdin]"
  by (simp add: doCommand_def Let_def obj_cmd_def)

lemma doCommand_err: "fst (doCommand c run stdin args h) \<noteq> None \<longleftrightarrow> fails run h (obj_cmd c args stdin)"
  by (simp add: doCommand_def Let_def obj_cmd_def fails_def split: option.split)

lemma each_obj_log: "snd (each_obj c run args os h) = h @ map (\<lambda>o1. obj_cmd c args (bytes_of o1)) os"
  by (induction os arbitrary: h) (auto simp: Let_def)

lemma each_obj_errs:
  "map reResource (fst (each_obj c run args os h)) =
     map (\<lambda>i. aoResource (os ! i)) (filter (\<lambda>i. fails run
        (h @ map (\<lambda>o1. obj_cmd c args (bytes_of o1)) (take i os)) (obj_cmd c args (bytes_of (os ! i))))
       [0..<length os])"
proof (induction os arbitrary: h)
  case (Cons o1 os)
  have "[0..<length (o1 # os)] = 0 # map Suc [0..<length os]"
    by (simp add: map_Suc_upt upt_conv_Cons del: upt_Suc)
  then show ?case
    using doCommand_err [of c run "bytes_of o1" args h]
    by (auto simp: Let_def Cons filter_map o_def comp_def split: option.splits)
qed simp

definition group_log :: "kubectl_cfg \<Rightarrow> kc_run \<Rightarrow> string \<Rightarrow> string \<Rightarrow> api_object list \<Rightarrow> kcmd list \<Rightarrow> kcmd list"
where "group_log c run ns cmd objs h =
   (if objs = [] then [] else
    (let args = group_args ns cmd; batch = obj_cmd c args (makeMultidoc objs) in
     if fails run h batch then batch # map (\<lambda>o1. obj_cmd c args (bytes_of o1)) objs else [batch]))"

lemma apply_group_log:
  "snd (apply_group c run ns objs cmd h) = h @ group_log c run ns cmd objs h"
  using doCommand_err [of c run "makeMultidoc objs" "group_args ns cmd" h]
  by (auto simp: apply_group_def group_log_def group_args_def Let_def each_obj_log split: option.split)

lemma apply_group_errs:
  "map reResource (fst (apply_group c run ns objs cmd h)) =
    (let args = group_args ns cmd; batch = obj_cmd c args (makeMultidoc objs) in
     if objs \<noteq> [] \<and> fails run h batch then
       map (\<lambda>i. aoResource (objs ! i)) (filter (\<lambda>i. fails run
         (h @ batch # map (\<lambda>o1. obj_cmd c args (bytes_of o1)) (take i objs))
         (obj_cmd c args (bytes_of (objs ! i)))) [0..<length objs])
     else [])"
  using doCommand_err [of c run "makeMultidoc objs" "group_args ns cmd" h]
  by (auto simp: apply_group_def group_args_def Let_def each_obj_errs split: option.split)

definition delete_order :: "change_set \<Rightarrow> api_object list" where
  "delete_order cs = sort_by (\<lambda>a b. applyOrder_Less b a) (DeleteObj cs)"

definition apply_order_of :: "change_set \<Rightarrow> api_object list" where
  "apply_order_of cs = sort_by applyOrder_Less (ApplyObj cs)"

lemma not_less_rank: "\<not> applyOrder_Less b a \<Longrightarrow> rankOfKind (aoKind a) \<le> rankOfKind (aoKind b)"
  by (auto simp: applyOrder_Less_def Let_def split: if_splits)

lemma sorted_apply_rank:
  "sorted_wrt (\<lambda>a b. rankOfKind (aoKind a) \<le> rankOfKind (aoKind b)) (sort_by applyOrder_Less os)"
  using apply_order.sorted_sort_by by (rule sorted_wrt_mono_rel [rotated]) (rule not_less_rank)

lemma sorted_delete_rank:
  "sorted_wrt (\<lambda>a b. rankOfKind (aoKind b) \<le> rankOfKind (aoKind a))
     (sort_by (\<lambda>a b. applyOrder_Less b a) os)"
  using apply_order.rev.sorted_sort_by by (rule sorted_wrt_mono_rel [rotated]) (rule not_less_rank)

text \<open>
  C3: Applying a change set runs the deletions before the applications, each group once as one
  batch of all of its objects; applications go from kinds that nothing else depends on
  to the dependent ones (a namespace first, workloads after their configuration), deletions
  the other way round; only when a batch fails are its objects also sent one by one.
\<close>

theorem kubectl_apply_commands:
  "let ds = delete_order cs; as = apply_order_of cs;
       h1 = h @ group_log c run ns ''delete'' ds h
   in snd (kubectl_apply c run ns cs h) = h1 @ group_log c run ns ''apply'' as h1
    \<and> mset ds = mset (DeleteObj cs) \<and> mset as = mset (ApplyObj cs)
    \<and> sorted_wrt (\<lambda>a b. rankOfKind (aoKind b) \<le> rankOfKind (aoKind a)) ds
    \<and> sorted_wrt (\<lambda>a b. rankOfKind (aoKind a) \<le> rankOfKind (aoKind b)) as"
  by (simp add: Let_def kubectl_apply_def apply_group_log delete_order_def apply_order_of_def
      sorted_apply_rank sorted_delete_rank)

text \<open>When the object at position i of a group is reported.\<close>

definition reported :: "kubectl_cfg \<Rightarrow> kc_run \<Rightarrow> string \<Rightarrow> string \<Rightarrow> api_object list \<Rightarrow> kcmd list
    \<Rightarrow> resource \<Rightarrow> bool" where
  "reported c run ns cmd objs h r \<longleftrightarrow>
     (let args = group_args ns cmd; batch = obj_cmd c args (makeMultidoc objs) in
      objs \<noteq> [] \<and> fails run h batch \<and> (\<exists>i < length objs. r = aoResource (objs ! i) \<and> fails run
         (h @ batch # map (\<lambda>o1. obj_cmd c args (bytes_of o1)) (take i objs))
         (obj_cmd c args (bytes_of (objs ! i)))))"

text \<open>
  A resource is in the errors of an application exactly when the batch of its group failed and
  the command for the object alone, run after the batch and the objects before it, failed too.
  So a batch that succeeds reports nothing, and one bad object does not make the others
  fail.
\<close>

theorem kubectl_apply_errors:
  "let ds = delete_order cs; as = apply_order_of cs;
       h1 = h @ group_log c run ns ''delete'' ds h
   in r \<in> reResource ` set (fst (kubectl_apply c run ns cs h)) \<longleftrightarrow>
        reported c run ns ''delete'' ds h r \<or> reported c run ns ''apply'' as h1 r"
proof -
  have 1: "r \<in> reResource ` set (fst (apply_group c run ns objs cmd h0)) \<longleftrightarrow> reported c run ns cmd objs h0 r"
    for objs cmd h0
    using arg_cong [OF apply_group_errs [of c run ns objs cmd h0], of set]
    by (auto simp: reported_def Let_def)
  show ?thesis
    by (simp add: Let_def kubectl_apply_def apply_group_log delete_order_def apply_order_of_def
        image_Un 1)
qed

lemma makeMultidoc_join: "makeMultidoc os = join ([] # map bytes_of os) doc_sep"
proof (induction os)
  case (Cons o1 os)
  then show ?case
    by (cases os) (auto simp: doc_sep_def yamlSeparator_def join_Cons)
qed simp

text \<open>
  The batch that is written for kubectl is read back, by the same rules by which the agent
  reads manifests, as one empty document and then exactly the bytes of every object in order,
  as long as no object contains a document separator of its own.
\<close>

theorem makeMultidoc_roundtrip:
  assumes "os \<noteq> []" "bytes_of (last os) \<noteq> []" "5 \<le> mx"
    and "\<forall>o1 \<in> set os. \<not> contains (bytes_of o1) yamlSeparator \<and> length (bytes_of o1) + 5 \<le> mx"
  shows "yaml_docs mx (makeMultidoc os) = ([] # map bytes_of os, False)"
  unfolding makeMultidoc_join
proof (rule yaml_docs_roundtrip_aux)
  show "last ([] # map bytes_of os) \<noteq> []" using assms(1,2) by (simp add: last_map)
qed (use assms in \<open>auto simp: yamlSeparator_def\<close>)

definition demo_ao :: api_object where
  "demo_ao = \<lparr>aoResource = BaseObj \<lparr>boSource = ''a'', boBytes = ''kind: A'', boKind = ''A'',
     boNamespace = [], boName = ''x'', boAnnotations = [], boOriginalKey = []\<rparr>,
     aoKind = ''A'', aoName = ''x'', aoNamespace = []\<rparr>"

lemma makeMultidoc_roundtrip_witness:
  "yaml_docs 100 (makeMultidoc [demo_ao]) = ([[], ''kind: A''], False)"
  using makeMultidoc_roundtrip [of "[demo_ao]" 100]
  by (simp add: demo_ao_def yamlSeparator_def has_prefix_def)

end
