(* ===== verification/GitCmd.thy ===== *)
theory GitCmd
  imports ResourceId
begin

text \<open>
  The git commands of the agent (\<^verbatim>\<open>pkg/git/operations.go\<close>).  The git executable, the
  temporary directories and the JSON codec of notes are parameters; the state \<^verbatim>\<open>'w\<close> is
  whatever they change (file system, upstream repositories).  The stack dumps that the
  error branches write to the log are left out.
\<close>

section \<open>The environment\<close>

datatype ctx_err = DeadlineExceeded | Canceled

text \<open>What one run of the executable leaves: exit error, both outputs, the context's error.\<close>

record git_proc =
  gpErr :: "gerror option"
  gpStdout :: string
  gpStderr :: string
  gpCtx :: "ctx_err option"

record 'w git_sys =
  gsRun :: "string \<Rightarrow> string list \<Rightarrow> 'w \<Rightarrow> git_proc \<times> 'w"
  gsTempDir :: "string \<Rightarrow> 'w \<Rightarrow> string res \<times> 'w"
  gsRemoveAll :: "string \<Rightarrow> 'w \<Rightarrow> 'w"

type_synonym 'w git_out = "(gerror option \<times> string) \<times> 'w"

section \<open>Running a command\<close>

text \<open>\<^verbatim>\<open>bufio.ScanLines\<close>: a carriage return before the newline is dropped; a line that does
  not fit the scanner's buffer of 64 KiB ends the scan.\<close>

definition drop_cr :: "string \<Rightarrow> string" where
  "drop_cr l = (if l \<noteq> [] \<and> last l = CHR 0x0D then butlast l else l)"

definition raw_lines :: "string \<Rightarrow> string list" where
  "raw_lines data =
     (let ws = split_char data CHR 0x0A in if last ws = [] then butlast ws else ws)"

definition scan_lines :: "string \<Rightarrow> string list" where
  "scan_lines data = map drop_cr (takeWhile (\<lambda>l. length l < 65536) (raw_lines data))"

fun find_error_line :: "string list \<Rightarrow> string" where
  "find_error_line [] = []"
| "find_error_line (l # ls) =
     (if has_prefix l ''fatal: '' then l
      else if has_prefix l ''ERROR fatal: '' then l
      else if has_prefix l ''error:'' then trim_cutset l ''error: ''
      else find_error_line ls)"

definition findErrorMessage :: "string \<Rightarrow> string" where
  "findErrorMessage output = find_error_line (scan_lines output)"

definition fmt_slice :: "string list \<Rightarrow> string" where
  "fmt_slice xs = ''['' @ join xs '' '' @ '']''"

definition execGitCmd :: "'w git_sys \<Rightarrow> string \<Rightarrow> string list \<Rightarrow> 'w \<Rightarrow> 'w git_out" where
  "execGitCmd sys dir args w =
     (let r = gsRun sys dir args w; p = fst r;
          err = (case gpErr p of None \<Rightarrow> None
                 | Some e \<Rightarrow> (let msg = findErrorMessage (gpStderr p) in
                     if msg \<noteq> [] then Some msg else Some e));
          err' = (case gpCtx p of
              Some DeadlineExceeded \<Rightarrow> Some (err_wrap ''context deadline exceeded''
                (''running git command: git '' @ fmt_slice args))
            | Some Canceled \<Rightarrow> Some (err_wrap ''context canceled''
                (''context was unexpectedly cancelled when running git command: git ''
                  @ fmt_slice args))
            | None \<Rightarrow> err)
      in ((err', gpStdout p), snd r))"

text \<open>Most operations run one command and wrap its error.\<close>

definition run_wrap :: "'w git_sys \<Rightarrow> string \<Rightarrow> string list \<Rightarrow> (gerror \<Rightarrow> gerror) \<Rightarrow> 'w
    \<Rightarrow> gerror option \<times> 'w" where
  "run_wrap sys dir args f w =
     (let r = execGitCmd sys dir args w in (map_option f (fst (fst r)), snd r))"

definition run_out :: "'w git_sys \<Rightarrow> string \<Rightarrow> string list \<Rightarrow> (string \<Rightarrow> 'a) \<Rightarrow> 'w \<Rightarrow> 'a res \<times> 'w"
where
  "run_out sys dir args f w =
     (let r = execGitCmd sys dir args w in
      (case fst (fst r) of Some e \<Rightarrow> Inl e | None \<Rightarrow> Inr (f (snd (fst r))), snd r))"

section \<open>Operations\<close>

text \<open>The map literal of \<^verbatim>\<open>config\<close> is iterated over in either order.\<close>

definition config_kvs :: "bool \<Rightarrow> string \<Rightarrow> string \<Rightarrow> (string \<times> string) list" where
  "config_kvs swap user email =
     (let kvs = [(''user.name'', user), (''user.email'', email)] in
      if swap then rev kvs else kvs)"

fun config_loop :: "'w git_sys \<Rightarrow> string \<Rightarrow> (string \<times> string) list \<Rightarrow> 'w \<Rightarrow> gerror option \<times> 'w" where
  "config_loop sys dir [] w = (None, w)"
| "config_loop sys dir ((k, v) # kvs) w =
     (let r = run_wrap sys dir [''config'', k, v] (\<lambda>e. err_wrap e ''setting git config'') w in
      case fst r of Some e \<Rightarrow> (Some e, snd r) | None \<Rightarrow> config_loop sys dir kvs (snd r))"

definition git_config :: "'w git_sys \<Rightarrow> bool \<Rightarrow> string \<Rightarrow> string \<Rightarrow> string \<Rightarrow> 'w \<Rightarrow> gerror option \<times> 'w"
where "git_config sys swap dir user email w = config_loop sys dir (config_kvs swap user email) w"

definition git_clone :: "'w git_sys \<Rightarrow> string \<Rightarrow> string \<Rightarrow> string \<Rightarrow> 'w \<Rightarrow> string res \<times> 'w" where
  "git_clone sys workingDir repoURL repoBranch w =
     (let args = [''clone''] @ (if repoBranch \<noteq> [] then [''--branch'', repoBranch] else [])
                 @ [repoURL, workingDir];
          r = run_wrap sys workingDir args (\<lambda>e. err_wrap e ''git clone'') w
      in (case fst r of Some e \<Rightarrow> Inl e | None \<Rightarrow> Inr workingDir, snd r))"

definition git_mirror :: "'w git_sys \<Rightarrow> string \<Rightarrow> string \<Rightarrow> 'w \<Rightarrow> string res \<times> 'w" where
  "git_mirror sys workingDir repoURL w =
     (let r = run_wrap sys workingDir [''clone'', ''--mirror'', repoURL, workingDir]
                (\<lambda>e. err_wrap e ''git clone --mirror'') w
      in (case fst r of Some e \<Rightarrow> Inl e | None \<Rightarrow> Inr workingDir, snd r))"

definition CheckPushTag :: string where "CheckPushTag = ''choerodon-write-check''"

definition git_checkPush :: "'w git_sys \<Rightarrow> string \<Rightarrow> string \<Rightarrow> 'w \<Rightarrow> gerror option \<times> 'w" where
  "git_checkPush sys dir upstream w =
     (let r1 = run_wrap sys dir [''tag'', ''--force'', CheckPushTag]
                 (\<lambda>e. err_wrap e ''tag for write check'') w in
      case fst r1 of Some e \<Rightarrow> (Some e, snd r1) | None \<Rightarrow>
      (let r2 = run_wrap sys dir [''push'', ''--force'', upstream, ''tag'', CheckPushTag]
                  (\<lambda>e. err_wrap e ''attempt to push tag'') (snd r1) in
       case fst r2 of Some e \<Rightarrow> (Some e, snd r2) | None \<Rightarrow>
       run_wrap sys dir [''push'', ''--delete'', upstream, ''tag'', CheckPushTag] id (snd r2)))"

record commit_action =
  caAuthor :: string
  caMessage :: string

definition git_commit :: "'w git_sys \<Rightarrow> string \<Rightarrow> commit_action \<Rightarrow> 'w \<Rightarrow> gerror option \<times> 'w" where
  "git_commit sys dir ca w =
     (if caAuthor ca \<noteq> [] then
        run_wrap sys dir [''commit'', ''--no-verify'', ''-a'', ''--author'', caAuthor ca, ''-m'', caMessage ca]
          (\<lambda>e. err_wrap e ''git commit'') w
      else
        run_wrap sys dir [''commit'', ''--no-verify'', ''-a'', ''-m'', caMessage ca]
          (\<lambda>e. err_wrap e ''git commit'') w)"

definition git_push :: "'w git_sys \<Rightarrow> string \<Rightarrow> string \<Rightarrow> string list \<Rightarrow> 'w \<Rightarrow> gerror option \<times> 'w" where
  "git_push sys dir upstream refs w =
     run_wrap sys dir ([''push'', upstream] @ refs)
       (\<lambda>e. err_wrap e (''git push '' @ upstream @ '' '' @ fmt_slice refs)) w"

definition git_fetch :: "'w git_sys \<Rightarrow> string \<Rightarrow> string \<Rightarrow> string list \<Rightarrow> 'w \<Rightarrow> gerror option \<times> 'w" where
  "git_fetch sys dir upstream refspec w =
     (let r = execGitCmd sys dir ([''fetch'', ''--tags'', upstream] @ refspec) w in
      case fst (fst r) of
        None \<Rightarrow> (None, snd r)
      | Some e \<Rightarrow> (if contains e (''Couldn'' @ [CHR 0x27] @ ''t find remote ref'') then None
          else Some (err_wrap e (''git fetch --tags '' @ upstream @ '' '' @ fmt_slice refspec)), snd r))"

definition git_refExists :: "'w git_sys \<Rightarrow> string \<Rightarrow> string \<Rightarrow> 'w \<Rightarrow> (bool \<times> gerror option) \<times> 'w" where
  "git_refExists sys dir ref w =
     (let r = execGitCmd sys dir [''rev-list'', ref] w in
      (case fst (fst r) of
         Some e \<Rightarrow> if contains e ''unknown revision'' then (False, None) else (False, Some e)
       | None \<Rightarrow> (True, None), snd r))"

definition git_getNotesRef :: "'w git_sys \<Rightarrow> string \<Rightarrow> string \<Rightarrow> 'w \<Rightarrow> string res \<times> 'w" where
  "git_getNotesRef sys dir ref w = run_out sys dir [''notes'', ''--ref'', ref, ''get-ref''] trim_space w"

definition git_addNote :: "'w git_sys \<Rightarrow> ('n \<Rightarrow> string res) \<Rightarrow> string \<Rightarrow> string \<Rightarrow> string \<Rightarrow> 'n \<Rightarrow> 'w
    \<Rightarrow> gerror option \<times> 'w" where
  "git_addNote sys marshal dir rv notesRef note w = (case marshal note of
     Inl e \<Rightarrow> (Some e, w)
   | Inr b \<Rightarrow> run_wrap sys dir [''notes'', ''--ref'', notesRef, ''add'', ''-m'', b, rv] id w)"

text \<open>The pair \<^verbatim>\<open>(ok, err)\<close> and the note that was filled in, if any.\<close>

definition git_getNote :: "'w git_sys \<Rightarrow> (string \<Rightarrow> 'n res) \<Rightarrow> string \<Rightarrow> string \<Rightarrow> string \<Rightarrow> 'w
    \<Rightarrow> 'n option res \<times> 'w" where
  "git_getNote sys decode dir notesRef rv w =
     (let r = execGitCmd sys dir [''notes'', ''--ref'', notesRef, ''show'', rv] w in
      (case fst (fst r) of
         Some e \<Rightarrow> if contains (to_lower e) ''no note found for object'' then Inr None else Inl e
       | None \<Rightarrow> (case decode (snd (fst r)) of Inl e \<Rightarrow> Inl e | Inr n \<Rightarrow> Inr (Some n)), snd r))"

definition splitList :: "string \<Rightarrow> string list" where
  "splitList s = (let outStr = trim_space s in
     if outStr = [] then [] else split_char outStr CHR 0x0A)"

text \<open>The guard looks at the number of fields, the statement at the second one.\<close>

fun note_revs :: "string list \<Rightarrow> (string, unit) gomap \<Rightarrow> (string, unit) gomap go" where
  "note_revs [] m = Ret m"
| "note_revs (l # ls) m = (let fs = strings_Fields l in
     if 0 < length fs then go_bind (go_index fs 1) (\<lambda>f. note_revs ls (AList.update f () m))
     else note_revs ls m)"

definition git_noteRevList :: "'w git_sys \<Rightarrow> string \<Rightarrow> string \<Rightarrow> 'w \<Rightarrow> (string, unit) gomap go res \<times> 'w"
where
  "git_noteRevList sys dir notesRef w =
     run_out sys dir [''notes'', ''--ref'', notesRef, ''list'']
       (\<lambda>out. note_revs (splitList out) []) w"

definition git_refRevision :: "'w git_sys \<Rightarrow> string \<Rightarrow> string \<Rightarrow> 'w \<Rightarrow> string res \<times> 'w" where
  "git_refRevision sys path ref w = run_out sys path [''rev-list'', ''--max-count'', ''1'', ref] trim_space w"

definition git_revlist :: "'w git_sys \<Rightarrow> string \<Rightarrow> string \<Rightarrow> 'w \<Rightarrow> string list res \<times> 'w" where
  "git_revlist sys path ref w = run_out sys path [''rev-list'', ref] splitList w"

record git_commit_info =
  gcRevision :: string
  gcMessage :: string

fun splitLog_lines :: "string list \<Rightarrow> git_commit_info list go" where
  "splitLog_lines [] = Ret []"
| "splitLog_lines (m # ms) =
     (let revAndMessage = split2_char m CHR '' '' in
      go_bind (go_index revAndMessage 0) (\<lambda>rv.
      go_bind (go_index revAndMessage 1) (\<lambda>msg.
      go_map (\<lambda>cs. \<lparr>gcRevision = rv, gcMessage = msg\<rparr> # cs) (splitLog_lines ms))))"

definition splitLog :: "string \<Rightarrow> git_commit_info list go" where
  "splitLog s = splitLog_lines (splitList s)"

definition git_onelinelog :: "'w git_sys \<Rightarrow> string \<Rightarrow> string \<Rightarrow> string \<Rightarrow> 'w
    \<Rightarrow> git_commit_info list go res \<times> 'w" where
  "git_onelinelog sys path refspec subdir w =
     (if subdir \<noteq> [] then
        run_out sys path [''log'', ''--oneline'', ''--no-abbrev-commit'', refspec, ''--'', subdir] splitLog w
      else
        run_out sys path [''log'', ''--oneline'', ''--no-abbrev-commit'', refspec] splitLog w)"

definition git_moveTagAndPush :: "'w git_sys \<Rightarrow> string \<Rightarrow> string \<Rightarrow> string \<Rightarrow> string \<Rightarrow> string \<Rightarrow> 'w
    \<Rightarrow> gerror option \<times> 'w" where
  "git_moveTagAndPush sys path tag ref msg upstream w =
     (let r1 = run_wrap sys path [''tag'', ''--force'', ''-a'', ''-m'', msg, tag, ref]
                 (\<lambda>e. err_wrap e (''moving tag '' @ tag)) w in
      case fst r1 of Some e \<Rightarrow> (Some e, snd r1) | None \<Rightarrow>
      run_wrap sys path [''push'', ''--force'', upstream, ''tag'', tag]
        (\<lambda>e. err_wrap e ''pushing tag to origin'') (snd r1))"

definition git_changedFiles :: "'w git_sys \<Rightarrow> string \<Rightarrow> string \<Rightarrow> string \<Rightarrow> 'w \<Rightarrow> string list res \<times> 'w" where
  "git_changedFiles sys path subPath ref w =
     (if subPath \<noteq> [] \<and> hd subPath = CHR ''/''
      then (Inl ''git subdirectory should not have leading forward slash'', w)
      else run_out sys path
        [''diff'', ''--name-only'', ''--diff-filter=ACMRT'', ref, ''--'', subPath] splitList w)"

definition git_fileLastCommit :: "'w git_sys \<Rightarrow> string \<Rightarrow> string \<Rightarrow> string \<Rightarrow> 'w \<Rightarrow> string res \<times> 'w" where
  "git_fileLastCommit sys path subPath file w =
     run_out sys path [''log'', ''-n'', ''1'', ''--pretty=format:%H'', ''--'', file] id w"

fun listToString :: "string list \<Rightarrow> string" where
  "listToString [] = []"
| "listToString (f # fs) = f @ '' '' @ listToString fs"

definition git_check :: "'w git_sys \<Rightarrow> string \<Rightarrow> string \<Rightarrow> 'w \<Rightarrow> bool \<times> 'w" where
  "git_check sys workingDir subdir w =
     (let r = execGitCmd sys workingDir [''diff'', ''--quiet'', ''--'', subdir] w in
      (fst (fst r) \<noteq> None, snd r))"

section \<open>What the operations guarantee\<close>

text \<open>A sequence of commands in one directory, stopping at the first that fails.\<close>

fun run_all :: "'w git_sys \<Rightarrow> string \<Rightarrow> string list list \<Rightarrow> 'w \<Rightarrow> bool \<times> 'w" where
  "run_all sys dir [] w = (True, w)"
| "run_all sys dir (a # as) w = (let r = execGitCmd sys dir a w in
     if fst (fst r) = None then run_all sys dir as (snd r) else (False, snd r))"

lemma run_wrap_None [simp]:
  "fst (run_wrap sys dir args f w) = None \<longleftrightarrow> fst (fst (execGitCmd sys dir args w)) = None"
  by (simp add: run_wrap_def Let_def)

lemma run_wrap_world [simp]: "snd (run_wrap sys dir args f w) = snd (execGitCmd sys dir args w)"
  by (simp add: run_wrap_def Let_def)

definition push_check_cmds :: "string \<Rightarrow> string list list" where
  "push_check_cmds upstream = [[''tag'', ''--force'', CheckPushTag],
     [''push'', ''--force'', upstream, ''tag'', CheckPushTag],
     [''push'', ''--delete'', upstream, ''tag'', CheckPushTag]]"

text \<open>
  The write check succeeds exactly when the tag could be set in the clone, pushed to the
  upstream repository and deleted there again, these three commands being run in this
  order and none after the first failure; the state it leaves is the one after the
  commands that were run.
\<close>

theorem checkPush_correct:
  "git_checkPush sys dir upstream w =
     (fst (git_checkPush sys dir upstream w), snd (run_all sys dir (push_check_cmds upstream) w))
   \<and> (fst (git_checkPush sys dir upstream w) = None) = fst (run_all sys dir (push_check_cmds upstream) w)"
  by (simp add: git_checkPush_def push_check_cmds_def Let_def split: option.split)
    (auto simp: run_wrap_def Let_def)

lemma last_scan: "drop_cr l = l \<longleftrightarrow> l = [] \<or> last l \<noteq> CHR 0x0D"
  by (auto simp: drop_cr_def) (metis append_butlast_last_id append_self_conv list.distinct(1))

lemma find_error_line_skip:
  "\<forall>l \<in> set ls. \<not> has_prefix l ''fatal: '' \<and> \<not> has_prefix l ''ERROR fatal: '' \<and> \<not> has_prefix l ''error:''
   \<Longrightarrow> find_error_line (ls @ ms) = find_error_line ms"
  by (induction ls) auto

lemma trim_ends:
  assumes "trim_right P (trim_left P s) = t" "t \<noteq> []"
  shows "\<not> P (hd t)" "\<not> P (last t)"
proof -
  let ?u = "dropWhile P s"
  have t: "rev t = dropWhile P (rev ?u)"
    using assms(1) by (auto simp: trim_right_def trim_left_def)
  have "rev t \<noteq> []" using assms(2) by simp
  then show "\<not> P (last t)" using t by (metis hd_dropWhile hd_rev)
  obtain v where v: "?u = t @ v"
    using t by (metis rev_append rev_rev_ident takeWhile_dropWhile_id)
  then have "?u \<noteq> []" "hd ?u = hd t" using assms(2) by auto
  then show "\<not> P (hd t)" by (metis hd_dropWhile)
qed

text \<open>
  For a line \<^verbatim>\<open>error: ...\<close> of git's standard error output, \<^verbatim>\<open>findErrorMessage\<close> trims a set
  of characters instead of the prefix: whatever the message was, the text returned neither
  starts nor ends with one of the letters e, r, o, a colon or a blank, so the words of the
  message are cut wherever they do.  Lines before it that carry no error marker are skipped.
\<close>

theorem findErrorMessage_cutset:
  assumes "\<forall>l \<in> set pre. \<not> has_prefix l ''fatal: '' \<and> \<not> has_prefix l ''ERROR fatal: '' \<and> \<not> has_prefix l ''error:''"
    and "scan_lines out = pre @ (''error:'' @ m) # post"
    and "findErrorMessage out \<noteq> []"
  shows "hd (findErrorMessage out) \<notin> set ''error: '' \<and> last (findErrorMessage out) \<notin> set ''error: ''"
proof -
  have "\<not> has_prefix (''error:'' @ m) ''fatal: ''" "\<not> has_prefix (''error:'' @ m) ''ERROR fatal: ''"
    by (simp_all add: has_prefix_def)
  then have "findErrorMessage out = trim_cutset (''error:'' @ m) ''error: ''"
    by (simp only: findErrorMessage_def assms(2) find_error_line_skip [OF assms(1)]
        find_error_line.simps has_prefix_append if_True if_False)
  then show ?thesis
    using trim_ends [of "\<lambda>c. c \<in> set ''error: ''" "''error:'' @ m" "findErrorMessage out"] assms(3)
    unfolding trim_cutset_def by metis
qed

lemma scan_lines_short:
  assumes "length data < 65536"
  shows "scan_lines data = map drop_cr (raw_lines data)"
proof -
  have "\<forall>l \<in> set (raw_lines data). length l < 65536"
    using assms length_split_part [of _ data "CHR 0x0A"]
    by (auto simp: raw_lines_def Let_def dest!: in_set_butlastD split: if_splits)
      (meson le_less_trans)+
  then have "takeWhile (\<lambda>l. length l < 65536) (raw_lines data) = raw_lines data"
    by (simp add: takeWhile_eq_all_conv)
  then show ?thesis by (simp only: scan_lines_def)
qed

lemma findErrorMessage_cutset_witness:
  "findErrorMessage ''error: repository corrupted'' = ''pository corrupted''
   \<and> hd (findErrorMessage ''error: repository corrupted'') \<notin> set ''error: ''"
proof -
  have "map drop_cr (raw_lines ''error: repository corrupted'') = [''error: repository corrupted'']"
    by code_simp
  then have 2: "scan_lines ''error: repository corrupted'' = [] @ (''error:'' @ '' repository corrupted'') # []"
    by (subst scan_lines_short) simp_all
  have "find_error_line [''error: repository corrupted''] = ''pository corrupted''" by code_simp
  then have 1: "findErrorMessage ''error: repository corrupted'' = ''pository corrupted''"
    using 2 by (simp add: findErrorMessage_def)
  show ?thesis
    using findErrorMessage_cutset [OF _ 2] 1 by simp
qed

lemma note_revs_panic:
  "note_revs ls m = Panic \<longleftrightarrow> (\<exists>l \<in> set ls. length (strings_Fields l) = 1)"
proof (induction ls arbitrary: m)
  case (Cons l ls)
  consider "strings_Fields l = []" | f where "strings_Fields l = [f]" | f g fs where "strings_Fields l = f # g # fs"
    by (metis list.exhaust)
  then show ?case by cases (auto simp: Let_def Cons)
qed simp

lemma splitLog_lines_roundtrip:
  "\<forall>c \<in> set cs. CHR '' '' \<notin> set (gcRevision c) \<Longrightarrow>
   splitLog_lines (map (\<lambda>c. gcRevision c @ '' '' @ gcMessage c) cs) = Ret cs"
  by (induction cs) (auto simp: Let_def)

lemma splitLog_lines_panic:
  "splitLog_lines ls = Panic \<longleftrightarrow> (\<exists>l \<in> set ls. CHR '' '' \<notin> set l)"
proof (induction ls)
  case (Cons l ls)
  show ?case
  proof (cases "CHR '' '' \<in> set l")
    case True
    then obtain a b where "l = a @ CHR '' '' # b" "CHR '' '' \<notin> set a" by (metis split_list_first)
    with True Cons show ?thesis by (auto simp: Let_def go_simps)
  next
    case False
    then show ?thesis by (auto simp: Let_def)
  qed
qed simp

lemma splitList_lines:
  assumes "ls \<noteq> []" "\<forall>l \<in> set ls. l \<noteq> [] \<and> CHR 0x0A \<notin> set l"
    and "\<not> is_space (hd (hd ls))" "\<not> is_space (last (last ls))"
  shows "splitList (join ls [CHR 0x0A]) = ls"
proof -
  have hd: "hd (join ls [CHR 0x0A]) = hd (hd ls)" and ne: "join ls [CHR 0x0A] \<noteq> []"
    using assms(1,2) by (cases ls rule: list.exhaust; cases "tl ls"; auto)+
  have "last (join ls [CHR 0x0A]) = last (last ls)"
    using assms(1,2)
  proof (induction ls)
    case (Cons l ls)
    show ?case
    proof (cases ls)
      case (Cons x xs)
      then have "join ls [CHR 0x0A] \<noteq> []" using Cons.prems by (cases xs) auto
      with Cons Cons.IH Cons.prems show ?thesis by (simp add: join_Cons)
    qed simp
  qed simp
  then have "trim_space (join ls [CHR 0x0A]) = join ls [CHR 0x0A]"
    using hd assms(3,4) by (intro trim_space_id) simp
  then show ?thesis using ne split_char_join [OF assms(1)] assms(2)
    by (simp add: splitList_def Let_def)
qed

text \<open>
  Reading back the one-line log of git returns the commits that were printed: for
  revisions without blanks and messages without newlines that do not begin or end the
  output with white space, \<^verbatim>\<open>splitLog\<close> of the printed lines is the list of commits.  A line
  with no blank at all, a commit with an empty message whose trailing blank was trimmed
  for instance, makes it panic.
\<close>

theorem splitLog_roundtrip:
  assumes "cs \<noteq> []"
    and "\<forall>c \<in> set cs. gcRevision c \<noteq> [] \<and> CHR '' '' \<notin> set (gcRevision c)
           \<and> CHR 0x0A \<notin> set (gcRevision c) \<and> CHR 0x0A \<notin> set (gcMessage c)"
    and "\<not> is_space (hd (gcRevision (hd cs)))"
    and "gcMessage (last cs) \<noteq> []" "\<not> is_space (last (gcMessage (last cs)))"
  shows "splitLog (join (map (\<lambda>c. gcRevision c @ '' '' @ gcMessage c) cs) [CHR 0x0A]) = Ret cs
    \<and> (splitLog s = Panic) = (\<exists>l \<in> set (splitList s). CHR '' '' \<notin> set l)"
proof -
  let ?ls = "map (\<lambda>c. gcRevision c @ '' '' @ gcMessage c) cs"
  have "splitList (join ?ls [CHR 0x0A]) = ?ls"
  proof (rule splitList_lines)
    show "\<not> is_space (hd (hd ?ls))" using assms(1,2,3) by (cases cs) auto
    show "\<not> is_space (last (last ?ls))" using assms(1,4,5) by (simp add: last_map)
  qed (use assms in auto)
  moreover have "splitLog_lines ?ls = Ret cs" using assms(2) by (intro splitLog_lines_roundtrip) blast
  ultimately show ?thesis by (simp only: splitLog_def splitLog_lines_panic simp_thms)
qed

lemma splitLog_roundtrip_witness:
  "splitLog ''3fa fix'' = Ret [\<lparr>gcRevision = ''3fa'', gcMessage = ''fix''\<rparr>] \<and> splitLog ''3fa '' = Panic"
  using splitLog_roundtrip [of "[\<lparr>gcRevision = ''3fa'', gcMessage = ''fix''\<rparr>]" "''3fa ''"]
  by (simp add: is_space_def) code_simp

end
