(* ===== verification/GitRepo.thy ===== *)
theory GitRepo
  imports GitCmd
begin

text \<open>
  The mirror of an environment's repository (\<^verbatim>\<open>pkg/git/repo.go\<close>), a state machine that
  clones, fetches and checks write access before it is ready, and the working clones
  made from it (\<^verbatim>\<open>pkg/git/working.go\<close>).
\<close>

section \<open>Signals\<close>

text \<open>
  The contract of a notification channel: a send never blocks and leaves a notification
  pending, several sends before the receiver looks are one notification, a receive takes
  it.  The agent uses channels of capacity 1 with a non-blocking send for this.
\<close>

locale signal =
  fixes notify :: "'s \<Rightarrow> 's"
    and pending :: "'s \<Rightarrow> bool"
    and receive :: "'s \<Rightarrow> 's option"
  assumes pending_notify: "pending (notify s)"
    and notify_idem: "notify (notify s) = notify s"
    and receive_None: "receive s = None \<longleftrightarrow> \<not> pending s"
    and receive_Some: "receive s = Some s' \<Longrightarrow> \<not> pending s'"
begin

fun notify_n :: "nat \<Rightarrow> 's \<Rightarrow> 's" where
  "notify_n 0 s = s"
| "notify_n (Suc n) s = notify_n n (notify s)"

lemma notify_n_notify: "notify_n n (notify s) = notify s"
  by (induction n arbitrary: s) (auto simp: notify_idem)

lemma notify_n_Suc: "notify_n (Suc n) s = notify s"
  by (simp add: notify_n_notify)

text \<open>However often it was notified, the receiver wakes up exactly once.\<close>

lemma coalesce: "\<exists>s'. receive (notify_n (Suc n) s) = Some s' \<and> receive s' = None"
proof -
  have "pending (notify_n (Suc n) s)" by (simp only: notify_n_Suc pending_notify)
  then obtain s' where "receive (notify_n (Suc n) s) = Some s'"
    using receive_None by (cases "receive (notify_n (Suc n) s)") auto
  then show ?thesis using receive_Some receive_None by blast
qed

end

section \<open>The repository\<close>

datatype git_status = RepoNoConfig | RepoNew | RepoCloned | RepoReady

text \<open>The order of progress in which the source lists the states.\<close>

fun status_rank :: "git_status \<Rightarrow> nat" where
  "status_rank RepoNoConfig = 0"
| "status_rank RepoNew = 1"
| "status_rank RepoCloned = 2"
| "status_rank RepoReady = 3"

lemma status_rank_inj: "status_rank a = status_rank b \<longleftrightarrow> a = b"
  by (cases a; cases b) auto

instantiation git_status :: linorder
begin

definition less_eq_git_status :: "git_status \<Rightarrow> git_status \<Rightarrow> bool" where
  "less_eq_git_status a b \<longleftrightarrow> status_rank a \<le> status_rank b"

definition less_git_status :: "git_status \<Rightarrow> git_status \<Rightarrow> bool" where
  "less_git_status a b \<longleftrightarrow> status_rank a < status_rank b"

instance
  by standard (auto simp: less_eq_git_status_def less_git_status_def status_rank_inj)

end

text \<open>A channel of capacity 1 is the flag that it holds an element.\<close>

record repo =
  rpURL :: string
  rpEnv :: string
  rpStatus :: git_status
  rpErr :: "gerror option"
  rpDir :: string
  rpNotify :: bool
  rpC :: bool
  rpRefreshChan :: bool
  rpSyncChan :: bool

definition NewRepo :: "string \<Rightarrow> string \<Rightarrow> repo" where
  "NewRepo url env = \<lparr>rpURL = url, rpEnv = env,
     rpStatus = (if url = [] then RepoNoConfig else RepoNew), rpErr = None, rpDir = [],
     rpNotify = False, rpC = False, rpRefreshChan = False, rpSyncChan = False\<rparr>"

definition repo_Clean :: "'w git_sys \<Rightarrow> repo \<Rightarrow> 'w \<Rightarrow> repo \<times> 'w" where
  "repo_Clean sys r w =
     (r\<lparr>rpDir := [], rpStatus := RepoNew\<rparr>,
      if rpDir r \<noteq> [] then gsRemoveAll sys (rpDir r) w else w)"

definition repo_Status :: "repo \<Rightarrow> git_status \<times> gerror option" where
  "repo_Status r = (rpStatus r, rpErr r)"

definition setStatus :: "git_status \<Rightarrow> gerror option \<Rightarrow> repo \<Rightarrow> repo" where
  "setStatus s e r = r\<lparr>rpStatus := s, rpErr := e\<rparr>"

definition repo_Notify :: "repo \<Rightarrow> repo" where
  "repo_Notify r = (if rpNotify r then r else r\<lparr>rpNotify := True\<rparr>)"

definition refreshed :: "repo \<Rightarrow> repo" where
  "refreshed r = (if rpC r then r else r\<lparr>rpC := True\<rparr>)"

definition recv_C :: "repo \<Rightarrow> repo option" where
  "recv_C r = (if rpC r then Some (r\<lparr>rpC := False\<rparr>) else None)"

definition recv_notify :: "repo \<Rightarrow> repo option" where
  "recv_notify r = (if rpNotify r then Some (r\<lparr>rpNotify := False\<rparr>) else None)"

interpretation rnotify: signal repo_Notify rpNotify recv_notify
  by unfold_locales (auto simp: repo_Notify_def recv_notify_def split: if_splits)

interpretation rrefresh: signal refreshed rpC recv_C
  by unfold_locales (auto simp: refreshed_def recv_C_def split: if_splits)

definition ErrNoChanges :: gerror where "ErrNoChanges = ''no changes made in repo''"
definition ErrNotReady :: gerror where "ErrNotReady = ''git repo not ready''"
definition ErrNoConfig :: gerror where "ErrNoConfig = ''git repo does not have valid config''"

fun errorIfNotReady :: "git_status \<Rightarrow> gerror option" where
  "errorIfNotReady RepoReady = None"
| "errorIfNotReady RepoNoConfig = Some ErrNoConfig"
| "errorIfNotReady _ = Some ErrNotReady"

definition repo_Revision :: "'w git_sys \<Rightarrow> repo \<Rightarrow> string \<Rightarrow> 'w \<Rightarrow> string res \<times> 'w" where
  "repo_Revision sys r ref w = (case errorIfNotReady (rpStatus r) of
     Some e \<Rightarrow> (Inl e, w) | None \<Rightarrow> git_refRevision sys (rpDir r) ref w)"

definition repo_CommitsBefore :: "'w git_sys \<Rightarrow> repo \<Rightarrow> string \<Rightarrow> string \<Rightarrow> 'w
    \<Rightarrow> git_commit_info list go res \<times> 'w" where
  "repo_CommitsBefore sys r ref path w = (case errorIfNotReady (rpStatus r) of
     Some e \<Rightarrow> (Inl e, w) | None \<Rightarrow> git_onelinelog sys (rpDir r) ref path w)"

definition repo_CommitsBetween :: "'w git_sys \<Rightarrow> repo \<Rightarrow> string \<Rightarrow> string \<Rightarrow> string \<Rightarrow> 'w
    \<Rightarrow> git_commit_info list go res \<times> 'w" where
  "repo_CommitsBetween sys r ref1 ref2 path w = (case errorIfNotReady (rpStatus r) of
     Some e \<Rightarrow> (Inl e, w) | None \<Rightarrow> git_onelinelog sys (rpDir r) (ref1 @ ''..'' @ ref2) path w)"

definition repo_fetch :: "'w git_sys \<Rightarrow> repo \<Rightarrow> 'w \<Rightarrow> gerror option \<times> 'w" where
  "repo_fetch sys r w = git_fetch sys (rpDir r) ''origin'' [] w"

definition repo_Refresh :: "'w git_sys \<Rightarrow> repo \<Rightarrow> 'w \<Rightarrow> gerror option \<times> repo \<times> 'w" where
  "repo_Refresh sys r w = (case errorIfNotReady (rpStatus r) of
     Some e \<Rightarrow> (Some e, r, w)
   | None \<Rightarrow> (let f = repo_fetch sys r w in
       case fst f of Some e \<Rightarrow> (Some e, r, snd f) | None \<Rightarrow> (None, refreshed r, snd f)))"

definition WorkingRepoPrefix :: string where "WorkingRepoPrefix = ''choerodon-working''"
definition MirrorRepoPrefix :: string where "MirrorRepoPrefix = ''choerodon-git-clone''"

definition workingClone :: "'w git_sys \<Rightarrow> repo \<Rightarrow> string \<Rightarrow> 'w \<Rightarrow> string res \<times> 'w" where
  "workingClone sys r ref w = (case errorIfNotReady (rpStatus r) of
     Some e \<Rightarrow> (Inl e, w)
   | None \<Rightarrow> (let t = gsTempDir sys WorkingRepoPrefix w in
       case fst t of Inl e \<Rightarrow> (Inl e, snd t)
       | Inr working \<Rightarrow> git_clone sys working (rpDir r) ref (snd t)))"

section \<open>The start loop\<close>

text \<open>
  One iteration of \<^verbatim>\<open>Start\<close>: go on with the new status at once, wait for the timer or a
  stop channel, or return.  The flag of a return says whether a slot of
  \<^verbatim>\<open>GitRepoConcurrencySyncChan\<close> was taken back.
\<close>

datatype ('r, 'w) start_out = Again 'r 'w | Wait 'r 'w | Done "gerror option" bool 'r 'w

definition start_iter :: "'w git_sys \<Rightarrow> repo \<Rightarrow> 'w \<Rightarrow> (repo, 'w) start_out" where
  "start_iter sys r w = (case rpStatus r of
     RepoNoConfig \<Rightarrow> Done None False r w
   | RepoNew \<Rightarrow>
       (let t = gsTempDir sys MirrorRepoPrefix w in
        case fst t of Inl e \<Rightarrow> Done (Some e) False r (snd t)
        | Inr rootdir \<Rightarrow>
           (let m = git_mirror sys rootdir (rpURL r) (snd t) in
            case fst m of
              Inl e \<Rightarrow> Wait (setStatus RepoNew (Some e) r) (gsRemoveAll sys rootdir (snd m))
            | Inr dir \<Rightarrow>
               (let r1 = r\<lparr>rpDir := dir\<rparr>; f = repo_fetch sys r1 (snd m) in
                case fst f of
                  None \<Rightarrow> Again (setStatus RepoCloned None r1) (snd f)
                | Some e \<Rightarrow> Wait (setStatus RepoNew (Some e) r1)
                                (gsRemoveAll sys rootdir (snd f)))))
   | RepoCloned \<Rightarrow>
       (let c = git_checkPush sys (rpDir r) (rpURL r) w in
        case fst c of
          None \<Rightarrow> Again (refreshed (setStatus RepoReady None r)) (snd c)
        | Some e \<Rightarrow> (let f = repo_fetch sys r (snd c) in
            Wait (setStatus RepoCloned (Some e) r) (snd f)))
   | RepoReady \<Rightarrow> Done None True r w)"

datatype wake = Timer | Shutdown | RefreshShutdown

text \<open>
  The whole loop, given what ends each wait.  Where the list of wake-ups is exhausted
  the goroutine is still waiting (\<^verbatim>\<open>None\<close>).
\<close>

lemma start_iter_Again_rank:
  "start_iter sys r w = Again r' w' \<Longrightarrow> status_rank (rpStatus r') = Suc (status_rank (rpStatus r))"
  by (auto simp: start_iter_def Let_def setStatus_def refreshed_def
      split: git_status.splits sum.splits option.splits if_splits)

lemma status_rank_le: "status_rank s \<le> 3"
  by (cases s) auto

function repo_Start :: "'w git_sys \<Rightarrow> wake list \<Rightarrow> repo \<Rightarrow> 'w
    \<Rightarrow> (gerror option \<times> bool \<times> repo \<times> 'w) option" where
  "repo_Start sys wakes r w = (case start_iter sys r w of
     Again r' w' \<Rightarrow> repo_Start sys wakes r' w'
   | Done e released r' w' \<Rightarrow> Some (e, released, r', w')
   | Wait r' w' \<Rightarrow> (case wakes of
       [] \<Rightarrow> None
     | Timer # ws \<Rightarrow> repo_Start sys ws r' w'
     | Shutdown # ws \<Rightarrow> Some (None, False, r', w')
     | RefreshShutdown # ws \<Rightarrow> Some (None, False, r', w')))"
  by pat_completeness auto
termination
proof (relation "measures [\<lambda>(sys, wakes, r, w). length wakes,
    \<lambda>(sys, wakes, r, w). 3 - status_rank (rpStatus r)]", goal_cases)
  case (2 sys wakes r w x1 x2)
  then show ?case
    using start_iter_Again_rank [of sys r w x1 x2] status_rank_le [of "rpStatus x1"] by auto
qed auto

declare repo_Start.simps [simp del]

lemma repo_Start_Again:
  "start_iter sys r w = Again r1 w1 \<Longrightarrow> repo_Start sys wakes r w = repo_Start sys wakes r1 w1"
  by (subst repo_Start.simps) simp

lemma repo_Start_Done:
  "start_iter sys r w = Done e rel r1 w1 \<Longrightarrow> repo_Start sys wakes r w = Some (e, rel, r1, w1)"
  by (subst repo_Start.simps) simp

lemma repo_Start_Wait:
  assumes "start_iter sys r w = Wait r1 w1"
  shows "repo_Start sys [] r w = None"
    and "repo_Start sys (Timer # ws) r w = repo_Start sys ws r1 w1"
    and "repo_Start sys (Shutdown # ws) r w = Some (None, False, r1, w1)"
    and "repo_Start sys (RefreshShutdown # ws) r w = Some (None, False, r1, w1)"
  by (subst repo_Start.simps, simp add: assms)+

lemmas repo_Start_unfold = repo_Start_Again repo_Start_Done repo_Start_Wait

section \<open>Working clones\<close>

record git_cfg =
  gcBranch :: string
  gcPath :: string
  gcSyncTag :: string
  gcNotesRef :: string
  gcUserName :: string
  gcUserEmail :: string
  gcSkipMessage :: string
  gcDevOpsTag :: string

record checkout =
  coDir :: string
  coConfig :: git_cfg
  coUpstream :: string
  coRealNotesRef :: string

definition repo_Clone :: "'w git_sys \<Rightarrow> bool \<Rightarrow> repo \<Rightarrow> git_cfg \<Rightarrow> 'w \<Rightarrow> checkout res \<times> 'w" where
  "repo_Clone sys swap r conf w =
     (let c = workingClone sys r (gcDevOpsTag conf) w in
      case fst c of Inl e \<Rightarrow> (Inl e, snd c)
      | Inr repoDir \<Rightarrow>
         (let k = git_config sys swap repoDir (gcUserName conf) (gcUserEmail conf) (snd c) in
          case fst k of Some e \<Rightarrow> (Inl e, gsRemoveAll sys repoDir (snd k))
          | None \<Rightarrow>
             (let n = git_getNotesRef sys repoDir (gcNotesRef conf) (snd k) in
              case fst n of Inl e \<Rightarrow> (Inl e, gsRemoveAll sys repoDir (snd n))
              | Inr realNotesRef \<Rightarrow>
                  (Inr \<lparr>coDir = repoDir, coConfig = conf, coUpstream = rpURL r,
                        coRealNotesRef = realNotesRef\<rparr>, snd n))))"

definition co_Clean :: "'w git_sys \<Rightarrow> checkout \<Rightarrow> 'w \<Rightarrow> 'w" where
  "co_Clean sys c w = (if coDir c \<noteq> [] then gsRemoveAll sys (coDir c) w else w)"

text \<open>\<^verbatim>\<open>filepath.Clean\<close> and \<^verbatim>\<open>filepath.Join\<close>.\<close>

fun clean_parts :: "bool \<Rightarrow> string list \<Rightarrow> string list \<Rightarrow> string list" where
  "clean_parts rooted acc [] = rev acc"
| "clean_parts rooted acc (p # ps) =
     (if p = [] \<or> p = ''.'' then clean_parts rooted acc ps
      else if p = ''..'' then
        (case acc of
           a # acc' \<Rightarrow> if a = ''..'' then clean_parts rooted (p # acc) ps
                       else clean_parts rooted acc' ps
         | [] \<Rightarrow> if rooted then clean_parts rooted [] ps else clean_parts rooted [p] ps)
      else clean_parts rooted (p # acc) ps)"

definition filepath_Clean :: "string \<Rightarrow> string" where
  "filepath_Clean p =
     (let rooted = has_prefix p ''/'';
          out = (if rooted then ''/'' else []) @ join (clean_parts rooted [] (split_char p CHR ''/'')) ''/''
      in if out = [] then ''.'' else out)"

definition filepath_Join :: "string \<Rightarrow> string \<Rightarrow> string" where
  "filepath_Join a b = (let ps = filter (\<lambda>x. x \<noteq> []) [a, b] in
     if ps = [] then [] else filepath_Clean (join ps ''/''))"

definition co_ManifestDir :: "checkout \<Rightarrow> string" where
  "co_ManifestDir c = filepath_Join (coDir c) (gcPath (coConfig c))"

definition PushError :: "string \<Rightarrow> gerror \<Rightarrow> gerror" where
  "PushError url actual = actual"

definition co_CommitAndPush :: "'w git_sys \<Rightarrow> ('n \<Rightarrow> string res) \<Rightarrow> checkout \<Rightarrow> commit_action
    \<Rightarrow> 'n option \<Rightarrow> 'w \<Rightarrow> gerror option \<times> 'w" where
  "co_CommitAndPush sys marshal c ca note w =
     (let ch = git_check sys (coDir c) (gcPath (coConfig c)) w in
      if \<not> fst ch then (Some ErrNoChanges, snd ch) else
      (let ca' = ca\<lparr>caMessage := caMessage ca @ gcSkipMessage (coConfig c)\<rparr>;
           cm = git_commit sys (coDir c) ca' (snd ch) in
       case fst cm of Some e \<Rightarrow> (Some e, snd cm) | None \<Rightarrow>
       (let n = (case note of None \<Rightarrow> (None, snd cm)
                 | Some nt \<Rightarrow>
                    (let rv = git_refRevision sys (coDir c) ''HEAD'' (snd cm) in
                     case fst rv of Inl e \<Rightarrow> (Some e, snd rv)
                     | Inr h \<Rightarrow> git_addNote sys marshal (coDir c) h (gcNotesRef (coConfig c)) nt (snd rv)))
        in case fst n of Some e \<Rightarrow> (Some e, snd n) | None \<Rightarrow>
        (let x = git_refExists sys (coDir c) (coRealNotesRef c) (snd n) in
         if \<not> fst (fst x) \<and> snd (fst x) \<noteq> None then (snd (fst x), snd x) else
         (let refs = [gcBranch (coConfig c)] @ (if fst (fst x) then [coRealNotesRef c] else []);
              p = git_push sys (coDir c) (coUpstream c) refs (snd x)
          in (map_option (PushError (coUpstream c)) (fst p), snd p))))))"

definition co_GetNote :: "'w git_sys \<Rightarrow> (string \<Rightarrow> 'n res) \<Rightarrow> checkout \<Rightarrow> string \<Rightarrow> 'w
    \<Rightarrow> 'n option res \<times> 'w" where
  "co_GetNote sys decode c rv w = git_getNote sys decode (coDir c) (coRealNotesRef c) rv w"

definition co_HeadRevision :: "'w git_sys \<Rightarrow> checkout \<Rightarrow> 'w \<Rightarrow> string res \<times> 'w" where
  "co_HeadRevision sys c w = git_refRevision sys (coDir c) ''HEAD'' w"

definition co_SyncRevision :: "'w git_sys \<Rightarrow> checkout \<Rightarrow> 'w \<Rightarrow> string res \<times> 'w" where
  "co_SyncRevision sys c w = git_refRevision sys (coDir c) (gcSyncTag (coConfig c)) w"

definition co_DevOpsSyncRevision :: "'w git_sys \<Rightarrow> checkout \<Rightarrow> 'w \<Rightarrow> string res \<times> 'w" where
  "co_DevOpsSyncRevision sys c w = git_refRevision sys (coDir c) (gcDevOpsTag (coConfig c)) w"

definition co_MoveSyncTagAndPush :: "'w git_sys \<Rightarrow> checkout \<Rightarrow> string \<Rightarrow> string \<Rightarrow> 'w
    \<Rightarrow> gerror option \<times> 'w" where
  "co_MoveSyncTagAndPush sys c ref msg w =
     git_moveTagAndPush sys (coDir c) (gcSyncTag (coConfig c)) ref msg (coUpstream c) w"

text \<open>Absolute paths, relative paths; on an error both are empty.\<close>

definition co_ChangedFiles :: "'w git_sys \<Rightarrow> checkout \<Rightarrow> string \<Rightarrow> 'w
    \<Rightarrow> (string list \<times> string list) res \<times> 'w" where
  "co_ChangedFiles sys c ref w =
     (let r = git_changedFiles sys (coDir c) (gcPath (coConfig c)) ref w in
      (map_sum id (\<lambda>list. (map (filepath_Join (coDir c)) list, list)) (fst r), snd r))"

definition co_FileLastCommit :: "'w git_sys \<Rightarrow> checkout \<Rightarrow> string \<Rightarrow> 'w \<Rightarrow> string res \<times> 'w" where
  "co_FileLastCommit sys c file w =
     git_fileLastCommit sys (coDir c) (gcPath (coConfig c)) file w"

definition co_NoteRevList :: "'w git_sys \<Rightarrow> checkout \<Rightarrow> 'w \<Rightarrow> (string, unit) gomap go res \<times> 'w" where
  "co_NoteRevList sys c w = git_noteRevList sys (coDir c) (coRealNotesRef c) w"

section \<open>Reachable states of a repository\<close>

text \<open>
  What happens to a repository while the agent runs: iterations of the start loop, refreshes
  by the sync loops, notifications and their receipt, and anything else that changes the
  outside world.  \<^verbatim>\<open>Repo.Clean\<close> has no caller in the agent.
\<close>

inductive repo_step :: "'w git_sys \<Rightarrow> repo \<times> 'w \<Rightarrow> repo \<times> 'w \<Rightarrow> bool" for sys where
  again: "start_iter sys r w = Again r' w' \<Longrightarrow> repo_step sys (r, w) (r', w')"
| wait: "start_iter sys r w = Wait r' w' \<Longrightarrow> repo_step sys (r, w) (r', w')"
| refresh: "repo_Refresh sys r w = (e, r', w') \<Longrightarrow> repo_step sys (r, w) (r', w')"
| notify: "repo_step sys (r, w) (repo_Notify r, w)"
| received: "recv_C r = Some r' \<Longrightarrow> repo_step sys (r, w) (r', w)"
| world: "repo_step sys (r, w) (r, w')"

inductive_cases repo_stepE: "repo_step sys (r, w) (r', w')"

inductive repo_reach :: "'w git_sys \<Rightarrow> repo \<times> 'w \<Rightarrow> repo \<times> 'w \<Rightarrow> bool" for sys where
  refl: "repo_reach sys s s"
| step: "repo_reach sys s s' \<Longrightarrow> repo_step sys s' s'' \<Longrightarrow> repo_reach sys s s''"

definition tempdir_named :: "'w git_sys \<Rightarrow> bool" where
  "tempdir_named sys \<longleftrightarrow> (\<forall>p w d. fst (gsTempDir sys p w) = Inr d \<longrightarrow> d \<noteq> [])"

definition repo_inv :: "string \<Rightarrow> string \<Rightarrow> repo \<Rightarrow> bool" where
  "repo_inv url env r \<longleftrightarrow> rpURL r = url \<and> rpEnv r = env
     \<and> (rpStatus r = RepoNoConfig \<longleftrightarrow> url = [])
     \<and> (rpStatus r \<ge> RepoCloned \<longrightarrow> rpDir r \<noteq> [])
     \<and> (rpC r \<longrightarrow> rpStatus r = RepoReady)
     \<and> (rpStatus r = RepoReady \<longrightarrow> rpErr r = None)"

lemma git_mirror_Inr: "fst (git_mirror sys dir url w) = Inr d \<Longrightarrow> d = dir"
  by (auto simp: git_mirror_def Let_def split: option.splits)

lemmas repo_op_defs = setStatus_def refreshed_def repo_Notify_def recv_C_def repo_Refresh_def Let_def

lemma status_le_simps [simp]:
  "RepoCloned \<le> RepoCloned" "RepoCloned \<le> RepoReady" "\<not> RepoCloned \<le> RepoNew"
  "\<not> RepoCloned \<le> RepoNoConfig" "RepoNew \<le> RepoCloned"
  by (simp_all add: less_eq_git_status_def)

text \<open>The effect of an iteration, as cases over the status.\<close>

lemma start_iter_cases:
  assumes "start_iter sys r w = Again r' w' \<or> start_iter sys r w = Wait r' w'" "tempdir_named sys"
  obtains (new) d e where "rpStatus r = RepoNew" "d = rpDir r \<or> d \<noteq> []"
      "r' = setStatus RepoNew (Some e) (r\<lparr>rpDir := d\<rparr>)"
    | (cloned) d where "rpStatus r = RepoNew" "d \<noteq> []"
      "r' = setStatus RepoCloned None (r\<lparr>rpDir := d\<rparr>)"
    | (ready) "rpStatus r = RepoCloned" "fst (git_checkPush sys (rpDir r) (rpURL r) w) = None"
      "r' = refreshed (setStatus RepoReady None r)"
    | (retry) e where "rpStatus r = RepoCloned" "r' = setStatus RepoCloned (Some e) r"
proof (cases "rpStatus r")
  case RepoNew
  let ?t = "gsTempDir sys MirrorRepoPrefix w"
  obtain rootdir where root: "fst ?t = Inr rootdir" "rootdir \<noteq> []"
    using assms RepoNew
    by (cases "fst ?t") (auto simp: start_iter_def Let_def tempdir_named_def)
  let ?m = "git_mirror sys rootdir (rpURL r) (snd ?t)"
  show ?thesis
  proof (cases "fst ?m")
    case (Inl e)
    then have "r' = setStatus RepoNew (Some e) (r\<lparr>rpDir := rpDir r\<rparr>)"
      using assms(1) RepoNew root by (auto simp: start_iter_def Let_def)
    then show ?thesis using RepoNew new by blast
  next
    case (Inr d)
    then have "d \<noteq> []" using git_mirror_Inr root(2) by metis
    let ?f = "repo_fetch sys (r\<lparr>rpDir := d\<rparr>) (snd ?m)"
    show ?thesis
    proof (cases "fst ?f")
      case None
      then have "r' = setStatus RepoCloned None (r\<lparr>rpDir := d\<rparr>)"
        using assms(1) RepoNew root Inr by (auto simp: start_iter_def Let_def)
      then show ?thesis using RepoNew \<open>d \<noteq> []\<close> cloned by blast
    next
      case (Some e)
      then have "r' = setStatus RepoNew (Some e) (r\<lparr>rpDir := d\<rparr>)"
        using assms(1) RepoNew root Inr by (auto simp: start_iter_def Let_def)
      then show ?thesis using RepoNew \<open>d \<noteq> []\<close> new by blast
    qed
  qed
qed (use assms(1) in \<open>auto simp: start_iter_def Let_def split: option.splits
      intro: ready retry\<close>)

lemma rank_simps [simp]:
  "(a :: git_status) \<le> b \<longleftrightarrow> status_rank a \<le> status_rank b"
  by (simp add: less_eq_git_status_def)

lemma start_iter_inv:
  assumes "start_iter sys r w = Again r' w' \<or> start_iter sys r w = Wait r' w'" "tempdir_named sys"
    and "repo_inv url env r"
  shows "repo_inv url env r' \<and> rpStatus r \<le> rpStatus r'"
  using assms(1,2) by (cases rule: start_iter_cases)
    (use assms(3) in \<open>auto simp: repo_inv_def setStatus_def refreshed_def\<close>)

lemma repo_step_inv:
  assumes "repo_step sys s s'" "tempdir_named sys" "repo_inv url env (fst s)"
  shows "repo_inv url env (fst s') \<and> rpStatus (fst s) \<le> rpStatus (fst s')"
  using assms(1)
proof cases
  case (again r w r' w')
  with start_iter_inv [of sys r w r' w'] assms(2,3) show ?thesis by simp
next
  case (wait r w r' w')
  with start_iter_inv [of sys r w r' w'] assms(2,3) show ?thesis by simp
next
  case (refresh r w e r' w')
  then have "r' = r \<or> r' = refreshed r \<and> rpStatus r = RepoReady"
    by (cases "rpStatus r") (auto simp: repo_Refresh_def Let_def split: option.splits)
  with refresh assms(3) show ?thesis by (auto simp: repo_inv_def refreshed_def split: if_splits)
qed (use assms(3) in \<open>auto simp: repo_inv_def repo_Notify_def recv_C_def split: if_splits\<close>)

lemma NewRepo_inv [inv_intros]: "repo_inv url env (NewRepo url env)"
  by (simp add: repo_inv_def NewRepo_def)


text \<open>A world in which every command succeeds, and one in which the network is down.\<close>

definition sys_up :: "'w git_sys" where
  "sys_up = \<lparr>gsRun = (\<lambda>dir args w. (\<lparr>gpErr = None, gpStdout = ''abc'', gpStderr = [], gpCtx = None\<rparr>, w)),
     gsTempDir = (\<lambda>p w. (Inr (''/tmp/'' @ p), w)), gsRemoveAll = (\<lambda>d w. w)\<rparr>"

lemma sys_up_simps [simp]:
  "tempdir_named (sys_up :: 'w git_sys)"
  "execGitCmd (sys_up :: 'w git_sys) d a w = ((None, ''abc''), w)"
  "gsTempDir (sys_up :: 'w git_sys) p w = (Inr (''/tmp/'' @ p), w)"
  "gsRemoveAll (sys_up :: 'w git_sys) d w = w"
  by (auto simp: sys_up_def tempdir_named_def execGitCmd_def Let_def)

lemma run_wrap_sys_up [simp]: "run_wrap (sys_up :: 'w git_sys) d a f w = (None, w)"
  by (simp add: run_wrap_def Let_def)


section \<open>The slot of the concurrency limit\<close>

lemma start_iter_Done:
  "start_iter sys r w = Done e rel r' w' \<Longrightarrow> r' = r \<and> (rel \<longleftrightarrow> rpStatus r = RepoReady)
     \<and> (rel \<longrightarrow> e = None)"
  by (auto simp: start_iter_def Let_def split: git_status.splits sum.splits option.splits)

lemma start_iter_Wait:
  "start_iter sys r w = Wait r' w' \<Longrightarrow> rpStatus r' = rpStatus r \<and> rpStatus r' \<noteq> RepoReady"
  by (auto simp: start_iter_def Let_def setStatus_def
      split: git_status.splits sum.splits option.splits)

text \<open>
  \<^verbatim>\<open>Start\<close> gives its slot of the concurrency limit back exactly when it leaves the repository
  ready.  \<^verbatim>\<open>listenEnvs\<close> takes the slot before every start, so each start that ends otherwise,
  for a repository without configuration, for a temporary directory that cannot be made or
  because it was told to stop, keeps one for ever.
\<close>

theorem start_slot:
  assumes "repo_Start sys wakes r w = Some (e, released, r', w')"
  shows "released = (rpStatus r' = RepoReady) \<and> (released \<longrightarrow> e = None)"
  using assms
proof (induction sys wakes r w rule: repo_Start.induct)
  case (1 sys wakes r w)
  show ?case
  proof (cases "start_iter sys r w")
    case (Again r1 w1)
    with "1.prems" have "repo_Start sys wakes r1 w1 = Some (e, released, r', w')"
      by (simp add: repo_Start_Again)
    with "1.IH"(1) Again show ?thesis by blast
  next
    case (Done e1 rel r1 w1)
    with "1.prems" have "e = e1" "released = rel" "r' = r1" by (simp_all add: repo_Start_Done)
    with start_iter_Done [OF Done] show ?thesis by simp
  next
    case (Wait r1 w1)
    have nr: "rpStatus r1 \<noteq> RepoReady" using start_iter_Wait [OF Wait] by blast
    consider "wakes = []" | ws where "wakes = Timer # ws"
      | ws where "wakes = Shutdown # ws \<or> wakes = RefreshShutdown # ws"
      by (metis list.exhaust wake.exhaust)
    then show ?thesis
    proof cases
      case 1
      with "1.prems" Wait show ?thesis by (simp add: repo_Start_Wait)
    next
      case (2 ws)
      with "1.prems" Wait have "repo_Start sys ws r1 w1 = Some (e, released, r', w')"
        by (simp add: repo_Start_Wait)
      with "1.IH"(2) Wait 2 show ?thesis by blast
    next
      case (3 ws)
      with "1.prems" Wait have "released = False" "r' = r1" by (auto simp: repo_Start_Wait)
      with nr show ?thesis by simp
    qed
  qed
qed

definition sys_down :: "'w git_sys" where
  "sys_down = \<lparr>gsRun = (\<lambda>dir args w. (\<lparr>gpErr = Some ''exit status 128'', gpStdout = [],
       gpStderr = [], gpCtx = None\<rparr>, w)),
     gsTempDir = (\<lambda>p w. (Inr (''/tmp/'' @ p), w)), gsRemoveAll = (\<lambda>d w. w)\<rparr>"

lemma findErrorMessage_Nil [simp]: "findErrorMessage [] = []"
  by (simp add: findErrorMessage_def scan_lines_def raw_lines_def)

lemma start_slot_witness:
  "\<exists>e r'. repo_Start sys_down [Timer, Shutdown] (NewRepo ''u'' ''dev'') () = Some (e, False, r', ())
     \<and> rpStatus r' \<noteq> RepoReady"
proof -
  have it: "start_iter sys_down r () =
      Wait (setStatus RepoNew (Some ''git clone --mirror: exit status 128'') r) ()"
    if "rpStatus r = RepoNew" for r
    using that by (simp add: start_iter_def sys_down_def Let_def git_mirror_def run_wrap_def
        execGitCmd_def err_wrap_def)
  have new: "rpStatus (setStatus RepoNew e r) = RepoNew" for e r by (simp add: setStatus_def)
  have "rpStatus (NewRepo ''u'' ''dev'') = RepoNew" by (simp add: NewRepo_def)
  then have "\<exists>e r'. repo_Start sys_down [Timer, Shutdown] (NewRepo ''u'' ''dev'') () = Some (e, False, r', ())"
    by (simp add: repo_Start_Wait [OF it] repo_Start_Wait [OF it [OF new]])
  then obtain e r' where
    s: "repo_Start sys_down [Timer, Shutdown] (NewRepo ''u'' ''dev'') () = Some (e, False, r', ())"
    by (elim exE)
  have "rpStatus r' \<noteq> RepoReady" using start_slot [OF s] by simp
  with s show ?thesis by (intro exI conjI)
qed

text \<open>Every command succeeding, the loop runs through without waiting.\<close>

definition all_succeed :: "'w git_sys \<Rightarrow> bool" where
  "all_succeed sys \<longleftrightarrow> (\<forall>d a w. fst (fst (execGitCmd sys d a w)) = None)
     \<and> (\<forall>p w. \<exists>d. fst (gsTempDir sys p w) = Inr d)"

lemma run_wrap_all_succeed: "all_succeed sys \<Longrightarrow> fst (run_wrap sys d a f w) = None"
  by (simp add: all_succeed_def)

lemma checkPush_all_succeed: "all_succeed sys \<Longrightarrow> fst (git_checkPush sys d u w) = None"
  by (simp add: git_checkPush_def Let_def run_wrap_all_succeed)

lemma start_cloned_up:
  assumes "all_succeed sys" "rpStatus r = RepoCloned"
  shows "\<exists>w'. repo_Start sys wakes r w = Some (None, True, refreshed (setStatus RepoReady None r), w')"
proof -
  have "\<exists>w1. start_iter sys r w = Again (refreshed (setStatus RepoReady None r)) w1"
    using assms checkPush_all_succeed [OF assms(1)] by (simp add: start_iter_def Let_def)
  then obtain w1 where 1: "start_iter sys r w = Again (refreshed (setStatus RepoReady None r)) w1" ..
  have "start_iter sys (refreshed (setStatus RepoReady None r)) w1 =
      Done None True (refreshed (setStatus RepoReady None r)) w1"
    by (simp add: start_iter_def refreshed_def setStatus_def)
  with 1 show ?thesis by (simp add: repo_Start_unfold)
qed

text \<open>
  C9: Once git works, a configured repository becomes ready without another wait: from the new and
  from the cloned state \<^verbatim>\<open>Start\<close> returns with no error, the slot given back, the repository
  ready and its first refresh signalled.
\<close>

theorem start_becomes_ready:
  assumes "all_succeed sys" and "rpStatus r = RepoNew \<or> rpStatus r = RepoCloned"
  shows "\<exists>r' w'. repo_Start sys wakes r w = Some (None, True, r', w')
    \<and> rpStatus r' = RepoReady \<and> rpC r'"
  using assms(2)
proof
  assume c: "rpStatus r = RepoCloned"
  show ?thesis using start_cloned_up [OF assms(1) c, of wakes w]
    by (auto simp: refreshed_def setStatus_def)
next
  assume n: "rpStatus r = RepoNew"
  have ok: "fst (fst (execGitCmd sys d a x)) = None" for d a x
    using assms(1) by (simp add: all_succeed_def)
  obtain d where d: "fst (gsTempDir sys MirrorRepoPrefix w) = Inr d"
    using assms(1) unfolding all_succeed_def by blast
  let ?r = "setStatus RepoCloned None (r\<lparr>rpDir := d\<rparr>)"
  have "\<exists>w1. start_iter sys r w = Again ?r w1"
    using n d by (simp add: start_iter_def Let_def git_mirror_def repo_fetch_def git_fetch_def ok
        run_wrap_all_succeed [OF assms(1)])
  then obtain w1 where 1: "start_iter sys r w = Again ?r w1" ..
  have "rpStatus ?r = RepoCloned" by (simp add: setStatus_def)
  from start_cloned_up [OF assms(1) this, of wakes w1] 1 show ?thesis
    by (auto simp: repo_Start_Again [OF 1] refreshed_def setStatus_def)
qed

lemma start_becomes_ready_witness:
  "\<exists>r' w'. repo_Start sys_up [] (NewRepo ''u'' ''dev'') () = Some (None, True, r', w')
     \<and> rpStatus r' = RepoReady \<and> rpC r'"
  by (rule start_becomes_ready) (simp_all add: all_succeed_def NewRepo_def)

end
