(* ===== verification/GitSync.thy ===== *)
theory GitSync
  imports Cluster GitRepo Packets
begin

text \<open>
  One synchronisation of an environment (\<^verbatim>\<open>pkg/gitops/gitops_sync.go\<close>): clone the mirror,
  load what the repository defines and what changed since the last sync, label it, compare
  with what the cluster holds, hand deletions and applications to the cluster, report an event,
  move the sync tag.
\<close>

section \<open>Events\<close>

record gevent_error =
  geID :: resource_id
  gePath :: string
  geError :: string
  geCommit :: string

record file_commit =
  fcFile :: string
  fcCommit :: string

record resource_commit =
  rcResourceId :: string
  rcFile :: string
  rcCommit :: string

record gevent =
  evResourceIDs :: "resource_id list"
  evType :: string
  evStartedAt :: nat
  evEndedAt :: nat
  evCommit :: string
  evErrors :: "gevent_error list"
  evFileCommits :: "file_commit list"
  evResourceCommits :: "resource_commit list"

definition EventSync :: string where "EventSync = ''sync''"

text \<open>The methods of the \<^verbatim>\<open>kube.Client\<close> interface that a synchronisation calls.\<close>

record kube_iface =
  kiLabelRepoObj :: "string \<Rightarrow> string \<Rightarrow> string \<Rightarrow> string \<Rightarrow> string option res"
  kiConvertCertificate :: "string \<Rightarrow> string \<Rightarrow> string \<Rightarrow> string option \<times> gerror option \<times> bool"

record 'w gitops =
  goSys :: "'w git_sys"
  goConfig :: git_cfg
  goSwap :: bool
  goKube :: kube_iface
  goGlobals :: globals
  goClient :: "'w \<Rightarrow> cluster_client"
  goKinds :: "resource_kind list"
  goMarshal :: "k8s_obj \<Rightarrow> string res"
  goUnmarshal :: yaml_unmarshal
  goParse :: obj_parser
  goFiles :: "'w \<Rightarrow> file_system"
  goApplier :: "string \<Rightarrow> change_set \<Rightarrow> 'w \<Rightarrow> resource_error list \<times> 'w"
  goMarshalEvent :: "gevent \<Rightarrow> string res"

definition LogEvent :: "'w gitops \<Rightarrow> gevent \<Rightarrow> string \<Rightarrow> gerror option \<times> packet list" where
  "LogEvent g ev ns = (case goMarshalEvent g ev of
     Inl e \<Rightarrow> (Some e, [])
   | Inr evBytes \<Rightarrow> (None, [mk_packet (''env:'' @ ns) GitOpsSyncEvent evBytes]))"

section \<open>Comparing repository and cluster\<close>

definition prepareSyncDelete :: "objs \<Rightarrow> string \<Rightarrow> resource \<Rightarrow> sync_action list \<Rightarrow> sync_action list" where
  "prepareSyncDelete repoResources i res actions =
     (if gm_has repoResources i then actions
      else actions @ [\<lparr>saDelete = Some res, saApply = None\<rparr>])"

definition prepareSyncApply :: "resource \<Rightarrow> sync_action list \<Rightarrow> sync_action list" where
  "prepareSyncApply res actions = actions @ [\<lparr>saDelete = None, saApply = Some res\<rparr>]"

fun delete_loop :: "objs \<Rightarrow> objs \<Rightarrow> sync_action list \<Rightarrow> sync_action list" where
  "delete_loop repo [] actions = actions"
| "delete_loop repo ((i, res) # os) actions = delete_loop repo os (prepareSyncDelete repo i res actions)"

fun apply_loop :: "objs \<Rightarrow> sync_action list \<Rightarrow> sync_action list" where
  "apply_loop [] actions = actions"
| "apply_loop ((i, res) # os) actions = apply_loop os (prepareSyncApply res actions)"

text \<open>The result of \<^verbatim>\<open>Sync\<close>: an error of its own, or the errors of the cluster (none: nil).\<close>

datatype sync_result = SyncFailed gerror | SyncErrors "resource_error list"

definition ParseManifests :: "yaml_unmarshal \<Rightarrow> string \<Rightarrow> string \<Rightarrow> (objs \<times> gerror option) go" where
  "ParseManifests um ns allDefs = ParseMultidoc um ns allDefs ''exported''"

definition gitops_Sync :: "'w gitops \<Rightarrow> string \<Rightarrow> objs \<Rightarrow> objs \<Rightarrow> 'w \<Rightarrow> (sync_result \<times> 'w) go" where
  "gitops_Sync g ns repoResources changedResources w =
     go_bind (Export (goGlobals g) (goClient g w) (goMarshal g) (goKinds g) ns) (\<lambda>x. case x of
       Inl e \<Rightarrow> Ret (SyncFailed (err_wrap e ''exporting resource defs from cluster''), w)
     | Inr clusterBytes \<Rightarrow>
         go_bind (ParseManifests (goUnmarshal g) ns clusterBytes) (\<lambda>(clusterResources, err).
           case err of Some e \<Rightarrow> Ret (SyncFailed (err_wrap e ''parsing exported resources''), w)
           | None \<Rightarrow>
              (let actions = apply_loop changedResources (delete_loop repoResources clusterResources []);
                   r = cluster_Sync (goParse g) (goApplier g) ns actions w
               in Ret (SyncErrors (fst r), snd r))))"

section \<open>Certificates and secrets\<close>

text \<open>
  On an initial synchronisation the map of changed resources is the map of all resources, not
  a copy: \<^verbatim>\<open>None\<close> stands for this alias.
\<close>

type_synonym two_maps = "objs \<times> objs option"

definition tm_changed :: "two_maps \<Rightarrow> objs" where
  "tm_changed m = (case snd m of None \<Rightarrow> fst m | Some c \<Rightarrow> c)"

definition tm_on_all :: "(objs \<Rightarrow> objs) \<Rightarrow> two_maps \<Rightarrow> two_maps" where
  "tm_on_all f m = (f (fst m), snd m)"

definition tm_on_changed :: "(objs \<Rightarrow> objs) \<Rightarrow> two_maps \<Rightarrow> two_maps" where
  "tm_on_changed f m = (case snd m of None \<Rightarrow> (f (fst m), None) | Some c \<Rightarrow> (fst m, Some (f c)))"

definition parseKey :: "string \<Rightarrow> string go" where
  "parseKey key = go_index (split_char key CHR ''/'') 1"

type_synonym convert_state = "two_maps \<times> string list \<times> string list"

definition secret_of :: "resource \<Rightarrow> string \<Rightarrow> string \<Rightarrow> resource" where
  "secret_of r key bytes = BaseObj \<lparr>boSource = boSource (res_base r), boBytes = bytes,
     boKind = ''Secret'', boNamespace = boNamespace (res_base r), boName = boName (res_base r),
     boAnnotations = boAnnotations (res_base r), boOriginalKey = key\<rparr>"

definition convert_one :: "kube_iface \<Rightarrow> string \<Rightarrow> (string, string) gomap \<Rightarrow> string \<times> resource
    \<Rightarrow> convert_state \<Rightarrow> convert_state go" where
  "convert_one kube ns fileCommitMap kr st =
     (let key = fst kr; repoResource = snd kr; m = fst st in
      if boKind (res_base repoResource) \<noteq> ''Certificate'' then Ret st
      else
        (let src = (case map_of (tm_changed m) key of Some c \<Rightarrow> c | None \<Rightarrow> repoResource);
             out = kiConvertCertificate kube ns (boBytes (res_base src)) (gm_get [] fileCommitMap key)
         in case out of (buf, err, converted) \<Rightarrow>
           if \<not> converted then Ret st
           else (case (err, buf) of
               (None, Some bytes) \<Rightarrow>
                 go_bind (parseKey key) (\<lambda>n.
                   (let newKey = ''secret/'' @ n; obj = secret_of repoResource key bytes;
                        m1 = tm_on_all (AList.update newKey obj) m
                    in if gm_has (tm_changed m1) key
                       then Ret (tm_on_changed (AList.update newKey obj) m1,
                              fst (snd st) @ [key], snd (snd st) @ [key])
                       else Ret (m1, fst (snd st) @ [key], snd (snd st))))
             | _ \<Rightarrow> Ret st)))"

fun convert_loop :: "kube_iface \<Rightarrow> string \<Rightarrow> (string, string) gomap \<Rightarrow> objs \<Rightarrow> convert_state
    \<Rightarrow> convert_state go" where
  "convert_loop kube ns fcm [] st = Ret st"
| "convert_loop kube ns fcm (kr # krs) st =
     go_bind (convert_one kube ns fcm kr st) (convert_loop kube ns fcm krs)"

definition convertCertificateToSecret :: "globals \<Rightarrow> kube_iface \<Rightarrow> string \<Rightarrow> (string, string) gomap
    \<Rightarrow> two_maps \<Rightarrow> two_maps go" where
  "convertCertificateToSecret gl kube ns fcm m =
     (if glCertManagerVersion gl \<noteq> ''1.1.1'' then Ret m
      else go_map (\<lambda>(m', delR, delC).
             tm_on_changed (\<lambda>x. fold AList.delete delC x) (tm_on_all (\<lambda>x. fold AList.delete delR x) m'))
           (convert_loop kube ns fcm (fst m) (m, [], [])))"

text \<open>
  The way back.  The kind is set on the object itself, so the resources inside reported errors
  change with it (\<^verbatim>\<open>uncert\<close>).
\<close>

definition is_converted :: "resource \<Rightarrow> bool" where
  "is_converted r \<longleftrightarrow> boKind (res_base r) = ''Secret'' \<and> boOriginalKey (res_base r) \<noteq> []"

fun set_kind :: "string \<Rightarrow> resource \<Rightarrow> resource" where
  "set_kind k (BaseObj b) = BaseObj (b\<lparr>boKind := k\<rparr>)"
| "set_kind k (ListObj b items) = ListObj (b\<lparr>boKind := k\<rparr>) items"

definition uncert :: "resource \<Rightarrow> resource" where
  "uncert r = (if is_converted r then set_kind ''Certificate'' r else r)"

fun revert_loop :: "objs \<Rightarrow> objs \<times> string list \<Rightarrow> objs \<times> string list" where
  "revert_loop [] st = st"
| "revert_loop ((key, r) # os) (m, dels) =
     (if is_converted r then
        revert_loop os (AList.update (boOriginalKey (res_base r)) (uncert r) (AList.update key (uncert r) m),
          dels @ [key])
      else revert_loop os (m, dels))"

definition convertSecretToCertificate :: "globals \<Rightarrow> objs \<Rightarrow> objs" where
  "convertSecretToCertificate gl changed =
     (if glCertManagerVersion gl = ''1.1.1'' then
        (let r = revert_loop changed (changed, []) in fold AList.delete (snd r) (fst r))
      else changed)"

section \<open>Labelling\<close>

definition label_resource :: "kube_iface \<Rightarrow> globals \<Rightarrow> string \<Rightarrow> (string, string) gomap \<Rightarrow> resource
    \<Rightarrow> resource" where
  "label_resource kube gl ns fcm r =
     (let b = res_base r in
      case kiLabelRepoObj kube ns (boBytes b) (glAgentVersion gl) (gm_get [] fcm (boSource b)) of
        Inr (Some bytes) \<Rightarrow> BaseObj \<lparr>boSource = boSource b, boBytes = bytes, boKind = boKind b,
          boNamespace = boNamespace b, boName = boName b, boAnnotations = boAnnotations b,
          boOriginalKey = []\<rparr>
      | _ \<Rightarrow> r)"

definition label_all :: "kube_iface \<Rightarrow> globals \<Rightarrow> string \<Rightarrow> (string, string) gomap \<Rightarrow> objs \<Rightarrow> objs" where
  "label_all kube gl ns fcm m = map (\<lambda>(k, r). (k, label_resource kube gl ns fcm r)) m"

section \<open>The synchronisation\<close>

definition isUnknownRevision :: "gerror \<Rightarrow> bool" where
  "isUnknownRevision e \<longleftrightarrow> contains e ''unknown revision or path not in the working tree.''
     \<or> contains e ''bad revision''"

fun file_commits :: "'w git_sys \<Rightarrow> checkout \<Rightarrow> string list \<Rightarrow> 'w \<Rightarrow> file_commit list \<times> 'w" where
  "file_commits sys c [] w = ([], w)"
| "file_commits sys c (f # fs) w =
     (let r = co_FileLastCommit sys c f w; s = file_commits sys c fs (snd r)
      in (case fst r of Inl e \<Rightarrow> fst s | Inr commit \<Rightarrow> \<lparr>fcFile = f, fcCommit = commit\<rparr> # fst s, snd s))"

definition fileCommitMap :: "file_commit list \<Rightarrow> (string, string) gomap" where
  "fileCommitMap fcs = fold (\<lambda>fc. AList.update (fcFile fc) (fcCommit fc)) fcs []"

text \<open>What is to be synchronised: the two maps, the commits of the files.\<close>

definition changed_stage :: "'w gitops \<Rightarrow> checkout \<Rightarrow> string \<Rightarrow> string \<Rightarrow> objs \<Rightarrow> string list \<Rightarrow> 'w
    \<Rightarrow> ((two_maps \<times> file_commit list) res \<times> 'w) go" where
  "changed_stage g c ns oldTagRev allResources files w =
     (if oldTagRev = [] then
        (let r = file_commits (goSys g) c files w in Ret (Inr ((allResources, None), fst r), snd r))
      else
        (let r = co_ChangedFiles (goSys g) c oldTagRev w in
         case fst r of
           Inl e \<Rightarrow> Ret (Inl (err_wrap e ''loading resources from repo''), snd r)
         | Inr (changedFiles, fileList) \<Rightarrow>
             (case changedFiles of
                [] \<Rightarrow> Ret (Inr ((allResources, Some []), []), snd r)
              | first # others \<Rightarrow>
                 (let fc = file_commits (goSys g) c fileList (snd r) in
                  go_bind (Load (goUnmarshal g) (goFiles g (snd fc)) ns (coDir c) first others)
                    (\<lambda>((changed, _), err). case err of
                       Some e \<Rightarrow> Ret (Inl (err_wrap e ''loading resources from repo''), snd fc)
                     | None \<Rightarrow> Ret (Inr ((allResources, Some changed), fst fc), snd fc))))))"

definition event_error :: "resource_error \<Rightarrow> gevent_error" where
  "event_error e = \<lparr>geID = bo_ResourceID (res_base (reResource e)),
     gePath = boSource (res_base (reResource e)), geError = reError e, geCommit = []\<rparr>"

fun error_commits :: "'w git_sys \<Rightarrow> checkout \<Rightarrow> (string, string) gomap \<Rightarrow> gevent_error list \<Rightarrow> 'w
    \<Rightarrow> gevent_error list \<times> 'w" where
  "error_commits sys c fcm [] w = ([], w)"
| "error_commits sys c fcm (e # es) w =
     (if gm_get [] fcm (gePath e) \<noteq> [] then
        (let s = error_commits sys c fcm es w in
         (e\<lparr>geCommit := gm_get [] fcm (gePath e)\<rparr> # fst s, snd s))
      else
        (let r = co_FileLastCommit sys c (gePath e) w; s = error_commits sys c fcm es (snd r) in
         ((case fst r of Inl _ \<Rightarrow> e | Inr commit \<Rightarrow> e\<lparr>geCommit := commit\<rparr>) # fst s, snd s)))"

text \<open>The identifiers of the changed resources as a set; the lookup under their text.\<close>

definition changed_ids :: "objs \<Rightarrow> resource_id list" where
  "changed_ids changed = fold (\<lambda>(k, r) ks. id_add (bo_ResourceID (res_base r)) ks) changed []"

fun resource_commits :: "objs \<Rightarrow> (string, string) gomap \<Rightarrow> resource_id list
    \<Rightarrow> resource_commit list go" where
  "resource_commits changed fcm [] = Ret []"
| "resource_commits changed fcm (i # is) =
     go_bind (rid_String i) (\<lambda>key. case map_of changed key of
       None \<Rightarrow> Panic
     | Some r \<Rightarrow> go_map (\<lambda>rcs. \<lparr>rcResourceId = key, rcFile = boSource (res_base r),
           rcCommit = gm_get [] fcm (boSource (res_base r))\<rparr> # rcs) (resource_commits changed fcm is))"

text \<open>Everything after the cluster was synchronised.\<close>

type_synonym 'w sync_out = "(gerror option \<times> packet list \<times> repo) \<times> 'w"

definition finish_stage :: "'w gitops \<Rightarrow> checkout \<Rightarrow> repo \<Rightarrow> string \<Rightarrow> nat \<Rightarrow> string \<Rightarrow> string
    \<Rightarrow> file_commit list \<Rightarrow> objs \<Rightarrow> resource_error list \<Rightarrow> 'w \<Rightarrow> 'w sync_out go" where
  "finish_stage g c repo ns started oldTagRev newTagRev fcs changed errs w =
     (let fcm = fileCommitMap fcs;
          ec = error_commits (goSys g) c fcm (map event_error errs) w;
          ids = changed_ids changed
      in go_bind (resource_commits changed fcm ids) (\<lambda>rcs.
        (let ev = \<lparr>evResourceIDs = ids, evType = EventSync, evStartedAt = started, evEndedAt = started,
               evCommit = newTagRev, evErrors = fst ec, evFileCommits = fcs,
               evResourceCommits = rcs\<rparr>;
             pkts = snd (LogEvent g ev ns)
         in if oldTagRev = newTagRev then Ret ((None, pkts, repo), snd ec)
            else
              (let mv = co_MoveSyncTagAndPush (goSys g) c newTagRev ''Sync pointer'' (snd ec) in
               case fst mv of
                 Some e \<Rightarrow> Ret ((Some e, pkts, repo), snd mv)
               | None \<Rightarrow> (case repo_Refresh (goSys g) repo (snd mv) of
                   (e, repo', w') \<Rightarrow> Ret ((e, pkts, repo'), w'))))))"

definition sync_stage :: "'w gitops \<Rightarrow> checkout \<Rightarrow> repo \<Rightarrow> string \<Rightarrow> nat \<Rightarrow> string \<Rightarrow> string
    \<Rightarrow> file_commit list \<Rightarrow> two_maps \<Rightarrow> 'w \<Rightarrow> 'w sync_out go" where
  "sync_stage g c repo ns started oldTagRev newTagRev fcs maps w =
     (let gl = goGlobals g; fcm = fileCommitMap fcs;
          labelled = tm_on_changed (label_all (goKube g) gl ns fcm) maps
      in go_bind (convertCertificateToSecret gl (goKube g) ns fcm labelled) (\<lambda>m.
         go_bind (gitops_Sync g ns (fst m) (tm_changed m) w) (\<lambda>(res, w1).
           (let changed = convertSecretToCertificate gl (tm_changed m) in
            case res of
              SyncFailed e \<Rightarrow> Ret ((Some e, [], repo), w1)
            | SyncErrors errs \<Rightarrow>
                (let errs' = map (\<lambda>e. if glCertManagerVersion gl = ''1.1.1''
                       \<and> reResource e \<in> snd ` set (tm_changed m)
                     then e\<lparr>reResource := uncert (reResource e)\<rparr> else e) errs
                 in finish_stage g c repo ns started oldTagRev newTagRev fcs changed errs' w1)))))"

definition doSync_new :: "'w gitops \<Rightarrow> checkout \<Rightarrow> repo \<Rightarrow> string \<Rightarrow> nat \<Rightarrow> string \<Rightarrow> 'w
    \<Rightarrow> 'w sync_out go" where
  "doSync_new g c repo ns started oldTagRev w =
     (let new = co_DevOpsSyncRevision (goSys g) c w in
      case fst new of Inl e \<Rightarrow> Ret ((Some e, [], repo), snd new)
      | Inr newTagRev \<Rightarrow>
          go_bind (Load (goUnmarshal g) (goFiles g (snd new)) ns (coDir c) (co_ManifestDir c) [])
            (\<lambda>((allResources, files), err). case err of
               Some e \<Rightarrow> Ret ((Some (err_wrap e ''loading resources from repo''), [], repo), snd new)
             | None \<Rightarrow>
                go_bind (changed_stage g c ns oldTagRev allResources files (snd new)) (\<lambda>(ch, w1).
                  case ch of Inl e \<Rightarrow> Ret ((Some e, [], repo), w1)
                  | Inr (maps, fcs) \<Rightarrow>
                      sync_stage g c repo ns started oldTagRev newTagRev fcs maps w1)))"

definition doSync_body :: "'w gitops \<Rightarrow> checkout \<Rightarrow> repo \<Rightarrow> string \<Rightarrow> nat \<Rightarrow> 'w \<Rightarrow> 'w sync_out go" where
  "doSync_body g c repo ns started w =
     (let old = co_SyncRevision (goSys g) c w in
      case fst old of
        Inl e \<Rightarrow> if \<not> isUnknownRevision e then Ret ((Some e, [], repo), snd old)
                 else doSync_new g c repo ns started [] (snd old)
      | Inr r \<Rightarrow> doSync_new g c repo ns started r (snd old))"

text \<open>
  The repositories are looked up by namespace; an absent one is a nil pointer.  The working clone
  is removed on every way out.
\<close>

definition doSync :: "'w gitops \<Rightarrow> (string, repo) gomap \<Rightarrow> string \<Rightarrow> nat \<Rightarrow> 'w \<Rightarrow> 'w sync_out go" where
  "doSync g repos ns started w = (case map_of repos ns of
     None \<Rightarrow> Panic
   | Some repo \<Rightarrow>
      (let cl = repo_Clone (goSys g) (goSwap g) repo (goConfig g) w in
       case fst cl of Inl e \<Rightarrow> Ret ((Some e, [], repo), snd cl)
       | Inr c \<Rightarrow> go_map (\<lambda>(out, w'). (out, co_Clean (goSys g) c w'))
                    (doSync_body g c repo ns started (snd cl))))"

section \<open>What is deleted, what is applied\<close>

lemma delete_loop_actions:
  "delete_loop repo os actions = actions @ map del_action (map snd (filter (\<lambda>(i, r). \<not> gm_has repo i) os))"
  by (induction repo os actions rule: delete_loop.induct)
    (auto simp: prepareSyncDelete_def del_action_def)

lemma apply_loop_actions: "apply_loop os actions = actions @ map app_action (map snd os)"
  by (induction os actions rule: apply_loop.induct) (auto simp: prepareSyncApply_def app_action_def)

definition to_delete :: "objs \<Rightarrow> objs \<Rightarrow> resource list" where
  "to_delete repo os = map snd (filter (\<lambda>(i, r). \<not> gm_has repo i) os)"

lemma actions_split: "apply_loop changed (delete_loop repo os []) =
    map del_action (to_delete repo os) @ map app_action (map snd changed)"
  by (simp add: delete_loop_actions apply_loop_actions to_delete_def)

text \<open>
  C1: One synchronisation of the cluster deletes exactly the exported resources whose key the
  repository does not define and applies exactly the changed resources, each once: the
  change set passed on has the parsed objects of the former as deletions and of the latter as
  applications; nothing that is in the repository is deleted.  Errors of the export and of its
  parsing reach the caller without any change to the cluster.
\<close>

theorem gitops_Sync_correct:
  "case Export (goGlobals g) (goClient g w) (goMarshal g) (goKinds g) ns of
     Panic \<Rightarrow> gitops_Sync g ns repo changed w = Panic
   | Ret (Inl e) \<Rightarrow> gitops_Sync g ns repo changed w
        = Ret (SyncFailed (''exporting resource defs from cluster: '' @ e), w)
   | Ret (Inr bytes) \<Rightarrow>
      (case ParseManifests (goUnmarshal g) ns bytes of
         Panic \<Rightarrow> gitops_Sync g ns repo changed w = Panic
       | Ret (cluster, Some e) \<Rightarrow> gitops_Sync g ns repo changed w
            = Ret (SyncFailed (''parsing exported resources: '' @ e), w)
       | Ret (cluster, None) \<Rightarrow>
          (\<exists>cs. gitops_Sync g ns repo changed w =
              Ret (SyncErrors (parse_errs (goParse g) (to_delete repo cluster)
                     @ parse_errs (goParse g) (map snd changed) @ fst (goApplier g ns cs w)),
                   snd (goApplier g ns cs w))
            \<and> DeleteObj cs = staged (goParse g) (to_delete repo cluster)
            \<and> ApplyObj cs = staged (goParse g) (map snd changed)
            \<and> aoResource ` set (DeleteObj cs) \<subseteq> {r. \<exists>i. (i, r) \<in> set cluster \<and> \<not> gm_has repo i}))"
proof (cases "Export (goGlobals g) (goClient g w) (goMarshal g) (goKinds g) ns")
  case (Ret x)
  show ?thesis
  proof (cases x)
    case (Inr bytes)
    show ?thesis
    proof (cases "ParseManifests (goUnmarshal g) ns bytes")
      case ret: (Ret y)
      obtain cluster err where y: "y = (cluster, err)" by (cases y) auto
      show ?thesis
      proof (cases err)
        case None
        obtain cs where cs: "cluster_Sync (goParse g) (goApplier g) ns
            (apply_loop changed (delete_loop repo cluster [])) w =
            (parse_errs (goParse g) (to_delete repo cluster) @ parse_errs (goParse g) (map snd changed)
               @ fst (goApplier g ns cs w), snd (goApplier g ns cs w))"
          "DeleteObj cs = staged (goParse g) (to_delete repo cluster)"
          "ApplyObj cs = staged (goParse g) (map snd changed)"
          using cluster_Sync_split [of "goParse g" "goApplier g" ns "to_delete repo cluster"
            "map snd changed" w] unfolding actions_split by blast
        have "aoResource ` set (DeleteObj cs) \<subseteq> set (to_delete repo cluster)"
          using staged_resource cs(2) by auto
        also have "\<dots> \<subseteq> {r. \<exists>i. (i, r) \<in> set cluster \<and> \<not> gm_has repo i}"
          by (auto simp: to_delete_def)
        finally have "aoResource ` set (DeleteObj cs) \<subseteq> {r. \<exists>i. (i, r) \<in> set cluster \<and> \<not> gm_has repo i}" .
        moreover have "gitops_Sync g ns repo changed w =
            Ret (SyncErrors (parse_errs (goParse g) (to_delete repo cluster)
              @ parse_errs (goParse g) (map snd changed) @ fst (goApplier g ns cs w)),
              snd (goApplier g ns cs w))"
          using Ret Inr ret y None cs(1) by (simp add: gitops_Sync_def Let_def)
        ultimately show ?thesis using Ret Inr ret y None cs(2,3) by simp (rule exI [of _ cs], simp)
      next
        case (Some e)
        then show ?thesis using Ret Inr ret y by (simp add: gitops_Sync_def err_wrap_def)
      qed
    qed (use Ret Inr in \<open>simp add: gitops_Sync_def\<close>)
  qed (use Ret in \<open>simp add: gitops_Sync_def err_wrap_def\<close>)
qed (simp add: gitops_Sync_def)

section \<open>Keys along the way\<close>

text \<open>
  While certificates are converted, an entry is either filed under its own key, or it is a converted
  certificate that remembers the key it goes back to.
\<close>

definition entry_ok :: "string \<times> resource \<Rightarrow> bool" where
  "entry_ok kr \<longleftrightarrow> (if is_converted (snd kr)
     then boOriginalKey (res_base (snd kr)) = bo_key (res_base (uncert (snd kr)))
     else fst kr = bo_key (res_base (snd kr)))"

definition keyed :: "objs \<Rightarrow> bool" where
  "keyed m \<longleftrightarrow> gm_ok m \<and> (\<forall>kr \<in> set m. entry_ok kr)"

definition plain :: "objs \<Rightarrow> bool" where
  "plain m \<longleftrightarrow> gm_ok m \<and> (\<forall>(k, r) \<in> set m. k = bo_key (res_base r) \<and> \<not> is_converted r)"

lemma plain_keyed: "plain m \<Longrightarrow> keyed m"
  by (auto simp: plain_def keyed_def entry_ok_def)

lemma keyed_update [inv_intros]: "keyed m \<Longrightarrow> entry_ok (k, r) \<Longrightarrow> keyed (AList.update k r m)"
  using set_update_subset [of k r m] by (auto simp: keyed_def)

lemma keyed_delete [inv_intros]: "keyed m \<Longrightarrow> keyed (AList.delete k m)"
  by (auto simp: keyed_def AList.delete_eq)
    (metis AList.delete_eq gm_ok_delete)

lemma keyed_deletes [inv_intros]: "keyed m \<Longrightarrow> keyed (fold AList.delete ks m)"
  by (induction ks arbitrary: m) (auto intro: keyed_delete)

lemma uncert_kind [simp]: "boKind (res_base (set_kind k r)) = k"
  "boName (res_base (set_kind k r)) = boName (res_base r)"
  "boSource (res_base (set_kind k r)) = boSource (res_base r)"
  "boOriginalKey (res_base (set_kind k r)) = boOriginalKey (res_base r)"
  by (cases r; simp)+

lemma not_converted_uncert [simp]: "\<not> is_converted (uncert r)"
  by (auto simp: uncert_def is_converted_def)

lemma secret_of_entry:
  assumes "key = bo_key (res_base r)" "boKind (res_base r) = ''Certificate''"
  shows "entry_ok (k, secret_of r key bytes)" "is_converted (secret_of r key bytes)"
proof -
  have "key \<noteq> []" using assms(1) by (simp add: bo_key_def)
  then show "is_converted (secret_of r key bytes)" by (simp add: is_converted_def secret_of_def)
  then show "entry_ok (k, secret_of r key bytes)"
    using assms by (simp add: entry_ok_def uncert_def) (simp add: secret_of_def bo_key_def)
qed

lemma parseKey_bo_key: "\<exists>n. parseKey (bo_key b) = Ret n"
proof -
  have "CHR ''/'' \<in> set (bo_key b)" by (simp add: bo_key_def)
  then have "parseKey (bo_key b) \<noteq> Panic" unfolding parseKey_def go_index_split_char_1 by simp
  then show ?thesis by (simp add: not_Panic_iff)
qed

definition tm_keyed :: "two_maps \<Rightarrow> bool" where
  "tm_keyed m \<longleftrightarrow> keyed (fst m) \<and> keyed (tm_changed m)"

lemma tm_keyed_update:
  assumes "tm_keyed m" "entry_ok (k, r)"
  shows "tm_keyed (tm_on_all (AList.update k r) m)"
    and "tm_keyed (tm_on_changed (AList.update k r) m)"
  using assms by (auto simp: tm_keyed_def tm_on_all_def tm_on_changed_def tm_changed_def
      intro: keyed_update split: option.splits)

lemma tm_keyed_deletes:
  assumes "tm_keyed m"
  shows "tm_keyed (tm_on_all (fold AList.delete ks) m)"
    and "tm_keyed (tm_on_changed (fold AList.delete ks) m)"
  using assms by (auto simp: tm_keyed_def tm_on_all_def tm_on_changed_def tm_changed_def
      intro: keyed_deletes split: option.splits)

lemma convert_one_ok:
  assumes "fst kr = bo_key (res_base (snd kr))" "tm_keyed (fst st)"
  shows "\<exists>st'. convert_one kube ns fcm kr st = Ret st' \<and> tm_keyed (fst st')"
proof (cases "boKind (res_base (snd kr)) = ''Certificate''")
  case True
  let ?src = "case map_of (tm_changed (fst st)) (fst kr) of Some c \<Rightarrow> c | None \<Rightarrow> snd kr"
  obtain buf err converted where out: "kiConvertCertificate kube ns (boBytes (res_base ?src))
      (gm_get [] fcm (fst kr)) = (buf, err, converted)"
    by (metis prod_cases3)
  show ?thesis
  proof (cases "converted \<and> err = None \<and> buf \<noteq> None")
    case c: True
    then obtain bytes where b: "buf = Some bytes" by blast
    obtain n where n: "parseKey (fst kr) = Ret n" using parseKey_bo_key assms(1) by metis
    let ?obj = "secret_of (snd kr) (fst kr) bytes"
    let ?m1 = "tm_on_all (AList.update (''secret/'' @ n) ?obj) (fst st)"
    have e: "entry_ok (''secret/'' @ n, ?obj)" using secret_of_entry(1) assms(1) True by blast
    have k: "tm_keyed ?m1" "tm_keyed (tm_on_changed (AList.update (''secret/'' @ n) ?obj) ?m1)"
      using tm_keyed_update e assms(2) by blast+
    show ?thesis
    proof (cases "gm_has (tm_changed ?m1) (fst kr)")
      case g: True
      then have "convert_one kube ns fcm kr st =
          Ret (tm_on_changed (AList.update (''secret/'' @ n) ?obj) ?m1,
            fst (snd st) @ [fst kr], snd (snd st) @ [fst kr])"
        using True c b n out by (simp add: convert_one_def Let_def)
      then show ?thesis using k(2) by auto
    next
      case g: False
      then have "convert_one kube ns fcm kr st = Ret (?m1, fst (snd st) @ [fst kr], snd (snd st))"
        using True c b n out by (simp add: convert_one_def Let_def)
      then show ?thesis using k(1) by auto
    qed
  next
    case False
    then have "convert_one kube ns fcm kr st = Ret st"
      using True out by (auto simp: convert_one_def Let_def split: option.split)
    then show ?thesis using assms(2) by blast
  qed
qed (use assms(2) in \<open>simp add: convert_one_def Let_def\<close>)

lemma convert_loop_ok:
  assumes "\<forall>kr \<in> set krs. fst kr = bo_key (res_base (snd kr))" "tm_keyed (fst st)"
  shows "\<exists>st'. convert_loop kube ns fcm krs st = Ret st' \<and> tm_keyed (fst st')"
  using assms
proof (induction krs arbitrary: st)
  case (Cons kr krs)
  obtain st1 where s1: "convert_one kube ns fcm kr st = Ret st1" "tm_keyed (fst st1)"
    using convert_one_ok [of kr st kube ns fcm] Cons.prems by auto
  show ?case using Cons.IH [of st1] Cons.prems(1) s1 by simp
qed simp

lemma convert_ok:
  assumes "plain (fst m)" "plain (tm_changed m)"
  shows "\<exists>m'. convertCertificateToSecret gl kube ns fcm m = Ret m' \<and> tm_keyed m'"
proof (cases "glCertManagerVersion gl = ''1.1.1''")
  case True
  have "\<forall>kr \<in> set (fst m). fst kr = bo_key (res_base (snd kr))" "tm_keyed m"
    using assms plain_keyed by (auto simp: plain_def tm_keyed_def)
  then obtain m' delR delC where "convert_loop kube ns fcm (fst m) (m, [], []) = Ret (m', delR, delC)"
    "tm_keyed m'"
    using convert_loop_ok [of "fst m" "(m, [], [])" kube ns fcm] by auto
  then show ?thesis using True tm_keyed_deletes by (simp add: convertCertificateToSecret_def)
next
  case False
  then show ?thesis using assms plain_keyed
    by (simp add: convertCertificateToSecret_def tm_keyed_def)
qed

text \<open>The way back: what is not filed under its own key is deleted or still to be visited.\<close>

definition reverting :: "objs \<Rightarrow> objs \<Rightarrow> string list \<Rightarrow> bool" where
  "reverting os m dels \<longleftrightarrow> gm_ok m
     \<and> (\<forall>(k, r) \<in> set m. k = bo_key (res_base r) \<or> k \<in> set dels \<or> (is_converted r \<and> (k, r) \<in> set os))"

lemma revert_loop_ok:
  assumes "reverting os m dels" "\<forall>kr \<in> set os. entry_ok kr"
  shows "reverting [] (fst (revert_loop os (m, dels))) (snd (revert_loop os (m, dels)))"
  using assms
proof (induction os arbitrary: m dels)
  case (Cons kr os)
  obtain key r where kr: "kr = (key, r)" by (cases kr)
  show ?case
  proof (cases "is_converted r")
    case True
    let ?m1 = "AList.update key (uncert r) m"
    let ?m2 = "AList.update (boOriginalKey (res_base r)) (uncert r) ?m1"
    have orig: "boOriginalKey (res_base r) = bo_key (res_base (uncert r))"
      using Cons.prems(2) kr True by (simp add: entry_ok_def)
    have sub: "set ?m2 \<subseteq> insert (boOriginalKey (res_base r), uncert r) (insert (key, uncert r) (set m))"
      using set_update_subset [of "boOriginalKey (res_base r)" "uncert r" ?m1]
        set_update_subset [of key "uncert r" m] by blast
    have "k = bo_key (res_base r') \<or> k \<in> set (dels @ [key]) \<or> is_converted r' \<and> (k, r') \<in> set os"
      if "(k, r') \<in> set ?m2" for k r'
    proof -
      consider "k = boOriginalKey (res_base r)" "r' = uncert r" | "k = key" | "(k, r') \<in> set m"
        using sub \<open>(k, r') \<in> set ?m2\<close> by blast
      then show ?thesis
        by cases (use orig Cons.prems(1) kr in \<open>auto simp: reverting_def\<close>)
    qed
    then have "reverting os ?m2 (dels @ [key])"
      using Cons.prems(1) by (auto simp: reverting_def)
    then show ?thesis using Cons kr True by simp
  next
    case False
    then have "reverting os m dels" using Cons.prems(1) kr by (auto simp: reverting_def)
    then show ?thesis using Cons kr False by simp
  qed
qed simp

lemma revert_keys:
  assumes "keyed m"
  shows "gm_ok (convertSecretToCertificate gl m)"
    and "glCertManagerVersion gl = ''1.1.1'' \<or> plain m \<Longrightarrow>
      \<forall>(k, r) \<in> set (convertSecretToCertificate gl m). k = bo_key (res_base r)"
proof -
  let ?r = "revert_loop m (m, [])"
  have "reverting m m []"
    using assms by (auto simp: reverting_def keyed_def entry_ok_def split: if_splits)
  then have rv: "reverting [] (fst ?r) (snd ?r)"
    using revert_loop_ok assms unfolding keyed_def by blast
  have del: "set (fold AList.delete ks x) = {kr \<in> set x. fst kr \<notin> set ks}" for ks and x :: objs
    by (induction ks arbitrary: x) (auto simp: AList.delete_eq)
  have okd: "gm_ok x \<Longrightarrow> gm_ok (fold AList.delete ks x)" for ks and x :: objs
    by (induction ks arbitrary: x) auto
  show "gm_ok (convertSecretToCertificate gl m)"
    using rv assms okd by (simp add: convertSecretToCertificate_def Let_def reverting_def keyed_def)
  assume "glCertManagerVersion gl = ''1.1.1'' \<or> plain m"
  then show "\<forall>(k, r) \<in> set (convertSecretToCertificate gl m). k = bo_key (res_base r)"
  proof (cases "glCertManagerVersion gl = ''1.1.1''")
    case True
    then show ?thesis using rv
      by (auto simp: convertSecretToCertificate_def Let_def del reverting_def)
  qed (auto simp: convertSecretToCertificate_def plain_def)
qed

lemma resource_commits_ok:
  assumes "\<forall>i \<in> set ids. \<exists>b. i = bo_ResourceID b \<and> gm_has changed (bo_key b)"
  shows "resource_commits changed fcm ids \<noteq> Panic"
  using assms
proof (induction ids)
  case (Cons i ids)
  then obtain b r where "i = bo_ResourceID b" "map_of changed (bo_key b) = Some r"
    by (auto simp: gm_has_def)
  with Cons show ?case by (auto simp: go_simps)
qed simp

lemma changed_ids_from:
  "i \<in> set (fold (\<lambda>(k, r) ks. id_add (bo_ResourceID (res_base r)) ks) m acc) \<Longrightarrow>
   i \<in> set acc \<or> (\<exists>(k, r) \<in> set m. i = bo_ResourceID (res_base r))"
proof (induction m arbitrary: acc)
  case (Cons kr m)
  from Cons.IH [OF Cons.prems [simplified]] show ?case
    by (cases kr) (auto simp: id_add_def split: if_splits)
qed simp

lemma finish_stage_ok:
  assumes "\<forall>(k, r) \<in> set changed. k = bo_key (res_base r)"
  shows "finish_stage g c repo ns started oldTag newTag fcs changed errs w \<noteq> Panic"
proof -
  have "\<forall>i \<in> set (changed_ids changed). \<exists>b. i = bo_ResourceID b \<and> gm_has changed (bo_key b)"
  proof
    fix i assume "i \<in> set (changed_ids changed)"
    then obtain k r where kr: "(k, r) \<in> set changed" "i = bo_ResourceID (res_base r)"
      using changed_ids_from [of i changed "[]"] by (auto simp: changed_ids_def)
    then have "gm_has changed (bo_key (res_base r))"
      using assms by (force simp: gm_has_iff)
    then show "\<exists>b. i = bo_ResourceID b \<and> gm_has changed (bo_key b)" using kr by blast
  qed
  then obtain rcs where "resource_commits changed (fileCommitMap fcs) (changed_ids changed) = Ret rcs"
    using resource_commits_ok not_Panic_iff by metis
  then show ?thesis
    by (auto simp: finish_stage_def Let_def split: option.splits prod.splits)
qed

section \<open>No panics\<close>

text \<open>What the YAML parser has to do: never leave a nil object, never set a key of our own.\<close>

definition um_clean :: "yaml_unmarshal \<Rightarrow> bool" where
  "um_clean um \<longleftrightarrow> (\<forall>b base. um b base \<noteq> Inr None)
     \<and> (\<forall>b base base'. um b base = Inr (Some base') \<longrightarrow> boOriginalKey base' = boOriginalKey base)"

definition fresh :: "resource \<Rightarrow> bool" where
  "fresh r \<longleftrightarrow> boOriginalKey (res_base r) = []"

lemma unmarshalObject_clean:
  assumes "um_clean um"
  obtains e where "unmarshalObject um ns source bytes = Ret (Inl e)"
    | b where "unmarshalObject um ns source bytes = Ret (Inr (BaseObj b))" "boOriginalKey b = []"
proof (cases "unmarshalObject um ns source bytes")
  case (Ret x)
  with assms that show ?thesis
    by (cases x) (auto simp: unmarshalObject_def Let_def um_clean_def split: sum.splits option.splits)
next
  case Panic
  with assms have False
    by (auto simp: unmarshalObject_def Let_def um_clean_def split: sum.splits option.splits)
  then show ?thesis ..
qed

lemma parse_docs_clean:
  assumes "um_clean um" "\<forall>(k, r) \<in> set objs. fresh r"
  shows "\<exists>objs' err. parse_docs um ns source ds objs = Ret (objs', err) \<and> (\<forall>(k, r) \<in> set objs'. fresh r)"
  using assms(2)
proof (induction ds arbitrary: objs)
  case (Cons d ds)
  show ?case
  proof (cases "trim_space d = []")
    case False
    show ?thesis
    proof (rule unmarshalObject_clean [OF assms(1), of ns source d])
      fix b assume b: "unmarshalObject um ns source d = Ret (Inr (BaseObj b))" "boOriginalKey b = []"
      have "\<forall>(k, r) \<in> set (add_resource (BaseObj b) objs). fresh r"
        using Cons.prems b(2) set_update_subset [of "bo_key b" "BaseObj b" objs]
        by (auto simp: add_resource_def fresh_def)
      from Cons.IH [OF this] False b(1) show ?thesis by simp
    qed (use False in simp)
  qed (use Cons in simp)
qed simp

lemma ParseMultidoc_clean:
  assumes "um_clean um"
  shows "\<exists>objs err. ParseMultidoc um ns bytes source = Ret (objs, err) \<and> (\<forall>(k, r) \<in> set objs. fresh r)"
proof -
  obtain objs err where "parse_docs um ns source (fst (yaml_docs yaml_max bytes)) [] = Ret (objs, err)"
    "\<forall>(k, r) \<in> set objs. fresh r"
    using parse_docs_clean [OF assms, of "[]" ns source "fst (yaml_docs yaml_max bytes)"] by auto
  then show ?thesis by (auto simp: ParseMultidoc_def Let_def split: option.split)
qed

lemma merge_docs_fresh:
  "\<forall>(k, r) \<in> set docs. fresh r \<Longrightarrow> \<forall>(k, r) \<in> set objs. fresh r \<Longrightarrow>
   \<forall>(k, r) \<in> set (fst (merge_docs source docs objs)). fresh r"
proof (induction source docs objs rule: merge_docs.induct)
  case (2 source i obj docs objs)
  have "\<forall>(k, r) \<in> set (AList.update i obj objs). fresh r"
    using 2(2,3) set_update_subset [of i obj objs] by auto
  with 2 show ?case by (auto split: option.split)
qed simp

lemma load_entry_clean:
  assumes "um_clean um" "\<forall>(k, r) \<in> set (fst st). fresh r"
  shows "\<exists>st' err. load_entry um fs ns base e st = Ret (st', err) \<and> (\<forall>(k, r) \<in> set (fst st'). fresh r)"
proof -
  have keep: "\<exists>st' err. (Ret (st, x) :: (load_state \<times> gerror option) go) = Ret (st', err)
      \<and> (\<forall>(k, r) \<in> set (fst st'). fresh r)" for x
    using assms(2) by (intro exI [of _ st] exI [of _ x]) simp
  show ?thesis
  proof (cases "weErr e")
    case None
    show ?thesis
    proof (cases "is_manifest e")
      case True
      show ?thesis
      proof (cases "fsReadFile fs (wePath e)")
        case (Inr bytes)
        show ?thesis
        proof (cases "fsRel fs base (wePath e)")
          case rel: (Inr source)
          obtain docs err where p: "ParseMultidoc um ns bytes source = Ret (docs, err)"
            "\<forall>(k, r) \<in> set docs. fresh r"
            using ParseMultidoc_clean [OF assms(1)] by blast
          show ?thesis
          proof (cases err)
            case ok: None
            then have "load_entry um fs ns base e st = Ret ((fst (merge_docs source docs (fst st)),
                snd st @ [source]), snd (merge_docs source docs (fst st)))"
              using None True Inr rel p(1) by (simp add: load_entry_def Let_def)
            then show ?thesis using merge_docs_fresh [OF p(2) assms(2), of source] by simp
          next
            case (Some er)
            then have "load_entry um fs ns base e st = Ret ((fst st, snd st @ [source]), Some er)"
              using None True Inr rel p(1) by (simp add: load_entry_def Let_def)
            then show ?thesis using assms(2) by simp
          qed
        qed (use None True Inr keep in \<open>simp add: load_entry_def\<close>)
      qed (use None True keep in \<open>simp add: load_entry_def\<close>)
    qed (use None keep in \<open>simp add: load_entry_def\<close>)
  qed (use keep in \<open>simp add: load_entry_def\<close>)
qed

lemma load_entries_clean:
  assumes "um_clean um" "\<forall>(k, r) \<in> set (fst st). fresh r"
  shows "\<exists>st' err. load_entries um fs ns base es st = Ret (st', err) \<and> (\<forall>(k, r) \<in> set (fst st'). fresh r)"
  using assms(2)
proof (induction es arbitrary: st)
  case (Cons e es)
  obtain st1 err where "load_entry um fs ns base e st = Ret (st1, err)" "\<forall>(k, r) \<in> set (fst st1). fresh r"
    using load_entry_clean [OF assms(1) Cons.prems] by blast
  with Cons.IH [of st1] show ?case by (cases err) simp_all
qed simp

lemma load_roots_clean:
  assumes "um_clean um" "\<forall>(k, r) \<in> set (fst st). fresh r"
  shows "\<exists>st' err. load_roots um fs ns base rs st = Ret (st', err) \<and> (\<forall>(k, r) \<in> set (fst st'). fresh r)"
  using assms(2)
proof (induction rs arbitrary: st)
  case (Cons r rs)
  obtain st1 err where "load_entries um fs ns base (fsWalk fs r) st = Ret (st1, err)"
    "\<forall>(k, r) \<in> set (fst st1). fresh r"
    using load_entries_clean [OF assms(1) Cons.prems] by blast
  with Cons.IH [of st1] show ?case by (cases err) simp_all
qed simp

lemma Load_plain:
  assumes "um_clean um"
  shows "\<exists>objs files err. Load um fs ns base root roots = Ret ((objs, files), err) \<and> plain objs"
proof -
  obtain objs files err where l: "Load um fs ns base root roots = Ret ((objs, files), err)"
    "\<forall>(k, r) \<in> set objs. fresh r"
    using load_roots_clean [OF assms, of "([], [])" fs ns base "root # roots"]
    by (auto simp: Load_def simp del: load_roots.simps)
  have "objs_ok ns objs" using load_roots_step [OF l(1) [unfolded Load_def]] by simp
  with l(2) have "plain objs" by (auto simp: plain_def objs_ok_def fresh_def is_converted_def)
  with l show ?thesis by blast
qed

lemma label_resource_key [simp]:
  "bo_key (res_base (label_resource kube gl ns fcm r)) = bo_key (res_base r)"
  by (auto simp: label_resource_def Let_def bo_key_def split: sum.split option.split)

lemma label_resource_converted: "\<not> is_converted r \<Longrightarrow> \<not> is_converted (label_resource kube gl ns fcm r)"
  by (auto simp: label_resource_def Let_def is_converted_def split: sum.split option.split)

lemma plain_label_all [inv_intros]: "plain m \<Longrightarrow> plain (label_all kube gl ns fcm m)"
proof -
  assume p: "plain m"
  have "map fst (label_all kube gl ns fcm m) = map fst m" by (auto simp: label_all_def)
  then show ?thesis using p label_resource_converted
    by (auto simp: plain_def gm_ok_def) (auto simp: label_all_def)
qed

definition tm_plain :: "two_maps \<Rightarrow> bool" where
  "tm_plain m \<longleftrightarrow> plain (fst m) \<and> plain (tm_changed m)"

lemma tm_plain_label: "tm_plain m \<Longrightarrow> tm_plain (tm_on_changed (label_all kube gl ns fcm) m)"
  by (auto simp: tm_plain_def tm_on_changed_def tm_changed_def plain_label_all split: option.split)

lemma changed_stage_plain:
  assumes "um_clean (goUnmarshal g)" "plain allResources"
  shows "\<exists>x w'. changed_stage g c ns old allResources files w = Ret (x, w')
    \<and> (\<forall>maps fcs. x = Inr (maps, fcs) \<longrightarrow> tm_plain maps)"
proof (cases "old = []")
  case True
  then show ?thesis using assms(2) by (simp add: changed_stage_def Let_def tm_plain_def tm_changed_def)
next
  case False
  let ?r = "co_ChangedFiles (goSys g) c old w"
  have nil: "plain []" by (simp add: plain_def)
  show ?thesis
  proof (cases "fst ?r")
    case (Inl e)
    then show ?thesis using False by (simp add: changed_stage_def Let_def)
  next
    case (Inr y)
    obtain cf fl where y: "y = (cf, fl)" by (cases y)
    show ?thesis
    proof (cases cf)
      case Nil
      then show ?thesis using False Inr y assms(2) nil
        by (simp add: changed_stage_def Let_def tm_plain_def tm_changed_def)
    next
      case (Cons f others)
      let ?fc = "file_commits (goSys g) c fl (snd ?r)"
      obtain objs files err where
        l: "Load (goUnmarshal g) (goFiles g (snd ?fc)) ns (coDir c) f others = Ret ((objs, files), err)"
          "plain objs"
        using Load_plain [OF assms(1)] by blast
      then show ?thesis using False Inr y Cons assms(2)
        by (cases err) (simp_all add: changed_stage_def Let_def tm_plain_def tm_changed_def)
    qed
  qed
qed

lemma Export_clean:
  assumes "\<And>ns. ccHasMgr cl ns"
  shows "Export gl cl marshal order ns \<noteq> Panic"
proof -
  have g: "\<exists>r. GetResources gl cl ns k = Ret r" for k
    by (cases k) (simp_all add: release_GetResources_def assms)
  have "export_kinds gl cl marshal ns order buf \<noteq> Panic" for buf
  proof (induction order arbitrary: buf)
    case (Cons k ks)
    obtain r where "GetResources gl cl ns k = Ret r" using g by blast
    with Cons show ?case by (auto split: sum.split)
  qed simp
  then show ?thesis by (simp add: Export_def)
qed

lemma gitops_Sync_clean:
  assumes "um_clean (goUnmarshal g)" "\<And>w ns. ccHasMgr (goClient g w) ns"
  shows "gitops_Sync g ns repo changed w \<noteq> Panic"
proof -
  obtain x where "Export (goGlobals g) (goClient g w) (goMarshal g) (goKinds g) ns = Ret x"
    using Export_clean [OF assms(2)] not_Panic_iff by metis
  moreover have "\<exists>o1 err. ParseManifests (goUnmarshal g) ns b = Ret (o1, err)" for b
    unfolding ParseManifests_def using ParseMultidoc_clean [OF assms(1), of ns b "''exported''"] by blast
  ultimately show ?thesis
    unfolding gitops_Sync_def by (cases x) (auto simp: Let_def go_simps split: option.splits, metis go.distinct(1))
qed

lemma sync_stage_clean:
  assumes "um_clean (goUnmarshal g)" "\<And>w ns. ccHasMgr (goClient g w) ns" "tm_plain maps"
  shows "sync_stage g c repo ns started old new fcs maps w \<noteq> Panic"
proof -
  let ?gl = "goGlobals g" and ?fcm = "fileCommitMap fcs"
  let ?l = "tm_on_changed (label_all (goKube g) ?gl ns ?fcm) maps"
  have l: "plain (fst ?l)" "plain (tm_changed ?l)"
    using tm_plain_label [OF assms(3)] by (auto simp: tm_plain_def)
  obtain m where m: "convertCertificateToSecret ?gl (goKube g) ns ?fcm ?l = Ret m" "tm_keyed m"
    using convert_ok [OF l] by blast
  obtain res w1 where s: "gitops_Sync g ns (fst m) (tm_changed m) w = Ret (res, w1)"
    using gitops_Sync_clean [OF assms(1,2)] not_Panic_iff by (metis surj_pair)
  have "glCertManagerVersion ?gl = ''1.1.1'' \<or> plain (tm_changed m)"
    using m(1) l by (auto simp: convertCertificateToSecret_def split: if_splits)
  then have "\<forall>(k, r) \<in> set (convertSecretToCertificate ?gl (tm_changed m)). k = bo_key (res_base r)"
    using m(2) by (intro revert_keys(2)) (simp_all add: tm_keyed_def)
  from finish_stage_ok [OF this] show ?thesis
    using m(1) s by (cases res) (simp_all add: sync_stage_def Let_def)
qed

lemma doSync_new_clean:
  assumes "um_clean (goUnmarshal g)" "\<And>w ns. ccHasMgr (goClient g w) ns"
  shows "doSync_new g c repo ns started old w \<noteq> Panic"
proof (cases "fst (co_DevOpsSyncRevision (goSys g) c w)")
  case (Inr new)
  let ?w = "snd (co_DevOpsSyncRevision (goSys g) c w)"
  obtain objs files err where
    l: "Load (goUnmarshal g) (goFiles g ?w) ns (coDir c) (co_ManifestDir c) [] = Ret ((objs, files), err)"
       "plain objs"
    using Load_plain [OF assms(1)] by blast
  obtain x w1 where ch: "changed_stage g c ns old objs files ?w = Ret (x, w1)"
    "\<And>maps fcs. x = Inr (maps, fcs) \<Longrightarrow> tm_plain maps"
    using changed_stage_plain [OF assms(1) l(2)] by metis
  show ?thesis
    using Inr l(1) ch(1) sync_stage_clean [OF assms ch(2)]
    by (auto simp: doSync_new_def Let_def split: option.split sum.split)
qed (simp add: doSync_new_def Let_def)


definition demo_gitops :: "unit gitops" where
  "demo_gitops = \<lparr>goSys = sys_up, goConfig = \<lparr>gcBranch = ''master'', gcPath = [], gcSyncTag = ''agent-sync'',
       gcNotesRef = ''choerodon'', gcUserName = ''c'', gcUserEmail = ''c@x'', gcSkipMessage = [],
       gcDevOpsTag = ''devops-sync''\<rparr>, goSwap = False,
     goKube = \<lparr>kiLabelRepoObj = (\<lambda>ns m v c. Inr (Some m)), kiConvertCertificate = (\<lambda>ns m c. (None, None, False))\<rparr>,
     goGlobals = demo_globals, goClient = (\<lambda>w. no_objects), goKinds = [ServiceKind],
     goMarshal = demo_marshal, goUnmarshal = demo_um, goParse = (\<lambda>b. Inr (''Service'', ''web'', [])),
     goFiles = (\<lambda>w. demo_fs), goApplier = (\<lambda>ns cs w. ([], w)), goMarshalEvent = (\<lambda>ev. Inr ''{}'')\<rparr>"

lemma um_clean_demo: "um_clean demo_um"
  by (auto simp: um_clean_def demo_um_def)


section \<open>A certificate and a secret of one name\<close>

text \<open>
  A certificate and a secret of the same name in one environment collide: the converted certificate
  is filed under the secret's key and replaces it, so that the secret is not applied in this
  synchronisation, and after the way back only the certificate is left, so that the secret is
  not reported either.
\<close>

theorem certificate_secret_collision:
  assumes "CHR ''/'' \<notin> set x" and "glCertManagerVersion gl = ''1.1.1''"
    and "boKind c = ''Certificate''" "boName c = x" "boKind s = ''Secret''" "boName s = x"
    and "m = [(''certificate/'' @ x, BaseObj c), (''secret/'' @ x, BaseObj s)]"
    and "kiConvertCertificate kube ns (boBytes c) (gm_get [] fcm (''certificate/'' @ x)) = (Some bytes, None, True)"
  shows "convertCertificateToSecret gl kube ns fcm (m, Some m) =
      Ret ([(''secret/'' @ x, secret_of (BaseObj c) (''certificate/'' @ x) bytes)],
           Some [(''secret/'' @ x, secret_of (BaseObj c) (''certificate/'' @ x) bytes)])
    \<and> map fst (convertSecretToCertificate gl
           [(''secret/'' @ x, secret_of (BaseObj c) (''certificate/'' @ x) bytes)]) = [''certificate/'' @ x]"
proof -
  let ?k = "''certificate/'' @ x" and ?n = "''secret/'' @ x"
  let ?o = "secret_of (BaseObj c) (''certificate/'' @ x) bytes"
  have "split_char ?k CHR ''/'' = [''certificate'', x]"
    using split_char_sep [of "CHR ''/''" "''certificate''" x] assms(1) by simp
  then have pk: "parseKey ?k = Ret x" by (simp add: parseKey_def)
  have one: "convert_one kube ns fcm (?k, BaseObj c) ((m, Some m), [], []) =
      Ret ((AList.update ?n ?o m, Some (AList.update ?n ?o m)), [?k], [?k])"
    using assms(3,7,8) pk by (simp add: convert_one_def Let_def tm_changed_def tm_on_all_def
        tm_on_changed_def gm_has_iff)
  have "convert_loop kube ns fcm m ((m, Some m), [], []) =
      Ret ((AList.update ?n ?o m, Some (AList.update ?n ?o m)), [?k], [?k])"
    using one assms(5) by (simp add: assms(7) convert_one_def Let_def)
  then have "convertCertificateToSecret gl kube ns fcm (m, Some m) = Ret ([(?n, ?o)], Some [(?n, ?o)])"
    using assms(2) by (simp add: convertCertificateToSecret_def tm_on_all_def tm_on_changed_def assms(7))
  moreover have "map fst (convertSecretToCertificate gl [(?n, ?o)]) = [?k]"
    using assms(2) by (simp add: convertSecretToCertificate_def Let_def is_converted_def secret_of_def)
  ultimately show ?thesis by blast
qed

definition demo_bo :: "string \<Rightarrow> string \<Rightarrow> base_object" where
  "demo_bo kind name = \<lparr>boSource = ''a.yaml'', boBytes = kind @ name, boKind = kind, boNamespace = ''dev'',
     boName = name, boAnnotations = [], boOriginalKey = []\<rparr>"

definition demo_kube :: kube_iface where
  "demo_kube = \<lparr>kiLabelRepoObj = (\<lambda>ns m v c. Inr (Some m)),
     kiConvertCertificate = (\<lambda>ns m c. (Some ''tls'', None, True))\<rparr>"

lemma certificate_secret_collision_witness:
  "\<exists>o1. convertCertificateToSecret demo_globals demo_kube ''dev'' []
     ([(''certificate/web'', BaseObj (demo_bo ''Certificate'' ''web'')),
       (''secret/web'', BaseObj (demo_bo ''Secret'' ''web''))],
      Some [(''certificate/web'', BaseObj (demo_bo ''Certificate'' ''web'')),
       (''secret/web'', BaseObj (demo_bo ''Secret'' ''web''))]) =
     Ret ([(''secret/web'', o1)], Some [(''secret/web'', o1)])"
  using certificate_secret_collision [of "''web''" demo_globals "demo_bo ''Certificate'' ''web''"
      "demo_bo ''Secret'' ''web''" _ demo_kube "''dev''" "[]" "''tls''"]
  by (simp add: demo_bo_def demo_kube_def demo_globals_def)

section \<open>The event\<close>

lemma changed_ids_set:
  "set (fold (\<lambda>(k, r) ks. id_add (bo_ResourceID (res_base r)) ks) m acc) =
   set acc \<union> (\<lambda>(k, r). bo_ResourceID (res_base r)) ` set m"
  by (induction m arbitrary: acc) (auto simp: id_add_def split: if_splits)

lemma error_commits_keep:
  "map (\<lambda>e. (geID e, gePath e, geError e)) (fst (error_commits sys c fcm es w)) =
   map (\<lambda>e. (geID e, gePath e, geError e)) es"
  by (induction es arbitrary: w) (auto simp: Let_def split: sum.split)

text \<open>
  C8: A synchronisation that reached the cluster sends one event: its packet is addressed to the
  environment, so that the namespace read from its key is the one that was synchronised; the
  event names exactly the changed resources, the commit that was synchronised and every error
  of a resource.  Errors of single resources are no error of the synchronisation: the sync
  tag is moved all the same, and what the caller gets is the outcome of moving the tag and of
  the refresh.
\<close>

theorem finish_stage_reports:
  assumes fin: "finish_stage g c repo ns started old new fcs changed errs w = Ret ((err, pkts, repo'), w')"
    and "\<And>ev. \<exists>p. goMarshalEvent g ev = Inr p"
    and "CHR ''.'' \<notin> set ns" "CHR '':'' \<notin> set ns"
  shows "\<exists>ev p w1. goMarshalEvent g ev = Inr p \<and> pkts = [mk_packet (''env:'' @ ns) GitOpsSyncEvent p]
    \<and> packet_Namespace (hd pkts) = Ret ns \<and> evCommit ev = new
    \<and> set (evResourceIDs ev) = (\<lambda>(k, r). bo_ResourceID (res_base r)) ` set changed
    \<and> map (\<lambda>e. (geID e, geError e)) (evErrors ev) =
        map (\<lambda>e. (bo_ResourceID (res_base (reResource e)), reError e)) errs
    \<and> (if old = new then err = None
       else (case fst (co_MoveSyncTagAndPush (goSys g) c new ''Sync pointer'' w1) of
          Some e \<Rightarrow> err = Some e
        | None \<Rightarrow> err = fst (repo_Refresh (goSys g) repo
            (snd (co_MoveSyncTagAndPush (goSys g) c new ''Sync pointer'' w1)))))"
proof -
  let ?fcm = "fileCommitMap fcs"
  let ?ec = "error_commits (goSys g) c ?fcm (map event_error errs) w"
  let ?ids = "changed_ids changed"
  obtain rcs where rcs: "resource_commits changed ?fcm ?ids = Ret rcs"
    using fin by (auto simp: finish_stage_def Let_def go_simps)
  define ev where "ev = \<lparr>evResourceIDs = ?ids, evType = EventSync, evStartedAt = started, evEndedAt = started,
               evCommit = new, evErrors = fst ?ec, evFileCommits = fcs, evResourceCommits = rcs\<rparr>"
  obtain p where p: "goMarshalEvent g ev = Inr p" using assms(2) by blast
  let ?mv = "co_MoveSyncTagAndPush (goSys g) c new ''Sync pointer'' (snd ?ec)"
  let ?k = "mk_packet (''env:'' @ ns) GitOpsSyncEvent p"
  have e: "map (\<lambda>e. (geID e, geError e)) (evErrors ev) =
      map (\<lambda>e. (bo_ResourceID (res_base (reResource e)), reError e)) errs"
  proof -
    have "map (\<lambda>e. (geID e, geError e)) (fst ?ec) =
        map (\<lambda>(a, b, d). (a, d)) (map (\<lambda>e. (geID e, gePath e, geError e)) (fst ?ec))"
      by simp
    also have "\<dots> = map (\<lambda>e. (bo_ResourceID (res_base (reResource e)), reError e)) errs"
      by (simp only: error_commits_keep) (simp add: event_error_def)
    finally show ?thesis by (simp add: ev_def)
  qed
  have i: "set (evResourceIDs ev) = (\<lambda>(k, r). bo_ResourceID (res_base r)) ` set changed"
    by (simp add: ev_def changed_ids_def changed_ids_set)
  have n: "packet_Namespace ?k = Ret ns" using namespace_env_key(2) assms(3,4) by blast
  have l: "snd (LogEvent g ev ns) = [?k]" using p by (simp add: LogEvent_def)
  have f: "finish_stage g c repo ns started old new fcs changed errs w =
     (if old = new then Ret ((None, [?k], repo), snd ?ec)
      else (case fst ?mv of Some e \<Rightarrow> Ret ((Some e, [?k], repo), snd ?mv)
        | None \<Rightarrow> (case repo_Refresh (goSys g) repo (snd ?mv) of
             (e, repo', w') \<Rightarrow> Ret ((e, [?k], repo'), w'))))"
    using rcs by (auto simp: finish_stage_def Let_def l [unfolded ev_def] split: option.split prod.split)
  have "pkts = [?k] \<and> (if old = new then err = None
     else (case fst ?mv of Some e \<Rightarrow> err = Some e
        | None \<Rightarrow> err = fst (repo_Refresh (goSys g) repo (snd ?mv))))"
    using fin unfolding f by (auto split: if_splits option.splits prod.splits)
  then show ?thesis using p e i n
    by (intro exI [of _ ev] exI [of _ p] exI [of _ "snd ?ec"]) (simp add: ev_def)
qed

lemma finish_stage_reports_witness:
  "\<exists>err p r w. finish_stage demo_gitops \<lparr>coDir = ''/t'', coConfig = goConfig demo_gitops, coUpstream = ''u'',
       coRealNotesRef = ''n''\<rparr> (NewRepo ''u'' ''dev'') ''dev'' 0 ''a'' ''b'' [] [] [] ()
     = Ret ((err, [p], r), w) \<and> packet_Namespace p = Ret ''dev''"
proof -
  let ?c = "\<lparr>coDir = ''/t'', coConfig = goConfig demo_gitops, coUpstream = ''u'', coRealNotesRef = ''n''\<rparr>"
  have "finish_stage demo_gitops ?c (NewRepo ''u'' ''dev'') ''dev'' 0 ''a'' ''b'' [] [] [] () \<noteq> Panic"
    by (rule finish_stage_ok) simp
  then obtain err pkts r w where
    f: "finish_stage demo_gitops ?c (NewRepo ''u'' ''dev'') ''dev'' 0 ''a'' ''b'' [] [] [] ()
      = Ret ((err, pkts, r), w)"
    by (metis not_Panic_iff surj_pair)
  have "\<exists>p. goMarshalEvent demo_gitops ev = Inr p" for ev by (simp add: demo_gitops_def)
  from finish_stage_reports [OF f this] obtain p where
    "pkts = [p]" "packet_Namespace p = Ret ''dev''" by auto
  with f show ?thesis by auto
qed

end
