(* ===== verification/GitLoop.thy ===== *)
theory GitLoop
  imports GitSync
begin

text \<open>
  The goroutines that keep the environments synchronised (\<^verbatim>\<open>pkg/gitops/gitops.go\<close>, the loops of
  \<^verbatim>\<open>pkg/gitops/gitops_sync.go\<close>): \<^verbatim>\<open>listenEnvs\<close> starts one \<^verbatim>\<open>syncLoop\<close> per environment, the loop waits
  for its timer, for a refresh of its mirror or for a request to synchronise, and one
  \<^verbatim>\<open>SyncInterval\<close> serves the timers of all environments.  Repositories are shared between the map
  of repositories, the loops and the start goroutines, so they live in a store and are
  referred to by address.
\<close>

section \<open>Timers\<close>

text \<open>
  A \<^verbatim>\<open>time.Timer\<close>: it counts down (\<^verbatim>\<open>tmActive\<close>), and its channel of capacity 1 may hold a tick.
  \<^verbatim>\<open>Stop\<close> reports whether it was counting; it does not empty the channel.
\<close>

record go_timer =
  tmActive :: bool
  tmTick :: bool

definition NewTimer :: go_timer where
  "NewTimer = \<lparr>tmActive = True, tmTick = False\<rparr>"

definition timer_Stop :: "go_timer \<Rightarrow> bool \<times> go_timer" where
  "timer_Stop t = (tmActive t, t\<lparr>tmActive := False\<rparr>)"

definition timer_Reset :: "go_timer \<Rightarrow> go_timer" where
  "timer_Reset t = t\<lparr>tmActive := True\<rparr>"

definition timer_expire :: "go_timer \<Rightarrow> go_timer" where
  "timer_expire t = (if tmActive t then t\<lparr>tmActive := False, tmTick := True\<rparr> else t)"

text \<open>\<^verbatim>\<open>if !timer.Stop() { select { case <-timer.C: default: } }\<close>\<close>

definition stop_and_drain :: "go_timer \<Rightarrow> go_timer" where
  "stop_and_drain t = (let s = timer_Stop t in
     if fst s then snd s else (snd s)\<lparr>tmTick := False\<rparr>)"

section \<open>The state of the loops\<close>

text \<open>
  Where a loop stands: before its \<^verbatim>\<open>select\<close>, whose channels it has yet to evaluate; blocked in the
  \<^verbatim>\<open>select\<close> on the mirror whose address it evaluated; blocked on sending its request to
  \<^verbatim>\<open>SyncChan\<close>; or returned.
\<close>

datatype loop_pc = AtTop | InSelect nat | Sending | Returned

record sync_loop =
  slNamespace :: string
  slPC :: loop_pc
  slTimer :: go_timer
  slHead :: string
  slSoon :: bool
  slStopRepo :: nat

text \<open>
  \<^verbatim>\<open>agStops\<close> is \<^verbatim>\<open>GitStopChanMap\<close> (a channel is the address of the loop it stops, or
  another one for \<^verbatim>\<open>SyncInterval\<close>), \<^verbatim>\<open>agClosed\<close> the closed ones, \<^verbatim>\<open>agSlots\<close> the slots taken and the
  capacity of \<^verbatim>\<open>GitRepoConcurrencySyncChan\<close>, which is a nil channel before the first \<^verbatim>\<open>agent_init\<close>.
\<close>

record 'w sync_state =
  agHeap :: "(nat, repo) gomap"
  agRepos :: "(string, nat) gomap"
  agLoops :: "(nat, sync_loop) gomap"
  agSyncChan :: "(string \<times> nat) list"
  agStops :: "(string, nat) gomap"
  agClosed :: "nat list"
  agSlots :: "(nat \<times> nat) option"
  agOut :: "packet list"
  agWorld :: 'w

text \<open>\<^verbatim>\<open>g.gitRepos[namespace]\<close>; an absent entry is a nil pointer.\<close>

definition repo_ptr :: "'w sync_state \<Rightarrow> string \<Rightarrow> nat option" where
  "repo_ptr s ns = map_of (agRepos s) ns"

definition repo_at :: "'w sync_state \<Rightarrow> nat \<Rightarrow> repo" where
  "repo_at s p = gm_get (NewRepo [] []) (agHeap s) p"

definition put_repo :: "nat \<Rightarrow> repo \<Rightarrow> 'w sync_state \<Rightarrow> 'w sync_state" where
  "put_repo p r s = s\<lparr>agHeap := AList.update p r (agHeap s)\<rparr>"

definition put_loop :: "nat \<Rightarrow> sync_loop \<Rightarrow> 'w sync_state \<Rightarrow> 'w sync_state" where
  "put_loop i l s = s\<lparr>agLoops := AList.update i l (agLoops s)\<rparr>"

definition named_repos :: "'w sync_state \<Rightarrow> (string, repo) gomap" where
  "named_repos s = map (\<lambda>(ns, p). (ns, repo_at s p)) (agRepos s)"

text \<open>\<^verbatim>\<open>AskForSync\<close>: a non-blocking send on the channel of capacity 1.\<close>

definition AskForSync :: "sync_loop \<Rightarrow> sync_loop" where
  "AskForSync l = (if slSoon l then l else l\<lparr>slSoon := True\<rparr>)"

definition recv_soon :: "sync_loop \<Rightarrow> sync_loop option" where
  "recv_soon l = (if slSoon l then Some (l\<lparr>slSoon := False\<rparr>) else None)"

interpretation soon: signal AskForSync slSoon recv_soon
  by unfold_locales (auto simp: AskForSync_def recv_soon_def split: if_splits)

section \<open>The loop of one environment\<close>

datatype select_case = StopRepoCase | StopCase | TimerCase | RefreshedCase | SoonCase

text \<open>Entering the \<^verbatim>\<open>select\<close> evaluates \<^verbatim>\<open>g.gitRepos[namespace].C\<close>.\<close>

definition loop_enter :: "nat \<Rightarrow> sync_loop \<Rightarrow> 'w sync_state \<Rightarrow> 'w sync_state go" where
  "loop_enter i l s = (case repo_ptr s (slNamespace l) of
     None \<Rightarrow> Panic
   | Some p \<Rightarrow> Ret (put_loop i (l\<lparr>slPC := InSelect p\<rparr>) s))"

definition sync_interval_size :: nat where "sync_interval_size = 100"

text \<open>
  The case of a refreshed mirror: the revision of the sync tag is read from the repository the
  map holds now; on an error the loop goes on at once, a new head asks for a synchronisation, an
  unchanged one restarts the timer.
\<close>

definition case_refreshed :: "'w gitops \<Rightarrow> nat \<Rightarrow> sync_loop \<Rightarrow> 'w sync_state \<Rightarrow> 'w sync_state go" where
  "case_refreshed g i l s = (case repo_ptr s (slNamespace l) of
     None \<Rightarrow> Panic
   | Some p \<Rightarrow>
      (let rev = repo_Revision (goSys g) (repo_at s p) (gcDevOpsTag (goConfig g)) (agWorld s);
           l0 = l\<lparr>slPC := AtTop\<rparr>; s1 = s\<lparr>agWorld := snd rev\<rparr>
       in case fst rev of
         Inl e \<Rightarrow> Ret (put_loop i l0 s1)
       | Inr newSyncHead \<Rightarrow>
          (if newSyncHead \<noteq> slHead l
           then Ret (put_loop i (AskForSync (l0\<lparr>slHead := newSyncHead\<rparr>)) s1)
           else Ret (put_loop i (l0\<lparr>slTimer := timer_Reset (stop_and_drain (slTimer l))\<rparr>) s1))))"

text \<open>The case of a request: the timer is stopped, the synchronisation runs, its error is logged,
  the timer starts again.\<close>

definition case_soon :: "'w gitops \<Rightarrow> nat \<Rightarrow> nat \<Rightarrow> sync_loop \<Rightarrow> 'w sync_state \<Rightarrow> 'w sync_state go" where
  "case_soon g now i l s =
     (let l1 = l\<lparr>slPC := AtTop, slTimer := timer_Reset (stop_and_drain (slTimer l))\<rparr> in
      go_bind (doSync g (named_repos s) (slNamespace l) now (agWorld s)) (\<lambda>((err, pkts, r), w).
        (case repo_ptr s (slNamespace l) of
           None \<Rightarrow> Panic
         | Some p \<Rightarrow> Ret (put_loop i l1 (put_repo p r
             (s\<lparr>agOut := agOut s @ pkts, agWorld := w\<rparr>))))))"

text \<open>
  One choice of the \<^verbatim>\<open>select\<close>: \<^verbatim>\<open>None\<close> where the channel of the case is not ready.
\<close>

fun loop_case :: "'w gitops \<Rightarrow> nat \<Rightarrow> nat \<Rightarrow> sync_loop \<Rightarrow> nat \<Rightarrow> select_case \<Rightarrow> 'w sync_state
    \<Rightarrow> 'w sync_state go option" where
  "loop_case g now i l p StopRepoCase s =
     (let r = repo_at s (slStopRepo l) in
      if rpSyncChan r
      then Some (Ret (put_loop i (l\<lparr>slPC := Returned\<rparr>)
             (put_repo (slStopRepo l) (r\<lparr>rpSyncChan := False\<rparr>) s)))
      else None)"
| "loop_case g now i l p StopCase s =
     (if i \<in> set (agClosed s) then Some (Ret (put_loop i (l\<lparr>slPC := Returned\<rparr>) s)) else None)"
| "loop_case g now i l p TimerCase s =
     (if tmTick (slTimer l)
      then Some (Ret (put_loop i (l\<lparr>slPC := Sending, slTimer := (slTimer l)\<lparr>tmTick := False\<rparr>\<rparr>) s))
      else None)"
| "loop_case g now i l p RefreshedCase s =
     (case recv_C (repo_at s p) of None \<Rightarrow> None
      | Some r \<Rightarrow> Some (case_refreshed g i l (put_repo p r s)))"
| "loop_case g now i l p SoonCase s =
     (case recv_soon l of None \<Rightarrow> None | Some l' \<Rightarrow> Some (case_soon g now i l' s))"

definition loop_send :: "nat \<Rightarrow> sync_loop \<Rightarrow> 'w sync_state \<Rightarrow> 'w sync_state option" where
  "loop_send i l s =
     (if length (agSyncChan s) < sync_interval_size
      then Some (put_loop i (l\<lparr>slPC := AtTop\<rparr>)
             (s\<lparr>agSyncChan := agSyncChan s @ [(slNamespace l, i)]\<rparr>))
      else None)"

text \<open>
  The goroutine that serves the timers: it refreshes the mirror, whose success wakes the loop;
  on an error the timer of the request is stopped and, if it had expired, started again.
\<close>

definition interval_timer :: "go_timer \<Rightarrow> go_timer" where
  "interval_timer t = (let s = timer_Stop t in
     if fst s then snd s else timer_Reset ((snd s)\<lparr>tmTick := False\<rparr>))"

definition no_loop :: sync_loop where
  "no_loop = \<lparr>slNamespace = [], slPC = Returned, slTimer = \<lparr>tmActive = False, tmTick = False\<rparr>,
     slHead = [], slSoon = False, slStopRepo = 0\<rparr>"

definition SyncInterval :: "'w gitops \<Rightarrow> 'w sync_state \<Rightarrow> 'w sync_state go option" where
  "SyncInterval g s = (case agSyncChan s of [] \<Rightarrow> None
   | (ns, i) # rest \<Rightarrow> Some (case repo_ptr s ns of
       None \<Rightarrow> Panic
     | Some p \<Rightarrow>
        (let rf = repo_Refresh (goSys g) (repo_at s p) (agWorld s);
             s1 = put_repo p (fst (snd rf)) (s\<lparr>agSyncChan := rest, agWorld := snd (snd rf)\<rparr>);
             l = gm_get no_loop (agLoops s) i
         in case fst rf of
              None \<Rightarrow> Ret s1
            | Some e \<Rightarrow> Ret (put_loop i (l\<lparr>slTimer := interval_timer (slTimer l)\<rparr>) s1))))"

section \<open>Listening to the environments\<close>

record env_paras =
  epEnvId :: int
  epNamespace :: string
  epGitRsaKey :: string
  epGitUrl :: string
  epReleases :: "string list"

definition SyncIntervalStopChanName :: string where "SyncIntervalStopChanName = ''sync_stop_chan''"

text \<open>The address of a new object: the first one that is not in use.\<close>

definition new_addr :: "'w sync_state \<Rightarrow> nat" where
  "new_addr s = Suc (Max (insert 0 (set (map fst (agHeap s)) \<union> set (map fst (agLoops s))
     \<union> set (map snd (agStops s)) \<union> set (agClosed s))))"

definition start_interval :: "'w sync_state \<Rightarrow> 'w sync_state" where
  "start_interval s = (if gm_has (agStops s) SyncIntervalStopChanName then s
     else s\<lparr>agStops := AList.update SyncIntervalStopChanName (new_addr s) (agStops s)\<rparr>)"

text \<open>
  One environment.  The stop channel is registered first; then a slot of the concurrency limit is
  taken, and where none is free the goroutine blocks there (\<^verbatim>\<open>True\<close>): the environment is known but
  nothing of it runs.  Otherwise the mirror's goroutine and the loop start.
\<close>

definition take_slot :: "(nat \<times> nat) option \<Rightarrow> (nat \<times> nat) option" where
  "take_slot sl = (case sl of None \<Rightarrow> None
     | Some (used, cap) \<Rightarrow> if used < cap then Some (Suc used, cap) else None)"

definition listen_env :: "string \<Rightarrow> env_paras \<Rightarrow> 'w sync_state \<Rightarrow> bool \<times> 'w sync_state" where
  "listen_env host env s =
     (let ns = epNamespace env in
      if gm_has (agStops s) ns then (False, s)
      else
       (let a = new_addr s;
            s1 = s\<lparr>agStops := AList.update ns a (agStops s)\<rparr>;
            repo = NewRepo (replace1 (epGitUrl env) host ns) ns
        in case take_slot (agSlots s) of
             None \<Rightarrow> (True, s1)
           | Some sl \<Rightarrow>
              (let loop = AskForSync \<lparr>slNamespace = ns, slPC = AtTop, slTimer = NewTimer,
                     slHead = [], slSoon = False, slStopRepo = a\<rparr>
               in (False, put_loop a loop (put_repo a repo
                     (s1\<lparr>agSlots := Some sl, agRepos := AList.update ns a (agRepos s1)\<rparr>))))))"

fun listen_loop :: "string \<Rightarrow> env_paras list \<Rightarrow> 'w sync_state \<Rightarrow> env_paras list \<times> 'w sync_state" where
  "listen_loop host [] s = ([], s)"
| "listen_loop host (env # envs) s = (let r = listen_env host env s in
     if fst r then (env # envs, snd r) else listen_loop host envs (snd r))"

definition listenEnvs :: "string \<Rightarrow> env_paras list \<Rightarrow> 'w sync_state \<Rightarrow> env_paras list \<times> 'w sync_state" where
  "listenEnvs host envs s = listen_loop host envs (start_interval s)"

text \<open>
  What the deletion of an environment does to the loops (in \<^verbatim>\<open>DeleteEnv\<close>): both stop channels of
  the repository get an element, a send on a full one blocks (\<^verbatim>\<open>None\<close>); the entries of the maps go,
  the stop channel of the loop is not closed.
\<close>

definition forget_env :: "string \<Rightarrow> 'w sync_state \<Rightarrow> 'w sync_state option go" where
  "forget_env ns s = (case repo_ptr s ns of
     None \<Rightarrow> Panic
   | Some p \<Rightarrow>
      (let r = repo_at s p in
       if rpSyncChan r \<or> rpRefreshChan r then Ret None
       else Ret (Some ((put_repo p (r\<lparr>rpSyncChan := True, rpRefreshChan := True\<rparr>) s)
              \<lparr>agRepos := AList.delete ns (agRepos s), agStops := AList.delete ns (agStops s)\<rparr>))))"

section \<open>All goroutines together\<close>

text \<open>
  The steps of the agent while no environment is deleted: of a loop, of \<^verbatim>\<open>SyncInterval\<close>, of a
  timer, of the goroutine that starts a mirror, of \<^verbatim>\<open>listenEnvs\<close>, and of the outside world.
\<close>

inductive sync_run :: "'w gitops \<Rightarrow> 'w sync_state \<Rightarrow> 'w sync_state \<Rightarrow> bool" for g where
  enter: "map_of (agLoops s) i = Some l \<Longrightarrow> slPC l = AtTop \<Longrightarrow> loop_enter i l s = Ret s'
    \<Longrightarrow> sync_run g s s'"
| choose: "map_of (agLoops s) i = Some l \<Longrightarrow> slPC l = InSelect p
    \<Longrightarrow> loop_case g now i l p c s = Some (Ret s') \<Longrightarrow> sync_run g s s'"
| send: "map_of (agLoops s) i = Some l \<Longrightarrow> slPC l = Sending \<Longrightarrow> loop_send i l s = Some s'
    \<Longrightarrow> sync_run g s s'"
| interval: "SyncInterval g s = Some (Ret s') \<Longrightarrow> sync_run g s s'"
| expire: "map_of (agLoops s) i = Some l
    \<Longrightarrow> sync_run g s (put_loop i (l\<lparr>slTimer := timer_expire (slTimer l)\<rparr>) s)"
| mirror: "start_iter (goSys g) (repo_at s p) (agWorld s) = Again r w
      \<or> start_iter (goSys g) (repo_at s p) (agWorld s) = Wait r w
    \<Longrightarrow> gm_has (agHeap s) p \<Longrightarrow> sync_run g s (put_repo p r (s\<lparr>agWorld := w\<rparr>))"
| listen: "listen_env host env s = (b, s') \<Longrightarrow> sync_run g s s'"
| world: "sync_run g s (s\<lparr>agWorld := w, agClosed := cl @ agClosed s, agSlots := sl\<rparr>)"

inductive_cases sync_runE: "sync_run g s s'"

subsection \<open>Structure\<close>

definition loop_ok :: "'w sync_state \<Rightarrow> nat \<Rightarrow> sync_loop \<Rightarrow> bool" where
  "loop_ok s i l \<longleftrightarrow> slStopRepo l = i \<and> repo_ptr s (slNamespace l) = Some i
     \<and> gm_has (agHeap s) i \<and> gm_has (agStops s) (slNamespace l)
     \<and> (\<forall>p. slPC l = InSelect p \<longrightarrow> p = i)"

definition loops_inv :: "'w sync_state \<Rightarrow> bool" where
  "loops_inv s \<longleftrightarrow> (\<forall>i l. map_of (agLoops s) i = Some l \<longrightarrow> loop_ok s i l)
     \<and> (\<forall>(ns, i) \<in> set (agSyncChan s). \<exists>l. map_of (agLoops s) i = Some l \<and> slNamespace l = ns)"

lemma put_simps [simp]:
  "agHeap (put_loop i l s) = agHeap s" "agRepos (put_loop i l s) = agRepos s"
  "agLoops (put_loop i l s) = AList.update i l (agLoops s)" "agSyncChan (put_loop i l s) = agSyncChan s"
  "agStops (put_loop i l s) = agStops s" "agClosed (put_loop i l s) = agClosed s"
  "agWorld (put_loop i l s) = agWorld s" "agSlots (put_loop i l s) = agSlots s"
  "agHeap (put_repo p r s) = AList.update p r (agHeap s)" "agRepos (put_repo p r s) = agRepos s"
  "agLoops (put_repo p r s) = agLoops s" "agSyncChan (put_repo p r s) = agSyncChan s"
  "agStops (put_repo p r s) = agStops s" "agClosed (put_repo p r s) = agClosed s"
  "agWorld (put_repo p r s) = agWorld s" "agSlots (put_repo p r s) = agSlots s"
  by (simp_all add: put_loop_def put_repo_def)

lemma repo_at_simps [simp]:
  "repo_at (put_loop i l s) p = repo_at s p"
  "repo_at (put_repo q r s) p = (if p = q then r else repo_at s p)"
  "repo_at (s\<lparr>agWorld := w\<rparr>) p = repo_at s p" "repo_at (s\<lparr>agSyncChan := q'\<rparr>) p = repo_at s p"
  "repo_at (s\<lparr>agOut := out\<rparr>) p = repo_at s p" "repo_at (s\<lparr>agRepos := rs\<rparr>) p = repo_at s p"
  "repo_at (s\<lparr>agSlots := sl\<rparr>) p = repo_at s p" "repo_at (s\<lparr>agStops := sl'\<rparr>) p = repo_at s p"
  "repo_at (s\<lparr>agClosed := cl\<rparr>) p = repo_at s p"
  by (simp_all add: repo_at_def)

lemma repo_ptr_simps [simp]:
  "repo_ptr (put_loop i l s) ns = repo_ptr s ns" "repo_ptr (put_repo q r s) ns = repo_ptr s ns"
  "repo_ptr (s\<lparr>agWorld := w\<rparr>) ns = repo_ptr s ns" "repo_ptr (s\<lparr>agSyncChan := q'\<rparr>) ns = repo_ptr s ns"
  "repo_ptr (s\<lparr>agOut := out\<rparr>) ns = repo_ptr s ns" "repo_ptr (s\<lparr>agSlots := sl\<rparr>) ns = repo_ptr s ns"
  "repo_ptr (s\<lparr>agStops := st\<rparr>) ns = repo_ptr s ns" "repo_ptr (s\<lparr>agClosed := cl\<rparr>) ns = repo_ptr s ns"
  by (simp_all add: repo_ptr_def)

subsection \<open>What a synchronisation does to its repository\<close>

lemma repo_Refresh_repo: "repo_Refresh sys r w = (e, r', w') \<Longrightarrow> r' = r \<or> r' = refreshed r"
  by (auto simp: repo_Refresh_def Let_def split: option.splits)

lemma repo_Refresh_ok: "repo_Refresh sys r w = (None, r', w') \<Longrightarrow> r' = refreshed r"
  by (auto simp: repo_Refresh_def Let_def split: option.splits)

lemma finish_stage_repo:
  "finish_stage g c r ns st old new fcs ch es w = Ret ((e, pk, r'), w') \<Longrightarrow> r' = r \<or> r' = refreshed r"
  by (auto simp: finish_stage_def Let_def go_simps repo_Refresh_def split: if_splits option.splits
      prod.splits)

lemma go_bindE: "go_bind m f = Ret b \<Longrightarrow> (\<And>a. m = Ret a \<Longrightarrow> f a = Ret b \<Longrightarrow> P) \<Longrightarrow> P"
  by (cases m) auto

lemma go_mapE: "go_map f m = Ret b \<Longrightarrow> (\<And>a. m = Ret a \<Longrightarrow> b = f a \<Longrightarrow> P) \<Longrightarrow> P"
  by (cases m) auto

lemma sync_stage_repo:
  "sync_stage g c r ns st old new fcs m w = Ret ((e, pk, r'), w') \<Longrightarrow> r' = r \<or> r' = refreshed r"
  unfolding sync_stage_def Let_def
  by (auto elim!: go_bindE split: sync_result.split_asm dest!: finish_stage_repo)

lemma doSync_new_repo:
  "doSync_new g c r ns st old w = Ret ((e, pk, r'), w') \<Longrightarrow> r' = r \<or> r' = refreshed r"
  unfolding doSync_new_def Let_def
  by (auto elim!: go_bindE split: sum.split_asm option.split_asm dest!: sync_stage_repo)

lemma doSync_body_repo:
  "doSync_body g c r ns st w = Ret ((e, pk, r'), w') \<Longrightarrow> r' = r \<or> r' = refreshed r"
  unfolding doSync_body_def Let_def
  by (auto split: sum.split_asm if_split_asm dest!: doSync_new_repo)

lemma doSync_repo:
  "doSync g repos ns st w = Ret ((e, pk, r'), w') \<Longrightarrow> map_of repos ns = Some r
    \<Longrightarrow> r' = r \<or> r' = refreshed r"
  unfolding doSync_def Let_def
  by (auto elim!: go_mapE split: sum.split_asm dest!: doSync_body_repo)

lemma map_of_named_repos:
  "map_of (named_repos s) ns = map_option (repo_at s) (repo_ptr s ns)"
  by (simp add: named_repos_def repo_ptr_def map_of_map)

subsection \<open>The structure is kept\<close>

lemma loops_invD: "loops_inv s \<Longrightarrow> map_of (agLoops s) i = Some l \<Longrightarrow> loop_ok s i l"
  by (simp add: loops_inv_def)

lemma loops_inv_queue:
  "loops_inv s \<Longrightarrow> (ns, i) \<in> set (agSyncChan s) \<Longrightarrow> \<exists>l. map_of (agLoops s) i = Some l \<and> slNamespace l = ns"
  by (auto simp: loops_inv_def)

lemma inv_put_loop [inv_intros]:
  assumes "loops_inv s" "map_of (agLoops s) i = Some l" "slStopRepo l' = slStopRepo l"
    "slNamespace l' = slNamespace l" "\<And>p. slPC l' = InSelect p \<Longrightarrow> p = i"
  shows "loops_inv (put_loop i l' s)"
proof -
  have ok: "loop_ok s i l" and all: "\<And>j lj. map_of (agLoops s) j = Some lj \<Longrightarrow> loop_ok s j lj"
    using assms(1,2) loops_invD by auto
  have 1: "loop_ok (put_loop i l' s) j lj" if "map_of (agLoops (put_loop i l' s)) j = Some lj" for j lj
    using that ok all [of j lj] assms(3-5) by (auto simp: update_conv' loop_ok_def split: if_splits)
  have 2: "\<exists>lj. map_of (agLoops (put_loop i l' s)) j = Some lj \<and> slNamespace lj = ns"
    if "(ns, j) \<in> set (agSyncChan s)" for ns j
    using loops_inv_queue [OF assms(1) that] assms(2,4) by (auto simp: update_conv')
  show ?thesis using 1 2 unfolding loops_inv_def by auto
qed

lemma inv_put_repo [inv_intros]: "loops_inv s \<Longrightarrow> loops_inv (put_repo p r s)"
  unfolding loops_inv_def loop_ok_def by auto

lemma inv_frame [simp]:
  "loops_inv (s\<lparr>agWorld := w\<rparr>) = loops_inv s" "loops_inv (s\<lparr>agOut := out\<rparr>) = loops_inv s"
  "loops_inv (s\<lparr>agClosed := cl\<rparr>) = loops_inv s" "loops_inv (s\<lparr>agSlots := sl\<rparr>) = loops_inv s"
  by (simp_all add: loops_inv_def loop_ok_def)

lemma inv_dequeue [inv_intros]:
  "loops_inv s \<Longrightarrow> agSyncChan s = x # rest \<Longrightarrow> loops_inv (s\<lparr>agSyncChan := rest\<rparr>)"
  by (auto simp: loops_inv_def loop_ok_def)

lemma inv_enqueue [inv_intros]:
  "loops_inv s \<Longrightarrow> map_of (agLoops s) i = Some l
    \<Longrightarrow> loops_inv (s\<lparr>agSyncChan := agSyncChan s @ [(slNamespace l, i)]\<rparr>)"
  by (auto simp: loops_inv_def loop_ok_def)

lemma timer_simps [simp]:
  "tmActive (timer_Reset t)" "tmTick (timer_Reset t) = tmTick t"
  "tmActive (stop_and_drain t) = False" "\<not> tmTick t \<Longrightarrow> \<not> tmTick (stop_and_drain t)"
  "tmActive (interval_timer t) \<longleftrightarrow> \<not> tmActive t"
  by (auto simp: timer_Reset_def stop_and_drain_def timer_Stop_def interval_timer_def
      timer_expire_def Let_def)

lemma timer_expire_pending:
  "tmActive (timer_expire t) \<or> tmTick (timer_expire t) \<longleftrightarrow> tmActive t \<or> tmTick t"
  by (simp add: timer_expire_def)

lemma ask_simps [simp]:
  "slNamespace (AskForSync l) = slNamespace l" "slStopRepo (AskForSync l) = slStopRepo l"
  "slPC (AskForSync l) = slPC l" "slTimer (AskForSync l) = slTimer l" "slSoon (AskForSync l)"
  "slHead (AskForSync l) = slHead l"
  by (auto simp: AskForSync_def)

lemma recv_soonD: "recv_soon l = Some l' \<Longrightarrow> l' = l\<lparr>slSoon := False\<rparr>"
  by (auto simp: recv_soon_def split: if_splits)

lemma recv_CD: "recv_C r = Some r' \<Longrightarrow> rpC r \<and> r' = r\<lparr>rpC := False\<rparr>"
  by (auto simp: recv_C_def split: if_splits)

lemma Revision_C [simp]: "repo_Revision sys (r\<lparr>rpC := b\<rparr>) ref w = repo_Revision sys r ref w"
  by (simp add: repo_Revision_def split: option.split)

text \<open>The steps of one loop, as the loop and the store after them.\<close>

lemma case_refreshed_cases:
  assumes "case_refreshed g i l s = Ret s'" "repo_ptr s (slNamespace l) = Some p"
  obtains (failed) e w where "fst (repo_Revision (goSys g) (repo_at s p) (gcDevOpsTag (goConfig g)) (agWorld s)) = Inl e"
      "s' = put_loop i (l\<lparr>slPC := AtTop\<rparr>) (s\<lparr>agWorld := w\<rparr>)"
    | (changed) h w where "fst (repo_Revision (goSys g) (repo_at s p) (gcDevOpsTag (goConfig g)) (agWorld s)) = Inr h"
      "h \<noteq> slHead l" "s' = put_loop i (AskForSync (l\<lparr>slPC := AtTop, slHead := h\<rparr>)) (s\<lparr>agWorld := w\<rparr>)"
    | (same) w where "fst (repo_Revision (goSys g) (repo_at s p) (gcDevOpsTag (goConfig g)) (agWorld s)) = Inr (slHead l)"
      "s' = put_loop i (l\<lparr>slPC := AtTop, slTimer := timer_Reset (stop_and_drain (slTimer l))\<rparr>)
          (s\<lparr>agWorld := w\<rparr>)"
  using assms by (auto simp: case_refreshed_def Let_def split: sum.split_asm if_split_asm)

lemma case_soon_cases:
  assumes "case_soon g now i l s = Ret s'"
  obtains p r out w where "repo_ptr s (slNamespace l) = Some p"
    "r = repo_at s p \<or> r = refreshed (repo_at s p)"
    "s' = put_loop i (l\<lparr>slPC := AtTop, slTimer := timer_Reset (stop_and_drain (slTimer l))\<rparr>)
        (put_repo p r (s\<lparr>agOut := out, agWorld := w\<rparr>))"
proof -
  obtain e pk r w p where d: "doSync g (named_repos s) (slNamespace l) now (agWorld s) = Ret ((e, pk, r), w)"
    and p: "repo_ptr s (slNamespace l) = Some p"
    and s': "s' = put_loop i (l\<lparr>slPC := AtTop, slTimer := timer_Reset (stop_and_drain (slTimer l))\<rparr>)
        (put_repo p r (s\<lparr>agOut := agOut s @ pk, agWorld := w\<rparr>))"
    using assms by (auto simp: case_soon_def Let_def elim!: go_bindE split: option.split_asm)
  have "r = repo_at s p \<or> r = refreshed (repo_at s p)"
    using doSync_repo [OF d, of "repo_at s p"] p by (simp add: map_of_named_repos)
  then show thesis using that p s' by blast
qed

lemma new_addr_fresh: "\<not> gm_has (agHeap s) (new_addr s)" "map_of (agLoops s) (new_addr s) = None"
  "new_addr s \<notin> set (map snd (agStops s))" "new_addr s \<notin> set (agClosed s)"
proof -
  let ?K = "insert 0 (set (map fst (agHeap s)) \<union> set (map fst (agLoops s)) \<union> set (map snd (agStops s))
     \<union> set (agClosed s))"
  have "k \<in> ?K \<Longrightarrow> k < new_addr s" for k
    unfolding new_addr_def using Max_ge [of ?K k] by (simp add: less_Suc_eq_le)
  then show "\<not> gm_has (agHeap s) (new_addr s)" "map_of (agLoops s) (new_addr s) = None"
    "new_addr s \<notin> set (map snd (agStops s))" "new_addr s \<notin> set (agClosed s)"
    by (auto simp: gm_has_iff map_of_eq_None_iff)
qed

text \<open>The outcome of \<^verbatim>\<open>listen_env\<close>: nothing, a registered name, or a new loop.\<close>

definition new_loop :: "string \<Rightarrow> nat \<Rightarrow> sync_loop" where
  "new_loop ns a = \<lparr>slNamespace = ns, slPC = AtTop, slTimer = NewTimer, slHead = [],
     slSoon = True, slStopRepo = a\<rparr>"

lemma listen_env_cases:
  assumes "listen_env host env s = (b, s')"
  obtains (known) "gm_has (agStops s) (epNamespace env)" "s' = s" "\<not> b"
    | (blocked) "\<not> gm_has (agStops s) (epNamespace env)" "take_slot (agSlots s) = None" b
      "s' = s\<lparr>agStops := AList.update (epNamespace env) (new_addr s) (agStops s)\<rparr>"
    | (started) sl where "\<not> gm_has (agStops s) (epNamespace env)" "take_slot (agSlots s) = Some sl" "\<not> b"
      "s' = put_loop (new_addr s) (new_loop (epNamespace env) (new_addr s))
         (put_repo (new_addr s) (NewRepo (replace1 (epGitUrl env) host (epNamespace env)) (epNamespace env))
         (s\<lparr>agStops := AList.update (epNamespace env) (new_addr s) (agStops s),
            agSlots := Some sl, agRepos := AList.update (epNamespace env) (new_addr s) (agRepos s)\<rparr>))"
  using assms
  by (auto simp: listen_env_def Let_def AskForSync_def new_loop_def split: if_split_asm option.split_asm)

lemma listen_env_inv:
  assumes inv: "loops_inv s" and "listen_env host env s = (b, s')"
  shows "loops_inv s'"
  using assms(2)
proof (cases rule: listen_env_cases)
  case blocked
  then show ?thesis using inv by (auto simp: loops_inv_def loop_ok_def)
next
  case (started sl)
  let ?a = "new_addr s" and ?ns = "epNamespace env"
  have other: "slNamespace l \<noteq> ?ns" if "map_of (agLoops s) i = Some l" for i l
    using loops_invD [OF inv that] started(1) by (auto simp: loop_ok_def)
  have "loop_ok s' i l" if "map_of (agLoops s') i = Some l" for i l
    using that other [of i l] loops_invD [OF inv, of i l] new_addr_fresh [of s] started(4)
    by (auto simp: loop_ok_def update_conv' repo_ptr_def new_loop_def split: if_splits)
  moreover have "\<exists>l. map_of (agLoops s') i = Some l \<and> slNamespace l = ns"
    if "(ns, i) \<in> set (agSyncChan s')" for ns i
    using that loops_inv_queue [OF inv, of ns i] new_addr_fresh [of s] started(4)
    by (auto simp: update_conv')
  ultimately show ?thesis unfolding loops_inv_def by auto
qed (use inv in simp)

lemma loop_case_inv:
  assumes inv: "loops_inv s" and l: "map_of (agLoops s) i = Some l"
    and c: "loop_case g now i l p c s = Some (Ret s')"
  shows "loops_inv s'"
proof (cases c)
  case RefreshedCase
  obtain r where r: "case_refreshed g i l (put_repo p r s) = Ret s'"
    using c RefreshedCase by (auto split: option.split_asm)
  have ptr: "repo_ptr (put_repo p r s) (slNamespace l) = Some i"
    using loops_invD [OF inv l] by (simp add: loop_ok_def)
  have inv': "loops_inv (put_repo p r s)" using inv by (rule inv_put_repo)
  show ?thesis
    using r ptr by (cases rule: case_refreshed_cases) (use inv' l in \<open>auto intro!: inv_put_loop [where l = l]\<close>)
next
  case SoonCase
  then obtain l' where l': "recv_soon l = Some l'" and k: "case_soon g now i l' s = Ret s'"
    using c by (auto split: option.split_asm)
  have e: "l' = l\<lparr>slSoon := False\<rparr>" using recv_soonD [OF l'] .
  show ?thesis
    using k by (cases rule: case_soon_cases)
      (use inv l e in \<open>auto intro!: inv_put_loop [where l = l] inv_put_repo\<close>)
qed (use c inv l in \<open>auto simp: Let_def intro!: inv_put_loop [where l = l] inv_put_repo split: if_split_asm\<close>)

lemma sync_run_inv [inv_intros]:
  assumes "sync_run g s s'" "loops_inv s"
  shows "loops_inv s'"
  using assms
proof cases
  case (enter i l)
  then have "s' = put_loop i (l\<lparr>slPC := InSelect i\<rparr>) s"
    using loops_invD [OF assms(2) enter(1)] by (simp add: loop_ok_def loop_enter_def)
  then show ?thesis using enter assms(2) by (auto intro!: inv_put_loop [where l = l])
next
  case (choose i l p now c)
  then show ?thesis using loop_case_inv [OF assms(2)] by blast
next
  case (send i l)
  then have s': "s' = put_loop i (l\<lparr>slPC := AtTop\<rparr>)
      (s\<lparr>agSyncChan := agSyncChan s @ [(slNamespace l, i)]\<rparr>)"
    by (auto simp: loop_send_def split: if_split_asm)
  show ?thesis unfolding s'
    by (rule inv_put_loop [where l = l]) (use send assms(2) in \<open>auto intro: inv_enqueue\<close>)
next
  case interval
  then obtain ns i rest p where q: "agSyncChan s = (ns, i) # rest" and p: "repo_ptr s ns = Some p"
    by (auto simp: SyncInterval_def split: list.split_asm option.split_asm)
  obtain l where l: "map_of (agLoops s) i = Some l"
    using loops_inv_queue [OF assms(2), of ns i] q by auto
  have inv1: "loops_inv (put_repo p r (s\<lparr>agSyncChan := rest, agWorld := w\<rparr>))" for r w
    using inv_dequeue [OF assms(2) q] by (auto intro: inv_put_repo)
  have ok: "slStopRepo l = i" "\<And>p. slPC l = InSelect p \<Longrightarrow> p = i"
    using loops_invD [OF assms(2) l] by (auto simp: loop_ok_def)
  show ?thesis
    using interval q p l inv1 ok
    by (auto simp: SyncInterval_def Let_def gm_get_def split: option.split_asm
        intro!: inv_put_loop [where l = l])
next
  case (expire i l)
  then show ?thesis using assms(2) loops_invD [OF assms(2) expire(2)]
    by (auto simp: loop_ok_def intro!: inv_put_loop [where l = l])
qed (auto intro: listen_env_inv inv_put_repo)

section \<open>Periodic synchronisation\<close>

text \<open>
  What will make a loop move again: it stands at the sending of its request or has returned,
  its timer counts or has ticked, a request of it waits for \<^verbatim>\<open>SyncInterval\<close>, somebody asked for a
  synchronisation, the mirror was refreshed, or it is told to stop.
\<close>

definition loop_awake :: "'w sync_state \<Rightarrow> nat \<Rightarrow> sync_loop \<Rightarrow> bool" where
  "loop_awake s i l \<longleftrightarrow> slPC l = Returned \<or> slPC l = Sending \<or> tmActive (slTimer l) \<or> tmTick (slTimer l)
     \<or> slSoon l \<or> rpC (repo_at s i) \<or> rpSyncChan (repo_at s i) \<or> i \<in> set (agClosed s)
     \<or> i \<in> snd ` set (agSyncChan s)"

definition wakes :: "'w sync_state \<Rightarrow> nat \<Rightarrow> bool" where
  "wakes s i \<longleftrightarrow> (\<exists>l. map_of (agLoops s) i = Some l \<and> loop_awake s i l)"

text \<open>The two ways of losing it.\<close>

definition revision_lost :: "'w gitops \<Rightarrow> 'w sync_state \<Rightarrow> nat \<Rightarrow> bool" where
  "revision_lost g s i \<longleftrightarrow> (\<exists>l e. map_of (agLoops s) i = Some l \<and> slPC l = InSelect i
     \<and> \<not> tmActive (slTimer l) \<and> rpC (repo_at s i)
     \<and> fst (repo_Revision (goSys g) (repo_at s i) (gcDevOpsTag (goConfig g)) (agWorld s)) = Inl e)"

definition refresh_lost :: "'w gitops \<Rightarrow> 'w sync_state \<Rightarrow> nat \<Rightarrow> bool" where
  "refresh_lost g s i \<longleftrightarrow> (\<exists>l ns rest e. map_of (agLoops s) i = Some l
     \<and> agSyncChan s = (ns, i) # rest \<and> tmActive (slTimer l)
     \<and> fst (repo_Refresh (goSys g) (repo_at s i) (agWorld s)) = Some e)"

lemma loop_awake_frame:
  "loop_awake (put_loop j l' s) i l = loop_awake s i l"
  "loop_awake (s\<lparr>agWorld := w\<rparr>) i l = loop_awake s i l"
  "loop_awake (s\<lparr>agOut := out\<rparr>) i l = loop_awake s i l"
  by (simp_all add: loop_awake_def)

lemma wakes_put_loop:
  "wakes (put_loop j l' s) i \<longleftrightarrow> (if i = j then loop_awake s i l' else wakes s i)"
  by (auto simp: wakes_def update_conv' loop_awake_frame)

lemma wakes_world [simp]:
  "wakes (s\<lparr>agWorld := w\<rparr>) i = wakes s i" "wakes (s\<lparr>agOut := out\<rparr>) i = wakes s i"
  by (simp_all add: wakes_def loop_awake_frame)

lemma refreshed_simps [simp]: "rpC (refreshed r)" "rpSyncChan (refreshed r) = rpSyncChan r"
  by (auto simp: refreshed_def)

lemma wakes_put_repo:
  "wakes s i \<Longrightarrow> (p = i \<Longrightarrow> rpC (repo_at s i) \<Longrightarrow> rpC r)
    \<Longrightarrow> (p = i \<Longrightarrow> rpSyncChan (repo_at s i) \<Longrightarrow> rpSyncChan r) \<Longrightarrow> wakes (put_repo p r s) i"
  by (auto simp: wakes_def loop_awake_def)

text \<open>A loop's own choice keeps it awake, but for a failed reading of the revision; it never takes
  a wake-up of another loop.\<close>

lemma refreshed_case_wakes:
  assumes inv: "loops_inv s" and l: "map_of (agLoops s) j = Some l" and pc: "slPC l = InSelect j"
    and C: "recv_C (repo_at s j) = Some r"
    and k: "case_refreshed g j l (put_repo j r s) = Ret s'" and w: "wakes s i"
  shows "wakes s' i \<or> revision_lost g s i"
proof -
  have r: "rpC (repo_at s j)" "r = repo_at s j\<lparr>rpC := False\<rparr>" using recv_CD [OF C] by auto
  have ptr: "repo_ptr (put_repo j r s) (slNamespace l) = Some j"
    using loops_invD [OF inv l] by (simp add: loop_ok_def)
  have other: "wakes (put_repo j r s) i" if "i \<noteq> j"
    using w that by (auto intro: wakes_put_repo)
  show ?thesis
    using k ptr
  proof (cases rule: case_refreshed_cases)
    case (failed e w')
    show ?thesis
    proof (cases "i = j \<and> \<not> tmActive (slTimer l)")
      case True
      then have "revision_lost g s i"
        unfolding revision_lost_def using l pc r failed(1) by auto
      then show ?thesis ..
    next
      case False
      then show ?thesis using failed(2) other by (auto simp: wakes_put_loop loop_awake_def)
    qed
  next
    case (changed h w')
    then show ?thesis using other by (auto simp: wakes_put_loop loop_awake_def)
  next
    case (same w')
    then show ?thesis using other by (auto simp: wakes_put_loop loop_awake_def)
  qed
qed

lemma loop_case_wakes:
  assumes inv: "loops_inv s" and l: "map_of (agLoops s) j = Some l" and pc: "slPC l = InSelect p"
    and c: "loop_case g now j l p c s = Some (Ret s')" and w: "wakes s i"
  shows "wakes s' i \<or> revision_lost g s i"
proof -
  have ok: "slStopRepo l = j" "p = j" "repo_ptr s (slNamespace l) = Some j"
    using loops_invD [OF inv l] pc by (auto simp: loop_ok_def)
  show ?thesis
  proof (cases c)
    case RefreshedCase
    then obtain r where "recv_C (repo_at s j) = Some r" "case_refreshed g j l (put_repo j r s) = Ret s'"
      using c ok by (auto split: option.split_asm)
    then show ?thesis using refreshed_case_wakes [OF inv l _ _ _ w] pc ok by simp
  next
    case SoonCase
    then obtain l' where "recv_soon l = Some l'" and k: "case_soon g now j l' s = Ret s'"
      using c by (auto split: option.split_asm)
    then have e: "l' = l\<lparr>slSoon := False\<rparr>" by (auto dest: recv_soonD)
    show ?thesis
      using k by (cases rule: case_soon_cases)
        (use w ok e in \<open>auto simp: wakes_put_loop loop_awake_def intro!: wakes_put_repo\<close>)
  next
    case StopRepoCase
    then show ?thesis using c w ok
      by (auto simp: Let_def wakes_put_loop loop_awake_def split: if_split_asm intro!: wakes_put_repo)
  qed (use c w in \<open>auto simp: wakes_put_loop loop_awake_def split: if_split_asm\<close>)
qed

lemma start_iter_signals:
  assumes "start_iter sys r w = Again r' w' \<or> start_iter sys r w = Wait r' w'"
  shows "(rpC r \<longrightarrow> rpC r') \<and> rpSyncChan r' = rpSyncChan r"
  using assms
  by (auto simp: start_iter_def Let_def setStatus_def refreshed_def
      split: git_status.split_asm sum.split_asm option.split_asm if_split_asm)

lemma interval_wakes:
  assumes inv: "loops_inv s" and k: "SyncInterval g s = Some (Ret s')" and w: "wakes s i"
  shows "wakes s' i \<or> refresh_lost g s i"
proof -
  obtain ns j rest p where q: "agSyncChan s = (ns, j) # rest" and p: "repo_ptr s ns = Some p"
    using k by (auto simp: SyncInterval_def split: list.split_asm option.split_asm)
  obtain l where l: "map_of (agLoops s) j = Some l" "slNamespace l = ns"
    using loops_inv_queue [OF inv, of ns j] q by auto
  have pj: "p = j" using loops_invD [OF inv l(1)] l(2) p by (simp add: loop_ok_def)
  obtain e r w' where rf: "repo_Refresh (goSys g) (repo_at s j) (agWorld s) = (e, r, w')"
    by (cases "repo_Refresh (goSys g) (repo_at s j) (agWorld s)") auto
  let ?s1 = "put_repo j r (s\<lparr>agSyncChan := rest, agWorld := w'\<rparr>)"
  have rC: "rpC (repo_at s j) \<Longrightarrow> rpC r" "rpSyncChan r = rpSyncChan (repo_at s j)"
    using repo_Refresh_repo [OF rf] by auto
  obtain li where li: "map_of (agLoops s) i = Some li" "loop_awake s i li"
    using w by (auto simp: wakes_def)
  have old: "loop_awake ?s1 i li" if "i \<noteq> j"
    using li(2) that q by (auto simp: loop_awake_def)
  show ?thesis
  proof (cases e)
    case None
    then have "s' = ?s1" using k q p pj rf by (simp add: SyncInterval_def Let_def)
    moreover have "loop_awake ?s1 i li"
      using old None repo_Refresh_ok [of "goSys g" "repo_at s j" "agWorld s" r w'] rf
      by (cases "i = j") (auto simp: loop_awake_def)
    ultimately show ?thesis using li(1) by (auto simp: wakes_def)
  next
    case (Some err)
    then have s': "s' = put_loop j (l\<lparr>slTimer := interval_timer (slTimer l)\<rparr>) ?s1"
      using k q p pj rf l(1) by (simp add: SyncInterval_def Let_def gm_get_def)
    show ?thesis
    proof (cases "i = j \<and> tmActive (slTimer l)")
      case True
      then have "refresh_lost g s i" unfolding refresh_lost_def using l(1) q rf Some by auto
      then show ?thesis ..
    next
      case False
      then show ?thesis using s' old li(1) by (auto simp: wakes_def update_conv' loop_awake_def)
    qed
  qed
qed

lemma listen_env_wakes:
  assumes "listen_env host env s = (b, s')" "wakes s i"
  shows "wakes s' i"
  using assms(1)
proof (cases rule: listen_env_cases)
  case (started sl)
  have "i \<noteq> new_addr s" using assms(2) new_addr_fresh [of s] by (auto simp: wakes_def)
  then show ?thesis using started(4) assms(2)
    by (auto simp: wakes_def update_conv' loop_awake_def)
qed (use assms(2) in \<open>auto simp: wakes_def loop_awake_def\<close>)

text \<open>
  C12: While no environment is deleted, every step of the agent keeps the structure of its loops, and a
  loop that something will wake up stays so: its timer counts or has ticked, its request waits to
  be served, somebody asked, or its mirror was refreshed.  The wake-up can only get lost in two
  ways: the revision of the sync tag cannot be read while the timer is not counting
  (\<^verbatim>\<open>syncLoop\<close> goes on without restarting it), or a refresh served by \<^verbatim>\<open>SyncInterval\<close> fails
  while the timer counts again (it is stopped, but only restarted if it had expired).
\<close>

theorem periodic_sync_kept:
  assumes "loops_inv s" and "sync_run g s s'"
  shows "loops_inv s' \<and> (wakes s i \<longrightarrow> wakes s' i \<or> revision_lost g s i \<or> refresh_lost g s i)"
proof -
  have "wakes s' i \<or> revision_lost g s i \<or> refresh_lost g s i" if w: "wakes s i"
    using assms(2)
  proof cases
    case (enter j l)
    then have "s' = put_loop j (l\<lparr>slPC := InSelect j\<rparr>) s"
      using loops_invD [OF assms(1) enter(1)] by (simp add: loop_ok_def loop_enter_def)
    then show ?thesis using enter w by (auto simp: wakes_def update_conv' loop_awake_def)
  next
    case (choose j l p now c)
    then show ?thesis using loop_case_wakes [OF assms(1) choose(1) choose(2) choose(3) w] by blast
  next
    case (send j l)
    then have s': "s' = put_loop j (l\<lparr>slPC := AtTop\<rparr>)
        (s\<lparr>agSyncChan := agSyncChan s @ [(slNamespace l, j)]\<rparr>)"
      by (auto simp: loop_send_def split: if_split_asm)
    show ?thesis using w unfolding s' by (auto simp: wakes_def update_conv' loop_awake_def)
  next
    case interval
    then show ?thesis using interval_wakes [OF assms(1) _ w] by blast
  next
    case (expire j l)
    have "loop_awake s j (l\<lparr>slTimer := timer_expire (slTimer l)\<rparr>) = loop_awake s j l"
      using timer_expire_pending [of "slTimer l"] unfolding loop_awake_def by (simp, blast)
    then have "wakes s' i" using w expire(2) unfolding expire(1) wakes_put_loop
      by (cases "i = j") (auto simp: wakes_def)
    then show ?thesis ..
  next
    case (mirror p r w')
    have m: "(rpC (repo_at s p) \<longrightarrow> rpC r) \<and> rpSyncChan r = rpSyncChan (repo_at s p)"
      by (rule start_iter_signals [OF mirror(2)])
    have "wakes (put_repo p r (s\<lparr>agWorld := w'\<rparr>)) i"
      by (rule wakes_put_repo) (use w m in auto)
    then show ?thesis using mirror(1) by simp
  next
    case (listen host env b)
    then show ?thesis using listen_env_wakes w by blast
  next
    case (world w' cl sl)
    then show ?thesis using w by (auto simp: wakes_def loop_awake_def)
  qed
  then show ?thesis using sync_run_inv [OF assms(2,1)] by blast
qed

text \<open>A state with one loop that waits in its \<^verbatim>\<open>select\<close>.\<close>

definition demo_loop :: "go_timer \<Rightarrow> loop_pc \<Rightarrow> sync_loop" where
  "demo_loop t pc = \<lparr>slNamespace = ''dev'', slPC = pc, slTimer = t, slHead = ''abc'', slSoon = False,
     slStopRepo = 2\<rparr>"

definition demo_sync :: "go_timer \<Rightarrow> loop_pc \<Rightarrow> bool \<Rightarrow> unit sync_state" where
  "demo_sync t pc c = \<lparr>agHeap = [(2, NewRepo ''u'' ''dev''\<lparr>rpStatus := RepoReady, rpC := c\<rparr>)],
     agRepos = [(''dev'', 2)], agLoops = [(2, demo_loop t pc)], agSyncChan = [],
     agStops = [(''sync_stop_chan'', 0), (''dev'', 2)], agClosed = [], agSlots = Some (1, 1),
     agOut = [], agWorld = ()\<rparr>"

lemma demo_sync_inv: "pc = AtTop \<or> pc = InSelect 2 \<Longrightarrow> loops_inv (demo_sync t pc c)"
  by (auto simp: gm_has_iff loops_inv_def loop_ok_def demo_sync_def demo_loop_def repo_ptr_def)

lemma demo_sync_simps [simp]:
  "agLoops (demo_sync t pc c) = [(2, demo_loop t pc)]"
  "repo_at (demo_sync t pc c) 2 = NewRepo ''u'' ''dev''\<lparr>rpStatus := RepoReady, rpC := c\<rparr>"
  "repo_ptr (demo_sync t pc c) ''dev'' = Some 2"
  "agSyncChan (demo_sync t pc c) = []" "agClosed (demo_sync t pc c) = []" "agWorld (demo_sync t pc c) = ()"
  "slNamespace (demo_loop t pc) = ''dev''" "slPC (demo_loop t pc) = pc" "slTimer (demo_loop t pc) = t"
  "slHead (demo_loop t pc) = ''abc''" "\<not> slSoon (demo_loop t pc)"
  "rpSyncChan (NewRepo u e) = False" "rpC (NewRepo u e) = False" "rpRefreshChan (NewRepo u e) = False"
  by (simp_all add: demo_sync_def demo_loop_def repo_at_def repo_ptr_def gm_get_def NewRepo_def)

lemma periodic_sync_kept_witness:
  "\<exists>s'. sync_run demo_gitops (demo_sync NewTimer (InSelect 2) False) s' \<and> wakes s' 2"
proof -
  let ?s = "demo_sync NewTimer (InSelect 2) False"
  have st: "sync_run demo_gitops ?s (put_loop 2 (demo_loop NewTimer (InSelect 2)
      \<lparr>slTimer := timer_expire (slTimer (demo_loop NewTimer (InSelect 2)))\<rparr>) ?s)"
    by (rule sync_run.expire) simp
  have "wakes ?s 2" "\<not> revision_lost demo_gitops ?s 2" "\<not> refresh_lost demo_gitops ?s 2"
    by (simp_all add: wakes_def loop_awake_def NewTimer_def revision_lost_def refresh_lost_def)
  then show ?thesis using periodic_sync_kept [OF demo_sync_inv st, of 2] st by blast
qed

lemma blank_loop_simps: "slTimer no_loop = \<lparr>tmActive = False, tmTick = False\<rparr>"
  by (simp add: no_loop_def)

text \<open>A running loop that nothing wakes up has no case to choose, and its timer does nothing.\<close>

lemma asleep_stuck:
  assumes "loops_inv s" "map_of (agLoops s) i = Some l" "slPC l = InSelect p" "\<not> wakes s i"
  shows "loop_case g now i l p c s = None" "timer_expire (slTimer l) = slTimer l"
proof -
  have p: "p = i" "slStopRepo l = i" using loops_invD [OF assms(1,2)] assms(3) by (auto simp: loop_ok_def)
  have a: "\<not> loop_awake s i l" using assms(2,4) by (auto simp: wakes_def)
  show "loop_case g now i l p c s = None"
    using a p by (cases c) (auto simp: loop_awake_def recv_C_def recv_soon_def Let_def)
  show "timer_expire (slTimer l) = slTimer l"
    using a by (auto simp: loop_awake_def timer_expire_def)
qed

text \<open>
  The wake-up that a failed reading of the revision loses is lost for good: when the timer has
  expired, its request has been served by a refresh, and nothing else is pending, the loop takes the
  refresh, fails to read the revision, and stands in its next \<^verbatim>\<open>select\<close> with no case that can ever
  be chosen and a timer that never fires; only the deletion of the environment or a refresh from
  outside moves it again.
\<close>

theorem periodic_sync_dies:
  assumes inv: "loops_inv s" and l: "map_of (agLoops s) i = Some l" "slPC l = InSelect i"
    and C: "rpC (repo_at s i)"
    and rev: "fst (repo_Revision (goSys g) (repo_at s i) (gcDevOpsTag (goConfig g)) (agWorld s)) = Inl e"
    and none: "\<not> wakes (put_repo i (repo_at s i\<lparr>rpC := False\<rparr>) s) i"
  shows "\<exists>s1 l1 s2 l2. loop_case g now i l i RefreshedCase s = Some (Ret s1)
    \<and> map_of (agLoops s1) i = Some l1 \<and> loop_enter i l1 s1 = Ret s2
    \<and> map_of (agLoops s2) i = Some l2 \<and> slPC l2 = InSelect i \<and> \<not> wakes s2 i
    \<and> (\<forall>c t. loop_case g t i l2 i c s2 = None) \<and> timer_expire (slTimer l2) = slTimer l2"
proof -
  let ?r = "repo_at s i\<lparr>rpC := False\<rparr>" and ?l1 = "l\<lparr>slPC := AtTop\<rparr>"
  let ?w = "snd (repo_Revision (goSys g) (repo_at s i) (gcDevOpsTag (goConfig g)) (agWorld s))"
  let ?s1 = "put_loop i ?l1 ((put_repo i ?r s)\<lparr>agWorld := ?w\<rparr>)"
  let ?s2 = "put_loop i (l\<lparr>slPC := InSelect i\<rparr>) ?s1"
  have ptr: "repo_ptr s (slNamespace l) = Some i" using loops_invD [OF inv l(1)] by (simp add: loop_ok_def)
  have 1: "loop_case g now i l i RefreshedCase s = Some (Ret ?s1)"
    using C ptr rev by (simp add: recv_C_def case_refreshed_def Let_def)
  have 2: "loop_enter i ?l1 ?s1 = Ret ?s2" using ptr by (simp add: loop_enter_def)
  have inv1: "loops_inv ?s1"
    by (rule inv_put_loop [where l = l]) (use inv l in \<open>auto intro: inv_put_repo\<close>)
  have inv2: "loops_inv ?s2"
    by (rule inv_put_loop [OF inv1, where l = ?l1])
      (use l loops_invD [OF inv l(1)] in \<open>auto simp: update_conv' loop_ok_def\<close>)
  have 3: "map_of (agLoops ?s2) i = Some (l\<lparr>slPC := InSelect i\<rparr>)" by (simp add: update_conv')
  have "\<not> loop_awake (put_repo i ?r s) i l" using none l(1) by (auto simp: wakes_def)
  then have 4: "\<not> wakes ?s2 i" using l(2) by (simp add: wakes_put_loop loop_awake_def)
  note 5 = asleep_stuck [OF inv2 3 _ 4]
  have 6: "map_of (agLoops ?s1) i = Some ?l1" by (simp add: update_conv')
  from 5 have 7: "\<forall>c t. loop_case g t i (l\<lparr>slPC := InSelect i\<rparr>) i c ?s2 = None"
      "timer_expire (slTimer (l\<lparr>slPC := InSelect i\<rparr>)) = slTimer (l\<lparr>slPC := InSelect i\<rparr>)"
    by simp_all
  have 8: "slPC (l\<lparr>slPC := InSelect i\<rparr>) = InSelect i" by simp
  show ?thesis using 1 6 2 3 8 4 7 by blast
qed

lemma Revision_down: "rpStatus r = RepoReady \<Longrightarrow>
    \<exists>e. fst (repo_Revision (goSys (demo_gitops\<lparr>goSys := sys_down\<rparr>)) r ref w) = Inl e"
  by (simp add: repo_Revision_def git_refRevision_def run_out_def execGitCmd_def sys_down_def Let_def)

lemma periodic_sync_dies_witness:
  "\<exists>s1. loop_case (demo_gitops\<lparr>goSys := sys_down\<rparr>) 0 2
      (demo_loop \<lparr>tmActive = False, tmTick = False\<rparr> (InSelect 2)) 2 RefreshedCase
      (demo_sync \<lparr>tmActive = False, tmTick = False\<rparr> (InSelect 2) True) = Some (Ret s1)"
proof -
  let ?t = "\<lparr>tmActive = False, tmTick = False\<rparr>" and ?g = "demo_gitops\<lparr>goSys := sys_down\<rparr>"
  let ?s = "demo_sync ?t (InSelect 2) True"
  obtain e where e: "fst (repo_Revision (goSys ?g) (repo_at ?s 2) (gcDevOpsTag (goConfig ?g)) (agWorld ?s)) = Inl e"
    using Revision_down [of "repo_at ?s 2" "gcDevOpsTag (goConfig ?g)" "agWorld ?s"] by auto
  have "\<not> wakes (put_repo 2 (repo_at ?s 2\<lparr>rpC := False\<rparr>) ?s) 2"
    by (simp add: wakes_def loop_awake_def)
  then show ?thesis
    using periodic_sync_dies [OF demo_sync_inv _ _ _ e, where l = "demo_loop ?t (InSelect 2)" and now = 0]
    by auto
qed

text \<open>
  Whether a refresh starts a synchronisation is decided by the sync tag alone: a readable
  revision becomes the head of the loop; one that differs from the last asks for a synchronisation,
  an unchanged one asks for none and restarts the timer, in whatever state it was.
\<close>

theorem refreshed_head_decides:
  assumes "loops_inv s" and "map_of (agLoops s) i = Some l" and "slPC l = InSelect i" and "rpC (repo_at s i)"
    and "fst (repo_Revision (goSys g) (repo_at s i) (gcDevOpsTag (goConfig g)) (agWorld s)) = Inr h"
  shows "\<exists>s' l'. loop_case g now i l i RefreshedCase s = Some (Ret s') \<and> map_of (agLoops s') i = Some l'
    \<and> slHead l' = h \<and> slPC l' = AtTop \<and> (slSoon l' \<longleftrightarrow> slSoon l \<or> h \<noteq> slHead l)
    \<and> tmActive (slTimer l') = (h = slHead l \<or> tmActive (slTimer l)) \<and> \<not> rpC (repo_at s' i)"
  using assms loops_invD [OF assms(1,2)]
  by (cases "h = slHead l") (simp_all add: loop_ok_def recv_C_def case_refreshed_def Let_def update_conv')

lemma refreshed_head_decides_witness:
  "\<exists>s' l'. loop_case demo_gitops 0 2 (demo_loop NewTimer (InSelect 2)) 2 RefreshedCase
      (demo_sync NewTimer (InSelect 2) True) = Some (Ret s') \<and> map_of (agLoops s') 2 = Some l' \<and> \<not> slSoon l'"
proof -
  let ?s = "demo_sync NewTimer (InSelect 2) True"
  have "fst (repo_Revision (goSys demo_gitops) (repo_at ?s 2) (gcDevOpsTag (goConfig demo_gitops)) (agWorld ?s))
      = Inr ''abc''"
    by (simp add: repo_Revision_def git_refRevision_def run_out_def demo_gitops_def Let_def trim_space_def
        trim_left_def trim_right_def is_space_def)
  from refreshed_head_decides [OF demo_sync_inv _ _ _ this,
      where l = "demo_loop NewTimer (InSelect 2)" and now = 0]
  show ?thesis by auto
qed

subsection \<open>Starting and stopping loops\<close>

definition loops_of :: "'w sync_state \<Rightarrow> string \<Rightarrow> nat set" where
  "loops_of s ns = {i. \<exists>l. map_of (agLoops s) i = Some l \<and> slNamespace l = ns}"

lemma loops_of_one:
  assumes "loops_inv s" "i \<in> loops_of s ns"
  shows "loops_of s ns = {i}"
proof -
  have "repo_ptr s ns = Some j" if "j \<in> loops_of s ns" for j
    using that loops_invD [OF assms(1)] by (auto simp: loops_of_def loop_ok_def)
  then show ?thesis using assms(2) by (metis (no_types, lifting) insertI1 option.inject singletonD subsetI subset_antisym)
qed

lemma loops_of_unknown: "loops_inv s \<Longrightarrow> \<not> gm_has (agStops s) ns \<Longrightarrow> loops_of s ns = {}"
  by (auto simp: loops_of_def loops_inv_def loop_ok_def)

lemma loops_of_started:
  assumes "map_of (agLoops s) a = None"
  shows "loops_of (put_loop a (new_loop ns a) (put_repo a r (s\<lparr>agStops := st, agSlots := sl, agRepos := rs\<rparr>))) ns'
    = (if ns' = ns then insert a (loops_of s ns) else loops_of s ns')"
  using assms by (auto simp: loops_of_def update_conv' new_loop_def)

text \<open>What one environment adds.\<close>

lemma listen_env_effect:
  assumes inv: "loops_inv s" and k: "listen_env host env s = (b, s')"
  shows "gm_has (agStops s') ns \<longleftrightarrow> gm_has (agStops s) ns \<or> ns = epNamespace env"
    and "gm_has (agStops s) ns \<or> ns \<noteq> epNamespace env \<Longrightarrow> loops_of s' ns = loops_of s ns"
    and "\<not> gm_has (agStops s) (epNamespace env) \<Longrightarrow> \<not> b \<Longrightarrow> \<exists>i. loops_of s' (epNamespace env) = {i}"
    and "b \<Longrightarrow> loops_of s' (epNamespace env) = {}"
  using k loops_of_unknown [OF inv, of "epNamespace env"] new_addr_fresh(2) [of s]
  by (atomize (full), cases rule: listen_env_cases)
    (auto simp: loops_of_started, auto simp: loops_of_def)

lemma listen_loop_effect:
  assumes "loops_inv s" "listen_loop host envs s = (rest, s')"
  shows "loops_inv s'"
    and "gm_has (agStops s) ns \<Longrightarrow> gm_has (agStops s') ns \<and> loops_of s' ns = loops_of s ns"
    and "rest = [] \<Longrightarrow> ns \<in> epNamespace ` set envs \<Longrightarrow> \<not> gm_has (agStops s) ns
      \<Longrightarrow> \<exists>i. loops_of s' ns = {i}"
    and "rest = env # others \<Longrightarrow> gm_has (agStops s') (epNamespace env) \<and> loops_of s' (epNamespace env) = {}"
  using assms
proof (atomize (full), induction host envs s rule: listen_loop.induct)
  case (1 host s)
  then show ?case by auto
next
  case (2 host e envs s)
  obtain b s1 where k: "listen_env host e s = (b, s1)" by fastforce
  note eff = listen_env_effect [OF 2(2) k] and inv1 = listen_env_inv [OF 2(2) k]
  show ?case
  proof (cases b)
    case True
    then have "rest = e # envs" "s' = s1" using 2(3) k by (auto simp: Let_def)
    then show ?thesis using True eff(1,2,4) inv1 by auto
  next
    case False
    then have "listen_loop host envs s1 = (rest, s')" using 2(3) k by (simp add: Let_def)
    then have IH: "loops_inv s'"
      "gm_has (agStops s1) ns \<Longrightarrow> gm_has (agStops s') ns \<and> loops_of s' ns = loops_of s1 ns"
      "rest = [] \<Longrightarrow> ns \<in> epNamespace ` set envs \<Longrightarrow> \<not> gm_has (agStops s1) ns \<Longrightarrow> \<exists>i. loops_of s' ns = {i}"
      "rest = env # others \<Longrightarrow> gm_has (agStops s') (epNamespace env) \<and> loops_of s' (epNamespace env) = {}"
      using 2(1) [OF HOL.refl] k False inv1 by auto
    have new: "\<exists>i. loops_of s' ns = {i}" if "ns = epNamespace e" "\<not> gm_has (agStops s) ns"
      using eff(3) that False IH(2) eff(1) [of ns] by auto
    show ?thesis using IH new eff(1,2) [of ns] by auto
  qed
qed


definition demo_env :: "string \<Rightarrow> env_paras" where
  "demo_env ns = \<lparr>epEnvId = 1, epNamespace = ns, epGitRsaKey = ''key'',
     epGitUrl = ''git@host:org/'' @ ns @ ''.git'', epReleases = []\<rparr>"


text \<open>
  The deletion of an environment and its loop race.  The deletion asks the loop to stop
  and removes its repository from the map; a loop that waits in its \<^verbatim>\<open>select\<close> can take the request and
  return, but one that was synchronising evaluates the channel of a nil repository when
  it comes back, and the agent panics.
\<close>

theorem delete_env_race:
  assumes "loops_inv s" and "map_of (agLoops s) i = Some l"
    and "forget_env (slNamespace l) s = Ret (Some s')"
  shows "map_of (agLoops s') i = Some l \<and> loop_enter i l s' = Panic
    \<and> (\<exists>s''. loop_case g now i l i StopRepoCase s' = Some (Ret s'')
         \<and> map_option slPC (map_of (agLoops s'') i) = Some Returned)"
proof -
  have ok: "repo_ptr s (slNamespace l) = Some i" "slStopRepo l = i"
    using loops_invD [OF assms(1,2)] by (auto simp: loop_ok_def)
  have s': "s' = (put_repo i (repo_at s i\<lparr>rpSyncChan := True, rpRefreshChan := True\<rparr>) s)
      \<lparr>agRepos := AList.delete (slNamespace l) (agRepos s), agStops := AList.delete (slNamespace l) (agStops s)\<rparr>"
    using assms(3) ok by (auto simp: forget_env_def Let_def split: if_split_asm)
  have "repo_ptr s' (slNamespace l) = None" by (simp add: s' repo_ptr_def delete_conv')
  then show ?thesis using assms(2) ok s' by (simp add: loop_enter_def Let_def update_conv')
qed

lemma delete_env_race_witness:
  "\<exists>s'. forget_env ''dev'' (demo_sync NewTimer AtTop False) = Ret (Some s')
     \<and> loop_enter 2 (demo_loop NewTimer AtTop) s' = Panic"
proof -
  let ?s = "demo_sync NewTimer AtTop False"
  obtain s' where f: "forget_env ''dev'' ?s = Ret (Some s')"
    by (simp add: forget_env_def Let_def)
  then show ?thesis
    using delete_env_race [OF demo_sync_inv, of AtTop NewTimer False 2 "demo_loop NewTimer AtTop" s']
    by simp
qed

end
