(* ===== verification/GitSsh.thy ===== *)
theory GitSsh
  imports GitLoop
begin

text \<open>
  The ssh access to the configuration repositories (\<^verbatim>\<open>pkg/gitops/gitops_ssh.go\<close>): the map of rewritten
  hosts read from the environment, the deploy key of every environment and the ssh
  configuration that gives each environment a host alias of its own.  Files are written
  through a parameter.
\<close>

definition sshKeyPath :: string where "sshKeyPath = ''/ssh-keys''"

text \<open>
  The initialisation.  The two lists are compared with each other's first one only: a shorter
  list of overrides is indexed out of range.  The proxy is what the standard library's URL
  parser makes of the variable.
\<close>

record ssh_proxy =
  spSchema :: string
  spUsername :: string
  spPassword :: string
  spHost :: string

fun rewrite_entries :: "string list \<Rightarrow> string list \<Rightarrow> (string, string) gomap \<Rightarrow> (string, string) gomap go" where
  "rewrite_entries [] os m = Ret m"
| "rewrite_entries (u # us) [] m = Panic"
| "rewrite_entries (u # us) (v # vs) m = rewrite_entries us vs (AList.update u v m)"

definition ssh_init :: "string \<Rightarrow> string \<Rightarrow> ssh_proxy option \<Rightarrow> ((string, string) gomap \<times> ssh_proxy option) go" where
  "ssh_init rawOriginSshUrl rawOverrideSshUrl proxy =
     (if rawOriginSshUrl = [] \<or> rawOverrideSshUrl = [] then Ret ([], proxy)
      else go_map (\<lambda>m. (m, None))
        (rewrite_entries (split_char rawOriginSshUrl CHR '','') (split_char rawOverrideSshUrl CHR '','') []))"

definition nl :: string where "nl = [CHR 0x0A]"

definition ssh_config :: "(string, string) gomap \<Rightarrow> ssh_proxy option \<Rightarrow> string \<Rightarrow> string \<Rightarrow> string" where
  "ssh_config rewrites proxy host0 ns =
     (let host = (case map_of rewrites host0 of Some u \<Rightarrow> u | None \<Rightarrow> host0);
          hp = split_char host CHR '':''
      in ''Host '' @ ns @ nl
       @ (if contains host '':''
          then ''  HostName '' @ hp ! 0 @ nl @ ''  Port '' @ hp ! 1 @ nl
          else ''  HostName '' @ host @ nl)
       @ ''  StrictHostKeyChecking no'' @ nl
       @ ''  UserKnownHostsFile /dev/null'' @ nl
       @ ''  IdentityFile '' @ sshKeyPath @ ''/rsa-'' @ ns @ nl
       @ ''  LogLevel error'' @ nl
       @ (case proxy of None \<Rightarrow> []
          | Some p \<Rightarrow> if rewrites = []
              then ''  ProxyCommand ncat --proxy-type '' @ spSchema p @ '' --proxy-auth '' @ spUsername p @ '':''
                 @ spPassword p @ '' --proxy '' @ spHost p @ '' %h %p'' @ nl
              else []))"

record 'w key_files =
  kfExists :: "string \<Rightarrow> 'w \<Rightarrow> bool"
  kfRemove :: "string \<Rightarrow> 'w \<Rightarrow> 'w"
  kfCreate :: "string \<Rightarrow> 'w \<Rightarrow> gerror option \<times> 'w"
  kfWrite :: "string \<Rightarrow> string \<Rightarrow> 'w \<Rightarrow> gerror option \<times> 'w"

definition write_fresh :: "'w key_files \<Rightarrow> string \<Rightarrow> string \<Rightarrow> 'w \<Rightarrow> gerror option \<times> 'w" where
  "write_fresh fs filename content w =
     (let w1 = (if kfExists fs filename w then kfRemove fs filename w else w);
          c = kfCreate fs filename w1
      in case fst c of Some e \<Rightarrow> (Some e, snd c) | None \<Rightarrow> kfWrite fs filename content (snd c))"

definition writeSSHkey :: "'w key_files \<Rightarrow> string \<Rightarrow> string \<Rightarrow> 'w \<Rightarrow> gerror option \<times> 'w" where
  "writeSSHkey fs fileName key w = write_fresh fs (sshKeyPath @ ''/rsa-'' @ fileName) key w"

definition writeSshConfig :: "'w key_files \<Rightarrow> string \<Rightarrow> 'w \<Rightarrow> gerror option \<times> 'w" where
  "writeSshConfig fs content w = write_fresh fs ''/etc/ssh/ssh_config'' content w"

fun prepare_keys :: "'w key_files \<Rightarrow> (string \<Rightarrow> string) \<Rightarrow> env_paras list \<Rightarrow> string \<Rightarrow> 'w
    \<Rightarrow> gerror option \<times> 'w" where
  "prepare_keys fs conf [] sshConfig w = writeSshConfig fs sshConfig w"
| "prepare_keys fs conf (env # envs) sshConfig w =
     (let r = writeSSHkey fs (epNamespace env) (epGitRsaKey env) w in
      case fst r of Some e \<Rightarrow> (Some e, snd r)
      | None \<Rightarrow> prepare_keys fs conf envs (sshConfig @ conf (epNamespace env)) (snd r))"

definition PrepareSSHKeys :: "'w key_files \<Rightarrow> (string, string) gomap \<Rightarrow> ssh_proxy option \<Rightarrow> string
    \<Rightarrow> env_paras list \<Rightarrow> 'w \<Rightarrow> gerror option \<times> 'w" where
  "PrepareSSHKeys fs rewrites proxy gitHost envs w =
     prepare_keys fs (ssh_config rewrites proxy gitHost) envs [] w"

section \<open>Properties\<close>

lemma rewrite_entries_Panic: "rewrite_entries us vs m = Panic \<longleftrightarrow> length vs < length us"
  by (induction us vs m rule: rewrite_entries.induct) auto

lemma rewrite_entries_Ret:
  "rewrite_entries us vs m = Ret m' \<Longrightarrow> distinct us \<Longrightarrow>
   map_of m' u = (case map_of (zip us vs) u of Some v \<Rightarrow> Some v | None \<Rightarrow> map_of m u)"
proof (induction us vs m arbitrary: m' rule: rewrite_entries.induct)
  case (3 u us v vs m)
  then show ?case
    by (auto simp: update_conv' dest: set_zip_leftD map_of_SomeD split: option.splits)
qed auto

text \<open>
  The start of the agent panics exactly when more hosts are to be rewritten than there are
  replacements; otherwise every host of the list, if they are distinct, is rewritten to the
  replacement at its place, and surplus replacements are ignored.
\<close>

theorem ssh_init_correct:
  assumes "us \<noteq> []" "vs \<noteq> []" "set us \<union> set vs \<subseteq> {s. CHR '','' \<notin> set s}"
    and "join us '','' \<noteq> []" "join vs '','' \<noteq> []"
  shows "(ssh_init (join us '','') (join vs '','') p = Panic \<longleftrightarrow> length vs < length us)
    \<and> (ssh_init (join us '','') (join vs '','') p = Ret (m, q) \<and> distinct us \<longrightarrow>
        q = None \<and> map_of m u = map_of (zip us vs) u)"
proof -
  have sp: "split_char (join us '','') CHR '','' = us" "split_char (join vs '','') CHR '','' = vs"
    using assms(1-3) by (auto intro!: split_char_join)
  show ?thesis
    using assms(4,5) rewrite_entries_Ret [of us vs "[]" m u]
    by (auto simp: ssh_init_def sp go_simps rewrite_entries_Panic split: option.splits)
qed

lemma ssh_init_correct_witness:
  "ssh_init ''a.com,b.com'' ''c.com'' None = Panic"
proof -
  have "ssh_init (join [''a.com'', ''b.com''] '','') (join [''c.com''] '','') None = Panic"
    using ssh_init_correct [of "[''a.com'', ''b.com'']" "[''c.com'']" None] by simp
  then show ?thesis by simp
qed

end
