(* ===== verification/AgentSync.thy ===== *)
theory AgentSync
  imports Namespaces Cluster Packets
begin

text \<open>
  What the agent reports about itself when it is (re)connected (\<^verbatim>\<open>pkg/agent/sync\<close>): the
  names of the release objects of every namespace, the namespaces of the cluster, a periodic
  request for the states of the environments; and the life of the channel that stops these
  goroutines.
\<close>

section \<open>Reports\<close>

record resource_list =
  rlResources :: "string list"
  rlResourceType :: string

text \<open>
  A report is a list of packets and whether the process was ended by \<^verbatim>\<open>glog.Fatal\<close> on the way.
\<close>

type_synonym report = "packet list \<times> bool"

definition release_names :: "k8s_obj list \<Rightarrow> string list" where
  "release_names os = map koName (filter (\<lambda>o1. label o1 ReleaseLabel \<noteq> []) os)"

definition env_key :: "string \<Rightarrow> string" where
  "env_key ns = ''env:'' @ ns"

text \<open>One kind of object; \<^verbatim>\<open>fatal\<close> tells what an error of the list does.\<close>

fun sync_kind :: "bool \<Rightarrow> string \<Rightarrow> lister \<Rightarrow> (resource_list \<Rightarrow> string res) \<Rightarrow> string list \<Rightarrow> report" where
  "sync_kind fatal kind list marshal [] = ([], False)"
| "sync_kind fatal kind list marshal (ns # nss) = (case list ns of
     Inl e \<Rightarrow> if fatal then ([], True) else sync_kind fatal kind list marshal nss
   | Inr items \<Rightarrow> (case marshal \<lparr>rlResources = release_names items, rlResourceType = kind\<rparr> of
       Inl e \<Rightarrow> ([], True)
     | Inr content \<Rightarrow> (let r = sync_kind fatal kind list marshal nss in
         (mk_packet (env_key ns) ResourceSync content # fst r, snd r))))"

definition syncStatefulSet :: "lister \<Rightarrow> (resource_list \<Rightarrow> string res) \<Rightarrow> namespaces \<Rightarrow> report" where
  "syncStatefulSet list marshal nss = sync_kind False ''StatefulSet'' list marshal (ns_GetAll nss)"

definition syncReplicaSet :: "lister \<Rightarrow> (resource_list \<Rightarrow> string res) \<Rightarrow> namespaces \<Rightarrow> report" where
  "syncReplicaSet list marshal nss = sync_kind True ''ReplicaSet'' list marshal (ns_GetAll nss)"

definition syncService :: "lister \<Rightarrow> (resource_list \<Rightarrow> string res) \<Rightarrow> namespaces \<Rightarrow> report" where
  "syncService list marshal nss = sync_kind True ''Service'' list marshal (ns_GetAll nss)"

definition syncPod :: "lister \<Rightarrow> (resource_list \<Rightarrow> string res) \<Rightarrow> namespaces \<Rightarrow> report" where
  "syncPod list marshal nss = sync_kind True ''Pod'' list marshal (ns_GetAll nss)"

text \<open>The names of all namespaces; an error of the printer is logged and leaves an empty payload.\<close>

definition NamespacePacket :: "globals \<Rightarrow> (string list \<Rightarrow> string res) \<Rightarrow> k8s_obj list \<Rightarrow> packet" where
  "NamespacePacket gl marshal nss = mk_packet (''cluster:'' @ glClusterId gl) ''namespace_info''
     (case marshal (map koName nss) of Inl e \<Rightarrow> [] | Inr payload \<Rightarrow> payload)"

definition syncNamespace :: "globals \<Rightarrow> (api_err + k8s_obj list) \<Rightarrow> (string list \<Rightarrow> string res)
    \<Rightarrow> packet list \<times> gerror option" where
  "syncNamespace gl items marshal =
     (if glRestrictedModel gl then ([], None)
      else (case items of Inl e \<Rightarrow> ([], Some (api_text e))
            | Inr nss \<Rightarrow> ([NamespacePacket gl marshal nss], None)))"

definition newSyncRep :: "string \<Rightarrow> packet" where
  "newSyncRep ns = mk_packet (env_key ns) ResourceStatusSyncEvent []"

text \<open>
  The loop of \<^verbatim>\<open>syncStatus\<close> over what its \<^verbatim>\<open>select\<close> receives: a tick with the namespaces at that
  time, or the stop channel.
\<close>

datatype status_event = StopEvent | TickEvent namespaces

fun syncStatus :: "status_event list \<Rightarrow> packet list" where
  "syncStatus [] = []"
| "syncStatus (StopEvent # es) = []"
| "syncStatus (TickEvent nss # es) = map newSyncRep (ns_GetAll nss) @ syncStatus es"

section \<open>The stop channel\<close>

text \<open>
  The context: the address of the channel that stops the running goroutines (none before the first
  run), the closed channels, and how many goroutines wait for the shutdown of the agent, one per
  run.
\<close>

record sync_context =
  cxStop :: "nat option"
  cxClosed :: "nat list"
  cxNext :: nat
  cxWatchers :: nat
  cxMetrics :: nat

definition new_context :: sync_context where
  "new_context = \<lparr>cxStop = None, cxClosed = [], cxNext = 0, cxWatchers = 0, cxMetrics = 0\<rparr>"

text \<open>\<^verbatim>\<open>syncMetrics\<close> registers the collector of the nodes once, outside of the restricted mode.\<close>

definition syncMetrics :: "globals \<Rightarrow> sync_context \<Rightarrow> sync_context" where
  "syncMetrics gl c = (if glRestrictedModel gl \<or> cxMetrics c > 0 then c else c\<lparr>cxMetrics := 1\<rparr>)"

definition sync_Run :: "globals \<Rightarrow> sync_context \<Rightarrow> sync_context" where
  "sync_Run gl c = (let c' = syncMetrics gl c in c'\<lparr>cxWatchers := Suc (cxWatchers c')\<rparr>)"

definition ReSync :: "globals \<Rightarrow> sync_context \<Rightarrow> sync_context go" where
  "ReSync gl c =
     go_bind (case cxStop c of None \<Rightarrow> Ret (cxClosed c) | Some ch \<Rightarrow> close_chan (Some ch) (cxClosed c))
       (\<lambda>closed. Ret (sync_Run gl (c\<lparr>cxClosed := closed, cxStop := Some (cxNext c), cxNext := Suc (cxNext c)\<rparr>)))"

text \<open>
  When the agent shuts down, every one of these goroutines closes the channel that the context
  holds by then.
\<close>

definition watcher_step :: "sync_context \<Rightarrow> sync_context go" where
  "watcher_step c = (if cxWatchers c = 0 then Ret c
     else go_map (\<lambda>closed. c\<lparr>cxClosed := closed, cxWatchers := cxWatchers c - 1\<rparr>)
            (close_chan (cxStop c) (cxClosed c)))"

fun resyncs :: "globals \<Rightarrow> nat \<Rightarrow> sync_context \<Rightarrow> sync_context go" where
  "resyncs gl 0 c = Ret c"
| "resyncs gl (Suc n) c = go_bind (ReSync gl c) (resyncs gl n)"

section \<open>Properties\<close>

definition context_inv :: "sync_context \<Rightarrow> bool" where
  "context_inv c \<longleftrightarrow> (\<forall>ch. cxStop c = Some ch \<longrightarrow> ch < cxNext c \<and> ch \<notin> set (cxClosed c))
     \<and> (\<forall>ch \<in> set (cxClosed c). ch < cxNext c) \<and> (cxWatchers c > 0 \<longrightarrow> cxStop c \<noteq> None)"

lemma new_context_inv: "context_inv new_context"
  by (simp add: context_inv_def new_context_def)

lemma sync_Run_simps [simp]:
  "cxStop (sync_Run gl c) = cxStop c" "cxClosed (sync_Run gl c) = cxClosed c"
  "cxNext (sync_Run gl c) = cxNext c" "cxWatchers (sync_Run gl c) = Suc (cxWatchers c)"
  by (auto simp: sync_Run_def syncMetrics_def Let_def)

lemma ReSync_inv:
  assumes "context_inv c"
  shows "\<exists>c'. ReSync gl c = Ret c' \<and> context_inv c' \<and> cxStop c' = Some (cxNext c)
    \<and> cxWatchers c' = Suc (cxWatchers c)
    \<and> set (cxClosed c') = (case cxStop c of None \<Rightarrow> {} | Some ch \<Rightarrow> {ch}) \<union> set (cxClosed c)"
  using assms
  by (cases "cxStop c") (auto simp: ReSync_def context_inv_def close_chan_def)

lemma resyncs_inv:
  assumes "context_inv c"
  shows "\<exists>c'. resyncs gl n c = Ret c' \<and> context_inv c' \<and> cxWatchers c' = n + cxWatchers c
    \<and> (n > 0 \<longrightarrow> cxStop c' \<noteq> None)"
  using assms
proof (induction n arbitrary: c)
  case (Suc n)
  obtain c1 where c1: "ReSync gl c = Ret c1" "context_inv c1" "cxWatchers c1 = Suc (cxWatchers c)"
      "cxStop c1 \<noteq> None"
    using ReSync_inv [OF Suc.prems] by fastforce
  then show ?case using Suc.IH [OF c1(2)] by (cases n) auto
qed simp

text \<open>
  However often the agent is synchronised again, this never closes a channel twice, and each
  time one more goroutine waits for the shutdown; after the second time the shutdown closes the same
  channel twice and panics.
\<close>

theorem resync_shutdown:
  "(\<exists>c. resyncs gl n new_context = Ret c \<and> context_inv c \<and> cxWatchers c = n)
   \<and> (go_bind (resyncs gl 1 new_context) watcher_step \<noteq> Panic)
   \<and> go_bind (go_bind (resyncs gl (Suc (Suc n)) new_context) watcher_step) watcher_step = Panic"
proof -
  have w: "cxWatchers new_context = 0" by (simp add: new_context_def)
  have 1: "watcher_step c = Ret (c\<lparr>cxClosed := ch # cxClosed c, cxWatchers := cxWatchers c - 1\<rparr>)"
    if "context_inv c" "cxWatchers c > 0" "cxStop c = Some ch" for c ch
    using that by (simp add: watcher_step_def close_chan_def context_inv_def)
  have 2: "watcher_step c = Panic" if "cxWatchers c > 0" "cxStop c = Some ch" "ch \<in> set (cxClosed c)" for c ch
    using that by (simp add: watcher_step_def close_chan_def)
  have run: "\<exists>c ch. resyncs gl m new_context = Ret c \<and> context_inv c \<and> cxWatchers c = m
      \<and> (m > 0 \<longrightarrow> cxStop c = Some ch)" for m
    using resyncs_inv [OF new_context_inv, of gl m] w by auto
  obtain c ch where c: "resyncs gl (Suc (Suc n)) new_context = Ret c" "context_inv c"
      "cxWatchers c = Suc (Suc n)" "cxStop c = Some ch"
    using run [of "Suc (Suc n)"] by auto
  let ?c1 = "c\<lparr>cxClosed := ch # cxClosed c, cxWatchers := cxWatchers c - 1\<rparr>"
  have "watcher_step c = Ret ?c1" using 1 [OF c(2) _ c(4)] c(3) by simp
  moreover have "watcher_step ?c1 = Panic" using 2 [of ?c1 ch] c by simp
  moreover obtain d dh where d: "resyncs gl 1 new_context = Ret d" "context_inv d" "cxWatchers d = 1"
      "cxStop d = Some dh"
    using run [of 1] by auto
  moreover have "watcher_step d = Ret (d\<lparr>cxClosed := dh # cxClosed d, cxWatchers := cxWatchers d - 1\<rparr>)"
    using 1 [OF d(2) _ d(4)] d(3) by simp
  moreover have "\<exists>c. resyncs gl n new_context = Ret c \<and> context_inv c \<and> cxWatchers c = n"
    using run [of n] by blast
  ultimately show ?thesis using c(1) by simp
qed

text \<open>
  The report of a kind that the cluster lists has one packet for every namespace, under the key of
  the environment, with the names of the objects that belong to a release, in order; the process
  ends exactly when a list fails that must not or the printer fails.
\<close>

theorem sync_kind_reports:
  "snd (sync_kind fatal kind list marshal nss) =
     (set nss \<inter> {ns. case list ns of Inl e \<Rightarrow> fatal
        | Inr items \<Rightarrow> isl (marshal \<lparr>rlResources = release_names items, rlResourceType = kind\<rparr>)} \<noteq> {})
   \<and> (snd (sync_kind fatal kind list marshal nss) \<or>
      fst (sync_kind fatal kind list marshal nss) =
        concat (map (\<lambda>ns. case list ns of Inl e \<Rightarrow> []
          | Inr items \<Rightarrow> (case marshal \<lparr>rlResources = release_names items, rlResourceType = kind\<rparr> of
              Inl e \<Rightarrow> [] | Inr content \<Rightarrow> [mk_packet (env_key ns) ResourceSync content])) nss))"
proof (induction nss)
  case Nil
  then show ?case by simp
next
  case (Cons ns nss)
  show ?case
  proof (cases "list ns")
    case (Inl e)
    then show ?thesis using Cons.IH by (cases fatal) (simp_all, blast)
  next
    case (Inr items)
    then show ?thesis using Cons.IH
      by (cases "marshal \<lparr>rlResources = release_names items, rlResourceType = kind\<rparr>")
        (simp_all add: Let_def, blast)
  qed
qed

end
