(* ===== verification/KubeApi.thy ===== *)
theory KubeApi
  imports Cluster Packets
begin

text \<open>
  The agent's client of the Kubernetes API (\<^verbatim>\<open>pkg/kube/client.go\<close>): status queries, creation and
  update of single objects, logs and shells of pods, and the marks it puts on the objects of
  a configuration repository before they are applied.  The API server is a parameter
  (\<^verbatim>\<open>kube_api\<close>) whose reads see the state of the outside world and whose writes change it.
\<close>

section \<open>JSON trees\<close>

text \<open>Unstructured objects and the accessors of \<^verbatim>\<open>apimachinery\<close> that the client uses on them.\<close>

datatype json = JNull | JBool bool | JNum int | JStr string | JArr "json list"
  | JObj "(string \<times> json) list"

type_synonym jmap = "(string \<times> json) list"

text \<open>\<^verbatim>\<open>NestedFieldNoCopy\<close>: an error (\<^verbatim>\<open>None\<close>) where a field of something else than a map is asked
  for, otherwise the value or that there is none.\<close>

fun nested_value :: "json \<Rightarrow> string list \<Rightarrow> json option option" where
  "nested_value v [] = Some (Some v)"
| "nested_value JNull (f # fs) = Some None"
| "nested_value (JObj m) (f # fs) = (case map_of m f of None \<Rightarrow> Some None | Some v \<Rightarrow> nested_value v fs)"
| "nested_value v (f # fs) = None"

definition nested_map :: "jmap \<Rightarrow> string list \<Rightarrow> jmap option option" where
  "nested_map obj fs = (case nested_value (JObj obj) fs of
     None \<Rightarrow> None | Some None \<Rightarrow> Some None
   | Some (Some v) \<Rightarrow> (case v of JObj m \<Rightarrow> Some (Some m) | _ \<Rightarrow> None))"

fun string_entries :: "jmap \<Rightarrow> (string, string) gomap option" where
  "string_entries [] = Some []"
| "string_entries ((k, JStr s) # m) = map_option ((#) (k, s)) (string_entries m)"
| "string_entries ((k, v) # m) = None"

definition nested_string_map :: "jmap \<Rightarrow> string list \<Rightarrow> (string, string) gomap option option" where
  "nested_string_map obj fs = (case nested_map obj fs of
     None \<Rightarrow> None | Some None \<Rightarrow> Some None
   | Some (Some m) \<Rightarrow> map_option Some (string_entries m))"

definition nested_string :: "jmap \<Rightarrow> string list \<Rightarrow> string" where
  "nested_string obj fs = (case nested_value (JObj obj) fs of Some (Some (JStr s)) \<Rightarrow> s | _ \<Rightarrow> [])"

text \<open>\<^verbatim>\<open>SetNestedStringMap\<close>, \<^verbatim>\<open>None\<close> where a level is not a map.\<close>

fun set_nested :: "jmap \<Rightarrow> string list \<Rightarrow> json \<Rightarrow> jmap option" where
  "set_nested m [] v = None"
| "set_nested m [f] v = Some (AList.update f v m)"
| "set_nested m (f # g # fs) v = (case map_of m f of
     None \<Rightarrow> map_option (\<lambda>m'. AList.update f (JObj m') m) (set_nested [] (g # fs) v)
   | Some (JObj m1) \<Rightarrow> map_option (\<lambda>m'. AList.update f (JObj m') m) (set_nested m1 (g # fs) v)
   | Some _ \<Rightarrow> None)"

definition json_strings :: "(string, string) gomap \<Rightarrow> json" where
  "json_strings m = JObj (map (\<lambda>(k, v). (k, JStr v)) m)"

definition set_strings :: "jmap \<Rightarrow> string list \<Rightarrow> (string, string) gomap \<Rightarrow> jmap" where
  "set_strings obj fs m = (case set_nested obj fs (json_strings m) of None \<Rightarrow> obj | Some obj' \<Rightarrow> obj')"

definition get_strings :: "jmap \<Rightarrow> string list \<Rightarrow> (string, string) gomap" where
  "get_strings obj fs = (case nested_string_map obj fs of Some (Some m) \<Rightarrow> m | _ \<Rightarrow> [])"

section \<open>The API server\<close>

record secret = k8s_obj +
  scType :: string
  scData :: "(string, string) gomap"

record claim = k8s_obj +
  clPhase :: string

record service = k8s_obj +
  svVersion :: string
  svClusterIP :: string

record job = k8s_obj +
  jbSelector :: string

text \<open>The status of a container: its name and why it terminated, if it did.\<close>

record container_status =
  csName :: string
  csTerminated :: "string option"

record pod = k8s_obj +
  pdAPIVersion :: string
  pdKind :: string
  pdPhase :: string
  pdContainers :: "string list"
  pdStatuses :: "container_status list"

record release_spec =
  rsRepoURL :: string
  rsChartName :: string
  rsChartVersion :: string
  rsCommandId :: int
  rsV1CommandId :: string
  rsValues :: string
  rsImagePullSecrets :: "string list option"
  rsAppServiceId :: int
  rsV1AppServiceId :: string

definition zero_spec :: release_spec where
  "zero_spec = \<lparr>rsRepoURL = [], rsChartName = [], rsChartVersion = [], rsCommandId = 0,
     rsV1CommandId = [], rsValues = [], rsImagePullSecrets = None, rsAppServiceId = 0,
     rsV1AppServiceId = []\<rparr>"

record release = k8s_obj +
  rlSpec :: release_spec

record log_options =
  loContainer :: string
  loFollow :: bool
  loTailLines :: "int option"
  loPrevious :: bool

record build_info =
  biKind :: string
  biObject :: jmap

record 'w kube_api =
  kaGet :: "string \<Rightarrow> string \<Rightarrow> string \<Rightarrow> 'w \<Rightarrow> api_err + k8s_obj"
  kaGetSecret :: "string \<Rightarrow> string \<Rightarrow> 'w \<Rightarrow> api_err + secret"
  kaGetClaim :: "string \<Rightarrow> string \<Rightarrow> string \<Rightarrow> 'w \<Rightarrow> api_err + claim"
  kaGetService :: "string \<Rightarrow> string \<Rightarrow> 'w \<Rightarrow> api_err + service"
  kaGetJob :: "string \<Rightarrow> string \<Rightarrow> 'w \<Rightarrow> api_err + job"
  kaGetPod :: "string \<Rightarrow> string \<Rightarrow> 'w \<Rightarrow> api_err + pod"
  kaGetRelease :: "string \<Rightarrow> string \<Rightarrow> 'w \<Rightarrow> api_err + release"
  kaListPods :: "string \<Rightarrow> string \<Rightarrow> 'w \<Rightarrow> api_err + pod list"
  kaList :: "string \<Rightarrow> string \<Rightarrow> string \<Rightarrow> 'w \<Rightarrow> api_err + k8s_obj list"
  kaCreate :: "string \<Rightarrow> string \<Rightarrow> k8s_obj \<Rightarrow> 'w \<Rightarrow> (api_err + k8s_obj) \<times> 'w"
  kaUpdate :: "string \<Rightarrow> string \<Rightarrow> k8s_obj \<Rightarrow> 'w \<Rightarrow> (api_err + k8s_obj) \<times> 'w"
  kaCreateService :: "string \<Rightarrow> service \<Rightarrow> 'w \<Rightarrow> (api_err + service) \<times> 'w"
  kaUpdateService :: "string \<Rightarrow> service \<Rightarrow> 'w \<Rightarrow> (api_err + service) \<times> 'w"
  kaCreateSecret :: "string \<Rightarrow> secret \<Rightarrow> 'w \<Rightarrow> (api_err + secret) \<times> 'w"
  kaUpdateSecret :: "string \<Rightarrow> secret \<Rightarrow> 'w \<Rightarrow> (api_err + secret) \<times> 'w"
  kaUpdateRelease :: "string \<Rightarrow> release \<Rightarrow> 'w \<Rightarrow> (api_err + release) \<times> 'w"
  kaDelete :: "string \<Rightarrow> string \<Rightarrow> string \<Rightarrow> 'w \<Rightarrow> api_err option \<times> 'w"
  kaDeletePods :: "string \<Rightarrow> string \<Rightarrow> 'w \<Rightarrow> api_err option \<times> 'w"
  kaSelector :: "string \<Rightarrow> string res"
  kaLogs :: "string \<Rightarrow> string \<Rightarrow> log_options \<Rightarrow> 'w \<Rightarrow> string res"
  kaExec :: "string \<Rightarrow> string \<Rightarrow> string \<Rightarrow> string \<Rightarrow> 'w \<Rightarrow> gerror option \<times> 'w"
  kaClientSet :: "gerror option"
  kaRESTConfig :: "gerror option"
  kaUnmarshalService :: "string \<Rightarrow> service res"
  kaUnmarshalIngress :: "string \<Rightarrow> k8s_obj res"
  kaBuild :: "string \<Rightarrow> string \<Rightarrow> build_info list res"
  kaYaml :: "jmap \<Rightarrow> string res"
  kaSecretYaml :: "secret \<Rightarrow> string res"
  kaSpec :: "jmap \<Rightarrow> release_spec res"

type_synonym 'a api = "api_err + 'a"

section \<open>Status queries\<close>

definition commit_of :: "(string, string) gomap \<Rightarrow> string" where
  "commit_of annotations = gm_get [] annotations CommitLabel"

text \<open>
  What every query does with the answer: only the error of an absent object is handed on, any
  other reads as an object without commit.
\<close>

definition commit_answer :: "'a k8s_obj_scheme api \<Rightarrow> (api_err, string) sum" where
  "commit_answer r = (case r of
     Inl e \<Rightarrow> if IsNotFound e then Inl e else Inr []
   | Inr o1 \<Rightarrow> if commit_of (koAnnotations o1) \<noteq> [] then Inr (commit_of (koAnnotations o1)) else Inr [])"

definition kc_GetService :: "'w kube_api \<Rightarrow> string \<Rightarrow> string \<Rightarrow> 'w \<Rightarrow> string api" where
  "kc_GetService api ns name w = commit_answer (kaGetService api ns name w)"

definition kc_GetIngress :: "'w kube_api \<Rightarrow> string \<Rightarrow> string \<Rightarrow> 'w \<Rightarrow> string api" where
  "kc_GetIngress api ns name w = commit_answer (kaGet api ''ingresses'' ns name w)"

definition kc_GetSecret :: "'w kube_api \<Rightarrow> string \<Rightarrow> string \<Rightarrow> 'w \<Rightarrow> string api" where
  "kc_GetSecret api ns name w = commit_answer (kaGetSecret api ns name w)"

definition kc_GetConfigMap :: "'w kube_api \<Rightarrow> string \<Rightarrow> string \<Rightarrow> 'w \<Rightarrow> string api" where
  "kc_GetConfigMap api ns name w = commit_answer (kaGet api ''configmaps'' ns name w)"

definition kc_GetDeployment :: "'w kube_api \<Rightarrow> string \<Rightarrow> string \<Rightarrow> 'w \<Rightarrow> string api" where
  "kc_GetDeployment api ns name w = commit_answer (kaGet api ''deployments'' ns name w)"

definition kc_GetStatefulSet :: "'w kube_api \<Rightarrow> string \<Rightarrow> string \<Rightarrow> 'w \<Rightarrow> string api" where
  "kc_GetStatefulSet api ns name w = commit_answer (kaGet api ''statefulsets'' ns name w)"

definition kc_GetJob :: "'w kube_api \<Rightarrow> string \<Rightarrow> string \<Rightarrow> 'w \<Rightarrow> string api" where
  "kc_GetJob api ns name w = commit_answer (kaGetJob api ns name w)"

definition kc_GetCronJob :: "'w kube_api \<Rightarrow> string \<Rightarrow> string \<Rightarrow> 'w \<Rightarrow> string api" where
  "kc_GetCronJob api ns name w = commit_answer (kaGet api ''cronjobs'' ns name w)"

definition kc_GetDaemonSet :: "'w kube_api \<Rightarrow> string \<Rightarrow> string \<Rightarrow> 'w \<Rightarrow> string api" where
  "kc_GetDaemonSet api ns name w = commit_answer (kaGet api ''daemonsets'' ns name w)"

text \<open>Claims and volumes answer with their phase, which is left out where there is no commit.\<close>

definition claim_answer :: "claim api \<Rightarrow> (string \<times> string) api" where
  "claim_answer r = (case r of
     Inl e \<Rightarrow> if IsNotFound e then Inl e else Inr ([], [])
   | Inr c \<Rightarrow> if commit_of (koAnnotations c) \<noteq> [] then Inr (commit_of (koAnnotations c), clPhase c)
              else Inr ([], []))"

definition kc_GetPersistentVolumeClaim :: "'w kube_api \<Rightarrow> string \<Rightarrow> string \<Rightarrow> 'w \<Rightarrow> (string \<times> string) api" where
  "kc_GetPersistentVolumeClaim api ns name w = claim_answer (kaGetClaim api ''persistentvolumeclaims'' ns name w)"

definition kc_GetPersistentVolume :: "'w kube_api \<Rightarrow> string \<Rightarrow> string \<Rightarrow> 'w \<Rightarrow> (string \<times> string) api" where
  "kc_GetPersistentVolume api ns name w = claim_answer (kaGetClaim api ''persistentvolumes'' [] name w)"

definition kc_IsSecretExist :: "'w kube_api \<Rightarrow> string \<Rightarrow> string \<Rightarrow> 'w \<Rightarrow> bool \<times> api_err option" where
  "kc_IsSecretExist api ns name w = (case kaGetSecret api ns name w of
     Inl e \<Rightarrow> if IsNotFound e then (False, Some e) else (False, None)
   | Inr s \<Rightarrow> if scType s = ''kubernetes.io/tls'' then (True, None) else (False, None))"

definition kc_GetNamespace :: "'w kube_api \<Rightarrow> string \<Rightarrow> 'w \<Rightarrow> gerror option" where
  "kc_GetNamespace api ns w = (case kaGet api ''namespaces'' [] ns w of
     Inl e \<Rightarrow> if IsNotFound e then Some (''get Namespace error : '' @ api_text e) else None
   | Inr _ \<Rightarrow> None)"

definition kc_DeleteNamespace :: "'w kube_api \<Rightarrow> string \<Rightarrow> 'w \<Rightarrow> gerror option \<times> 'w" where
  "kc_DeleteNamespace api ns w = (let r = kaDelete api ''namespaces'' [] ns w in
     (case fst r of
        Some e \<Rightarrow> if IsNotFound e then Some (''delete namespace error : '' @ api_text e) else None
      | None \<Rightarrow> None, snd r))"

definition kc_GetC7NHelmRelease :: "'w kube_api \<Rightarrow> string \<Rightarrow> string \<Rightarrow> 'w \<Rightarrow> release option" where
  "kc_GetC7NHelmRelease api name ns w = (case kaGetRelease api name ns w of
     Inl e \<Rightarrow> if IsNotFound e then None
       else Some \<lparr>koName = [], koNamespace = [], koLabels = [], koAnnotations = [], koBody = [],
              rlSpec = zero_spec\<rparr>
   | Inr r \<Rightarrow> Some r)"

definition kc_UpdateC7nHelmRelease :: "'w kube_api \<Rightarrow> release \<Rightarrow> string \<Rightarrow> 'w \<Rightarrow> 'w" where
  "kc_UpdateC7nHelmRelease api r ns w = snd (kaUpdateRelease api ns r w)"

definition release_selector :: "string \<Rightarrow> string" where
  "release_selector releaseName = ReleaseLabel @ ''='' @ releaseName"

definition kc_IsReleaseJobRun :: "'w kube_api \<Rightarrow> string \<Rightarrow> string \<Rightarrow> 'w \<Rightarrow> bool" where
  "kc_IsReleaseJobRun api ns releaseName w = (case kaSelector api (release_selector releaseName) of
     Inl e \<Rightarrow> False
   | Inr sel \<Rightarrow> (case kaList api ''jobs'' ns sel w of Inl e \<Rightarrow> False | Inr jobs \<Rightarrow> length jobs > 0))"

section \<open>Writing single objects\<close>

definition api_res :: "'a api \<times> 'w \<Rightarrow> 'a res \<times> 'w" where
  "api_res r = (map_sum api_text id (fst r), snd r)"

definition kc_DeleteJob :: "'w kube_api \<Rightarrow> string \<Rightarrow> string \<Rightarrow> 'w \<Rightarrow> gerror option \<times> 'w" where
  "kc_DeleteJob api ns name w = (case kaGetJob api ns name w of
     Inl e \<Rightarrow> (Some (api_text e), w)
   | Inr jb \<Rightarrow> (case kaSelector api (jbSelector jb) of
       Inl e \<Rightarrow> (Some e, w)
     | Inr selector \<Rightarrow> (let d = kaDelete api ''jobs'' ns name w in
         case fst d of Some e \<Rightarrow> (Some (api_text e), snd d)
         | None \<Rightarrow> (let p = kaDeletePods api ns selector (snd d) in
             (map_option api_text (fst p), snd p)))))"

text \<open>The update of a service keeps the version and the address the cluster gave it.\<close>

definition kc_CreateOrUpdateService :: "'w kube_api \<Rightarrow> string \<Rightarrow> string \<Rightarrow> 'w \<Rightarrow> service res \<times> 'w" where
  "kc_CreateOrUpdateService api ns serviceStr w = (case kaUnmarshalService api serviceStr of
     Inl e \<Rightarrow> (Inl e, w)
   | Inr svc \<Rightarrow> (case kaGetService api ns (koName svc) w of
       Inl e \<Rightarrow> if IsNotFound e then api_res (kaCreateService api ns svc w) else (Inl (api_text e), w)
     | Inr oldService \<Rightarrow> api_res (kaUpdateService api ns
         (svc\<lparr>svVersion := svVersion oldService, svClusterIP := svClusterIP oldService\<rparr>) w)))"

definition kc_CreateOrUpdateIngress :: "'w kube_api \<Rightarrow> string \<Rightarrow> string \<Rightarrow> 'w \<Rightarrow> k8s_obj res \<times> 'w" where
  "kc_CreateOrUpdateIngress api ns ingressStr w = (case kaClientSet api of
     Some e \<Rightarrow> (Inl e, w)
   | None \<Rightarrow> (case kaUnmarshalIngress api ingressStr of
       Inl e \<Rightarrow> (Inl e, w)
     | Inr ing \<Rightarrow> (case kaGet api ''ingresses'' ns (koName ing) w of
         Inl e \<Rightarrow> if IsNotFound e then api_res (kaCreate api ''ingresses'' ns ing w)
                  else (Inl (api_text e), w)
       | Inr _ \<Rightarrow> api_res (kaUpdate api ''ingresses'' ns ing w))))"

definition kc_CreateOrUpdateDockerRegistrySecret :: "'w kube_api \<Rightarrow> string \<Rightarrow> secret \<Rightarrow> 'w
    \<Rightarrow> secret res \<times> 'w" where
  "kc_CreateOrUpdateDockerRegistrySecret api ns sec w = (case kaGetSecret api ns (koName sec) w of
     Inl e \<Rightarrow> if IsNotFound e then api_res (kaCreateSecret api ns sec w) else (Inl (api_text e), w)
   | Inr _ \<Rightarrow> api_res (kaUpdateSecret api ns sec w))"

definition kc_DeleteService :: "'w kube_api \<Rightarrow> string \<Rightarrow> string \<Rightarrow> 'w \<Rightarrow> gerror option \<times> 'w" where
  "kc_DeleteService api ns name w = (case kaClientSet api of
     Some e \<Rightarrow> (Some e, w)
   | None \<Rightarrow> (let d = kaDelete api ''services'' ns name w in (map_option api_text (fst d), snd d)))"

definition kc_DeleteIngress :: "'w kube_api \<Rightarrow> string \<Rightarrow> string \<Rightarrow> 'w \<Rightarrow> gerror option \<times> 'w" where
  "kc_DeleteIngress api ns name w = (case kaClientSet api of
     Some e \<Rightarrow> (Some e, w)
   | None \<Rightarrow> (let d = kaDelete api ''ingresses'' ns name w in (map_option api_text (fst d), snd d)))"

section \<open>Logs and shells\<close>

definition kc_GetLogs :: "'w kube_api \<Rightarrow> string \<Rightarrow> string \<Rightarrow> string \<Rightarrow> bool \<Rightarrow> bool \<Rightarrow> int \<Rightarrow> 'w \<Rightarrow> string res"
where
  "kc_GetLogs api ns pd containerName follow previous line w =
     kaLogs api ns pd \<lparr>loContainer = containerName, loFollow = follow,
       loTailLines = (if line = -1 then None else Some line), loPrevious = previous\<rparr> w"

definition testContainer :: string where "testContainer = ''automation-test''"

definition no_log_options :: log_options where
  "no_log_options = \<lparr>loContainer = [], loFollow = False, loTailLines = None, loPrevious = False\<rparr>"

fun test_options :: "string list \<Rightarrow> log_options \<Rightarrow> log_options" where
  "test_options [] opts = opts"
| "test_options (c # cs) opts =
     test_options cs (if contains c testContainer then no_log_options\<lparr>loContainer := c\<rparr> else opts)"

definition job_status :: "string \<Rightarrow> container_status list \<Rightarrow> string" where
  "job_status jobLabel sts =
     (if jobLabel = TestLabel \<and> length sts = 2
         \<and> (\<exists>s \<in> set sts. contains (csName s) testContainer \<and> csTerminated s = Some ''Completed'')
      then ''success'' else [])"

definition kc_LogsForJob :: "'w kube_api \<Rightarrow> string \<Rightarrow> string \<Rightarrow> string \<Rightarrow> 'w
    \<Rightarrow> string \<times> string \<times> gerror option" where
  "kc_LogsForJob api ns name jobLabel w = (case kaGetJob api ns name w of
     Inl e \<Rightarrow> ([], [], Some (api_text e))
   | Inr jb \<Rightarrow> (case kaSelector api (jbSelector jb) of
       Inl e \<Rightarrow> ([], [], Some e)
     | Inr selector \<Rightarrow> (case kaListPods api ns selector w of
         Inl e \<Rightarrow> ([], [], Some (api_text e))
       | Inr [] \<Rightarrow> ([], [], None)
       | Inr (pd # _) \<Rightarrow>
          (let options = (if jobLabel = TestLabel then test_options (pdContainers pd) no_log_options
                          else no_log_options);
               status = job_status jobLabel (pdStatuses pd)
           in case kaLogs api ns (koName pd) options w of
                Inl e \<Rightarrow> ([], status, Some e)
              | Inr logs \<Rightarrow> (logs, status, None)))))"

text \<open>\<^verbatim>\<open>Exec\<close> tries the shells in turn until one session ends well.\<close>

definition validShells :: "string list" where
  "validShells = [''bash'', ''sh'', ''powershell'', ''cmd'']"

fun try_shells :: "'w kube_api \<Rightarrow> string \<Rightarrow> string \<Rightarrow> string \<Rightarrow> string list \<Rightarrow> 'w \<Rightarrow> string list \<times> 'w" where
  "try_shells api ns pd c [] w = ([], w)"
| "try_shells api ns pd c (sh # shs) w = (let r = kaExec api ns pd c sh w in
     case fst r of None \<Rightarrow> ([sh], snd r)
     | Some e \<Rightarrow> (let t = try_shells api ns pd c shs (snd r) in (sh # fst t, snd t)))"

definition kc_Exec :: "'w kube_api \<Rightarrow> string \<Rightarrow> string \<Rightarrow> string \<Rightarrow> 'w \<Rightarrow> gerror option \<times> 'w" where
  "kc_Exec api ns podName containerName w = (case kaRESTConfig api of
     Some e \<Rightarrow> (Some e, w)
   | None \<Rightarrow> (case kaGetPod api ns podName w of
       Inl e \<Rightarrow> (Some (api_text e), w)
     | Inr pd \<Rightarrow> if pdPhase pd = ''Succeeded'' \<or> pdPhase pd = ''Failed''
         then (Some (''cannot exec into a container in a completed pod; current phase is '' @ pdPhase pd), w)
         else (None, snd (try_shells api ns podName containerName validShells w))))"

section \<open>Pods of an object\<close>

definition isFoundPod :: "pod list \<Rightarrow> pod \<Rightarrow> bool" where
  "isFoundPod podItem pd \<longleftrightarrow> (\<exists>v \<in> set podItem. koNamespace v = koNamespace pd \<and> koName v = koName pd)"

text \<open>The selector of an object: an error of the accessor leaves none.\<close>

definition getSelectorFromObject :: "string \<Rightarrow> jmap \<Rightarrow> (string, string) gomap option" where
  "getSelectorFromObject kind obj =
     (if kind = ''ReplicationController'' then
        map_option (\<lambda>m. case m of None \<Rightarrow> [] | Some x \<Rightarrow> x) (nested_string_map obj [''spec'', ''selector''])
      else if kind \<in> {''Deployment'', ''Job'', ''ReplicaSet'', ''DaemonSet'', ''StatefulSet''} then
        map_option (\<lambda>m. case m of None \<Rightarrow> [] | Some x \<Rightarrow> x)
          (nested_string_map obj [''spec'', ''selector'', ''matchLabels''])
      else None)"

text \<open>\<^verbatim>\<open>GroupVersionKind().Version\<close> is what follows the slash of the version, if there is one; a
  version with more slashes is not parsed.\<close>

definition version_kind :: "pod \<Rightarrow> string" where
  "version_kind pd =
     (let v = (if pdAPIVersion pd = [] then ''v1'' else pdAPIVersion pd);
          k = (if pdKind pd = [] then ''Pod'' else pdKind pd)
      in (case split_char v CHR ''/'' of [x] \<Rightarrow> x | [g, x] \<Rightarrow> x | _ \<Rightarrow> []) @ ''/'' @ k)"

fun group_pods :: "pod list \<Rightarrow> (string, pod list) gomap \<Rightarrow> (string, pod list) gomap" where
  "group_pods [] m = m"
| "group_pods (p # ps) m =
     (let pd = p\<lparr>pdAPIVersion := (if pdAPIVersion p = [] then ''v1'' else pdAPIVersion p),
                 pdKind := (if pdKind p = [] then ''Pod'' else pdKind p)\<rparr>;
          vk = version_kind pd
      in group_pods ps (if isFoundPod (gm_get [] m vk) pd then m
                        else AList.update vk (gm_get [] m vk @ [pd]) m))"

definition kc_GetSelectRelationPod :: "'w kube_api \<Rightarrow> ((string, string) gomap \<Rightarrow> string) \<Rightarrow> string
    \<Rightarrow> build_info option \<Rightarrow> 'w \<Rightarrow> (string, pod list) gomap option res" where
  "kc_GetSelectRelationPod api selectorText ns info w = (case info of
     None \<Rightarrow> Inr None
   | Some i \<Rightarrow> (case getSelectorFromObject (biKind i) (biObject i) of
       None \<Rightarrow> Inr None
     | Some selector \<Rightarrow> (case kaListPods api ns (selectorText selector) w of
         Inl e \<Rightarrow> Inl (api_text e)
       | Inr pods \<Rightarrow> Inr (Some (group_pods pods [])))))"

definition InArray :: "string list \<Rightarrow> string \<Rightarrow> bool" where
  "InArray expectedResourceKind kind \<longleftrightarrow> kind \<in> set expectedResourceKind"

section \<open>Marking the objects of a repository\<close>

definition getTemplateLabels :: "jmap \<Rightarrow> (string, string) gomap" where
  "getTemplateLabels obj = get_strings obj [''spec'', ''template'', ''metadata'', ''labels'']"

definition getCronJobPodTemplateLabels :: "jmap \<Rightarrow> (string, string) gomap" where
  "getCronJobPodTemplateLabels obj =
     get_strings obj [''spec'', ''jobTemplate'', ''spec'', ''template'', ''metadata'', ''labels'']"

definition setTemplateLabels :: "jmap \<Rightarrow> (string, string) gomap \<Rightarrow> jmap" where
  "setTemplateLabels obj m = set_strings obj [''spec'', ''template'', ''metadata'', ''labels''] m"

definition setCronJobPodTemplateLabels :: "jmap \<Rightarrow> (string, string) gomap \<Rightarrow> jmap" where
  "setCronJobPodTemplateLabels obj m =
     set_strings obj [''spec'', ''jobTemplate'', ''spec'', ''template'', ''metadata'', ''labels''] m"

definition getSpecField :: "jmap \<Rightarrow> jmap" where
  "getSpecField obj = (case nested_map obj [''spec''] of Some (Some m) \<Rightarrow> m | _ \<Rightarrow> [])"

definition jobj_name :: "jmap \<Rightarrow> string" where
  "jobj_name obj = nested_string obj [''metadata'', ''name'']"

definition template_marks :: "string \<Rightarrow> string \<Rightarrow> string \<Rightarrow> (string, string) gomap \<Rightarrow> (string, string) gomap" where
  "template_marks kind name commit m =
     AList.update CommitLabel commit (AList.update ParentWorkloadNameLabel name
       (AList.update ParentWorkloadLabel kind m))"

definition addTemplateAppLabels :: "string \<Rightarrow> string \<Rightarrow> jmap \<Rightarrow> jmap" where
  "addTemplateAppLabels kind commit obj =
     setTemplateLabels obj (template_marks kind (jobj_name obj) commit (getTemplateLabels obj))"

definition addCronJobTemplateAppLabels :: "string \<Rightarrow> string \<Rightarrow> jmap \<Rightarrow> jmap" where
  "addCronJobTemplateAppLabels kind commit obj =
     setCronJobPodTemplateLabels obj
       (template_marks kind (jobj_name obj) commit (getCronJobPodTemplateLabels obj))"

text \<open>
  How a release is to be operated on: installed where the cluster has none, cross-upgraded where
  the chart is another one, upgraded where anything of the specification changed.  An error of
  the API other than an absent release reads as a release with an empty specification.
\<close>

definition release_operation :: "'w kube_api \<Rightarrow> jmap \<Rightarrow> string \<Rightarrow> 'w \<Rightarrow> string option res" where
  "release_operation api obj ns w = (case kc_GetC7NHelmRelease api (jobj_name obj) ns w of
     None \<Rightarrow> Inr (Some INSTALL)
   | Some old \<Rightarrow> (case kaSpec api (getSpecField obj) of
       Inl e \<Rightarrow> Inl e
     | Inr newSpec \<Rightarrow>
         if rsChartName (rlSpec old) \<noteq> rsChartName newSpec then Inr (Some CROSS_UPGRADE)
         else if newSpec \<noteq> rlSpec old then Inr (Some UPGRADE) else Inr None))"

definition workload_kinds :: "string list" where
  "workload_kinds = [''Deployment'', ''StatefulSet'', ''DaemonSet'', ''Job'']"

text \<open>
  The marks of a kind: the labels, whether the object is supported, and the object with the marks of
  its pod template.
\<close>

definition kind_labels :: "globals \<Rightarrow> string \<Rightarrow> string \<Rightarrow> string \<Rightarrow> (string, string) gomap
    \<Rightarrow> (string, string) gomap option" where
  "kind_labels gl ns kind name l =
     (if kind = ''Service'' then Some (AList.update NetworkLabel ''service'' l)
      else if kind = ''Ingress'' then Some (AList.update NetworkLabel ''ingress'' l)
      else if kind \<in> {''ConfigMap'', ''Secret'', ''Certificate''} then Some l
      else if kind = ''C7NHelmRelease'' then
        Some (if ns = glAgentNamespace gl then AList.update C7NHelmReleaseClusterLabel (glClusterId gl) l else l)
      else if kind = ''PersistentVolumeClaim'' then
        Some (AList.update NameLabel name (AList.update PvcLabel (''pvc-cluster-'' @ glClusterId gl) l))
      else if kind = ''PersistentVolume'' then
        Some (AList.update NameLabel name (AList.update PvLabel (''pv-cluster-'' @ glClusterId gl)
          (AList.update EnvLabel ns l)))
      else if kind \<in> set workload_kinds \<or> kind = ''CronJob'' then Some (AList.update WorkloadLabel kind l)
      else None)"

definition template_of_kind :: "string \<Rightarrow> string \<Rightarrow> jmap \<Rightarrow> jmap" where
  "template_of_kind kind commit obj =
     (if kind \<in> set workload_kinds then addTemplateAppLabels kind commit obj
      else if kind = ''CronJob'' then addCronJobTemplateAppLabels kind commit obj else obj)"

text \<open>
  The deferred calls set the annotations and the labels of the object on every way out, the unsupported
  kinds included; labels that are not all strings read as none and are replaced.
\<close>

definition labelAndAnnotationsRepoObj :: "'w kube_api \<Rightarrow> globals \<Rightarrow> build_info \<Rightarrow> string \<Rightarrow> string
    \<Rightarrow> 'w \<Rightarrow> jmap res" where
  "labelAndAnnotationsRepoObj api gl info ns commit w =
     (let obj = biObject info; kind = biKind info;
          l = get_strings obj [''metadata'', ''labels''];
          annotations = AList.update CommitLabel commit (get_strings obj [''metadata'', ''annotations'']);
          finish = (\<lambda>o1 an lb. set_strings (set_strings o1 [''metadata'', ''annotations''] an)
                       [''metadata'', ''labels''] lb)
      in case kind_labels gl ns kind (jobj_name obj) l of
           None \<Rightarrow> Inr (finish obj annotations l)
         | Some l1 \<Rightarrow>
             (let l2 = AList.update AgentVersionLabel (glAgentVersion gl) l1;
                  o1 = template_of_kind kind commit obj
              in if kind = ''C7NHelmRelease'' then
                   (case release_operation api obj ns w of
                      Inl e \<Rightarrow> Inl e
                    | Inr None \<Rightarrow> Inr (finish o1 annotations l2)
                    | Inr (Some op) \<Rightarrow>
                        Inr (finish o1 (AList.update C7NHelmReleaseOperateAnnotation op annotations) l2))
                 else Inr (finish o1 annotations l2)))"

definition doc_sep :: string where "doc_sep = [CHR 0x0A] @ ''---'' @ [CHR 0x0A]"

fun label_infos :: "'w kube_api \<Rightarrow> globals \<Rightarrow> string \<Rightarrow> string \<Rightarrow> build_info list \<Rightarrow> 'w \<Rightarrow> string res" where
  "label_infos api gl ns commit [] w = Inr []"
| "label_infos api gl ns commit (info # infos) w =
     (case labelAndAnnotationsRepoObj api gl info ns commit w of
        Inl e \<Rightarrow> Inl (''label object: '' @ e)
      | Inr obj \<Rightarrow> (case kaYaml api obj of
          Inl e \<Rightarrow> Inl (''yaml marshal: '' @ e)
        | Inr objB \<Rightarrow> map_sum id (\<lambda>s. doc_sep @ objB @ s) (label_infos api gl ns commit infos w)))"

definition kc_LabelRepoObj :: "'w kube_api \<Rightarrow> globals \<Rightarrow> string \<Rightarrow> string \<Rightarrow> string \<Rightarrow> string \<Rightarrow> 'w
    \<Rightarrow> string option res" where
  "kc_LabelRepoObj api gl ns manifest version commit w = (case kaBuild api ns manifest of
     Inl e \<Rightarrow> Inl (''build unstructured: '' @ e)
   | Inr infos \<Rightarrow> map_sum id Some (label_infos api gl ns commit infos w))"

section \<open>Certificates\<close>

definition existCert :: "jmap \<Rightarrow> bool" where
  "existCert obj = (case nested_map obj [''spec'', ''existCert''] of Some (Some _) \<Rightarrow> True | _ \<Rightarrow> False)"

definition getCertInfo :: "jmap \<Rightarrow> jmap" where
  "getCertInfo obj = (case nested_map obj [''spec'', ''existCert''] of Some (Some m) \<Rightarrow> m | _ \<Rightarrow> [])"

text \<open>A type assertion panics on a missing entry and on one that is not a string.\<close>

definition assert_string :: "jmap \<Rightarrow> string \<Rightarrow> string go" where
  "assert_string m k = (case map_of m k of Some (JStr s) \<Rightarrow> Ret s | _ \<Rightarrow> Panic)"

definition tls_secret :: "globals \<Rightarrow> string \<Rightarrow> jmap \<Rightarrow> string \<Rightarrow> string \<Rightarrow> secret" where
  "tls_secret gl ns obj key cert =
     \<lparr>koName = jobj_name obj, koNamespace = ns,
      koLabels = AList.update TlsSecretLabel (glAgentVersion gl) (get_strings obj [''metadata'', ''labels'']),
      koAnnotations = get_strings obj [''metadata'', ''annotations''], koBody = [],
      scType = ''kubernetes.io/tls'', scData = [(''tls.key'', key), (''tls.crt'', cert)]\<rparr>"

fun convert_infos :: "'w kube_api \<Rightarrow> globals \<Rightarrow> string \<Rightarrow> build_info list \<Rightarrow> string \<Rightarrow> bool
    \<Rightarrow> (string option \<times> gerror option \<times> bool) go" where
  "convert_infos api gl ns [] buf converted = Ret (Some buf, None, converted)"
| "convert_infos api gl ns (info # infos) buf converted =
     (let obj = biObject info in
      if \<not> existCert obj then
        (case kaYaml api obj of
           Inl e \<Rightarrow> Ret (None, Some (''yaml marshal: '' @ e), converted)
         | Inr objB \<Rightarrow> convert_infos api gl ns infos (buf @ doc_sep @ objB) converted)
      else
        go_bind (assert_string (getCertInfo obj) ''key'') (\<lambda>key.
        go_bind (assert_string (getCertInfo obj) ''cert'') (\<lambda>cert.
          case kaSecretYaml api (tls_secret gl ns obj key cert) of
            Inl e \<Rightarrow> Ret (None, Some (''yaml marshal: '' @ e), converted)
          | Inr objB \<Rightarrow> convert_infos api gl ns infos (buf @ doc_sep @ objB) True)))"

definition kc_ConvertCertificate :: "'w kube_api \<Rightarrow> globals \<Rightarrow> string \<Rightarrow> string \<Rightarrow> string
    \<Rightarrow> (string option \<times> gerror option \<times> bool) go" where
  "kc_ConvertCertificate api gl ns manifest commit = (case kaBuild api ns manifest of
     Inl e \<Rightarrow> Ret (None, Some (''build unstructured: '' @ e), False)
   | Inr infos \<Rightarrow> convert_infos api gl ns infos [] False)"

section \<open>Reading back what was set\<close>

lemma set_nested_get:
  "set_nested m fs v = Some m' \<Longrightarrow> nested_value (JObj m') fs = Some (Some v)"
  by (induction m fs v arbitrary: m' rule: set_nested.induct)
    (auto simp: update_conv' split: option.split_asm json.split_asm)

lemma set_nested_other:
  "set_nested m (f # fs) v = Some m' \<Longrightarrow> f' \<noteq> f \<Longrightarrow> map_of m' f' = map_of m f'"
  by (cases fs) (auto simp: update_conv' split: option.split_asm json.split_asm)

lemma set_nested_sibling:
  "set_nested m [f, g] v = Some m' \<Longrightarrow> g' \<noteq> g
    \<Longrightarrow> nested_value (JObj m') [f, g'] = nested_value (JObj m) [f, g']"
  by (auto simp: update_conv' split: option.splits json.split_asm)

lemma string_entries_json [simp]: "string_entries (map (\<lambda>(k, v). (k, JStr v)) m) = Some m"
  by (induction m) auto

lemma get_strings_nested:
  "get_strings obj fs = (case nested_value (JObj obj) fs of
     Some (Some (JObj m)) \<Rightarrow> (case string_entries m of Some x \<Rightarrow> x | None \<Rightarrow> []) | _ \<Rightarrow> [])"
  by (simp add: get_strings_def nested_string_map_def nested_map_def split: option.split json.split)

lemma get_set_nested:
  "set_nested obj fs (json_strings m) = Some obj' \<Longrightarrow> get_strings obj' fs = m"
  by (simp add: get_strings_nested set_nested_get) (simp add: json_strings_def)

text \<open>Metadata that can be written to.\<close>

definition meta_ok :: "jmap \<Rightarrow> bool" where
  "meta_ok obj \<longleftrightarrow> (case map_of obj ''metadata'' of None \<Rightarrow> True | Some (JObj m) \<Rightarrow> True | Some _ \<Rightarrow> False)"

lemma meta_set: "meta_ok obj \<Longrightarrow> \<exists>obj'. set_nested obj [''metadata'', g] v = Some obj' \<and> meta_ok obj'"
  by (auto simp: meta_ok_def update_conv' split: option.splits json.splits)

lemma set_strings_meta:
  assumes "meta_ok obj"
  shows "meta_ok (set_strings obj [''metadata'', g] m)"
    and "get_strings (set_strings obj [''metadata'', g] m) [''metadata'', g] = m"
    and "g' \<noteq> g \<Longrightarrow> get_strings (set_strings obj [''metadata'', g] m) [''metadata'', g']
        = get_strings obj [''metadata'', g']"
proof -
  obtain obj' where o': "set_nested obj [''metadata'', g] (json_strings m) = Some obj'" "meta_ok obj'"
    using meta_set [OF assms] by blast
  have e: "set_strings obj [''metadata'', g] m = obj'"
    unfolding set_strings_def o'(1) by simp
  show "meta_ok (set_strings obj [''metadata'', g] m)" using e o' by simp
  show "get_strings (set_strings obj [''metadata'', g] m) [''metadata'', g] = m"
    using e get_set_nested [OF o'(1)] by simp
  show "get_strings (set_strings obj [''metadata'', g] m) [''metadata'', g']
      = get_strings obj [''metadata'', g']" if "g' \<noteq> g"
    unfolding e get_strings_nested set_nested_sibling [OF o'(1) that] ..
qed

lemma set_strings_spec:
  "map_of (set_strings obj (''spec'' # fs) m) ''metadata'' = map_of obj ''metadata''"
  using set_nested_other [of obj "''spec''" fs "json_strings m" _ "''metadata''"]
  by (simp add: set_strings_def split: option.split)

lemma template_of_kind_meta:
  "map_of (template_of_kind kind commit obj) ''metadata'' = map_of obj ''metadata''"
  by (simp add: template_of_kind_def addTemplateAppLabels_def addCronJobTemplateAppLabels_def
      setTemplateLabels_def setCronJobPodTemplateLabels_def set_strings_spec)

section \<open>What the marks are for\<close>

text \<open>The object as the API server lists it.\<close>

definition listed :: "jmap \<Rightarrow> k8s_obj" where
  "listed obj = \<lparr>koName = jobj_name obj, koNamespace = nested_string obj [''metadata'', ''namespace''],
     koLabels = get_strings obj [''metadata'', ''labels''],
     koAnnotations = get_strings obj [''metadata'', ''annotations''], koBody = []\<rparr>"

text \<open>Whether the export of a kind keeps an object (the tests of the kinds of \<^verbatim>\<open>Cluster\<close>).\<close>

definition kind_keep :: "globals \<Rightarrow> string \<Rightarrow> string \<Rightarrow> k8s_obj \<Rightarrow> bool" where
  "kind_keep gl ns kind o1 =
     (if kind \<in> {''Service'', ''Ingress''} then network_keep o1
      else if kind = ''ConfigMap'' then configmap_keep o1
      else if kind = ''Secret'' then secret_keep o1
      else if kind = ''PersistentVolumeClaim'' then pvc_keep gl o1
      else if kind = ''C7NHelmRelease'' then release_keep gl ns o1
      else if kind \<in> set workload_kinds \<or> kind = ''CronJob'' then workload_keep kind o1
      else kind = ''Certificate'')"

definition foreign_marks :: "(string, string) gomap \<Rightarrow> bool" where
  "foreign_marks l \<longleftrightarrow> gm_has l NetworkNoDelLabel \<or> gm_has l ReleaseLabel \<or> gm_has l TlsSecretLabel"

lemma finish_meta:
  assumes "meta_ok obj"
  shows "get_strings (set_strings (set_strings obj [''metadata'', ''annotations''] an)
      [''metadata'', ''labels''] lb) [''metadata'', ''labels''] = lb"
    and "get_strings (set_strings (set_strings obj [''metadata'', ''annotations''] an)
      [''metadata'', ''labels''] lb) [''metadata'', ''annotations''] = an"
proof -
  let ?o = "set_strings obj [''metadata'', ''annotations''] an"
  have o: "meta_ok ?o" "get_strings ?o [''metadata'', ''annotations''] = an"
    using set_strings_meta(1,2) [OF assms, of "''annotations''" an] by auto
  show "get_strings (set_strings ?o [''metadata'', ''labels''] lb) [''metadata'', ''labels''] = lb"
    using set_strings_meta(2) [OF o(1)] .
  show "get_strings (set_strings ?o [''metadata'', ''labels''] lb) [''metadata'', ''annotations''] = an"
    using set_strings_meta(3) [OF o(1), of "''annotations''" "''labels''" lb] o(2) by simp
qed

lemma label_obj_result:
  assumes "labelAndAnnotationsRepoObj api gl info ns commit w = Inr obj" "meta_ok (biObject info)"
    and "kind_labels gl ns (biKind info) (jobj_name (biObject info))
        (get_strings (biObject info) [''metadata'', ''labels'']) = Some l1"
  shows "koLabels (listed obj) = AList.update AgentVersionLabel (glAgentVersion gl) l1"
    and "commit_of (koAnnotations (listed obj)) = commit"
proof -
  have m: "meta_ok (template_of_kind k commit (biObject info))" for k
    using assms(2) by (simp add: meta_ok_def template_of_kind_meta)
  note f = finish_meta [OF m]
  have ne: "CommitLabel \<noteq> C7NHelmReleaseOperateAnnotation"
    by (simp add: CommitLabel_def C7NHelmReleaseOperateAnnotation_def)
  show "koLabels (listed obj) = AList.update AgentVersionLabel (glAgentVersion gl) l1"
    using assms(1,3)
    by (auto simp: labelAndAnnotationsRepoObj_def Let_def listed_def f split: if_splits sum.splits option.splits)
  show "commit_of (koAnnotations (listed obj)) = commit"
    using assms(1,3) ne
    by (auto simp: labelAndAnnotationsRepoObj_def Let_def listed_def f commit_of_def
        split: if_splits sum.splits option.splits)
qed

lemma label_distinct:
  "AgentVersionLabel \<noteq> ReleaseLabel" "AgentVersionLabel \<noteq> TlsSecretLabel"
  "AgentVersionLabel \<noteq> NetworkLabel" "AgentVersionLabel \<noteq> NetworkNoDelLabel"
  "AgentVersionLabel \<noteq> PvcLabel" "AgentVersionLabel \<noteq> WorkloadLabel"
  "AgentVersionLabel \<noteq> C7NHelmReleaseClusterLabel" "NetworkLabel \<noteq> NetworkNoDelLabel"
  "NameLabel \<noteq> PvcLabel" "NameLabel \<noteq> ReleaseLabel" "PvcLabel \<noteq> ReleaseLabel"
  by (simp_all add: label_defs)

text \<open>
  C14: What the agent marks, it exports.  An object of a supported kind that carries no mark of
  somebody else comes out of the labelling with the commit in its annotations and with labels
  that the export of its kind keeps, so that the next synchronisation compares it with the
  repository and deletes it when it is gone from there.
\<close>

theorem labelled_is_exported:
  assumes "labelAndAnnotationsRepoObj api gl info ns commit w = Inr obj"
    and "meta_ok (biObject info)" and "glAgentVersion gl \<noteq> []"
    and "kind_labels gl ns (biKind info) [] [] \<noteq> None" and "biKind info \<noteq> ''PersistentVolume''"
    and "\<not> foreign_marks (get_strings (biObject info) [''metadata'', ''labels''])"
  shows "kind_keep gl ns (biKind info) (listed obj) \<and> commit_of (koAnnotations (listed obj)) = commit"
proof -
  let ?l = "get_strings (biObject info) [''metadata'', ''labels'']"
  obtain l1 where l1: "kind_labels gl ns (biKind info) (jobj_name (biObject info)) ?l = Some l1"
    using assms(4) by (auto simp: kind_labels_def split: if_splits)
  note r = label_obj_result [OF assms(1,2) l1]
  have none: "gm_get [] ?l ReleaseLabel = []" "gm_get [] ?l TlsSecretLabel = []"
      "\<not> gm_has ?l NetworkNoDelLabel"
    using assms(6) by (auto simp: foreign_marks_def gm_get_def gm_has_def split: option.splits)
  have "kind_keep gl ns (biKind info) (listed obj)"
    using l1 none assms(3,5) label_distinct label_distinct [THEN not_sym]
    by (auto simp: kind_keep_def kind_labels_def r network_keep_def configmap_keep_def secret_keep_def
        pvc_keep_def release_keep_def workload_keep_def label_def has_label_def workload_kinds_def
        split: if_splits)
  with r show ?thesis by blast
qed

text \<open>A concrete API: one release is stored, nothing can be written.\<close>

definition demo_obj :: k8s_obj where
  "demo_obj = \<lparr>koName = ''web'', koNamespace = ''dev'', koLabels = [], koAnnotations = [], koBody = []\<rparr>"

definition demo_api :: "api_err \<Rightarrow> unit kube_api" where
  "demo_api e = \<lparr>kaGet = (\<lambda>_ _ _ _. Inl e), kaGetSecret = (\<lambda>_ _ _. Inl e),
     kaGetClaim = (\<lambda>_ _ _ _. Inl e), kaGetService = (\<lambda>_ _ _. Inl e), kaGetJob = (\<lambda>_ _ _. Inl e),
     kaGetPod = (\<lambda>_ _ _. Inl e), kaGetRelease = (\<lambda>_ _ _. Inl e), kaListPods = (\<lambda>_ _ _. Inr []),
     kaList = (\<lambda>_ _ _ _. Inr []), kaCreate = (\<lambda>_ _ o1 w. (Inr o1, w)),
     kaUpdate = (\<lambda>_ _ o1 w. (Inr o1, w)), kaCreateService = (\<lambda>_ s w. (Inr s, w)),
     kaUpdateService = (\<lambda>_ s w. (Inr s, w)), kaCreateSecret = (\<lambda>_ s w. (Inr s, w)),
     kaUpdateSecret = (\<lambda>_ s w. (Inr s, w)), kaUpdateRelease = (\<lambda>_ r w. (Inr r, w)),
     kaDelete = (\<lambda>_ _ _ w. (None, w)), kaDeletePods = (\<lambda>_ _ w. (None, w)), kaSelector = Inr,
     kaLogs = (\<lambda>_ _ _ _. Inr []), kaExec = (\<lambda>_ _ _ _ w. (None, w)), kaClientSet = None,
     kaRESTConfig = None, kaUnmarshalService = (\<lambda>_. Inl ''no service''),
     kaUnmarshalIngress = (\<lambda>_. Inl ''no ingress''), kaBuild = (\<lambda>_ _. Inr []),
     kaYaml = (\<lambda>_. Inr []), kaSecretYaml = (\<lambda>_. Inr []),
     kaSpec = (\<lambda>m. Inr (zero_spec\<lparr>rsChartName := nested_string m [''chartName'']\<rparr>))\<rparr>"

definition demo_globals_k :: globals where
  "demo_globals_k = \<lparr>glCertManagerVersion = ''1.1.1'', glClusterId = ''7'', glAgentNamespace = ''choerodon'',
     glAgentVersion = ''0.20'', glRestrictedModel = False\<rparr>"

definition demo_meta :: "string \<times> json" where
  "demo_meta = (''metadata'', JObj [(''name'', JStr ''web'')])"

lemma demo_meta_ok [simp]: "meta_ok (demo_meta # m)"
  by (simp add: meta_ok_def demo_meta_def)

lemma demo_meta_labels [simp]: "get_strings (demo_meta # m) [''metadata'', ''labels''] = []"
  by (simp add: get_strings_nested demo_meta_def)

lemma labelled_is_exported_witness:
  "\<exists>obj. labelAndAnnotationsRepoObj (demo_api (NotFoundErr ''not found'')) demo_globals_k
      \<lparr>biKind = ''Service'', biObject = [demo_meta]\<rparr> ''dev'' ''c1'' () = Inr obj \<and> network_keep (listed obj)"
proof -
  obtain obj where o: "labelAndAnnotationsRepoObj (demo_api (NotFoundErr ''not found'')) demo_globals_k
      \<lparr>biKind = ''Service'', biObject = [demo_meta]\<rparr> ''dev'' ''c1'' () = Inr obj"
    by (simp add: labelAndAnnotationsRepoObj_def Let_def kind_labels_def)
  then show ?thesis
    using labelled_is_exported [OF o]
    by (simp add: demo_globals_k_def kind_labels_def foreign_marks_def kind_keep_def)
qed

text \<open>
  A release that the cluster may well hold unchanged is marked for a cross upgrade when the API
  server answers the query for it with any error but that it does not exist: the query hands on an
  empty release, whose chart differs from every other.
\<close>

theorem release_error_cross_upgrade:
  assumes "labelAndAnnotationsRepoObj api gl info ns commit w = Inr obj"
    and "biKind info = ''C7NHelmRelease''" and "meta_ok (biObject info)"
    and "kaGetRelease api (jobj_name (biObject info)) ns w = Inl e" and "\<not> IsNotFound e"
    and "kaSpec api (getSpecField (biObject info)) = Inr new" and "rsChartName new \<noteq> []"
  shows "gm_get [] (koAnnotations (listed obj)) C7NHelmReleaseOperateAnnotation = CROSS_UPGRADE"
proof -
  have op: "release_operation api (biObject info) ns w = Inr (Some CROSS_UPGRADE)"
    using assms(4-7) by (simp add: release_operation_def kc_GetC7NHelmRelease_def zero_spec_def)
  show ?thesis
    using assms(1-3) op finish_meta(2) [OF assms(3)]
    by (auto simp: labelAndAnnotationsRepoObj_def Let_def kind_labels_def template_of_kind_def
        workload_kinds_def listed_def)
qed

lemma release_error_cross_upgrade_witness:
  "\<exists>obj. labelAndAnnotationsRepoObj (demo_api (OtherErr ''timeout'')) demo_globals_k
      \<lparr>biKind = ''C7NHelmRelease'',
       biObject = [demo_meta, (''spec'', JObj [(''chartName'', JStr ''web'')])]\<rparr> ''dev'' ''c1'' () = Inr obj
    \<and> gm_get [] (koAnnotations (listed obj)) C7NHelmReleaseOperateAnnotation = CROSS_UPGRADE"
proof -
  let ?api = "demo_api (OtherErr ''timeout'')"
  let ?info = "\<lparr>biKind = ''C7NHelmRelease'',
       biObject = [demo_meta, (''spec'', JObj [(''chartName'', JStr ''web'')])]\<rparr>"
  have sp: "kaSpec ?api (getSpecField (biObject ?info)) = Inr (zero_spec\<lparr>rsChartName := ''web''\<rparr>)"
    by (simp add: demo_api_def getSpecField_def nested_map_def nested_string_def demo_meta_def)
  have gt: "kaGetRelease ?api (jobj_name (biObject ?info)) ''dev'' () = Inl (OtherErr ''timeout'')"
    by (simp add: demo_api_def)
  have nf: "\<not> IsNotFound (OtherErr ''timeout'')" by (simp add: IsNotFound_def)
  have op: "release_operation ?api (biObject ?info) ''dev'' () = Inr (Some CROSS_UPGRADE)"
    using gt sp nf by (simp add: release_operation_def kc_GetC7NHelmRelease_def zero_spec_def)
  then obtain obj where o: "labelAndAnnotationsRepoObj ?api demo_globals_k ?info ''dev'' ''c1'' () = Inr obj"
    by (simp add: labelAndAnnotationsRepoObj_def Let_def kind_labels_def)
  then show ?thesis using release_error_cross_upgrade [OF o _ _ gt nf sp] by simp
qed

text \<open>
  The pod template of a workload keeps its labels and gets the marks of the workload and of the
  commit, provided that all of its labels are strings; a single label of another type makes the
  labelling replace all of them by the marks.
\<close>

theorem template_labels_kept:
  assumes "labelAndAnnotationsRepoObj api gl info ns commit w = Inr obj" and "biKind info \<in> set workload_kinds"
    and "nested_value (JObj (biObject info)) [''spec'', ''template'', ''metadata'', ''labels''] = Some (Some (JObj m))"
  shows "getTemplateLabels obj = template_marks (biKind info) (jobj_name (biObject info)) commit
    (case string_entries m of None \<Rightarrow> [] | Some l \<Rightarrow> l)"
proof -
  let ?p = "[''spec'', ''template'', ''metadata'', ''labels'']"
  let ?o1 = "template_of_kind (biKind info) commit (biObject info)"
  let ?marks = "template_marks (biKind info) (jobj_name (biObject info)) commit (getTemplateLabels (biObject info))"
  have suc: "\<exists>m'. set_nested mm fs v' = Some m'" if "nested_value (JObj mm) fs = Some (Some v)" "fs \<noteq> []"
    for mm fs v v'
    using that
    by (induction mm fs v' rule: set_nested.induct) (auto split: option.split_asm option.split json.split)
  obtain o2 where o2: "set_nested (biObject info) ?p (json_strings ?marks) = Some o2"
    using suc [OF assms(3), of "json_strings ?marks"] by auto
  have o1: "?o1 = o2"
    using assms(2) o2 by (simp add: template_of_kind_def addTemplateAppLabels_def setTemplateLabels_def set_strings_def)
  have meta: "map_of (set_strings oo (''metadata'' # fs) lb) ''spec'' = map_of oo ''spec''" for oo fs lb
    using set_nested_other [of oo "''metadata''" fs "json_strings lb" _ "''spec''"]
    by (simp add: set_strings_def split: option.split)
  have frame: "nested_value (JObj a) ?p = nested_value (JObj b) ?p" if "map_of a ''spec'' = map_of b ''spec''" for a b
    using that by simp
  obtain an lb where "obj = set_strings (set_strings o2 [''metadata'', ''annotations''] an) [''metadata'', ''labels''] lb"
    using assms(1,2) o1 by (auto simp: labelAndAnnotationsRepoObj_def Let_def kind_labels_def workload_kinds_def)
  then have "nested_value (JObj obj) ?p = nested_value (JObj o2) ?p"
    by (intro frame) (simp only: meta)
  then have "getTemplateLabels obj = ?marks"
    using set_nested_get [OF o2] by (simp add: getTemplateLabels_def get_strings_nested) (simp add: json_strings_def)
  moreover have "getTemplateLabels (biObject info) = (case string_entries m of None \<Rightarrow> [] | Some l \<Rightarrow> l)"
    using assms(3) by (simp only: getTemplateLabels_def get_strings_nested) (simp split: option.split)
  ultimately show ?thesis by simp
qed

lemma template_labels_kept_witness:
  "\<exists>obj. labelAndAnnotationsRepoObj (demo_api (NotFoundErr ''not found'')) demo_globals_k
      \<lparr>biKind = ''Deployment'', biObject = [demo_meta, (''spec'', JObj [(''template'', JObj [(''metadata'',
         JObj [(''labels'', JObj [(''app'', JStr ''web''), (''tier'', JNum 1)])])])])]\<rparr> ''dev'' ''c1'' () = Inr obj
    \<and> \<not> gm_has (getTemplateLabels obj) ''app''"
proof -
  let ?m = "[(''app'', JStr ''web''), (''tier'', JNum 1)]"
  let ?info = "\<lparr>biKind = ''Deployment'', biObject = [demo_meta, (''spec'', JObj [(''template'',
     JObj [(''metadata'', JObj [(''labels'', JObj ?m)])])])]\<rparr>"
  obtain obj where o: "labelAndAnnotationsRepoObj (demo_api (NotFoundErr ''not found'')) demo_globals_k
      ?info ''dev'' ''c1'' () = Inr obj"
    by (simp add: labelAndAnnotationsRepoObj_def Let_def kind_labels_def workload_kinds_def)
  have n: "nested_value (JObj (biObject ?info)) [''spec'', ''template'', ''metadata'', ''labels'']
      = Some (Some (JObj ?m))"
    by (simp add: demo_meta_def)
  have "getTemplateLabels obj = template_marks ''Deployment'' (jobj_name (biObject ?info)) ''c1'' []"
    using template_labels_kept [OF o _ n] by (simp add: workload_kinds_def)
  then have "\<not> gm_has (getTemplateLabels obj) ''app''"
    by (simp add: template_marks_def label_defs gm_has_iff)
  with o show ?thesis by blast
qed

section \<open>Creating or updating\<close>

text \<open>
  The contract of the three operations that bring one object up to date: a query decides between a
  creation and an update, an error of the query writes nothing.
\<close>

locale upsert =
  fixes lookup :: "'k \<Rightarrow> 'w \<Rightarrow> 'o api"
    and create :: "'k \<Rightarrow> 'w \<Rightarrow> 'r api \<times> 'w"
    and update :: "'k \<Rightarrow> 'o \<Rightarrow> 'w \<Rightarrow> 'r api \<times> 'w"
    and run :: "'k \<Rightarrow> 'w \<Rightarrow> 'r res \<times> 'w"
  assumes absent: "lookup k w = Inl e \<Longrightarrow> IsNotFound e \<Longrightarrow> run k w = api_res (create k w)"
    and failed: "lookup k w = Inl e \<Longrightarrow> \<not> IsNotFound e \<Longrightarrow> run k w = (Inl (api_text e), w)"
    and present: "lookup k w = Inr o1 \<Longrightarrow> run k w = api_res (update k o1 w)"
begin

lemma one_write:
  "snd (run k w) \<in> {w, snd (create k w)} \<union> {snd (update k o1 w) | o1. lookup k w = Inr o1}"
proof (cases "lookup k w")
  case (Inl e)
  then show ?thesis using absent [OF Inl] failed [OF Inl] by (cases "IsNotFound e") (auto simp: api_res_def)
next
  case (Inr o1)
  then show ?thesis using present [OF Inr] by (auto simp: api_res_def)
qed

text \<open>Once the creation has been answered and the object is there, running again updates it.\<close>

lemma again:
  assumes "lookup k w = Inl e" "IsNotFound e" "lookup k (snd (create k w)) = Inr o1"
  shows "run k (snd (run k w)) = api_res (update k o1 (snd (create k w)))"
  using absent [OF assms(1,2)] present [OF assms(3)] by (simp add: api_res_def)

end

text \<open>Objects that come as text are read before; the key of the operation is what was read.\<close>

definition put_service :: "'w kube_api \<Rightarrow> string \<times> service \<Rightarrow> 'w \<Rightarrow> service res \<times> 'w" where
  "put_service api k w = kc_CreateOrUpdateService (api\<lparr>kaUnmarshalService := \<lambda>_. Inr (snd k)\<rparr>) (fst k) [] w"

definition put_ingress :: "'w kube_api \<Rightarrow> string \<times> k8s_obj \<Rightarrow> 'w \<Rightarrow> k8s_obj res \<times> 'w" where
  "put_ingress api k w =
     kc_CreateOrUpdateIngress (api\<lparr>kaClientSet := None, kaUnmarshalIngress := \<lambda>_. Inr (snd k)\<rparr>) (fst k) [] w"

interpretation service_upsert: upsert "\<lambda>k w. kaGetService api (fst k) (koName (snd k)) w"
  "\<lambda>k w. kaCreateService api (fst k) (snd k) w"
  "\<lambda>k old w. kaUpdateService api (fst k)
     ((snd k)\<lparr>svVersion := svVersion old, svClusterIP := svClusterIP old\<rparr>) w"
  "put_service api" for api :: "'w kube_api"
  by unfold_locales (auto simp: put_service_def kc_CreateOrUpdateService_def)

interpretation ingress_upsert: upsert "\<lambda>k w. kaGet api ''ingresses'' (fst k) (koName (snd k)) w"
  "\<lambda>k w. kaCreate api ''ingresses'' (fst k) (snd k) w"
  "\<lambda>k old w. kaUpdate api ''ingresses'' (fst k) (snd k) w" "put_ingress api" for api :: "'w kube_api"
  by unfold_locales (auto simp: put_ingress_def kc_CreateOrUpdateIngress_def)

interpretation secret_upsert: upsert "\<lambda>k w. kaGetSecret api (fst k) (koName (snd k)) w"
  "\<lambda>k w. kaCreateSecret api (fst k) (snd k) w" "\<lambda>k old w. kaUpdateSecret api (fst k) (snd k) w"
  "\<lambda>k. kc_CreateOrUpdateDockerRegistrySecret api (fst k) (snd k)" for api :: "'w kube_api"
  by unfold_locales (auto simp: kc_CreateOrUpdateDockerRegistrySecret_def)

end
