(* ===== verification/AgentCmd.thy ===== *)
theory AgentCmd
  imports GitSsh AgentSync KubeApi
begin

text \<open>
  The commands of the agent itself (\<^verbatim>\<open>pkg/command/agent\<close>, \<^verbatim>\<open>pkg/command/gitops\<close>) and the status
  queries of its worker (\<^verbatim>\<open>pkg/agent/worker.go\<close>): initialisation, creation and deletion of an
  environment, the request to synchronise.  They work on one state that holds what the
  handlers share.
\<close>

section \<open>The state of the agent\<close>

record init_options =
  ioEnvs :: "env_paras list"
  ioGitHost :: string
  ioAgentName :: string
  ioCertManagerVersion :: string
  ioRepoConcurrencySyncSize :: int

record cluster_info =
  ciVersion :: string
  ciPods :: nat
  ciNamespaces :: nat
  ciNodes :: nat
  ciClusterId :: string

record cert_status =
  ceStatus :: string
  ceChartVersion :: string
  ceNamespace :: string
  ceReleaseName :: string

text \<open>What the handlers call outside of the state.\<close>

record 'w agent_env =
  anApi :: "'w kube_api"
  anGit :: "'w gitops"
  anGlobals :: globals
  anFiles :: "'w key_files"
  anRewrites :: "(string, string) gomap"
  anProxy :: "ssh_proxy option"
  anUnmarshalInit :: "string \<Rightarrow> gerror option \<times> init_options"
  anUnmarshalEnv :: "string \<Rightarrow> env_paras res"
  anNewMgr :: "string \<Rightarrow> 'w \<Rightarrow> gerror option"
  anServerVersion :: "'w \<Rightarrow> (string \<times> string) res"
  anMarshalInfo :: "cluster_info \<Rightarrow> string res"
  anMarshalCert :: "cert_status \<Rightarrow> string"
  anDeleteReleases :: "string \<Rightarrow> 'w \<Rightarrow> gerror option \<times> 'w"
  anSkipCheckExist :: bool

text \<open>
  \<^verbatim>\<open>aeListen\<close> are the goroutines that were started to listen to environments and have not run yet,
  \<^verbatim>\<open>aeWaiting\<close> those that wait for the concurrency limit, with the environments that are left.
\<close>

record 'w agent =
  aeNamespaces :: namespaces
  aeMgrs :: mgr_list
  aeNextChan :: nat
  aeEnvs :: "env_paras list"
  aeSync :: "'w sync_state"
  aeContext :: sync_context
  aeInitialized :: bool
  aeGitRunning :: bool
  aeCertManagerVersion :: string
  aeListen :: "(string \<times> env_paras list) list"
  aeWaiting :: "(string \<times> env_paras list) list"

type_synonym 'w handler = "packet \<Rightarrow> 'w agent \<Rightarrow> (packet option \<times> 'w agent) go"

abbreviation ae_world :: "'w agent \<Rightarrow> 'w" where
  "ae_world a \<equiv> agWorld (aeSync a)"

definition set_world :: "'w \<Rightarrow> 'w agent \<Rightarrow> 'w agent" where
  "set_world w a = a\<lparr>aeSync := (aeSync a)\<lparr>agWorld := w\<rparr>\<rparr>"

definition reply_error :: "string \<Rightarrow> string \<Rightarrow> gerror option \<Rightarrow> 'w agent \<Rightarrow> (packet option \<times> 'w agent) go" where
  "reply_error key t e a = go_map (\<lambda>p. (Some p, a)) (NewResponseError key t e)"

lemma reply_error_simps [simp]:
  "reply_error key t (Some e) a = Ret (Some (mk_packet key t e), a)" "reply_error key t None a = Panic"
  by (simp_all add: reply_error_def)

text \<open>\<^verbatim>\<open>IsNotFound\<close> of \<^verbatim>\<open>pkg/util/errors\<close> looks at the text of the error.\<close>

definition err_IsNotFound :: "gerror \<Rightarrow> bool" where
  "err_IsNotFound e \<longleftrightarrow> contains e ''not found'' \<or> contains e ''not exist''"

definition JoinErrors :: "gerror list \<Rightarrow> string" where
  "JoinErrors errs = join errs ''; ''"

definition createNamespace :: "'w kube_api \<Rightarrow> string \<Rightarrow> 'w \<Rightarrow> gerror option \<times> 'w" where
  "createNamespace api ns w = (case kaGet api ''namespaces'' [] ns w of
     Inr _ \<Rightarrow> (None, w)
   | Inl e \<Rightarrow>
       if err_IsNotFound (api_text e) then
         (let c = kaCreate api ''namespaces'' [] \<lparr>koName = ns, koNamespace = [], koLabels = [],
                koAnnotations = [], koBody = []\<rparr> w
          in (case fst c of Inl e' \<Rightarrow> Some (api_text e') | Inr _ \<Rightarrow> None, snd c))
       else (Some (api_text e), w))"

definition getClusterInfo :: "'w agent_env \<Rightarrow> packet \<Rightarrow> 'w agent \<Rightarrow> (packet option \<times> 'w agent) go" where
  "getClusterInfo env cmd a =
     (let w = ae_world a; api = anApi env; fail = (\<lambda>e. reply_error (pkKey cmd) ClusterGetInfoFailed (Some e) a) in
      case anServerVersion env w of Inl e \<Rightarrow> fail e | Inr v \<Rightarrow>
     (case kaList api ''namespaces'' [] [] w of Inl e \<Rightarrow> fail (api_text e) | Inr nss \<Rightarrow>
     (case kaList api ''nodes'' [] [] w of Inl e \<Rightarrow> fail (api_text e) | Inr nodes \<Rightarrow>
     (case kaListPods api [] [] w of Inl e \<Rightarrow> fail (api_text e) | Inr pods \<Rightarrow>
     (case anMarshalInfo env \<lparr>ciVersion = fst v @ ''.'' @ snd v, ciPods = length pods,
          ciNamespaces = length nss, ciNodes = length nodes, ciClusterId = glClusterId (anGlobals env)\<rparr> of
        Inl e \<Rightarrow> fail e
      | Inr response \<Rightarrow> Ret (Some (mk_packet (pkKey cmd) ClusterGetInfo response), a))))))"

definition returnInitResult :: "'w agent_env \<Rightarrow> packet \<Rightarrow> 'w agent \<Rightarrow> (packet option \<times> 'w agent) go" where
  "returnInitResult env cmd a =
     (if glRestrictedModel (anGlobals env) then Ret (None, a) else getClusterInfo env cmd a)"

section \<open>Initialisation\<close>

fun create_namespaces :: "'w kube_api \<Rightarrow> env_paras list \<Rightarrow> 'w \<Rightarrow> gerror option \<times> 'w" where
  "create_namespaces api [] w = (None, w)"
| "create_namespaces api (e # es) w = (let r = createNamespace api (epNamespace e) w in
     case fst r of Some err \<Rightarrow> (Some err, snd r) | None \<Rightarrow> create_namespaces api es (snd r))"

text \<open>The managers of the namespaces; each new one gets a stop channel of its own.\<close>

definition add_manager :: "string \<Rightarrow> 'w agent \<Rightarrow> 'w agent" where
  "add_manager ns a = a\<lparr>aeMgrs := snd (mgr_AddStop ns (Some (aeNextChan a)) (aeMgrs a)),
     aeNextChan := Suc (aeNextChan a)\<rparr>"

fun start_managers :: "'w agent_env \<Rightarrow> string list \<Rightarrow> 'w agent \<Rightarrow> gerror option \<times> 'w agent" where
  "start_managers env [] a = (None, a)"
| "start_managers env (ns # nss) a =
     (if mgr_IsExist (aeMgrs a) ns then start_managers env nss a
      else (case anNewMgr env ns (ae_world a) of
          Some e \<Rightarrow> (Some e, a)
        | None \<Rightarrow> start_managers env nss (add_manager ns a)))"

definition init_body :: "'w agent_env \<Rightarrow> 'w handler" where
  "init_body env cmd a =
     (case anUnmarshalInit env (pkPayload cmd) of (err, io) \<Rightarrow>
      if err \<noteq> None then reply_error (pkKey cmd) InitAgentFailed err a else
      (let size = (if ioRepoConcurrencySyncSize io = 0 then 1 else ioRepoConcurrencySyncSize io) in
       if size < 0 then Panic else
      (let a1 = a\<lparr>aeCertManagerVersion := ioCertManagerVersion io,
                  aeSync := (aeSync a)\<lparr>agSlots := Some (0, nat size)\<rparr>\<rparr>;
           k = PrepareSSHKeys (anFiles env) (anRewrites env) (anProxy env) (ioGitHost io) (ioEnvs io) (ae_world a1);
           a2 = set_world (snd k) a1
       in if fst k \<noteq> None then reply_error (pkKey cmd) InitAgentFailed (fst k) a2 else
      (let n = create_namespaces (anApi env) (ioEnvs io) (ae_world a2);
           a3 = set_world (snd n) a2
       in if fst n \<noteq> None then reply_error (pkKey cmd) (pkType cmd) (fst n) a3 else
      (let nsList = map epNamespace (ioEnvs io);
           a4 = a3\<lparr>aeNamespaces := ns_Set nsList (aeNamespaces a3)\<rparr>
       in go_bind (ReSync (anGlobals env) (aeContext a4)) (\<lambda>ctx.
         (let a5 = a4\<lparr>aeContext := ctx\<rparr> in
          if kaRESTConfig (anApi env) \<noteq> None
          then reply_error (pkKey cmd) InitAgentFailed (kaRESTConfig (anApi env)) a5 else
         (let m = start_managers env nsList a5 in
          if fst m \<noteq> None then reply_error (pkKey cmd) InitAgentFailed (fst m) (snd m) else
          returnInitResult env cmd
            ((snd m)\<lparr>aeEnvs := ioEnvs io, aeListen := aeListen (snd m) @ [(ioGitHost io, ioEnvs io)]\<rparr>)))))))))"

text \<open>The deferred function sets the flag on every way out.\<close>

definition cmd_InitAgent :: "'w agent_env \<Rightarrow> 'w handler" where
  "cmd_InitAgent env cmd a =
     go_map (\<lambda>(r, a'). (r, a'\<lparr>aeInitialized := True\<rparr>))
       (if aeInitialized a then getClusterInfo env cmd a else init_body env cmd a)"

text \<open>\<^verbatim>\<open>WithStop\<close> in its goroutine: the flag is set where listening comes to its end.\<close>

definition run_listen :: "'w agent \<Rightarrow> 'w agent" where
  "run_listen a = (case aeListen a of [] \<Rightarrow> a
   | (host, envs) # ls \<Rightarrow>
      (let r = listenEnvs host envs (aeSync a); a' = a\<lparr>aeSync := snd r, aeListen := ls\<rparr> in
       if fst r = [] then a'\<lparr>aeGitRunning := True\<rparr>
       else a'\<lparr>aeWaiting := aeWaiting a @ [(host, fst r)]\<rparr>))"

definition cmd_ReSyncAgent :: "'w agent_env \<Rightarrow> 'w handler" where
  "cmd_ReSyncAgent env cmd a = go_map (\<lambda>ctx. (None, a\<lparr>aeContext := ctx\<rparr>)) (ReSync (anGlobals env) (aeContext a))"

section \<open>Environments\<close>

definition cmd_AddEnv :: "'w agent_env \<Rightarrow> 'w handler" where
  "cmd_AddEnv env cmd a =
     (case anUnmarshalInit env (pkPayload cmd) of (err, io) \<Rightarrow>
      if err \<noteq> None then reply_error (pkKey cmd) EnvCreateFailed err a else
      (case ioEnvs io of [] \<Rightarrow> reply_error (pkKey cmd) EnvCreateFailed err a
       | e # _ \<Rightarrow>
      (let ns = epNamespace e; gl = anGlobals env in
       if kc_GetNamespace (anApi env) ns (ae_world a) = None \<and> ns \<noteq> ''choerodon''
          \<and> ns \<noteq> glAgentNamespace gl \<and> \<not> glRestrictedModel gl
       then reply_error (pkKey cmd) EnvCreateFailed (Some (''env '' @ ns @ '' already exist'')) a else
      (let a1 = a\<lparr>aeEnvs := aeEnvs a @ [e], aeNamespaces := ns_Add ns (aeNamespaces a)\<rparr>;
           n = (if ns \<noteq> glAgentNamespace gl then createNamespace (anApi env) ns (ae_world a1) else (None, ae_world a1));
           a2 = set_world (snd n) a1
       in if fst n \<noteq> None then reply_error (pkKey cmd) (pkType cmd) (fst n) a2 else
      (let k = PrepareSSHKeys (anFiles env) (anRewrites env) (anProxy env) (ioGitHost io) (aeEnvs a2) (ae_world a2);
           a3 = set_world (snd k) a2
       in if fst k \<noteq> None then reply_error (pkKey cmd) InitAgentFailed (fst k) a3 else
       go_bind (ReSync gl (aeContext a3)) (\<lambda>ctx.
        (let a4 = a3\<lparr>aeContext := ctx\<rparr> in
         if kaRESTConfig (anApi env) \<noteq> None
         then reply_error (pkKey cmd) InitAgentFailed (kaRESTConfig (anApi env)) a4 else
         (case anNewMgr env ns (ae_world a4) of
            Some e' \<Rightarrow> reply_error (pkKey cmd) InitAgentFailed (Some e') a4
          | None \<Rightarrow> Ret (None, (add_manager ns a4)\<lparr>aeListen := aeListen a4 @ [(ioGitHost io, [e])]\<rparr>)))))))))"

text \<open>
  \<^verbatim>\<open>append(envs[0:index], envs[index+1:]...)\<close> writes into the array of \<^verbatim>\<open>envs\<close>, over which the loop
  goes on: the elements behind the match move one place to the front, the last one stays where it
  was.  The result of the last match wins; without a match there are no environments left.
\<close>

definition shift_left :: "nat \<Rightarrow> 'a list \<Rightarrow> 'a list" where
  "shift_left i xs = take i xs @ drop (Suc i) xs @ drop (length xs - 1) xs"

fun delete_env_loop :: "string \<Rightarrow> nat \<Rightarrow> nat \<Rightarrow> env_paras list \<Rightarrow> env_paras list \<Rightarrow> env_paras list" where
  "delete_env_loop ns i 0 arr newEnvs = newEnvs"
| "delete_env_loop ns i (Suc n) arr newEnvs =
     (if i < length arr \<and> epNamespace (arr ! i) = ns
      then (let arr' = shift_left i arr in
            delete_env_loop ns (Suc i) n arr' (take (length arr' - 1) arr'))
      else delete_env_loop ns (Suc i) n arr newEnvs)"

definition remove_env :: "string \<Rightarrow> env_paras list \<Rightarrow> env_paras list" where
  "remove_env ns envs = delete_env_loop ns 0 (length envs) envs []"

text \<open>\<^verbatim>\<open>None\<close>: the handler blocks on a full stop channel of the repository.\<close>

definition cmd_DeleteEnv :: "'w agent_env \<Rightarrow> packet \<Rightarrow> 'w agent \<Rightarrow> (packet option \<times> 'w agent) option go" where
  "cmd_DeleteEnv env cmd a =
     (case anUnmarshalEnv env (pkPayload cmd) of
        Inl e \<Rightarrow> go_map Some (reply_error (pkKey cmd) EnvDelete (Some e) a)
      | Inr e \<Rightarrow>
      (let ns = epNamespace e; a1 = a\<lparr>aeNamespaces := ns_Remove ns (aeNamespaces a)\<rparr>;
           newEnvs = remove_env ns (aeEnvs a1)
       in go_bind (mgr_Remove ns (aeMgrs a1)) (\<lambda>(_, mgrs).
         (let a2 = a1\<lparr>aeMgrs := mgrs, aeEnvs := newEnvs\<rparr> in
          go_bind (forget_env ns (aeSync a2)) (\<lambda>s. case s of None \<Rightarrow> Ret None
          | Some s' \<Rightarrow>
            (let h = anDeleteReleases env ns (agWorld s');
                 d = (if anSkipCheckExist env then (None, snd h) else kc_DeleteNamespace (anApi env) ns (snd h))
             in Ret (Some (Some (mk_packet (pkKey cmd) EnvDeleteSucceed (pkPayload cmd)),
                  set_world (snd d) (a2\<lparr>aeSync := s'\<rparr>)))))))))"

section \<open>A request to synchronise\<close>

definition cmd_DoSync :: "'w agent_env \<Rightarrow> 'w handler" where
  "cmd_DoSync env cmd a =
     go_bind (packet_Namespace cmd) (\<lambda>ns.
       if \<not> ns_Contain (aeNamespaces a) ns
       then reply_error (pkKey cmd) GitOpsSyncFailed (Some ''cluster env not init'') a
       else (case repo_ptr (aeSync a) ns of
          None \<Rightarrow> reply_error (pkKey cmd) GitOpsSyncFailed (Some ''git repo not init'') a
        | Some p \<Rightarrow>
           (let r = repo_Refresh (goSys (anGit env)) (repo_at (aeSync a) p) (ae_world a);
                a1 = a\<lparr>aeSync := (put_repo p (fst (snd r)) (aeSync a))\<lparr>agWorld := snd (snd r)\<rparr>\<rparr>
            in case fst r of
                 Some e \<Rightarrow> reply_error (pkKey cmd) GitOpsSyncFailed (Some e) a1
               | None \<Rightarrow> Ret (Some (mk_packet (pkKey cmd) GitOpsSync []), a1))))"

section \<open>The status of the certificate manager\<close>

definition getPodStatus :: "'w agent_env \<Rightarrow> 'w agent \<Rightarrow> cert_status \<times> gerror option" where
  "getPodStatus env a =
     (let new = aeCertManagerVersion a = ''1.1.1'';
          info = (if new then \<lparr>ceStatus = [], ceChartVersion = ''1.1.1'', ceNamespace = ''cert-manager'',
                      ceReleaseName = ''cert-manager''\<rparr>
                  else \<lparr>ceStatus = [], ceChartVersion = ''0.1.0'', ceNamespace = ''choerodon'',
                      ceReleaseName = ''choerodon-cert-manager''\<rparr>);
          sel = (if new then ''app=cert-manager'' else ''choerodon.io/release=choerodon-cert-manager'')
      in case kaListPods (anApi env) (ceNamespace info) sel (ae_world a) of
           Inl e \<Rightarrow> (info\<lparr>ceStatus := ''exception''\<rparr>, Some (api_text e))
         | Inr [] \<Rightarrow> (info\<lparr>ceStatus := ''deleted''\<rparr>, None)
         | Inr [pd] \<Rightarrow> (info\<lparr>ceStatus := pdPhase pd\<rparr>, None)
         | Inr (pd # _ # _) \<Rightarrow> (info, None))"

text \<open>The monitor over the states it sees every ten seconds; the first error ends it.\<close>

fun monitorCertMgr :: "'w agent_env \<Rightarrow> 'w agent list \<Rightarrow> packet list" where
  "monitorCertMgr env [] = []"
| "monitorCertMgr env (a # as) = (case getPodStatus env a of
     (info, Some e) \<Rightarrow> []
   | (info, None) \<Rightarrow> mk_packet (''cluster:'' @ glClusterId (anGlobals env)) CertManagerStatus
        (anMarshalCert env info) # monitorCertMgr env as)"

section \<open>Properties\<close>

lemma length_shift_left [simp]: "i < length xs \<Longrightarrow> length (shift_left i xs) = length xs"
  by (simp add: shift_left_def)

lemma delete_env_loop_no_match:
  "ns \<notin> epNamespace ` set (drop i arr) \<Longrightarrow> delete_env_loop ns i n arr newEnvs = newEnvs"
proof (induction n arbitrary: i)
  case (Suc n)
  have "epNamespace (arr ! i) \<noteq> ns" if "i < length arr"
    using Suc.prems that by (metis Cons_nth_drop_Suc imageI list.set_intros(1))
  moreover have "ns \<notin> epNamespace ` set (drop (Suc i) arr)"
    using Suc.prems by (metis (no_types, lifting) add.commute drop_drop image_iff in_set_dropD plus_1_eq_Suc)
  ultimately show ?case using Suc.IH [of "Suc i"] by auto
qed simp

lemma delete_env_loop_skip:
  "(\<And>j. i \<le> j \<Longrightarrow> j < i + k \<Longrightarrow> epNamespace (arr ! j) \<noteq> ns) \<Longrightarrow>
   delete_env_loop ns i (k + n) arr newEnvs = delete_env_loop ns (i + k) n arr newEnvs"
proof (induction k arbitrary: i)
  case (Suc k)
  then show ?case using Suc.IH [of "Suc i"] Suc.prems [of i] by auto
qed simp

lemma delete_env_loop_match:
  assumes "arr = us @ e # vs" "epNamespace e = ns" "ns \<notin> epNamespace ` set (us @ vs)"
  shows "delete_env_loop ns 0 (length arr) arr newEnvs = us @ vs"
proof -
  let ?arr = "shift_left (length us) arr"
  have arr': "?arr = us @ vs @ drop (length arr - 1) arr"
    using assms(1) by (simp add: shift_left_def)
  have before: "epNamespace (arr ! j) \<noteq> ns" if "0 \<le> j" "j < 0 + length us" for j
    using assms(1,3) that nth_mem [of j us] by (auto simp: nth_append)
  have "delete_env_loop ns 0 (length us + Suc (length vs)) arr newEnvs
      = delete_env_loop ns (length us) (Suc (length vs)) arr newEnvs"
    using delete_env_loop_skip [of 0 "length us" arr ns "Suc (length vs)" newEnvs, OF before] by simp
  also have "\<dots> = delete_env_loop ns (Suc (length us)) (length vs) ?arr (take (length ?arr - 1) ?arr)"
    using assms by (simp add: Let_def)
  also have "take (length ?arr - 1) ?arr = us @ vs"
    using arr' assms(1) by simp
  also have "delete_env_loop ns (Suc (length us)) (length vs) ?arr (us @ vs) = us @ vs"
  proof (cases vs rule: rev_cases)
    case (snoc vs' v)
    then have "set (drop (Suc (length us)) ?arr) \<subseteq> set vs"
      using arr' assms(1) by (auto simp: drop_Cons' dest: in_set_dropD)
    then show ?thesis using assms(3) by (intro delete_env_loop_no_match) auto
  qed simp
  finally show ?thesis using assms(1) by simp
qed

text \<open>
  C16: Deleting an environment removes exactly it from the list, in spite of the loop that overwrites the
  array it runs over, provided that the namespaces are distinct; the deletion of one that
  the list does not hold leaves no environment at all.
\<close>

theorem remove_env_correct:
  assumes "distinct (map epNamespace envs)"
  shows "remove_env ns envs =
    (if ns \<in> epNamespace ` set envs then filter (\<lambda>e. epNamespace e \<noteq> ns) envs else [])"
proof (cases "ns \<in> epNamespace ` set envs")
  case True
  then obtain e us vs where envs: "envs = us @ e # vs" and e: "epNamespace e = ns"
    by (metis imageE split_list)
  have out: "ns \<notin> epNamespace ` set (us @ vs)" using assms envs e by auto
  then have "filter (\<lambda>e. epNamespace e \<noteq> ns) (us @ vs) = us @ vs"
    by (intro filter_True) auto
  then have "filter (\<lambda>e. epNamespace e \<noteq> ns) envs = us @ vs" using envs e by simp
  then show ?thesis using True delete_env_loop_match [OF envs e out, of "[]"] by (simp add: remove_env_def)
next
  case False
  then show ?thesis using delete_env_loop_no_match [of ns 0 envs] by (simp add: remove_env_def)
qed

lemma remove_env_correct_witness:
  "remove_env ''uat'' [demo_env ''dev'', demo_env ''qa''] = []"
  using remove_env_correct [of "[demo_env ''dev'', demo_env ''qa'']" "''uat''"] by (simp add: demo_env_def)

text \<open>
  A concrete agent: the payload \<^verbatim>\<open>none\<close> asks for nothing, any other one for the environment
  \<^verbatim>\<open>dev\<close>, an empty one is not understood.
\<close>

definition demo_io :: "env_paras list \<Rightarrow> init_options" where
  "demo_io envs = \<lparr>ioEnvs = envs, ioGitHost = ''host'', ioAgentName = ''agent'',
     ioCertManagerVersion = ''1.1.1'', ioRepoConcurrencySyncSize = 0\<rparr>"

definition demo_files :: "unit key_files" where
  "demo_files = \<lparr>kfExists = (\<lambda>_ _. False), kfRemove = (\<lambda>_ w. w), kfCreate = (\<lambda>_ w. (None, w)),
     kfWrite = (\<lambda>_ _ w. (None, w))\<rparr>"

definition demo_agent_env :: "unit agent_env" where
  "demo_agent_env = \<lparr>anApi = (demo_api (NotFoundErr ''not found''))\<lparr>kaGet := \<lambda>_ _ _ _. Inr demo_obj\<rparr>, anGit = demo_gitops,
     anGlobals = demo_globals_k, anFiles = demo_files, anRewrites = [], anProxy = None,
     anUnmarshalInit = (\<lambda>p. if p = [] then (Some ''no json'', demo_io [])
       else (None, demo_io (if p = ''none'' then [] else [demo_env ''dev'']))),
     anUnmarshalEnv = (\<lambda>p. Inr (demo_env p)), anNewMgr = (\<lambda>_ _. None),
     anServerVersion = (\<lambda>_. Inr (''1'', ''20'')), anMarshalInfo = (\<lambda>_. Inr ''info''),
     anMarshalCert = (\<lambda>c. ceStatus c), anDeleteReleases = (\<lambda>_ w. (None, w)), anSkipCheckExist = False\<rparr>"

definition demo_agent :: "unit agent" where
  "demo_agent = \<lparr>aeNamespaces = [], aeMgrs = \<lparr>mlMap = [], mlClosed = []\<rparr>, aeNextChan = 0, aeEnvs = [],
     aeSync = demo_sync NewTimer AtTop False, aeContext = new_context, aeInitialized = False,
     aeGitRunning = False, aeCertManagerVersion = [], aeListen = [],
     aeWaiting = []\<rparr>"

lemmas demo_agent_simps = demo_agent_def demo_agent_env_def demo_io_def demo_files_def demo_api_def
  demo_globals_k_def demo_env_def new_context_def

text \<open>
  Two commands panic on what they are sent: the creation of an environment from a well-formed
  request that names none, and the deletion of an environment that has no repository, such as one
  that is unknown or still waits for the concurrency limit.
\<close>

theorem env_commands_panic:
  assumes "anUnmarshalInit env (pkPayload cmd) = (None, io)" and "ioEnvs io = []"
    and "anUnmarshalEnv env (pkPayload cmd2) = Inr e" and "repo_ptr (aeSync a) (epNamespace e) = None"
  shows "cmd_AddEnv env cmd a = Panic \<and> cmd_DeleteEnv env cmd2 a = Panic"
proof
  show "cmd_AddEnv env cmd a = Panic" using assms(1,2) by (simp add: cmd_AddEnv_def)
  show "cmd_DeleteEnv env cmd2 a = Panic"
    using assms(3,4) by (cases "mgr_Remove (epNamespace e) (aeMgrs a)")
      (auto simp: cmd_DeleteEnv_def Let_def forget_env_def go_simps)
qed

lemma env_commands_panic_witness:
  "cmd_AddEnv demo_agent_env (mk_packet [] [] ''none'') demo_agent = Panic
   \<and> cmd_DeleteEnv demo_agent_env (mk_packet [] [] ''uat'') demo_agent = Panic"
  by (rule env_commands_panic [where io = "demo_io []" and e = "demo_env ''uat''"])
    (simp_all add: demo_agent_simps demo_sync_def repo_ptr_def)

text \<open>
  An initialisation that fails is not repeated: whatever its outcome, the agent counts as
  initialised afterwards, and every further initialisation only reports the cluster and changes
  nothing.
\<close>

theorem init_never_repeated:
  assumes "cmd_InitAgent env cmd a = Ret (r, a1)"
  shows "aeInitialized a1 \<and> (cmd_InitAgent env cmd2 a1 = Ret (r2, a2) \<longrightarrow> a2 = a1)"
proof -
  have i: "aeInitialized a1" using assms by (auto simp: cmd_InitAgent_def elim!: go_mapE)
  have keep: "a' = b" if "getClusterInfo env cmd2 b = Ret (x, a')" for b x a'
    using that by (auto simp: getClusterInfo_def Let_def split: sum.split_asm)
  have "a2 = a1" if "cmd_InitAgent env cmd2 a1 = Ret (r2, a2)"
    using that i by (auto simp: cmd_InitAgent_def elim!: go_mapE dest!: keep)
  with i show ?thesis by blast
qed

lemma init_never_repeated_witness:
  "\<exists>r a1. cmd_InitAgent demo_agent_env (mk_packet ''k'' InitAgent []) demo_agent = Ret (r, a1)
     \<and> aeInitialized a1"
proof -
  have "cmd_InitAgent demo_agent_env (mk_packet ''k'' InitAgent []) demo_agent
      = Ret (Some (mk_packet ''k'' InitAgentFailed ''no json''), demo_agent\<lparr>aeInitialized := True\<rparr>)"
    by (simp add: cmd_InitAgent_def init_body_def demo_agent_simps go_simps)
  then show ?thesis
    using init_never_repeated [of demo_agent_env "mk_packet ''k'' InitAgent []" demo_agent] by blast
qed

lemma start_managers_spec:
  assumes "start_managers env nss a = (None, a')"
  shows "set nss \<subseteq> {ns. mgr_IsExist (aeMgrs a') ns}
    \<and> {ns. mgr_IsExist (aeMgrs a) ns} \<subseteq> {ns. mgr_IsExist (aeMgrs a') ns}
    \<and> aeNamespaces a' = aeNamespaces a \<and> aeListen a' = aeListen a"
  using assms
proof (induction nss arbitrary: a)
  case (Cons ns nss)
  have ex: "{x. mgr_IsExist (aeMgrs a) x} \<union> {ns} \<subseteq> {x. mgr_IsExist (aeMgrs (add_manager ns a)) x}"
    by (auto simp: add_manager_def mgr_AddStop_def mgr_IsExist_def)
  have same: "aeNamespaces (add_manager ns a) = aeNamespaces a" "aeListen (add_manager ns a) = aeListen a"
    by (simp_all add: add_manager_def)
  show ?case
  proof (cases "mgr_IsExist (aeMgrs a) ns")
    case True
    then show ?thesis using Cons.IH [of a] Cons.prems by auto
  next
    case False
    then have "start_managers env nss (add_manager ns a) = (None, a')"
      using Cons.prems by (auto split: option.split_asm)
    then show ?thesis using Cons.IH [of "add_manager ns a"] ex same by auto
  qed
qed simp

lemma set_world_simps [simp]:
  "aeNamespaces (set_world w a) = aeNamespaces a" "aeListen (set_world w a) = aeListen a"
  "aeMgrs (set_world w a) = aeMgrs a" "aeEnvs (set_world w a) = aeEnvs a"
  "aeContext (set_world w a) = aeContext a" "aeInitialized (set_world w a) = aeInitialized a"
  by (simp_all add: set_world_def)

lemma reply_error_Ret: "reply_error key t e a = Ret (r, a') \<Longrightarrow> r \<noteq> None \<and> a' = a"
  by (cases e) auto

lemma start_managers_listen [simp]: "aeListen (snd (start_managers env nss a)) = aeListen a"
proof (induction nss arbitrary: a)
  case (Cons ns nss)
  have "aeListen (add_manager ns a) = aeListen a" by (simp add: add_manager_def)
  then show ?case using Cons by (simp split: option.split)
qed simp

lemma start_managers_ok:
  assumes "fst (start_managers env nss a) = None"
  shows "ns \<in> set nss \<Longrightarrow> mgr_IsExist (aeMgrs (snd (start_managers env nss a))) ns"
    and "aeNamespaces (snd (start_managers env nss a)) = aeNamespaces a"
  using start_managers_spec [of env nss a "snd (start_managers env nss a)"] assms
  by (auto simp: prod_eq_iff)

lemma returnInitResult_state: "returnInitResult env cmd a = Ret (r, a') \<Longrightarrow> a' = a"
  by (auto simp: returnInitResult_def getClusterInfo_def Let_def split: if_split_asm sum.split_asm)

text \<open>
  C15: The first initialisation either stops with an error packet and starts no listener, or does
  everything: the watched namespaces are exactly those of the environments, each of them has a
  manager, the environments are kept for later, and one listener for them was started.
\<close>

theorem init_all_or_error:
  assumes "\<not> aeInitialized a" and "cmd_InitAgent env cmd a = Ret (r, a')"
    and "anUnmarshalInit env (pkPayload cmd) = (None, io)"
  shows "(aeListen a' = aeListen a \<and> r \<noteq> None)
    \<or> (aeListen a' = aeListen a @ [(ioGitHost io, ioEnvs io)] \<and> aeEnvs a' = ioEnvs io
       \<and> set (ns_GetAll (aeNamespaces a')) = epNamespace ` set (ioEnvs io)
       \<and> epNamespace ` set (ioEnvs io) \<subseteq> {ns. mgr_IsExist (aeMgrs a') ns})"
proof -
  obtain a1 where b: "init_body env cmd a = Ret (r, a1)" and a': "a' = a1\<lparr>aeInitialized := True\<rparr>"
    using assms(1,2) by (auto simp: cmd_InitAgent_def elim!: go_mapE)
  let ?nss = "map epNamespace (ioEnvs io)"
  have nss: "set (ns_GetAll (ns_Set ?nss m)) = epNamespace ` set (ioEnvs io)" for m
    using nss.keys_rebuild [of ?nss] by (simp add: ns_Set_put_all)
  have "(aeListen a1 = aeListen a \<and> r \<noteq> None)
    \<or> (aeListen a1 = aeListen a @ [(ioGitHost io, ioEnvs io)] \<and> aeEnvs a1 = ioEnvs io
       \<and> ns_GetAll (aeNamespaces a1) = ns_GetAll (ns_Set ?nss (aeNamespaces a))
       \<and> set ?nss \<subseteq> {ns. mgr_IsExist (aeMgrs a1) ns})"
    using b assms(3) unfolding init_body_def Let_def
    by (auto split: if_split_asm elim!: go_bindE simp del: reply_error_simps
        dest!: reply_error_Ret returnInitResult_state simp: start_managers_ok)
  then show ?thesis using nss a' by auto
qed

lemma init_all_or_error_witness:
  "\<exists>r a'. cmd_InitAgent demo_agent_env (mk_packet ''k'' InitAgent ''x'') demo_agent = Ret (r, a')
     \<and> (r = None \<longrightarrow> mgr_IsExist (aeMgrs a') ''dev'')"
proof -
  obtain r a' where c: "cmd_InitAgent demo_agent_env (mk_packet ''k'' InitAgent ''x'') demo_agent = Ret (r, a')"
    by (simp add: cmd_InitAgent_def init_body_def demo_agent_simps go_simps ReSync_def
        PrepareSSHKeys_def writeSSHkey_def writeSshConfig_def write_fresh_def createNamespace_def
        set_world_def returnInitResult_def getClusterInfo_def err_IsNotFound_def Let_def sync_Run_def
        mgr_IsExist_def gm_has_def gm_get_def split: sum.split)
  then show ?thesis
    using init_all_or_error [OF _ c, of "demo_io [demo_env ''dev'']"]
    by (auto simp: demo_agent_simps)
qed

end
