(* ===== verification/Pipes.thy ===== *)
theory Pipes
  imports Prelude
begin

text \<open>
  Pipes (\<^verbatim>\<open>pkg/util/pipe/pipes.go\<close>): the connection of a shell or of the log of a container with a
  websocket, the cutting of long messages and the collection of short ones, and the
  accounting that lets \<^verbatim>\<open>Close\<close> wait for the copies.  The wire is a parameter that takes one
  message at a time.
\<close>

section \<open>State and accounting\<close>

definition pipe_Log :: string where "pipe_Log = ''agent_log''"
definition pipe_Exec :: string where "pipe_Exec = ''agent_exec''"
definition MaxMessageSize :: nat where "MaxMessageSize = 524288"

text \<open>
  \<^verbatim>\<open>piCalls\<close> are the calls of registered functions so far, \<^verbatim>\<open>piOwnEnds\<close> tells whether the pipe made
  its ends itself and closes them.
\<close>

record pipe =
  piClosed :: bool
  piWg :: nat
  piOwnEnds :: bool
  piEndsClosed :: bool
  piOnClose :: "nat option"
  piCalls :: "nat list"
  piType :: string

definition NewPipeFromEnds :: "string \<Rightarrow> pipe" where
  "NewPipeFromEnds t = \<lparr>piClosed = False, piWg = 0, piOwnEnds = False, piEndsClosed = False,
     piOnClose = None, piCalls = [], piType = t\<rparr>"

definition NewPipe :: "string \<Rightarrow> pipe" where
  "NewPipe t = \<lparr>piClosed = False, piWg = 0, piOwnEnds = True, piEndsClosed = False,
     piOnClose = None, piCalls = [], piType = t\<rparr>"

definition pipe_OnClose :: "nat \<Rightarrow> pipe \<Rightarrow> pipe" where
  "pipe_OnClose f p = p\<lparr>piOnClose := Some f\<rparr>"

text \<open>Whether \<^verbatim>\<open>Close\<close> comes back: it waits until no copy is counted.\<close>

definition pipe_Close :: "pipe \<Rightarrow> bool \<times> pipe" where
  "pipe_Close p =
     (let p1 = (if piClosed p then p else p\<lparr>piClosed := True, piEndsClosed := piOwnEnds p\<rparr>) in
      if piWg p1 \<noteq> 0 then (False, p1)
      else (True, case piOnClose p of
             Some f \<Rightarrow> if piClosed p then p1 else p1\<lparr>piCalls := piCalls p1 @ [f]\<rparr>
           | None \<Rightarrow> p1))"

text \<open>How a copy ends: with the first error of its goroutines, or because the pipe was closed.\<close>

datatype copy_end = CopyError gerror | CopyQuit

definition copy_result :: "copy_end \<Rightarrow> gerror option" where
  "copy_result oc = (case oc of CopyError e \<Rightarrow> Some e | CopyQuit \<Rightarrow> None)"

text \<open>The copy for a shell counts itself in and, when it returns, out.\<close>

definition CopyToWebsocketForExec :: "copy_end \<Rightarrow> pipe \<Rightarrow> gerror option \<times> pipe" where
  "CopyToWebsocketForExec oc p =
     (if piClosed p then (None, p)
      else (let p1 = p\<lparr>piWg := Suc (piWg p)\<rparr> in (copy_result oc, p1\<lparr>piWg := piWg p1 - 1\<rparr>)))"

text \<open>The copy of a log counts itself in only; it calls the registered function, which may be missing.\<close>

definition CopyToWebsocketForLog :: "copy_end \<Rightarrow> pipe \<Rightarrow> (gerror option \<times> pipe) go" where
  "CopyToWebsocketForLog oc p =
     (if piClosed p then Ret (None, p)
      else (let p1 = p\<lparr>piWg := Suc (piWg p)\<rparr> in
        case piOnClose p1 of None \<Rightarrow> Panic
        | Some f \<Rightarrow> Ret (copy_result oc, p1\<lparr>piCalls := piCalls p1 @ [f]\<rparr>)))"

section \<open>Copying\<close>

type_synonym 'w wire = "string \<Rightarrow> 'w \<Rightarrow> gerror option \<times> 'w"

text \<open>
  The goroutines of a shell, both directions, and the one that passes input to a log: what each read
  gave and whether the pipe was closed by then.
\<close>

fun copy_loop :: "'w wire \<Rightarrow> (string res \<times> bool) list \<Rightarrow> 'w \<Rightarrow> gerror option \<times> 'w" where
  "copy_loop wr [] w = (None, w)"
| "copy_loop wr ((Inl e, _) # rs) w = (Some e, w)"
| "copy_loop wr ((Inr buf, closed) # rs) w =
     (if closed then (None, w)
      else (case wr buf w of (Some e, w') \<Rightarrow> (Some e, w') | (None, w') \<Rightarrow> copy_loop wr rs w'))"

text \<open>
  \<^verbatim>\<open>ReadBytes\<close> gives the data up to a newline, and what is left together with the end-of-file error.
\<close>

fun read_lines :: "string \<Rightarrow> string \<Rightarrow> (string \<times> gerror option) list" where
  "read_lines buf [] = [(buf, Some ''EOF'')]"
| "read_lines buf (c # cs) =
     (if c = CHR 0x0A then (buf @ [c], None) # read_lines [] cs else read_lines (buf @ [c]) cs)"

fun log_reader :: "(string \<times> gerror option) list \<Rightarrow> bool list \<Rightarrow> string list \<times> gerror option" where
  "log_reader [] cl = ([], None)"
| "log_reader ((buf, Some e) # rs) cl = ([], Some e)"
| "log_reader ((buf, None) # rs) [] = (let r = log_reader rs [] in (buf # fst r, snd r))"
| "log_reader ((buf, None) # rs) (closed # cl) =
     (if closed then ([], None) else (let r = log_reader rs cl in (buf # fst r, snd r)))"

text \<open>The loop over the pieces of a long message; \<^verbatim>\<open>message[start:end]\<close>.\<close>

definition piece :: "nat \<Rightarrow> string \<Rightarrow> nat \<Rightarrow> string" where
  "piece mx message i =
     (let start = i * mx; stop = (if (i + 1) * mx < length message then (i + 1) * mx else length message)
      in take (stop - start) (drop start message))"

fun piece_loop :: "'w wire \<Rightarrow> nat \<Rightarrow> string \<Rightarrow> nat \<Rightarrow> nat \<Rightarrow> 'w \<Rightarrow> gerror option \<times> 'w" where
  "piece_loop wr mx message i 0 w = (None, w)"
| "piece_loop wr mx message i (Suc n) w = (case wr (piece mx message i) w of
     (Some e, w') \<Rightarrow> (Some e, w') | (None, w') \<Rightarrow> piece_loop wr mx message (Suc i) n w')"

definition cutAndWriteMessage :: "'w wire \<Rightarrow> string \<Rightarrow> 'w \<Rightarrow> gerror option \<times> 'w" where
  "cutAndWriteMessage wr message w =
     (if length message < MaxMessageSize then wr message w
      else piece_loop wr MaxMessageSize message 0 (length message div MaxMessageSize + 1) w)"

text \<open>
  The goroutine that collects messages between two ticks of its timer; the result has the message it
  still holds.  It starts with the first message; a tick before that one finds nothing to write.
\<close>

datatype shake_event = ShakeDone | ShakeTick | ShakeMsg string

fun trafficAntiShake :: "'w wire \<Rightarrow> shake_event list \<Rightarrow> string \<Rightarrow> 'w \<Rightarrow> gerror option \<times> string \<times> 'w" where
  "trafficAntiShake wr [] message w = (None, message, w)"
| "trafficAntiShake wr (ShakeDone # es) message w = (None, message, w)"
| "trafficAntiShake wr (ShakeTick # es) message w =
     (if message = [] then trafficAntiShake wr es message w
      else (case cutAndWriteMessage wr message w of
          (Some e, w') \<Rightarrow> (Some e, message, w')
        | (None, w') \<Rightarrow> trafficAntiShake wr es [] w'))"
| "trafficAntiShake wr (ShakeMsg m # es) message w = trafficAntiShake wr es (message @ m) w"

section \<open>Properties\<close>

text \<open>Writing a list of messages until the first error: the reference.\<close>

fun write_all :: "'w wire \<Rightarrow> string list \<Rightarrow> 'w \<Rightarrow> gerror option \<times> 'w" where
  "write_all wr [] w = (None, w)"
| "write_all wr (m # ms) w = (case wr m w of
     (Some e, w') \<Rightarrow> (Some e, w') | (None, w') \<Rightarrow> write_all wr ms w')"

fun chunk_list :: "nat \<Rightarrow> nat \<Rightarrow> string \<Rightarrow> string list" where
  "chunk_list mx 0 message = []"
| "chunk_list mx (Suc n) message = take mx message # chunk_list mx n (drop mx message)"

definition frames :: "string \<Rightarrow> string list" where
  "frames message = (if length message < MaxMessageSize then [message]
     else chunk_list MaxMessageSize (length message div MaxMessageSize + 1) message)"

lemma piece_take: "piece mx message i = take mx (drop (i * mx) message)"
  by (simp add: piece_def Let_def)

lemma piece_loop_write_all:
  "piece_loop wr mx message i n w = write_all wr (chunk_list mx n (drop (i * mx) message)) w"
proof (induction n arbitrary: i w)
  case (Suc n)
  have "drop mx (drop (i * mx) message) = drop (Suc i * mx) message" by (simp add: add.commute)
  then show ?case using Suc by (simp add: piece_take split: prod.split option.split)
qed simp

lemma concat_chunk_list: "concat (chunk_list mx n message) = take (n * mx) message"
  by (induction n arbitrary: message) (simp_all add: take_add)

lemma chunk_list_length: "length (chunk_list mx n message) = n"
  by (induction n arbitrary: message) simp_all

lemma chunk_list_max: "length ` set (chunk_list mx n message) \<subseteq> {0..mx}"
  by (induction n arbitrary: message) auto

lemma chunk_list_last: "last (chunk_list mx (Suc n) message) = take mx (drop (n * mx) message)"
proof (induction n arbitrary: message)
  case (Suc n)
  have "last (chunk_list mx (Suc (Suc n)) message) = last (chunk_list mx (Suc n) (drop mx message))"
    by simp
  then show ?case using Suc [of "drop mx message"] by (simp add: add.commute)
qed simp

lemma concat_frames: "concat (frames message) = message"
proof (cases "length message < MaxMessageSize")
  case False
  let ?n = "length message div MaxMessageSize"
  have "length message mod MaxMessageSize < MaxMessageSize" by (simp add: MaxMessageSize_def)
  then have "length message \<le> Suc ?n * MaxMessageSize"
    unfolding mult_Suc using div_mult_mod_eq [of "length message" MaxMessageSize] by linarith
  then show ?thesis using False by (simp add: frames_def concat_chunk_list del: chunk_list.simps)
qed (simp add: frames_def)

lemma cutAndWriteMessage_frames: "cutAndWriteMessage wr message w = write_all wr (frames message) w"
  by (auto simp: cutAndWriteMessage_def frames_def piece_loop_write_all simp del: chunk_list.simps
      split: prod.split option.split)

text \<open>
  C19: A message is written as a sequence of pieces none of which is longer than the limit and which
  put together are the message, stopping at the first failed write; the last piece is empty exactly
  when the length is a positive multiple of the limit.
\<close>

theorem cutAndWriteMessage_pieces:
  "cutAndWriteMessage wr message w = write_all wr (frames message) w
   \<and> concat (frames message) = message
   \<and> length ` set (frames message) \<subseteq> {0..MaxMessageSize}
   \<and> (last (frames message) = [] \<longleftrightarrow> MaxMessageSize dvd length message)"
proof (cases "length message < MaxMessageSize")
  case True
  then have "MaxMessageSize dvd length message \<longleftrightarrow> message = []"
    by (metis dvd_0_right dvd_imp_le length_0_conv length_greater_0_conv not_less)
  then show ?thesis using True cutAndWriteMessage_frames [of wr message w] by (simp add: frames_def)
next
  case False
  let ?n = "length message div MaxMessageSize"
  have "last (frames message) = take MaxMessageSize (drop (?n * MaxMessageSize) message)"
    using False chunk_list_last by (simp add: frames_def del: chunk_list.simps)
  then have "last (frames message) = [] \<longleftrightarrow> length message \<le> ?n * MaxMessageSize"
    by (simp add: MaxMessageSize_def)
  moreover have "length message \<le> ?n * MaxMessageSize \<longleftrightarrow> length message mod MaxMessageSize = 0"
    using div_mult_mod_eq [of "length message" MaxMessageSize] by linarith
  ultimately have "last (frames message) = [] \<longleftrightarrow> MaxMessageSize dvd length message"
    by (simp only: dvd_eq_mod_eq_0)
  moreover have "length ` set (frames message) \<subseteq> {0..MaxMessageSize}"
    using chunk_list_max False by (simp add: frames_def del: chunk_list.simps)
  ultimately show ?thesis using cutAndWriteMessage_frames concat_frames by simp
qed

text \<open>What a log holds up to its last newline.\<close>

definition complete_lines :: "string \<Rightarrow> string" where
  "complete_lines data = rev (dropWhile (\<lambda>c. c \<noteq> CHR 0x0A) (rev data))"

lemma log_reader_lines:
  "CHR 0x0A \<notin> set buf \<Longrightarrow>
   concat (fst (log_reader (read_lines buf data) [])) = complete_lines (buf @ data)
   \<and> snd (log_reader (read_lines buf data) []) = Some ''EOF''"
proof (induction buf data rule: read_lines.induct)
  case (1 buf)
  then show ?case by (auto simp: complete_lines_def dropWhile_eq_Nil_conv)
next
  case (2 buf c cs)
  then show ?case by (auto simp: complete_lines_def Let_def dropWhile_append)
qed

text \<open>Shaking without a failing wire.\<close>

fun shake_msgs :: "shake_event list \<Rightarrow> string" where
  "shake_msgs [] = []"
| "shake_msgs (ShakeDone # es) = []"
| "shake_msgs (ShakeTick # es) = shake_msgs es"
| "shake_msgs (ShakeMsg m # es) = m @ shake_msgs es"

text \<open>A wire that records what is written and fails for messages that it refuses.\<close>

definition recorder :: "(string \<Rightarrow> bool) \<Rightarrow> string list wire" where
  "recorder ok m w = (if ok m then (None, w @ [m]) else (Some ''broken'', w))"

lemma write_all_recorder:
  "write_all (recorder ok) ms w = (None, w') \<Longrightarrow> w' = w @ ms"
proof (induction ms arbitrary: w)
  case (Cons m ms)
  then show ?case using Cons.IH [of "w @ [m]"] by (auto simp: recorder_def split: if_split_asm)
qed simp

lemma cut_recorder: "cutAndWriteMessage (recorder ok) m w = (None, w') \<Longrightarrow> concat w' = concat w @ m"
  using write_all_recorder [of ok "frames m" w w'] cutAndWriteMessage_frames [of "recorder ok" m w]
    concat_frames [of m] by simp

text \<open>
  The log of a container reaches the websocket in order and unchanged, except for what follows its
  last newline, which the reader drops, and for what was collected after the last tick of the
  timer: all that is written, what is still held and the complete lines agree.
\<close>

theorem log_relayed:
  assumes "trafficAntiShake (recorder ok) es [] [] = (None, pending, written)"
    and "shake_msgs es = concat (fst (log_reader (read_lines [] data) []))"
  shows "concat written @ pending = complete_lines data"
proof -
  have "concat w' @ p = concat w @ m @ shake_msgs es'"
    if "trafficAntiShake (recorder ok) es' m w = (None, p, w')" for es' m w p w'
    using that
  proof (induction "recorder ok" es' m w rule: trafficAntiShake.induct)
    case (3 es message w)
    then show ?case
      by (auto split: if_split_asm prod.split_asm option.split_asm dest!: cut_recorder)
  qed auto
  from this [OF assms(1)] show ?thesis using assms(2) log_reader_lines [of "[]" data] by simp
qed

lemma log_relayed_witness:
  "concat [''ab'' @ [CHR 0x0A] @ ''c'' @ [CHR 0x0A]] @ [] = complete_lines (''ab'' @ [CHR 0x0A] @ ''c'' @ [CHR 0x0A] @ ''lost'')"
  by (rule log_relayed [of "\<lambda>_. True"
        "[ShakeMsg (''ab'' @ [CHR 0x0A]), ShakeMsg (''c'' @ [CHR 0x0A]), ShakeTick]"])
    (simp_all add: cutAndWriteMessage_def recorder_def MaxMessageSize_def)

end
