(* ===== verification/WsClient.thy ===== *)
theory WsClient
  imports AgentCmd Pipes
begin

text \<open>
  The connection to the platform (\<^verbatim>\<open>pkg/websocket\<close>): the loop that connects again and again, the
  queue of responses that survives a broken connection, the connections of pipes with their retries,
  and the download of a log.  Dialling and writing are parameters.
\<close>

definition ReSyncAgent :: string where "ReSyncAgent = ''re_sync''"

section \<open>Addresses\<close>

record ws_url =
  urScheme :: string
  urHost :: string
  urRawQuery :: string

text \<open>The URL parser of the standard library is a parameter.\<close>

definition ParseURL :: "(ws_url \<Rightarrow> string \<Rightarrow> ws_url res) \<Rightarrow> ws_url \<Rightarrow> string \<Rightarrow> ws_url res" where
  "ParseURL parse base refStr =
     parse base (if urRawQuery base \<noteq> [] then refStr @ ''?'' @ urRawQuery base else refStr)"

definition BaseUrl :: "ws_url \<Rightarrow> string \<Rightarrow> string \<Rightarrow> string \<Rightarrow> string \<Rightarrow> string \<Rightarrow> string" where
  "BaseUrl u key clusterId processor token version =
     urScheme u @ ''://'' @ urHost u @ ''/websocket?group=from_agent:'' @ key
     @ ''&secret_key=devops_ws&key='' @ key @ ''&clusterId='' @ clusterId @ ''&processor='' @ processor
     @ ''&token='' @ token @ ''&version='' @ version"

definition BaseUrlForDownloadLog :: "ws_url \<Rightarrow> string \<Rightarrow> string \<Rightarrow> string \<Rightarrow> string \<Rightarrow> string \<Rightarrow> string \<Rightarrow> string" where
  "BaseUrlForDownloadLog u key clusterId processor token version instanceId =
     BaseUrl u key clusterId processor token version @ ''&instanceId='' @ instanceId"

section \<open>The client\<close>

text \<open>
  \<^verbatim>\<open>wcTaken\<close> are the responses that were taken from the channel so far and \<^verbatim>\<open>wcSent\<close> the ones that were
  written to the wire: they are not kept by the program.
\<close>

record 'w ws_client =
  wcQueue :: "packet list"
  wcQuit :: bool
  wcBackground :: nat
  wcPipeConns :: "(string, nat) gomap"
  wcConnsClosed :: "nat list"
  wcReconnect :: bool
  wcCommands :: "packet list"
  wcTaken :: "packet list"
  wcSent :: "packet list"
  wcWorld :: 'w

record 'w ws_net =
  wnMax :: nat
  wnMarshal :: "packet \<Rightarrow> string"
  wnDial :: "'w \<Rightarrow> gerror option \<times> 'w"
  wnDeadline :: "'w \<Rightarrow> gerror option"
  wnWrite :: "'w wire"
  wnWriteClose :: "'w \<Rightarrow> gerror option \<times> 'w"

definition NewClient :: "'w \<Rightarrow> 'w ws_client" where
  "NewClient w = \<lparr>wcQueue = [], wcQuit = False, wcBackground = 0, wcPipeConns = [], wcConnsClosed = [],
     wcReconnect = False, wcCommands = [], wcTaken = [], wcSent = [], wcWorld = w\<rparr>"

definition newReConnectCommand :: packet where
  "newReConnectCommand = mk_packet ''inter:inter'' ReSyncAgent []"

definition sendResponse :: "'w ws_net \<Rightarrow> packet \<Rightarrow> 'w ws_client \<Rightarrow> gerror option \<times> 'w ws_client" where
  "sendResponse net resp c =
     (let content = wnMarshal net resp in
      if length content \<ge> wnMax net then (None, c)
      else (let r = wnWrite net content (wcWorld c) in
        (fst r, c\<lparr>wcWorld := snd r, wcSent := (if fst r = None then wcSent c @ [resp] else wcSent c)\<rparr>)))"

text \<open>The responses that were left over, up to the first that cannot be written.\<close>

fun send_queue :: "'w ws_net \<Rightarrow> packet list \<Rightarrow> 'w ws_client \<Rightarrow> gerror option \<times> 'w ws_client" where
  "send_queue net [] c = (None, c\<lparr>wcQueue := []\<rparr>)"
| "send_queue net (resp # rs) c = (case sendResponse net resp c of
     (Some e, c') \<Rightarrow> (Some e, c'\<lparr>wcQueue := resp # rs\<rparr>)
   | (None, c') \<Rightarrow> send_queue net rs c')"

text \<open>What the \<^verbatim>\<open>select\<close> of the connection receives, and how a connection ends.\<close>

datatype ws_event = ReadFailed gerror | Response packet | ResponsesClosed

datatype conn_end = Serving | Ended "gerror option"

fun serve :: "'w ws_net \<Rightarrow> ws_event list \<Rightarrow> 'w ws_client \<Rightarrow> conn_end \<times> 'w ws_client" where
  "serve net [] c = (Serving, c)"
| "serve net (ReadFailed e # es) c = (Ended (Some e), c)"
| "serve net (ResponsesClosed # es) c =
     (let r = wnWriteClose net (wcWorld c) in (Ended (fst r), c\<lparr>wcWorld := snd r\<rparr>))"
| "serve net (Response resp # es) c =
     (case sendResponse net resp (c\<lparr>wcTaken := wcTaken c @ [resp]\<rparr>) of
        (Some e, c') \<Rightarrow> (Ended (Some e), c'\<lparr>wcQueue := wcQueue c' @ [resp]\<rparr>)
      | (None, c') \<Rightarrow> serve net es c')"

definition ws_connect :: "'w ws_net \<Rightarrow> ws_event list \<Rightarrow> 'w ws_client \<Rightarrow> conn_end \<times> 'w ws_client" where
  "ws_connect net es c =
     (let d = wnDial net (wcWorld c); c1 = c\<lparr>wcWorld := snd d\<rparr> in
      case fst d of Some e \<Rightarrow> (Ended (Some e), c1)
      | None \<Rightarrow>
        (let c2 = (if wcReconnect c1
                   then c1\<lparr>wcCommands := wcCommands c1 @ [newReConnectCommand], wcReconnect := False\<rparr>
                   else c1) in
         case wnDeadline net (wcWorld c2) of Some e \<Rightarrow> (Ended (Some e), c2)
         | None \<Rightarrow> (case send_queue net (wcQueue c2) c2 of
             (Some e, c3) \<Rightarrow> (Ended (Some e), c3)
           | (None, c3) \<Rightarrow> serve net es c3)))"

text \<open>
  The reader of a connection: a message that is no packet is passed on as what was read of it.
\<close>

fun ws_reader :: "(string \<Rightarrow> gerror option \<times> packet) \<Rightarrow> string res list \<Rightarrow> packet list \<times> gerror option" where
  "ws_reader unmarshal [] = ([], None)"
| "ws_reader unmarshal (Inl e # ms) = ([], Some e)"
| "ws_reader unmarshal (Inr m # ms) =
     (let r = ws_reader unmarshal ms in (snd (unmarshal m) # fst r, snd r))"

text \<open>
  A lost connection.  The flags and the stop channels of the repositories belong to the agent.  The
  channels are closed in the order of the map; a panic is recovered by the deferred function and
  ends the loop: then the first component is \<^verbatim>\<open>False\<close>.
\<close>

fun close_stops :: "(string, nat) gomap \<Rightarrow> nat list \<Rightarrow> bool \<times> (string, nat) gomap \<times> nat list" where
  "close_stops [] closed = (True, [], closed)"
| "close_stops ((k, v) # m) closed =
     (if v \<in> set closed then (False, (k, v) # m, closed) else close_stops m (v # closed))"

definition loop_error :: "gerror option \<Rightarrow> 'w ws_client \<Rightarrow> 'w agent \<Rightarrow> bool \<times> 'w ws_client \<times> 'w agent" where
  "loop_error err c a =
     (if err = None then (True, c, a)
      else if aeGitRunning a \<and> aeInitialized a then
        (case close_stops (agStops (aeSync a)) (agClosed (aeSync a)) of (ok, stops, closed) \<Rightarrow>
           (let a1 = a\<lparr>aeSync := (aeSync a)\<lparr>agStops := stops, agClosed := closed\<rparr>\<rparr> in
            (ok, c\<lparr>wcReconnect := True\<rparr>,
             if ok then a1\<lparr>aeGitRunning := False, aeInitialized := False\<rparr> else a1)))
      else (True, c\<lparr>wcReconnect := True\<rparr>, a))"

text \<open>The loop over its connections; \<^verbatim>\<open>False\<close> if it returned.\<close>

fun ws_Loop :: "'w ws_net \<Rightarrow> ws_event list list \<Rightarrow> 'w ws_client \<Rightarrow> 'w agent \<Rightarrow> bool \<times> 'w ws_client \<times> 'w agent" where
  "ws_Loop net [] c a = (True, c, a)"
| "ws_Loop net (es # runs) c a = (case ws_connect net es c of
     (Serving, c') \<Rightarrow> (True, c', a)
   | (Ended err, c') \<Rightarrow> (case loop_error err c' a of
        (ok, c'', a') \<Rightarrow> if ok then ws_Loop net runs c'' a' else (False, c'', a')))"

section \<open>Connections of pipes\<close>

definition retainGoroutine :: "'w ws_client \<Rightarrow> bool \<times> 'w ws_client" where
  "retainGoroutine c = (if wcQuit c then (False, c) else (True, c\<lparr>wcBackground := Suc (wcBackground c)\<rparr>))"

definition releaseGoroutine :: "'w ws_client \<Rightarrow> 'w ws_client" where
  "releaseGoroutine c = c\<lparr>wcBackground := wcBackground c - 1\<rparr>"

text \<open>\<^verbatim>\<open>stop\<close> panics when it is called again; it comes back when no goroutine is counted.\<close>

definition ws_stop :: "'w ws_client \<Rightarrow> (bool \<times> 'w ws_client) go" where
  "ws_stop c = (if wcQuit c then Panic else Ret (wcBackground c = 0, c\<lparr>wcQuit := True\<rparr>))"

definition registerPipeConn :: "string \<Rightarrow> nat \<Rightarrow> 'w ws_client \<Rightarrow> bool \<times> 'w ws_client" where
  "registerPipeConn i conn c =
     (if wcQuit c then (False, c\<lparr>wcConnsClosed := conn # wcConnsClosed c\<rparr>)
      else (True, c\<lparr>wcPipeConns := AList.update i conn (wcPipeConns c)\<rparr>))"

definition closePipeConn :: "string \<Rightarrow> 'w ws_client \<Rightarrow> 'w ws_client" where
  "closePipeConn i c = (case map_of (wcPipeConns c) i of None \<Rightarrow> c
     | Some conn \<Rightarrow> c\<lparr>wcConnsClosed := conn # wcConnsClosed c, wcPipeConns := AList.delete i (wcPipeConns c)\<rparr>)"

text \<open>What dialling gave: whether the answer was \<^verbatim>\<open>404\<close>, and the connection or an error.\<close>

record pipe_dial =
  pdNotFound :: bool
  pdConn :: "nat res"

text \<open>
  One attempt to connect a pipe: whether it is done and the error, or \<^verbatim>\<open>None\<close> if it never comes back.
\<close>

definition finish_pipe :: "pipe \<Rightarrow> 'w ws_client \<Rightarrow> ('w ws_client \<Rightarrow> 'w ws_client)
    \<Rightarrow> (bool \<times> gerror option) option \<times> pipe \<times> 'w ws_client" where
  "finish_pipe p c deferred = (case pipe_Close p of
     (True, p') \<Rightarrow> (Some (True, None), p', deferred c) | (False, p') \<Rightarrow> (None, p', c))"

definition pipeConnection :: "(gerror \<Rightarrow> bool) \<Rightarrow> gerror option \<Rightarrow> pipe_dial \<Rightarrow> copy_end \<Rightarrow> string
    \<Rightarrow> pipe \<Rightarrow> 'w ws_client \<Rightarrow> ((bool \<times> gerror option) option \<times> pipe \<times> 'w ws_client) go" where
  "pipeConnection expected urlErr d oc i p c =
     (if urlErr \<noteq> None then Ret (Some (False, urlErr), p, c)
      else if pdNotFound d then Ret (finish_pipe p c id)
      else (case pdConn d of Inl e \<Rightarrow> Ret (Some (False, Some e), p, c)
      | Inr conn \<Rightarrow>
        (let r = registerPipeConn i conn c; c1 = snd r in
         if \<not> fst r then Ret (Some (True, None), p, c1)
         else go_bind (if piType p = pipe_Log then CopyToWebsocketForLog oc p
                       else if piType p = pipe_Exec then Ret (CopyToWebsocketForExec oc p)
                       else Ret (None, p))
           (\<lambda>(err, p1). case err of
               Some e \<Rightarrow> if expected e then Ret (finish_pipe p1 c1 (closePipeConn i))
                         else Ret (Some (False, Some e), p1, closePipeConn i c1)
             | None \<Rightarrow> Ret (finish_pipe p1 c1 (closePipeConn i))))))"

text \<open>
  The retries: what each attempt gave and whether the client was stopped during the wait after it.
  The result has the number of attempts and the seconds that were waited; \<^verbatim>\<open>None\<close> while the attempts go on.
\<close>

datatype backoff_end = BackOffDone | BackOffGaveUp | BackOffQuit

fun doWithBackOff :: "(bool \<times> gerror option \<times> bool) list \<Rightarrow> nat \<Rightarrow> nat \<Rightarrow> nat \<Rightarrow> nat
    \<Rightarrow> (backoff_end \<times> nat \<times> nat) option" where
  "doWithBackOff as retryCount backOff calls waited =
     (if retryCount > 5 then Some (BackOffGaveUp, calls, waited)
      else (case as of [] \<Rightarrow> None
      | (done, err, quit) # as' \<Rightarrow>
          if done then Some (BackOffDone, Suc calls, waited)
          else if err = None then doWithBackOff as' retryCount 1 (Suc calls) waited
          else if quit then Some (BackOffQuit, Suc calls, waited)
          else doWithBackOff as' (Suc retryCount) (2 * backOff) (Suc calls) (waited + backOff)))"

declare doWithBackOff.simps [simp del]

section \<open>The download of a log\<close>

datatype dial_end = DialNotFound | DialConnected

text \<open>
  After twenty-one failures the text of an error is asked for that is nil, since the loop stores its
  errors in another variable.
\<close>

function download_dial :: "(nat \<Rightarrow> bool \<times> gerror option) \<Rightarrow> nat \<Rightarrow> dial_end go" where
  "download_dial dial dialCount =
     (if dialCount > 20 then Panic
      else if fst (dial dialCount) then Ret DialNotFound
      else if snd (dial dialCount) = None then Ret DialConnected
      else download_dial dial (Suc dialCount))"
  by pat_completeness auto
termination by (relation "measure (\<lambda>(dial, n). 21 - n)") auto

declare download_dial.simps [simp del]

fun download_copy :: "'w wire \<Rightarrow> (string \<times> gerror option) list \<Rightarrow> 'w \<Rightarrow> 'w" where
  "download_copy wr [] w = w"
| "download_copy wr ((chunk, err) # rs) w =
     (if err \<noteq> None \<or> chunk = [] then w
      else (case wr chunk w of (Some e, w') \<Rightarrow> w' | (None, w') \<Rightarrow> download_copy wr rs w'))"

definition HandleDownloadLog :: "gerror option \<Rightarrow> (nat \<Rightarrow> bool \<times> gerror option) \<Rightarrow> 'w wire
    \<Rightarrow> (string \<times> gerror option) list \<Rightarrow> 'w \<Rightarrow> 'w go" where
  "HandleDownloadLog urlErr dial wr reads w =
     (if urlErr \<noteq> None then Ret w
      else go_map (\<lambda>d. case d of DialNotFound \<Rightarrow> w | DialConnected \<Rightarrow> download_copy wr reads w)
             (download_dial dial 0))"

section \<open>Properties\<close>

definition small :: "'w ws_net \<Rightarrow> packet \<Rightarrow> bool" where
  "small net resp \<longleftrightarrow> length (wnMarshal net resp) < wnMax net"

definition kept :: "'w ws_net \<Rightarrow> 'w ws_client \<Rightarrow> bool" where
  "kept net c \<longleftrightarrow> filter (small net) (wcTaken c) = wcSent c @ wcQueue c"

lemma sendResponse_spec:
  assumes "sendResponse net resp c = (e, c')"
  shows "wcTaken c' = wcTaken c" "wcQueue c' = wcQueue c"
    "e = None \<Longrightarrow> wcSent c' = wcSent c @ filter (small net) [resp]"
    "e \<noteq> None \<Longrightarrow> small net resp \<and> wcSent c' = wcSent c"
  using assms by (auto simp: sendResponse_def small_def Let_def split: if_split_asm)

lemma send_queue_spec:
  assumes "filter (small net) (wcTaken c) = wcSent c @ rs" and "send_queue net rs c = (e, c')"
  shows "kept net c' \<and> (e = None \<longrightarrow> wcQueue c' = [])"
  using assms
proof (induction net rs c rule: send_queue.induct)
  case (2 net resp rs c)
  obtain e1 c1 where s: "sendResponse net resp c = (e1, c1)" by fastforce
  have "resp \<in> set (filter (small net) (wcTaken c))" using 2(2) by simp
  then have "small net resp" by simp
  then show ?case
    using 2 s sendResponse_spec [OF s] by (cases e1) (auto simp: kept_def)
qed (auto simp: kept_def)

lemma serve_spec:
  assumes "kept net c" and "wcQueue c = []" and "serve net es c = (r, c')"
  shows "kept net c' \<and> (r = Serving \<longrightarrow> wcQueue c' = [])"
  using assms
proof (induction net es c rule: serve.induct)
  case (4 net resp es c)
  let ?c = "c\<lparr>wcTaken := wcTaken c @ [resp]\<rparr>"
  obtain e1 c1 where s: "sendResponse net resp ?c = (e1, c1)" by fastforce
  show ?case
    using 4 s sendResponse_spec [OF s] by (cases e1) (auto simp: kept_def)
qed (auto simp: kept_def Let_def)

lemma kept_simps [simp]:
  "kept net (c\<lparr>wcWorld := w\<rparr>) = kept net c" "kept net (c\<lparr>wcCommands := p, wcReconnect := f\<rparr>) = kept net c"
  by (simp_all add: kept_def)

lemma serving_kept:
  assumes "(case send_queue net q c of (Some e, c3) \<Rightarrow> (Ended (Some e), c3)
      | (None, c3) \<Rightarrow> serve net es c3) = (r, c')" and "kept net c" and "wcQueue c = q"
  shows "kept net c' \<and> (r = Serving \<longrightarrow> wcQueue c' = [])"
proof -
  obtain e c3 where q: "send_queue net q c = (e, c3)" by fastforce
  then have "kept net c3 \<and> (e = None \<longrightarrow> wcQueue c3 = [])"
    using send_queue_spec [OF _ q] assms(2,3) by (simp add: kept_def)
  then show ?thesis using q assms(1) serve_spec [of net c3 es] by (cases e) auto
qed

lemma ws_connect_kept:
  assumes "kept net c" and "ws_connect net es c = (r, c')"
  shows "kept net c' \<and> (r = Serving \<longrightarrow> wcQueue c' = [])"
  using assms unfolding ws_connect_def Let_def
  by (auto split: option.split_asm if_split_asm dest!: serving_kept)

text \<open>A client over its connections, whatever ended each of them.\<close>

definition connections :: "'w ws_net \<Rightarrow> ws_event list list \<Rightarrow> 'w ws_client \<Rightarrow> 'w ws_client" where
  "connections net = fold (\<lambda>es c. snd (ws_connect net es c))"

lemma connections_kept: "kept net c \<Longrightarrow> kept net (connections net runs c)"
proof (induction runs arbitrary: c)
  case (Cons es runs)
  then have "kept net (snd (ws_connect net es c))"
    using ws_connect_kept [of net c es "fst (ws_connect net es c)"] by simp
  then show ?case using Cons.IH by (simp add: connections_def)
qed (simp add: connections_def)

lemma NewClient_kept: "kept net (NewClient w)"
  by (simp add: kept_def NewClient_def)

text \<open>
  C17: Over any sequence of connections, dialled or not, broken at any write, the responses taken from
  the channel are written in their order and each once, but for those that are too long: what
  was written and what still waits are together the responses taken so far; while a connection
  serves, nothing waits.
\<close>

theorem responses_in_order:
  assumes "c = connections net runs (NewClient w)" and "ws_connect net es c = (r, c')"
  shows "filter (small net) (wcTaken c) = wcSent c @ wcQueue c
    \<and> (r = Serving \<longrightarrow> wcSent c' = filter (small net) (wcTaken c'))"
proof -
  have "kept net c" using assms(1) connections_kept [OF NewClient_kept] by simp
  then show ?thesis using ws_connect_kept [OF _ assms(2)] by (simp add: kept_def)
qed

text \<open>A wire that takes a number of messages.\<close>

definition demo_net :: "nat ws_net" where
  "demo_net = \<lparr>wnMax = 9, wnMarshal = pkPayload, wnDial = (\<lambda>w. (None, w)), wnDeadline = (\<lambda>_. None),
     wnWrite = (\<lambda>m w. if w = 0 then (Some ''broken'', w) else (None, w - 1)), wnWriteClose = (\<lambda>w. (None, w))\<rparr>"

lemma responses_in_order_witness:
  "filter (small demo_net) (wcTaken (connections demo_net
      [[Response (mk_packet [] [] ''a''), Response (mk_packet [] [] ''b'')]] (NewClient 2)))
    = wcSent (connections demo_net [[Response (mk_packet [] [] ''a''), Response (mk_packet [] [] ''b'')]] (NewClient 2))
    @ wcQueue (connections demo_net [[Response (mk_packet [] [] ''a''), Response (mk_packet [] [] ''b'')]] (NewClient 2))"
  by (rule responses_in_order [where es = "[]", OF HOL.refl surjective_pairing, THEN conjunct1])

lemma doWithBackOff_run:
  assumes "length as + r = 6" and "\<forall>(done, err, quit) \<in> set as. done \<or> err \<noteq> None"
  shows "\<exists>why calls' waited'. doWithBackOff (as @ more_as) r (2 ^ r) calls waited = Some (why, calls', waited')
      \<and> calls' \<le> calls + length as \<and> waited' + 2 ^ r \<le> waited + 64
      \<and> (why = BackOffGaveUp \<longleftrightarrow> (\<forall>(done, err, quit) \<in> set as. \<not> done \<and> \<not> quit))
      \<and> (why = BackOffGaveUp \<longrightarrow> calls' = calls + length as \<and> waited' + 2 ^ r = waited + 64)"
  using assms
proof (induction as arbitrary: r calls waited)
  case Nil
  then show ?case by (simp add: doWithBackOff.simps)
next
  case (Cons a as)
  obtain d err q where a: "a = (d, err, q)" by (cases a)
  have r: "\<not> r > 5" using Cons.prems(1) by simp
  then have "(2::nat) ^ r \<le> 2 ^ 5" by (intro power_increasing) auto
  moreover have "d \<or> err \<noteq> None" using Cons.prems(2) a by simp
  moreover have IH: "\<exists>why calls' waited'. doWithBackOff (as @ more_as) (Suc r) (2 ^ Suc r) (Suc calls) (waited + 2 ^ r)
        = Some (why, calls', waited')
      \<and> calls' \<le> Suc calls + length as \<and> waited' + 2 ^ Suc r \<le> waited + 2 ^ r + 64
      \<and> (why = BackOffGaveUp \<longleftrightarrow> (\<forall>(done, err, quit) \<in> set as. \<not> done \<and> \<not> quit))
      \<and> (why = BackOffGaveUp \<longrightarrow> calls' = Suc calls + length as \<and> waited' + 2 ^ Suc r = waited + 2 ^ r + 64)"
    using Cons.IH [of "Suc r" "Suc calls" "waited + 2 ^ r"] Cons.prems by simp
  ultimately show ?case
    using r by (cases d; cases q) (auto simp: a doWithBackOff.simps [of "_ # _"])
qed

text \<open>
  Retries end: if every attempt that is not done gives an error, at most six attempts are made with
  at most sixty-three seconds of waiting; the client gives up exactly after six errors.  An attempt that
  gives neither is repeated for ever, without waiting.
\<close>

theorem doWithBackOff_ends:
  assumes "length as = 6" and "\<forall>(done, err, quit) \<in> set as. done \<or> err \<noteq> None"
  shows "(\<exists>why calls waited. doWithBackOff (as @ more_as) 0 1 0 0 = Some (why, calls, waited)
      \<and> calls \<le> 6 \<and> waited \<le> 63
      \<and> (why = BackOffGaveUp \<longleftrightarrow> (\<forall>(done, err, quit) \<in> set as. \<not> done \<and> \<not> quit))
      \<and> (why = BackOffGaveUp \<longrightarrow> calls = 6 \<and> waited = 63))
    \<and> doWithBackOff (replicate n (False, None, q)) 0 1 0 0 = None"
proof
  show "\<exists>why calls waited. doWithBackOff (as @ more_as) 0 1 0 0 = Some (why, calls, waited)
      \<and> calls \<le> 6 \<and> waited \<le> 63
      \<and> (why = BackOffGaveUp \<longleftrightarrow> (\<forall>(done, err, quit) \<in> set as. \<not> done \<and> \<not> quit))
      \<and> (why = BackOffGaveUp \<longrightarrow> calls = 6 \<and> waited = 63)"
    using doWithBackOff_run [of as 0 more_as 0 0] assms by simp
next
  have "doWithBackOff (replicate n (False, None, q)) 0 1 calls 0 = None" for calls
    by (induction n arbitrary: calls) (simp_all add: doWithBackOff.simps)
  then show "doWithBackOff (replicate n (False, None, q)) 0 1 0 0 = None" by simp
qed

lemma doWithBackOff_ends_witness:
  "\<exists>why calls waited. doWithBackOff (replicate 6 (False, Some ''refused'', False) @ []) 0 1 0 0 = Some (why, calls, waited)
     \<and> calls \<le> 6 \<and> waited \<le> 63"
  using doWithBackOff_ends [of "replicate 6 (False, Some ''refused'', False)" "[]"] by simp

lemma download_dial_Panic: "n \<le> 21 \<Longrightarrow>
  download_dial dial n = Panic \<longleftrightarrow> {n..20} \<subseteq> {i. \<not> fst (dial i) \<and> snd (dial i) \<noteq> None}"
proof (induction dial n rule: download_dial.induct)
  case (1 dial n)
  show ?case
  proof (cases "n > 20")
    case True
    then show ?thesis using 1(2) by (simp add: download_dial.simps)
  next
    case False
    then have "{n..20} = insert n {Suc n..20}" by auto
    then show ?thesis using 1 False by (subst download_dial.simps) auto
  qed
qed

lemma download_copy_all:
  "download_copy (recorder (\<lambda>_. True)) rs ms = ms @ map fst (takeWhile (\<lambda>(chunk, err). err = None \<and> chunk \<noteq> []) rs)"
proof (induction rs arbitrary: ms)
  case (Cons r rs)
  then show ?case by (cases r) (simp add: recorder_def)
qed simp

text \<open>
  The download of a log panics exactly when twenty-one attempts to connect fail without an answer
  \<^verbatim>\<open>404\<close>; otherwise, on a wire that does not fail, it sends nothing or the chunks in order up to the first
  that is empty or comes with an error, which is not sent.
\<close>

theorem download_log_result:
  "(HandleDownloadLog None dial wr reads w = Panic
      \<longleftrightarrow> {0..20} \<subseteq> {i. \<not> fst (dial i) \<and> snd (dial i) \<noteq> None})
   \<and> HandleDownloadLog None dial (recorder (\<lambda>_. True)) reads [] \<in> {Panic, Ret [],
        Ret (map fst (takeWhile (\<lambda>(chunk, err). err = None \<and> chunk \<noteq> []) reads))}"
  using download_dial_Panic [of 0 dial]
  by (cases "download_dial dial 0")
    (auto simp: HandleDownloadLog_def go_simps download_copy_all split: dial_end.split)

text \<open>
  After the log of a container was relayed to its end, the goroutine of its pipe never comes back: its
  connection stays registered and the client never finishes to stop.  With a shell the attempt is
  done, the connection is closed and removed.
\<close>

theorem log_pipe_blocks_stop:
  assumes "\<not> wcQuit c" and "\<not> piClosed p" and "piWg p = 0" and "piOnClose p = Some f"
    and "\<not> pdNotFound d" and "pdConn d = Inr conn" and "copy_result oc \<noteq> None \<longrightarrow> expected (the (copy_result oc))"
  shows "(\<exists>p' c'. pipeConnection expected None d oc i (p\<lparr>piType := pipe_Log\<rparr>) (snd (retainGoroutine c))
            = Ret (None, p', c')
          \<and> map_of (wcPipeConns c') i = Some conn \<and> (\<exists>c''. ws_stop c' = Ret (False, c'')))
    \<and> (\<exists>p' c'. pipeConnection expected None d oc i (p\<lparr>piType := pipe_Exec\<rparr>) c
            = Ret (Some (True, None), p', c')
          \<and> map_of (wcPipeConns c') i = None \<and> conn \<in> set (wcConnsClosed c') \<and> piClosed p')"
  using assms
  by (cases "copy_result oc")
    (auto simp: pipeConnection_def retainGoroutine_def registerPipeConn_def finish_pipe_def
      CopyToWebsocketForLog_def CopyToWebsocketForExec_def pipe_Close_def ws_stop_def closePipeConn_def
      pipe_Log_def pipe_Exec_def Let_def update_conv' delete_conv' go_simps)

lemma log_pipe_blocks_stop_witness:
  "\<exists>p' c'. pipeConnection (\<lambda>_. False) None \<lparr>pdNotFound = False, pdConn = Inr 7\<rparr> CopyQuit ''p''
      ((pipe_OnClose 3 (NewPipeFromEnds pipe_Log))\<lparr>piType := pipe_Log\<rparr>) (snd (retainGoroutine (NewClient ())))
    = Ret (None, p', c') \<and> (\<exists>c''. ws_stop c' = Ret (False, c''))"
  using log_pipe_blocks_stop [of "NewClient ()" "pipe_OnClose 3 (NewPipeFromEnds pipe_Log)" 3
      "\<lparr>pdNotFound = False, pdConn = Inr 7\<rparr>" 7 CopyQuit "\<lambda>_. False" "''p''"]
  by (auto simp: NewClient_def NewPipeFromEnds_def pipe_OnClose_def copy_result_def)

section \<open>Lost connections\<close>

text \<open>The stop channels are distinct and open.\<close>

definition stops_ok :: "'w sync_state \<Rightarrow> bool" where
  "stops_ok s \<longleftrightarrow> distinct (map snd (agStops s)) \<and> set (map snd (agStops s)) \<inter> set (agClosed s) = {}"

lemma stops_ok_register:
  "stops_ok s \<Longrightarrow> \<not> gm_has (agStops s) k \<Longrightarrow> stops_ok (s\<lparr>agStops := AList.update k (new_addr s) (agStops s)\<rparr>)"
  using new_addr_fresh(3,4) [of s] by (auto simp: stops_ok_def update_new gm_has_iff)

lemma stops_ok_simps [simp]:
  "stops_ok (put_loop i l s) = stops_ok s" "stops_ok (put_repo p r s) = stops_ok s"
  "stops_ok (s\<lparr>agSlots := sl\<rparr>) = stops_ok s" "stops_ok (s\<lparr>agRepos := rs\<rparr>) = stops_ok s"
  "stops_ok (s\<lparr>agSlots := sl, agRepos := rs\<rparr>) = stops_ok s" "stops_ok (s\<lparr>agWorld := w\<rparr>) = stops_ok s"
  by (simp_all add: stops_ok_def)

lemma stops_ok_listen_env: "stops_ok s \<Longrightarrow> stops_ok (snd (listen_env host env s))"
  using stops_ok_register [of s "epNamespace env"]
  by (auto simp: listen_env_def Let_def split: option.split)

lemma stops_ok_listen_loop: "stops_ok s \<Longrightarrow> stops_ok (snd (listen_loop host envs s))"
  by (induction host envs s rule: listen_loop.induct) (simp_all add: Let_def stops_ok_listen_env)

lemma stops_ok_listenEnvs [inv_intros]: "stops_ok s \<Longrightarrow> stops_ok (snd (listenEnvs host envs s))"
  by (simp add: listenEnvs_def start_interval_def stops_ok_listen_loop stops_ok_register)

lemma stops_ok_forget [inv_intros]:
  assumes "stops_ok s" and "forget_env ns s = Ret (Some s')"
  shows "stops_ok s'"
proof -
  have "agStops s' = AList.delete ns (agStops s)" "agClosed s' = agClosed s"
    using assms(2) by (auto simp: forget_env_def Let_def split: option.split_asm if_split_asm)
  moreover have "set (map snd (AList.delete ns m)) \<subseteq> set (map snd m)" for m :: "(string, nat) gomap"
    by (auto simp: AList.delete_eq)
  moreover have "distinct (map snd m) \<Longrightarrow> distinct (map snd (AList.delete ns m))" for m :: "(string, nat) gomap"
    by (simp add: AList.delete_eq distinct_map_filter)
  ultimately show ?thesis using assms(1) unfolding stops_ok_def by (simp add: disjoint_iff subset_eq) blast
qed

lemma close_stops_ok:
  "distinct (map snd m) \<Longrightarrow> set (map snd m) \<inter> set closed = {} \<Longrightarrow>
   close_stops m closed = (True, [], rev (map snd m) @ closed)"
  by (induction m closed rule: close_stops.induct) auto

text \<open>
  C18: When the connection of an agent that listens to its environments is lost, every one of their stop
  channels is closed, none of them twice, so the loop goes on; the map is emptied, and the agent is
  no longer initialised, so that the next initialisation is done in full and starts them again.
\<close>

theorem lost_connection_resets:
  assumes "stops_ok (aeSync a)" and "aeGitRunning a" and "aeInitialized a"
    and "loop_error (Some e) c a = (ok, c', a')"
  shows "ok \<and> wcReconnect c' \<and> \<not> aeInitialized a' \<and> \<not> aeGitRunning a' \<and> agStops (aeSync a') = []
    \<and> set (agClosed (aeSync a')) = set (agClosed (aeSync a)) \<union> set (map snd (agStops (aeSync a)))
    \<and> stops_ok (snd (listenEnvs host envs (aeSync a')))"
proof -
  have cl: "close_stops (agStops (aeSync a)) (agClosed (aeSync a))
      = (True, [], rev (map snd (agStops (aeSync a))) @ agClosed (aeSync a))"
    using assms(1) by (intro close_stops_ok) (auto simp: stops_ok_def)
  have "stops_ok (aeSync a')"
    using assms(2-4) cl by (auto simp: loop_error_def Let_def stops_ok_def)
  then have "stops_ok (snd (listenEnvs host envs (aeSync a')))" by (rule stops_ok_listenEnvs)
  then show ?thesis using assms(2-4) cl by (simp add: loop_error_def Let_def) (force simp: Un_commute)
qed

lemma lost_connection_resets_witness:
  "\<exists>ok c' a'. loop_error (Some ''EOF'') (NewClient ()) (demo_agent\<lparr>aeGitRunning := True, aeInitialized := True\<rparr>)
      = (ok, c', a') \<and> ok \<and> agStops (aeSync a') = []"
proof -
  let ?a = "demo_agent\<lparr>aeGitRunning := True, aeInitialized := True\<rparr>"
  have s: "stops_ok (aeSync ?a)" by (simp add: demo_agent_def demo_sync_def stops_ok_def)
  obtain ok c' a' where l: "loop_error (Some ''EOF'') (NewClient ()) ?a = (ok, c', a')" by (rule prod_cases3)
  show ?thesis using lost_connection_resets [OF s _ _ l] l by fastforce
qed

section \<open>The agent between connections\<close>

datatype agent_event = LostConnection gerror | InitCommand packet | ListenStep

definition agent_step :: "'w agent_env \<Rightarrow> agent_event \<Rightarrow> 'w ws_client \<times> 'w agent \<Rightarrow> ('w ws_client \<times> 'w agent) go" where
  "agent_step env ev s = (case ev of
     LostConnection e \<Rightarrow> Ret (snd (loop_error (Some e) (fst s) (snd s)))
   | InitCommand cmd \<Rightarrow> go_map (\<lambda>(r, a'). (fst s, a')) (cmd_InitAgent env cmd (snd s))
   | ListenStep \<Rightarrow> Ret (fst s, run_listen (snd s)))"

fun agent_run :: "'w agent_env \<Rightarrow> agent_event list \<Rightarrow> 'w ws_client \<times> 'w agent \<Rightarrow> ('w ws_client \<times> 'w agent) go" where
  "agent_run env [] s = Ret s"
| "agent_run env (ev # evs) s = go_bind (agent_step env ev s) (agent_run env evs)"

lemma agent_step_stuck:
  assumes "aeInitialized a" "\<not> aeGitRunning a" "aeListen a = []" and "agent_step env ev (c, a) = Ret (c', a')"
  shows "a' = a"
proof -
  have info: "b = a" if "getClusterInfo env cmd a = Ret (x, b)" for cmd x b
    using that by (auto simp: getClusterInfo_def Let_def split: sum.split_asm)
  have "(a\<lparr>aeInitialized := True\<rparr>) = a" using assms(1) by (cases a) simp
  then show ?thesis
    using assms
    by (cases ev) (auto simp: agent_step_def loop_error_def run_listen_def cmd_InitAgent_def
        elim!: go_mapE dest!: info)
qed

text \<open>
  An initialisation that failed before anything listened leaves the agent as it is for good: lost
  connections do not reset it and no further initialisation changes it, so that only a restart helps.
\<close>

theorem init_failure_is_final:
  assumes "\<not> aeGitRunning a" and "aeListen a = []" and "anUnmarshalInit env (pkPayload cmd) = (Some e, io)"
    and "\<not> aeInitialized a" and "agent_run env (InitCommand cmd # evs) (c, a) = Ret (c', a')"
  shows "a' = a\<lparr>aeInitialized := True\<rparr>"
proof -
  let ?a = "a\<lparr>aeInitialized := True\<rparr>"
  have "agent_step env (InitCommand cmd) (c, a) = Ret (c, ?a)"
    using assms(3,4) by (simp add: agent_step_def cmd_InitAgent_def init_body_def go_simps)
  then have run: "agent_run env evs (c, ?a) = Ret (c', a')" using assms(5) by simp
  have "snd s' = ?a" if "agent_run env evs (c0, ?a) = Ret s'" for c0 s'
    using that
  proof (induction evs arbitrary: c0)
    case Nil
    then show ?case by (auto dest: sym)
  next
    case (Cons ev evs)
    obtain s1 where s1: "agent_step env ev (c0, ?a) = Ret s1" "agent_run env evs s1 = Ret s'"
      using Cons.prems by (auto elim: go_bindE)
    then have "snd s1 = ?a"
      using agent_step_stuck [of ?a env ev c0 "fst s1" "snd s1"] assms(1,2) by simp
    then show ?case using Cons.IH [of "fst s1"] s1(2) by (cases s1) simp
  qed
  from this [OF run] show ?thesis by simp
qed

lemma init_failure_is_final_witness:
  "\<exists>c'. agent_run demo_agent_env [InitCommand (mk_packet ''k'' InitAgent []), LostConnection ''EOF'',
      InitCommand (mk_packet ''k'' InitAgent ''x'')] (NewClient (), demo_agent)
    = Ret (c', demo_agent\<lparr>aeInitialized := True\<rparr>)"
proof -
  have i: "\<not> aeGitRunning demo_agent" "aeListen demo_agent = []" "\<not> aeInitialized demo_agent"
    "anUnmarshalInit demo_agent_env (pkPayload (mk_packet ''k'' InitAgent [])) = (Some ''no json'', demo_io [])"
    by (simp_all add: demo_agent_def demo_agent_env_def)
  obtain c' a' where r: "agent_run demo_agent_env [InitCommand (mk_packet ''k'' InitAgent []), LostConnection ''EOF'',
      InitCommand (mk_packet ''k'' InitAgent ''x'')] (NewClient (), demo_agent) = Ret (c', a')"
    by (auto simp: agent_step_def cmd_InitAgent_def init_body_def loop_error_def getClusterInfo_def
        demo_agent_simps go_simps Let_def)
  then show ?thesis using init_failure_is_final [OF i(1,2,4,3) r] by blast
qed

end
