(* ===== verification/KubeCmd.thy ===== *)
theory KubeCmd
  imports WsClient "HOL-Library.Word"
begin

text \<open>
  The commands on single objects of the cluster (\<^verbatim>\<open>pkg/command/kubernetes\<close>).  A handler maps a packet
  and the state of the cluster to its answer, what it started and the new state.  A payload that is
  read into a pointer may be \<^verbatim>\<open>null\<close>: then the pointer is nil and the first use of it panics.
\<close>

section \<open>Constants\<close>

definition NetworkService :: string where "NetworkService = ''network_service''"
definition NetworkServiceFailed :: string where "NetworkServiceFailed = ''network_service_failed''"
definition NetworkServiceDelete :: string where "NetworkServiceDelete = ''network_service_delete''"
definition NetworkServiceDeleteFailed :: string where
  "NetworkServiceDeleteFailed = ''network_service_delete_failed''"
definition NetworkIngress :: string where "NetworkIngress = ''network_ingress''"
definition NetworkIngressFailed :: string where "NetworkIngressFailed = ''network_ingress_failed''"
definition NetworkIngressDelete :: string where "NetworkIngressDelete = ''network_ingress_delete''"
definition NetworkIngressDeleteFailed :: string where
  "NetworkIngressDeleteFailed = ''network_ingress_delete_failed''"

section \<open>Requests\<close>

record delete_pod_info =
  dpPodName :: string
  dpNamespace :: string
  dpStatus :: string

record describe_request =
  drDescribeID :: string
  drNamespace :: string
  drKind :: string
  drName :: string

record exec_request =
  erPodName :: string
  erContainerName :: string
  erPipeID :: string
  erNamespace :: string

record logs_request =
  lqPodName :: string
  lqContainerName :: string
  lqPipeID :: string
  lqNamespace :: string
  lqInstanceId :: string
  lqPrevious :: bool

record delete_pvc_info =
  dvLabels :: "(string, string) gomap"
  dvNamespace :: string

record docker_entry =
  deName :: string
  deAuth :: string
  deEmail :: string
  deServer :: string
  deNamespace :: string
  deUsername :: string
  dePassword :: string

text \<open>\<^verbatim>\<open>Count\<close> is an \<^verbatim>\<open>int\<close> of 64 bits.\<close>

record scale_request =
  sqName :: string
  sqCount :: "64 word"
  sqNamespace :: string
  sqKind :: string

text \<open>
  What the handlers call: the API, the JSON reader and printer, the scale subresource (its replicas are
  32 bits wide), the wire of a websocket for one message, and the client's connections.
\<close>

record 'w kube_env =
  keApi :: "'w kube_api"
  keDescriber :: "string \<Rightarrow> string \<Rightarrow> string \<Rightarrow> 'w \<Rightarrow> string \<times> 'w"
  keDeletePodInfo :: "string \<Rightarrow> delete_pod_info res"
  keDescribe :: "string \<Rightarrow> describe_request option res"
  keExec :: "string \<Rightarrow> exec_request option res"
  keLogs :: "string \<Rightarrow> logs_request option res"
  kePvc :: "string \<Rightarrow> delete_pvc_info res"
  keDocker :: "string \<Rightarrow> docker_entry res"
  keScale :: "string \<Rightarrow> scale_request option res"
  keMarshalPod :: "delete_pod_info \<Rightarrow> string"
  keMarshalPacket :: "packet \<Rightarrow> string res"
  keMarshalJson :: "json \<Rightarrow> string res"
  keMarshalService :: "service \<Rightarrow> string res"
  keMarshalObj :: "k8s_obj \<Rightarrow> string res"
  keMarshalSecret :: "secret \<Rightarrow> string res"
  keGetScale :: "string \<Rightarrow> string \<Rightarrow> string \<Rightarrow> 'w \<Rightarrow> api_err + 32 word"
  keUpdateScale :: "string \<Rightarrow> string \<Rightarrow> string \<Rightarrow> 32 word \<Rightarrow> 'w \<Rightarrow> api_err option \<times> 'w"
  keDeleteClaims :: "string \<Rightarrow> string \<Rightarrow> 'w \<Rightarrow> api_err option \<times> 'w"
  keDial :: "'w \<Rightarrow> gerror option"
  keWire :: "'w wire"
  keDownloadDial :: "nat \<Rightarrow> bool \<times> gerror option"
  keUrlErr :: "gerror option"
  keReads :: "string \<Rightarrow> (string \<times> gerror option) list"

type_synonym 'w kube_handler = "'w kube_env \<Rightarrow> packet \<Rightarrow> 'w \<Rightarrow> (packet option \<times> 'w) go"

definition answer :: "string \<Rightarrow> string \<Rightarrow> string \<Rightarrow> 'w \<Rightarrow> (packet option \<times> 'w) go" where
  "answer key t payload w = Ret (Some (mk_packet key t payload), w)"

section \<open>Pods and claims\<close>

definition deletePodRespPacket :: "'w kube_env \<Rightarrow> string \<Rightarrow> string \<Rightarrow> delete_pod_info \<Rightarrow> packet" where
  "deletePodRespPacket env key status info =
     mk_packet key DeletePod (keMarshalPod env (info\<lparr>dpStatus := status\<rparr>))"

definition cmd_DeletePod :: "'w kube_handler" where
  "cmd_DeletePod env cmd w = (case keDeletePodInfo env (pkPayload cmd) of
     Inl e \<Rightarrow> Ret (None, w)
   | Inr req \<Rightarrow>
      (let r = kaDelete (keApi env) ''pods'' (dpNamespace req) (dpPodName req) w;
           resp = (\<lambda>status. Ret (Some (deletePodRespPacket env (pkKey cmd) status req), snd r))
       in case fst r of
            Some e \<Rightarrow> if IsNotFound e then resp ''success'' else resp ''failed''
          | None \<Rightarrow> resp ''success''))"

text \<open>The selector of one label; an absent label of the request is the empty string.\<close>

definition cmd_DeletePvcByLabels :: "'w kube_handler" where
  "cmd_DeletePvcByLabels env cmd w = (case kePvc env (pkPayload cmd) of
     Inl e \<Rightarrow> Ret (None, w)
   | Inr req \<Rightarrow> Ret (None, snd (keDeleteClaims env (dvNamespace req) (''app='' @ gm_get [] (dvLabels req) ''app'') w)))"

section \<open>Description, logs, shells\<close>

text \<open>
  The goroutine of \<^verbatim>\<open>Describe\<close>.  The error of dialling is never looked at: without a connection the
  write goes through a nil pointer and ends the process.
\<close>

definition describe_write :: "'w kube_env \<Rightarrow> string \<Rightarrow> 'w \<Rightarrow> 'w go" where
  "describe_write env content w = (if keDial env w \<noteq> None then Panic else Ret (snd (keWire env content w)))"

definition cmd_Describe :: "'w kube_handler" where
  "cmd_Describe env cmd w = (case keDescribe env (pkPayload cmd) of
     Inl e \<Rightarrow> Ret (None, w)
   | Inr None \<Rightarrow> Panic
   | Inr (Some req) \<Rightarrow>
      (case cluster_DescribeResource (keDescriber env) (drNamespace req) (drKind req) (drName req) w of
        (describeInfo, w1) \<Rightarrow>
          (case keMarshalPacket env (mk_packet (pkKey cmd) ResourceDescribe describeInfo) of
             Inl e \<Rightarrow> go_bind (describe_write env e w1)
                 (\<lambda>w2. go_map (\<lambda>w3. (None, w3)) (describe_write env [] w2))
           | Inr bytes \<Rightarrow> go_map (\<lambda>w2. (None, w2)) (describe_write env bytes w1))))"

text \<open>The pipe that is started is part of the answer, with what its \<^verbatim>\<open>OnClose\<close> got.\<close>

definition cmd_LogsByKubernetes :: "'w kube_env \<Rightarrow> packet \<Rightarrow> 'w \<Rightarrow> (packet option \<times> (string \<times> pipe) option) go" where
  "cmd_LogsByKubernetes env cmd w =
     (let fail = (\<lambda>e. Ret (Some (mk_packet (pkKey cmd) KubernetesGetLogsFailed e), None)) in
      case keLogs env (pkPayload cmd) of
        Inl e \<Rightarrow> fail e
      | Inr None \<Rightarrow> Panic
      | Inr (Some req) \<Rightarrow>
         (case kc_GetLogs (keApi env) (lqNamespace req) (lqPodName req) (lqContainerName req) True False 500 w of
            Inl e \<Rightarrow> fail e
          | Inr reader \<Rightarrow> Ret (None, Some (lqPipeID req, pipe_OnClose 0 (NewPipeFromEnds pipe_Log)))))"

definition cmd_DownloadLogByKubernetes :: "'w kube_handler" where
  "cmd_DownloadLogByKubernetes env cmd w =
     (case keLogs env (pkPayload cmd) of
        Inl e \<Rightarrow> answer (pkKey cmd) KubernetesDownloadLogsFailed e w
      | Inr None \<Rightarrow> Panic
      | Inr (Some req) \<Rightarrow>
         (case kc_GetLogs (keApi env) (lqNamespace req) (lqPodName req) (lqContainerName req)
             False (lqPrevious req) (-1) w of
            Inl e \<Rightarrow> answer (pkKey cmd) KubernetesDownloadLogsFailed e w
          | Inr reader \<Rightarrow> go_map (\<lambda>w1. (None, w1))
              (HandleDownloadLog (keUrlErr env) (keDownloadDial env) (keWire env) (keReads env reader) w)))"

text \<open>The error of the shell itself is dropped.\<close>

definition cmd_ExecByKubernetes :: "'w kube_env \<Rightarrow> packet \<Rightarrow> 'w
    \<Rightarrow> (packet option \<times> (string \<times> pipe) option \<times> 'w) go" where
  "cmd_ExecByKubernetes env cmd w = (case keExec env (pkPayload cmd) of
     Inl e \<Rightarrow> Ret (Some (mk_packet (pkKey cmd) KubernetesExecFailed e), None, w)
   | Inr None \<Rightarrow> Panic
   | Inr (Some req) \<Rightarrow> Ret (None, Some (erPipeID req, NewPipe pipe_Exec),
       snd (kc_Exec (keApi env) (erNamespace req) (erPodName req) (erContainerName req) w)))"

section \<open>Services and ingresses\<close>

definition put_answer :: "packet \<Rightarrow> string \<Rightarrow> string \<Rightarrow> ('o \<Rightarrow> string res) \<Rightarrow> 'o res \<times> 'w \<Rightarrow> (packet option \<times> 'w) go" where
  "put_answer cmd ok failed marshal r = (case fst r of
     Inl e \<Rightarrow> answer (pkKey cmd) failed e (snd r)
   | Inr o1 \<Rightarrow> (case marshal o1 of
       Inl e \<Rightarrow> answer (pkKey cmd) failed e (snd r)
     | Inr text \<Rightarrow> answer (pkKey cmd) ok text (snd r)))"

definition cmd_CreateService :: "'w kube_handler" where
  "cmd_CreateService env cmd w = go_bind (packet_Namespace cmd) (\<lambda>ns.
     put_answer cmd NetworkService NetworkServiceFailed (keMarshalService env)
       (kc_CreateOrUpdateService (keApi env) ns (pkPayload cmd) w))"

definition cmd_CreateIngress :: "'w kube_handler" where
  "cmd_CreateIngress env cmd w = go_bind (packet_Namespace cmd) (\<lambda>ns.
     put_answer cmd NetworkIngress NetworkIngressFailed (keMarshalObj env)
       (kc_CreateOrUpdateIngress (keApi env) ns (pkPayload cmd) w))"

definition cmd_DeleteService :: "'w kube_handler" where
  "cmd_DeleteService env cmd w = go_bind (packet_Namespace cmd) (\<lambda>ns.
     (let r = kc_DeleteService (keApi env) ns (pkPayload cmd) w in
      case fst r of Some e \<Rightarrow> answer (pkKey cmd) NetworkServiceDeleteFailed e (snd r)
      | None \<Rightarrow> answer (pkKey cmd) NetworkServiceDelete (pkPayload cmd) (snd r)))"

definition cmd_DeleteIngress :: "'w kube_handler" where
  "cmd_DeleteIngress env cmd w = go_bind (packet_Namespace cmd) (\<lambda>ns.
     (let r = kc_DeleteIngress (keApi env) ns (pkPayload cmd) w in
      case fst r of Some e \<Rightarrow> answer (pkKey cmd) NetworkIngressDeleteFailed e (snd r)
      | None \<Rightarrow> answer (pkKey cmd) NetworkIngressDelete (pkPayload cmd) (snd r)))"

section \<open>Registry secrets\<close>

text \<open>\<^verbatim>\<open>base64.StdEncoding\<close>, which works on the bytes of a string.\<close>

definition b64_alphabet :: string where
  "b64_alphabet = ''ABCDEFGHIJKLMNOPQRSTUVWXYZabcdefghijklmnopqrstuvwxyz0123456789+/''"

abbreviation b64 :: "nat \<Rightarrow> char" where "b64 n \<equiv> b64_alphabet ! n"

abbreviation byte :: "char \<Rightarrow> nat" where "byte c \<equiv> of_char c"

fun b64_encode :: "string \<Rightarrow> string" where
  "b64_encode [] = []"
| "b64_encode [a] = [b64 (byte a div 4), b64 (byte a mod 4 * 16), CHR ''='', CHR ''='']"
| "b64_encode [a, b] = [b64 (byte a div 4), b64 (byte a mod 4 * 16 + byte b div 16), b64 (byte b mod 16 * 4), CHR ''='']"
| "b64_encode (a # b # c # cs) =
     b64 (byte a div 4) # b64 (byte a mod 4 * 16 + byte b div 16) # b64 (byte b mod 16 * 4 + byte c div 64)
     # b64 (byte c mod 64) # b64_encode cs"

definition encodeDockerConfigFieldAuth :: "string \<Rightarrow> string \<Rightarrow> string" where
  "encodeDockerConfigFieldAuth username password = b64_encode (username @ '':'' @ password)"

text \<open>Fields with \<^verbatim>\<open>omitempty\<close> are left out when they are empty.\<close>

definition entry_json :: "docker_entry \<Rightarrow> json" where
  "entry_json e = JObj (map (\<lambda>(k, v). (k, JStr v)) (filter (\<lambda>(k, v). v \<noteq> [])
     [(''name'', deName e), (''auth'', deAuth e), (''email'', deEmail e), (''server'', deServer e),
      (''namespace'', deNamespace e), (''username'', deUsername e), (''password'', dePassword e)]))"

definition docker_json :: "string \<Rightarrow> docker_entry \<Rightarrow> json" where
  "docker_json server e = JObj [(''auths'', JObj [(server, entry_json e)])]"

definition handleDockerCfgJSONContent :: "(json \<Rightarrow> string res) \<Rightarrow> string \<Rightarrow> string \<Rightarrow> string \<Rightarrow> string \<Rightarrow> string res" where
  "handleDockerCfgJSONContent marshal username password email server =
     marshal (docker_json server \<lparr>deName = [], deAuth = encodeDockerConfigFieldAuth username password,
       deEmail = email, deServer = [], deNamespace = [], deUsername = username, dePassword = password\<rparr>)"

definition cmd_CreateDockerRegistrySecret :: "'w kube_handler" where
  "cmd_CreateDockerRegistrySecret env cmd w =
     (let fail = (\<lambda>e. answer (pkKey cmd) OperateDockerRegistrySecretFailed e w) in
      case keDocker env (pkPayload cmd) of Inl e \<Rightarrow> fail e
      | Inr cfg \<Rightarrow>
        (case handleDockerCfgJSONContent (keMarshalJson env) (deUsername cfg) (dePassword cfg) (deEmail cfg)
             (deServer cfg) of Inl e \<Rightarrow> fail e
         | Inr content \<Rightarrow>
            put_answer cmd OperateDockerRegistrySecret OperateDockerRegistrySecretFailed (keMarshalSecret env)
              (kc_CreateOrUpdateDockerRegistrySecret (keApi env) (deNamespace cfg)
                 \<lparr>koName = deName cfg, koNamespace = [], koLabels = [], koAnnotations = [], koBody = [],
                  scType = ''kubernetes.io/dockerconfigjson'', scData = [(''.dockerconfigjson'', content)]\<rparr> w)))"

section \<open>Scaling\<close>

text \<open>\<^verbatim>\<open>int32(req.Count)\<close> keeps the lower half.\<close>

definition scale_kind :: "'w kube_env \<Rightarrow> packet \<Rightarrow> scale_request \<Rightarrow> 'w \<Rightarrow> (packet option \<times> 'w) go" where
  "scale_kind env cmd req w =
     (case keGetScale env (sqKind req) (sqNamespace req) (sqName req) w of
        Inl e \<Rightarrow> answer (pkKey cmd) OperatePodCountFailed (api_text e) w
      | Inr _ \<Rightarrow>
        (let r = keUpdateScale env (sqKind req) (sqNamespace req) (sqName req) (ucast (sqCount req)) w in
         case fst r of Some e \<Rightarrow> answer (pkKey cmd) OperatePodCountFailed (api_text e) (snd r)
         | None \<Rightarrow> answer (pkKey cmd) OperatePodCountSuccess [] (snd r)))"

definition cmd_ScalePod :: "'w kube_handler" where
  "cmd_ScalePod env cmd w = (case keScale env (pkPayload cmd) of
     Inl e \<Rightarrow> answer (pkKey cmd) OperatePodCountFailed e w
   | Inr None \<Rightarrow> Panic
   | Inr (Some req) \<Rightarrow>
       if sqKind req = ''Deployment'' \<or> sqKind req = ''StatefulSet'' then scale_kind env cmd req w
       else answer (pkKey cmd) OperatePodCountFailed ''unsupported resource kind'' w)"

section \<open>Properties\<close>

text \<open>Reading base64 back: the reference that the readers of the secret implement.\<close>

definition b64_val :: "char \<Rightarrow> nat" where
  "b64_val c = length (takeWhile (\<lambda>x. x \<noteq> c) b64_alphabet)"

fun b64_decode :: "string \<Rightarrow> string" where
  "b64_decode (a # b # c # d # cs) =
     (let n1 = b64_val a * 4 + b64_val b div 16 in
      char_of n1 #
      (if c = CHR ''='' then []
       else char_of (b64_val b mod 16 * 16 + b64_val c div 4) #
        (if d = CHR ''='' then []
         else char_of (b64_val c mod 4 * 64 + b64_val d) # b64_decode cs)))"
| "b64_decode cs = []"

lemma length_b64_alphabet: "length b64_alphabet = 64"
  by (simp add: b64_alphabet_def)

lemma distinct_b64_alphabet: "distinct b64_alphabet"
  by (simp add: b64_alphabet_def)

lemma b64_val_b64: "n < 64 \<Longrightarrow> b64_val (b64 n) = n"
proof -
  assume n: "n < 64"
  have "takeWhile (\<lambda>x. x \<noteq> b64 n) b64_alphabet = take n b64_alphabet"
  proof (rule takeWhile_eq_take_P_nth)
    show "b64_alphabet ! i \<noteq> b64 n" if "i < n" "i < length b64_alphabet" for i
      using that n distinct_b64_alphabet length_b64_alphabet by (simp add: nth_eq_iff_index_eq)
  qed auto
  then show ?thesis using n by (simp add: b64_val_def length_b64_alphabet)
qed

lemma b64_not_pad: "n < 64 \<Longrightarrow> b64 n \<noteq> CHR ''=''"
proof -
  assume "n < 64"
  then have "b64 n \<in> set b64_alphabet" using length_b64_alphabet by simp
  moreover have "CHR ''='' \<notin> set b64_alphabet" by (simp add: b64_alphabet_def)
  ultimately show ?thesis by metis
qed

lemma byte_bound: "byte c < 256"
  by (rule nat_of_char_less_256)

lemma sextets:
  "(b::nat) < 256 \<Longrightarrow> a div 4 * 4 + (a mod 4 * 16 + b div 16) div 16 = a"
  "(b::nat) < 256 \<Longrightarrow> c < 256 \<Longrightarrow> (a mod 4 * 16 + b div 16) mod 16 * 16 + (b mod 16 * 4 + c div 64) div 4 = b"
  "(c::nat) < 256 \<Longrightarrow> (b mod 16 * 4 + c div 64) mod 4 * 64 + c mod 64 = c"
  "(c::nat) < 256 \<Longrightarrow> b mod 16 * 4 + c div 64 < 64" "(b::nat) < 256 \<Longrightarrow> a mod 4 * 16 + b div 16 < 64"
  "(a::nat) < 256 \<Longrightarrow> a div 4 < 64"
proof -
  have *: "(x * m + y) div m = x" "(x * m + y) mod m = y" if "y < m" for x y m :: nat
    using that by simp_all
  show "a div 4 * 4 + (a mod 4 * 16 + b div 16) div 16 = a" if "b < 256"
    using that * [of "b div 16" 16 "a mod 4"] by simp
  show "(b mod 16 * 4 + c div 64) mod 4 * 64 + c mod 64 = c" if "c < 256"
    using that * [of "c div 64" 4 "b mod 16"] by simp
  show "(a mod 4 * 16 + b div 16) mod 16 * 16 + (b mod 16 * 4 + c div 64) div 4 = b" if "b < 256" "c < 256"
    using that * [of "c div 64" 4 "b mod 16"] * [of "b div 16" 16 "a mod 4"] by simp
  have d: "x div m < k" if "x < k * m" for x m k :: nat
    using that by (simp add: less_mult_imp_div_less)
  show "b mod 16 * 4 + c div 64 < 64" if "c < 256"
    using d [of c 4 64] mod_less_divisor [of 16 b] that by linarith
  show "a mod 4 * 16 + b div 16 < 64" if "b < 256"
    using d [of b 16 16] mod_less_divisor [of 4 a] that by linarith
  show "a div 4 < 64" if "a < 256" using d [of a 64 4] that by simp
qed

lemmas b64_steps = b64_encode.simps b64_decode.simps Let_def b64_val_b64 b64_not_pad if_False if_True
  char_of_char simp_thms list.inject

lemma b64_roundtrip: "b64_decode (b64_encode s) = s"
proof (induction s rule: b64_encode.induct)
  case (2 a)
  have "byte a div 4 < 64" "byte a mod 4 * 16 < 64" using sextets(5) [of 0 "byte a"] sextets(6) [OF byte_bound, of a] by simp_all
  moreover have "byte a div 4 * 4 + byte a mod 4 * 16 div 16 = byte a" by simp
  ultimately show ?case by (simp only: b64_steps)
next
  case (3 a b)
  have "byte b mod 16 * 4 < 64" using sextets(4) [of 0 "byte b"] by simp
  moreover have "(byte a mod 4 * 16 + byte b div 16) mod 16 * 16 + byte b mod 16 * 4 div 4 = byte b"
    using sextets(2) [of "byte b" 0 "byte a", OF byte_bound]
    by (simp only: div_0 add_0_right zero_less_numeral simp_thms)
  ultimately show ?case
    using sextets(1) [OF byte_bound, of "byte a" b] sextets(5) [OF byte_bound, of "byte a" b] sextets(6) [OF byte_bound, of a]
    by (simp only: b64_steps)
next
  case (4 a b c cs)
  have "byte c mod 64 < 64" by simp
  then show ?case
    using sextets(1) [OF byte_bound, of "byte a" b] sextets(2) [OF byte_bound byte_bound, of "byte a" b c]
      sextets(3) [OF byte_bound, of "byte b" c] sextets(4) [OF byte_bound, of "byte b" c]
      sextets(5) [OF byte_bound, of "byte a" b] sextets(6) [OF byte_bound, of a] 4
    by (simp only: b64_steps)
qed simp

lemma takeWhile_sep: "x \<notin> set us \<Longrightarrow> takeWhile (\<lambda>c. c \<noteq> x) (us @ x # vs) = us"
  by (induction us) auto

lemma takeWhile_sep_in: "x \<in> set us \<Longrightarrow> takeWhile (\<lambda>c. c \<noteq> x) (us @ vs) \<noteq> us"
  by (metis (mono_tags) set_takeWhileD)

text \<open>
  The authentication in a registry secret is read back as the user name and the password, as the readers
  of the secret split it at the first colon, exactly when the user name has no colon.
\<close>

theorem docker_auth_roundtrip:
  "b64_decode (encodeDockerConfigFieldAuth username password) = username @ '':'' @ password
   \<and> (takeWhile (\<lambda>c. c \<noteq> CHR '':'') (b64_decode (encodeDockerConfigFieldAuth username password)) = username
      \<longleftrightarrow> CHR '':'' \<notin> set username)"
  using takeWhile_sep [of "CHR '':''" username password] takeWhile_sep_in [of "CHR '':''" username]
  by (auto simp: encodeDockerConfigFieldAuth_def b64_roundtrip)

lemma truncate_sint:
  "sint (ucast (c :: 64 word) :: 32 word) = sint c \<longleftrightarrow> - (2 ^ 31) \<le> sint c \<and> sint c < 2 ^ 31"
proof -
  have "(ucast c :: 32 word) = scast c" by transfer (simp add: take_bit_signed_take_bit)
  then have "sint (ucast c :: 32 word) = signed_take_bit 31 (sint c)" by (simp add: signed_scast_eq)
  then show ?thesis using signed_take_bit_int_eq_self_iff [of 31 "sint c"] by simp
qed

lemma truncate_zero: "(ucast (c :: 64 word) :: 32 word) = 0 \<longleftrightarrow> 2 ^ 32 dvd unat c"
proof -
  have "(ucast c :: 32 word) = 0 \<longleftrightarrow> unat (ucast c :: 32 word) = 0" by (simp add: unat_eq_0)
  also have "unat (ucast c :: 32 word) = take_bit 32 (unat c)" by (simp add: unsigned_ucast_eq)
  finally show ?thesis by (simp add: take_bit_eq_0_iff)
qed

text \<open>A cluster that holds no service until one is created, whatever it is called.\<close>

definition demo_service :: service where
  "demo_service = \<lparr>koName = ''web'', koNamespace = ''dev'', koLabels = [], koAnnotations = [], koBody = [],
     svVersion = ''5'', svClusterIP = ''10.0.0.2''\<rparr>"

definition demo_kube_api :: "bool kube_api" where
  "demo_kube_api = \<lparr>kaGet = (\<lambda>_ _ _ _. Inl (NotFoundErr ''gone'')), kaGetSecret = (\<lambda>_ _ _. Inl (NotFoundErr ''gone'')),
     kaGetClaim = (\<lambda>_ _ _ _. Inl (NotFoundErr ''gone'')),
     kaGetService = (\<lambda>_ _ w. if w then Inr demo_service else Inl (NotFoundErr ''gone'')),
     kaGetJob = (\<lambda>_ _ _. Inl (NotFoundErr ''gone'')), kaGetPod = (\<lambda>_ _ _. Inl (NotFoundErr ''gone'')),
     kaGetRelease = (\<lambda>_ _ _. Inl (NotFoundErr ''gone'')), kaListPods = (\<lambda>_ _ _. Inr []),
     kaList = (\<lambda>_ _ _ _. Inr []), kaCreate = (\<lambda>_ _ o1 w. (Inr o1, w)),
     kaUpdate = (\<lambda>_ _ o1 w. (Inr o1, w)), kaCreateService = (\<lambda>_ s _. (Inr s, True)),
     kaUpdateService = (\<lambda>_ s w. (Inr s, w)), kaCreateSecret = (\<lambda>_ s w. (Inr s, w)),
     kaUpdateSecret = (\<lambda>_ s w. (Inr s, w)), kaUpdateRelease = (\<lambda>_ r w. (Inr r, w)),
     kaDelete = (\<lambda>_ _ _ w. (None, w)), kaDeletePods = (\<lambda>_ _ w. (None, w)), kaSelector = Inr,
     kaLogs = (\<lambda>_ _ _ _. Inr []), kaExec = (\<lambda>_ _ _ _ w. (None, w)), kaClientSet = None,
     kaRESTConfig = None, kaUnmarshalService = (\<lambda>_. Inr demo_service),
     kaUnmarshalIngress = (\<lambda>_. Inl ''no ingress''), kaBuild = (\<lambda>_ _. Inr []),
     kaYaml = (\<lambda>_. Inr []), kaSecretYaml = (\<lambda>_. Inr []), kaSpec = (\<lambda>m. Inr zero_spec)\<rparr>"

definition demo_kube_env :: "describe_request option \<Rightarrow> scale_request option \<Rightarrow> bool kube_env" where
  "demo_kube_env d sc = \<lparr>keApi = demo_kube_api, keDescriber = (\<lambda>_ _ n w. (n, w)),
     keDeletePodInfo = (\<lambda>_. Inl ''no json''), keDescribe = (\<lambda>_. Inr d), keExec = (\<lambda>_. Inr None),
     keLogs = (\<lambda>_. Inr None), kePvc = (\<lambda>_. Inl ''no json''), keDocker = (\<lambda>_. Inl ''no json''),
     keScale = (\<lambda>_. Inr sc), keMarshalPod = (\<lambda>i. dpStatus i), keMarshalPacket = (\<lambda>p. Inr (pkPayload p)),
     keMarshalJson = (\<lambda>_. Inr []), keMarshalService = (\<lambda>s. Inr (koName s)), keMarshalObj = (\<lambda>o1. Inr (koName o1)),
     keMarshalSecret = (\<lambda>s. Inr (koName s)), keGetScale = (\<lambda>_ _ _ _. Inr 3),
     keUpdateScale = (\<lambda>_ _ _ n _. (None, n = 0)), keDeleteClaims = (\<lambda>_ _ w. (None, w)),
     keDial = (\<lambda>_. Some ''refused''), keWire = (\<lambda>_ w. (None, w)),
     keDownloadDial = (\<lambda>_. (False, Some ''refused'')), keUrlErr = None, keReads = (\<lambda>_. [])\<rparr>"



text \<open>
  A request \<^verbatim>\<open>null\<close> ends the process in each of the five handlers that read into a pointer; describing an
  object does so whenever no connection can be opened for the answer.
\<close>

theorem null_request_panics:
  assumes "keDescribe env p = Inr None" "keExec env p = Inr None" "keLogs env p = Inr None" "keScale env p = Inr None"
    and "keDescribe env' (pkPayload cmd) = Inr (Some req)" and "keDial env' = (\<lambda>_. Some e)"
  shows "cmd_Describe env (mk_packet k t p) w = Panic \<and> cmd_ExecByKubernetes env (mk_packet k t p) w = Panic
    \<and> cmd_LogsByKubernetes env (mk_packet k t p) w = Panic \<and> cmd_DownloadLogByKubernetes env (mk_packet k t p) w = Panic
    \<and> cmd_ScalePod env (mk_packet k t p) w = Panic \<and> cmd_Describe env' cmd w = Panic"
proof -
  have "describe_write env' c' w' = Panic" for c' w' using assms(6) by (simp add: describe_write_def)
  then have "cmd_Describe env' cmd w = Panic"
    using assms(5) by (simp add: cmd_Describe_def split: prod.split sum.split)
  then show ?thesis
    using assms(1-4) by (simp add: cmd_Describe_def cmd_ExecByKubernetes_def cmd_LogsByKubernetes_def
        cmd_DownloadLogByKubernetes_def cmd_ScalePod_def Let_def)
qed

lemma null_request_panics_witness:
  "cmd_ScalePod (demo_kube_env None None) (mk_packet ''k'' OperatePodCount ''null'') False = Panic"
  using null_request_panics [of "demo_kube_env None None" "''null''"
      "demo_kube_env (Some \<lparr>drDescribeID = [], drNamespace = ''dev'', drKind = ''Pod'', drName = ''web''\<rparr>) None"
      "mk_packet [] [] []" "\<lparr>drDescribeID = [], drNamespace = ''dev'', drKind = ''Pod'', drName = ''web''\<rparr>"
      "''refused''" "''k''" OperatePodCount False]
  by (simp add: demo_kube_env_def)

text \<open>
  A service that is sent for the first time is created; when the command is sent again, the service
  the cluster has by then is updated, with its version and its cluster address kept, and nothing is created.
\<close>

theorem create_service_twice:
  assumes "packet_Namespace cmd = Ret ns" and "kaUnmarshalService (keApi env) (pkPayload cmd) = Inr svc"
    and "kaGetService (keApi env) ns (koName svc) w = Inl e" and "IsNotFound e"
    and "kaCreateService (keApi env) ns svc w = (Inr made, w1)"
    and "kaGetService (keApi env) ns (koName svc) w1 = Inr old"
    and "cmd_CreateService env cmd w = Ret (r, w2)"
  shows "w2 = w1 \<and> cmd_CreateService env cmd w2 =
    put_answer cmd NetworkService NetworkServiceFailed (keMarshalService env)
      (api_res (kaUpdateService (keApi env) ns
         (svc\<lparr>svVersion := svVersion old, svClusterIP := svClusterIP old\<rparr>) w1))"
proof -
  let ?api = "keApi env"
  have run: "kc_CreateOrUpdateService ?api ns (pkPayload cmd) v = put_service ?api (ns, svc) v" for v
    using assms(2) by (simp add: put_service_def kc_CreateOrUpdateService_def split: sum.split)
  have one: "put_service ?api (ns, svc) w = api_res (kaCreateService ?api ns svc w)"
    using service_upsert.absent [of ?api "(ns, svc)" w e] assms(3,4) by simp
  have "put_service ?api (ns, svc) (snd (put_service ?api (ns, svc) w)) =
      api_res (kaUpdateService ?api ns (svc\<lparr>svVersion := svVersion old, svClusterIP := svClusterIP old\<rparr>) w1)"
    using service_upsert.again [of ?api "(ns, svc)" w e old] assms(3-6) by simp
  moreover have "w2 = w1"
    using assms(1,5,7) run [of w] one
    by (auto simp: cmd_CreateService_def put_answer_def answer_def api_res_def split: sum.split_asm)
  ultimately show ?thesis
    using assms(1,5) run one by (simp add: cmd_CreateService_def api_res_def)
qed

lemma create_service_twice_witness:
  "\<exists>r. cmd_CreateService (demo_kube_env None None) (mk_packet ''env:dev'' NetworkService []) False = Ret (r, True)"
proof -
  have n: "packet_Namespace (mk_packet ''env:dev'' NetworkService []) = Ret ''dev''"
    by (simp add: packet_Namespace_def has_prefix_def)
  obtain r w2 where c: "cmd_CreateService (demo_kube_env None None) (mk_packet ''env:dev'' NetworkService []) False = Ret (r, w2)"
    by (simp add: cmd_CreateService_def n put_answer_def answer_def kc_CreateOrUpdateService_def api_res_def
        IsNotFound_def demo_kube_env_def demo_kube_api_def demo_service_def)
  have "w2 = True"
    by (rule create_service_twice [where svc = demo_service and e = "NotFoundErr ''gone''"
          and made = demo_service and old = demo_service, OF n _ _ _ _ _ c, THEN conjunct1])
      (simp_all add: demo_kube_env_def demo_kube_api_def IsNotFound_def)
  then show ?thesis using c by blast
qed

end
