(* ===== verification/Helm.thy ===== *)
theory Helm
  imports KubeApi "HOL-Library.Word"
begin

text \<open>
  The client of Helm (\<^verbatim>\<open>pkg/helm\<close>).  The Helm library, which is not part of the repository, is
  the record \<^verbatim>\<open>helm_lib\<close>: what its actions return in a state of the cluster.  A pair of
  a pointer and an error is kept as a pair of options, since some functions return both.
\<close>

section \<open>What Helm works on\<close>

record chart =
  chName :: string
  chVersion :: string
  chType :: string
  chDependencies :: "string list option"

record hook =
  hkName :: string
  hkKind :: string
  hkManifest :: string
  hkWeight :: int

text \<open>A release of the library.\<close>

record hrelease =
  hrName :: string
  hrVersion :: int
  hrNamespace :: string
  hrStatus :: string
  hrChart :: chart
  hrManifest :: string
  hrHooks :: "hook list"
  hrConfig :: jmap
  hrConfigRaw :: string

section \<open>Requests and answers\<close>

record install_request =
  iqRepoURL :: string
  iqChartName :: string
  iqChartVersion :: string
  iqValues :: string
  iqReleaseName :: string
  iqCommit :: string
  iqCommand :: int
  iqV1Command :: string
  iqNamespace :: string
  iqAppServiceId :: int
  iqV1AppServiceId :: string
  iqImagePullSecrets :: "string list option"
  iqFailedCount :: "64 word"
  iqLasttimeFailedInstallErr :: string

record upgrade_request =
  uqReleaseName :: string
  uqRepoURL :: string
  uqChartName :: string
  uqChartVersion :: string
  uqValues :: string
  uqCommand :: int
  uqV1Command :: string
  uqCommit :: string
  uqNamespace :: string
  uqAppServiceId :: int
  uqV1AppServiceId :: string
  uqImagePullSecrets :: "string list option"
  uqReUseValues :: bool

text \<open>The requests that name a release only: delete, start, stop and get.\<close>

record release_ref =
  rfReleaseName :: string
  rfNamespace :: string

record release_hook =
  rhName :: string
  rhKind :: string
  rhManifest :: string
  rhWeight :: int
  rhReleaseName :: string

record release_resource =
  rrGroup :: string
  rrVersion :: string
  rrKind :: string
  rrName :: string
  rrResourceVersion :: string
  rrObject :: string

text \<open>\<^verbatim>\<open>Release\<close>, the answer to an installation or an upgrade.\<close>

record release_info =
  xrName :: string
  xrRevision :: int
  xrNamespace :: string
  xrStatus :: string
  xrChartName :: string
  xrChartVersion :: string
  xrManifest :: string
  xrHooks :: "release_hook list"
  xrResources :: "release_resource list"
  xrConfig :: string
  xrCommit :: string
  xrCommand :: int
  xrV1Command :: string

section \<open>The library\<close>

record chart_path =
  cpRepoURL :: string
  cpVersion :: string
  cpUsername :: string
  cpPassword :: string

text \<open>The arguments of \<^verbatim>\<open>NewInstall\<close> and \<^verbatim>\<open>NewUpgrade\<close>.\<close>

record release_call =
  rcPath :: chart_path
  rcCommit :: string
  rcCommand :: int
  rcV1Command :: string
  rcSecrets :: "string list option"
  rcNamespace :: string
  rcReleaseName :: string
  rcChartName :: string
  rcChartVersion :: string
  rcAppServiceId :: int
  rcV1AppServiceId :: string
  rcAgentVersion :: string
  rcReUseValues :: bool

text \<open>An object of a manifest as the API server has it.\<close>

record live_info = build_info +
  liName :: string
  liNamespace :: string
  liResourceVersion :: string

record uninstalled =
  unRelease :: hrelease
  unInfo :: string

record 'w helm_lib =
  hlApi :: "'w kube_api"
  hlGlobals :: globals
  hlKubernetesVersion :: string
  hlGet :: "string \<Rightarrow> string \<Rightarrow> 'w \<Rightarrow> hrelease option \<times> gerror option"
  hlList :: "string \<Rightarrow> 'w \<Rightarrow> hrelease list \<times> gerror option"
  hlLocate :: "chart_path \<Rightarrow> string \<Rightarrow> string \<Rightarrow> 'w \<Rightarrow> string res"
  hlLoad :: "string \<Rightarrow> 'w \<Rightarrow> chart res"
  hlMergeValues :: "string \<Rightarrow> jmap \<times> gerror option"
  hlFindHooks :: "string \<Rightarrow> chart \<Rightarrow> jmap \<Rightarrow> hook list res"
  hlCheckDependencies :: "chart \<Rightarrow> string list \<Rightarrow> gerror option"
  hlDependencyUpdate :: bool
  hlManUpdate :: "string \<Rightarrow> 'w \<Rightarrow> gerror option \<times> 'w"
  hlInstall :: "release_call \<Rightarrow> chart \<Rightarrow> jmap \<Rightarrow> string \<Rightarrow> 'w \<Rightarrow> hrelease res \<times> 'w"
  hlUpgrade :: "release_call \<Rightarrow> chart \<Rightarrow> jmap \<Rightarrow> string \<Rightarrow> 'w \<Rightarrow> (hrelease option \<times> gerror option) \<times> 'w"
  hlUninstall :: "string \<Rightarrow> string \<Rightarrow> 'w \<Rightarrow> (uninstalled option \<times> gerror option) \<times> 'w"
  hlYaml :: "jmap \<Rightarrow> string res"
  hlJson :: "jmap \<Rightarrow> string res"
  hlJsonPod :: "pod \<Rightarrow> string res"
  hlPodVersion :: "pod \<Rightarrow> string"
  hlRefresh :: "build_info \<Rightarrow> 'w \<Rightarrow> live_info res"
  hlSelectorText :: "(string, string) gomap \<Rightarrow> string"
  hlAccessorError :: "jmap \<Rightarrow> string"
  hlKubectlFound :: bool
  hlDeletePrometheusCrd :: "'w \<Rightarrow> gerror option \<times> 'w"
  hlApplySingleObj :: "string \<Rightarrow> string \<Rightarrow> 'w \<Rightarrow> gerror option \<times> 'w"
  hlScaler :: "string \<Rightarrow> string \<Rightarrow> string \<Rightarrow> string \<Rightarrow> 'w \<Rightarrow> gerror option \<times> 'w"
  hlReadFile :: "string \<Rightarrow> string res"
  hlAcmeEmail :: string
  hlIssuerTemplate :: "string \<Rightarrow> string"

section \<open>Versions\<close>

definition is_digit :: "char \<Rightarrow> bool" where
  "is_digit c \<longleftrightarrow> CHR ''0'' \<le> c \<and> c \<le> CHR ''9''"

text \<open>
  \<^verbatim>\<open>v1\.(\d+)?\..*\<close>: the leftmost match; the group is what stands between the two dots.
\<close>

fun version_match :: "string \<Rightarrow> string option" where
  "version_match [] = None"
| "version_match (c # s) =
     (let ds = takeWhile is_digit (drop 3 (c # s)) in
      if has_prefix (c # s) ''v1.'' \<and> has_prefix (drop (3 + length ds) (c # s)) ''.'' then Some ds
      else version_match s)"

definition digits_value :: "string \<Rightarrow> nat" where
  "digits_value ds = foldl (\<lambda>n c. 10 * n + (of_char c - 48)) 0 ds"

text \<open>An empty group is read as zero, one out of range as the greatest integer; no match panics.\<close>

definition getVersionNumber :: "string \<Rightarrow> nat go" where
  "getVersionNumber versionStr = (case version_match versionStr of
     None \<Rightarrow> Panic
   | Some ds \<Rightarrow> Ret (min (digits_value ds) (2 ^ 63 - 1)))"

definition CompareVersion :: "string \<Rightarrow> bool go" where
  "CompareVersion currentVersionStr = go_map (\<lambda>n. \<not> n < 15) (getVersionNumber currentVersionStr)"

section \<open>Resources of a release\<close>

definition group_version :: "string \<Rightarrow> string \<times> string" where
  "group_version v = (case split_char v CHR ''/'' of [x] \<Rightarrow> ([], x) | [g, x] \<Rightarrow> (g, x) | _ \<Rightarrow> ([], []))"

definition pod_resource :: "'w helm_lib \<Rightarrow> pod \<Rightarrow> release_resource" where
  "pod_resource lib pd = \<lparr>rrGroup = fst (group_version (pdAPIVersion pd)),
     rrVersion = snd (group_version (pdAPIVersion pd)), rrKind = pdKind pd, rrName = koName pd,
     rrResourceVersion = hlPodVersion lib pd,
     rrObject = (case hlJsonPod lib pd of Inl e \<Rightarrow> [] | Inr j \<Rightarrow> j)\<rparr>"

text \<open>The pods that an object selects; when they cannot be read there are none.\<close>

definition relation_pods :: "'w helm_lib \<Rightarrow> live_info \<Rightarrow> 'w \<Rightarrow> release_resource list" where
  "relation_pods lib info w =
     (case kc_GetSelectRelationPod (hlApi lib) (hlSelectorText lib) (liNamespace info)
         (Some (build_info.truncate info)) w of
        Inl e \<Rightarrow> []
      | Inr None \<Rightarrow> []
      | Inr (Some objPods) \<Rightarrow> concat (map (\<lambda>(vk, podItems). map (pod_resource lib) podItems) objPods))"

fun resources_loop :: "'w helm_lib \<Rightarrow> build_info list \<Rightarrow> 'w \<Rightarrow> release_resource list res" where
  "resources_loop lib [] w = Inr []"
| "resources_loop lib (i # infos) w = (case hlRefresh lib i w of
     Inl e \<Rightarrow> resources_loop lib infos w
   | Inr info \<Rightarrow> (case hlJson lib (biObject info) of
       Inl e \<Rightarrow> Inl e
     | Inr objB \<Rightarrow>
        (let gv = group_version (nested_string (biObject info) [''apiVersion'']);
             hrr = \<lparr>rrGroup = fst gv, rrVersion = snd gv, rrKind = biKind info, rrName = liName info,
                    rrResourceVersion = liResourceVersion info, rrObject = objB\<rparr>
         in res_bind (resources_loop lib infos w)
              (\<lambda>rs. Inr (hrr # relation_pods lib info w @ rs)))))"

definition helm_GetResources :: "'w helm_lib \<Rightarrow> string \<Rightarrow> string \<Rightarrow> 'w \<Rightarrow> release_resource list res" where
  "helm_GetResources lib ns manifest w = (case kaBuild (hlApi lib) ns manifest of
     Inl e \<Rightarrow> Inl (''build unstructured: '' @ e)
   | Inr infos \<Rightarrow> resources_loop lib infos w)"

definition short_hook :: "hook \<Rightarrow> release_hook" where
  "short_hook h = \<lparr>rhName = hkName h, rhKind = hkKind h, rhManifest = [], rhWeight = 0, rhReleaseName = []\<rparr>"

definition release_base :: "hrelease \<Rightarrow> release_info" where
  "release_base rel = \<lparr>xrName = hrName rel, xrRevision = hrVersion rel, xrNamespace = hrNamespace rel,
     xrStatus = hrStatus rel, xrChartName = chName (hrChart rel), xrChartVersion = chVersion (hrChart rel),
     xrManifest = hrManifest rel, xrHooks = map short_hook (hrHooks rel), xrResources = [], xrConfig = [],
     xrCommit = [], xrCommand = 0, xrV1Command = []\<rparr>"

definition getHelmRelease :: "'w helm_lib \<Rightarrow> hrelease \<Rightarrow> 'w \<Rightarrow> release_info res" where
  "getHelmRelease lib rel w = (case helm_GetResources lib (hrNamespace rel) (hrManifest rel) w of
     Inl e \<Rightarrow> Inl (''get resource: '' @ e)
   | Inr resources \<Rightarrow> (case hlYaml lib (hrConfig rel) of
       Inl e \<Rightarrow> Inl e
     | Inr config \<Rightarrow> Inr ((release_base rel)\<lparr>xrResources := resources, xrConfig := config\<rparr>)))"

definition getHelmReleaseNoResource :: "hrelease \<Rightarrow> release_info" where
  "getHelmReleaseNoResource rel = (release_base rel)\<lparr>xrConfig := hrConfigRaw rel\<rparr>"

fun list_loop :: "'w helm_lib \<Rightarrow> string \<Rightarrow> hrelease list \<Rightarrow> release_info list res" where
  "list_loop lib ns [] = Inr []"
| "list_loop lib ns (r # rs) = (case hlYaml lib (hrConfig r) of
     Inl e \<Rightarrow> Inl e
   | Inr config \<Rightarrow> res_bind (list_loop lib ns rs) (\<lambda>rels.
       Inr ((release_base r)\<lparr>xrNamespace := ns, xrManifest := [], xrHooks := [], xrConfig := config\<rparr> # rels)))"

text \<open>An error of the listing is logged; what came with it is used.\<close>

definition ListRelease :: "'w helm_lib \<Rightarrow> string \<Rightarrow> 'w \<Rightarrow> release_info list res" where
  "ListRelease lib ns w = list_loop lib ns (fst (hlList lib ns w))"

section \<open>Looking for a release\<close>

definition ErrReleaseNotFound :: string where "ErrReleaseNotFound = ''release: not found''"

text \<open>An error that says that there is no release is none.\<close>

definition get_release :: "'w helm_lib \<Rightarrow> string \<Rightarrow> string \<Rightarrow> 'w \<Rightarrow> hrelease option res" where
  "get_release lib ns name w = (case hlGet lib ns name w of (resp, err) \<Rightarrow>
     (case err of
        None \<Rightarrow> Inr resp
      | Some e \<Rightarrow> if contains e ErrReleaseNotFound then Inr resp else Inl e))"

definition found_release :: "'w helm_lib \<Rightarrow> release_ref \<Rightarrow> 'w \<Rightarrow> hrelease res" where
  "found_release lib rf w = (case get_release lib (rfNamespace rf) (rfReleaseName rf) w of
     Inl e \<Rightarrow> Inl e
   | Inr None \<Rightarrow> Inl ''release: not found''
   | Inr (Some rel) \<Rightarrow> Inr rel)"

definition GetRelease :: "'w helm_lib \<Rightarrow> release_ref \<Rightarrow> 'w \<Rightarrow> release_info res" where
  "GetRelease lib rf w = map_sum id getHelmReleaseNoResource (found_release lib rf w)"

section \<open>Hooks before an installation or upgrade\<close>

definition path_of :: "string \<Rightarrow> string \<Rightarrow> string \<Rightarrow> string \<Rightarrow> chart_path" where
  "path_of url version username password =
     \<lparr>cpRepoURL = url, cpVersion = version, cpUsername = username, cpPassword = password\<rparr>"

definition named_hook :: "string \<Rightarrow> hook \<Rightarrow> release_hook" where
  "named_hook releaseName h = \<lparr>rhName = hkName h, rhKind = hkKind h, rhManifest = hkManifest h,
     rhWeight = hkWeight h, rhReleaseName = releaseName\<rparr>"

definition chart_hooks :: "'w helm_lib \<Rightarrow> chart_path \<Rightarrow> string \<Rightarrow> string \<Rightarrow> string \<Rightarrow> string \<Rightarrow> 'w
    \<Rightarrow> release_hook list res" where
  "chart_hooks lib path ns chartName vs releaseName w =
     (case hlLocate lib path chartName ns w of
        Inl e \<Rightarrow> Inl e
      | Inr cp \<Rightarrow> (case hlLoad lib cp w of
          Inl e \<Rightarrow> Inl (''load chart: '' @ e)
        | Inr chrt \<Rightarrow> (case hlMergeValues lib vs of
            (_, Some e) \<Rightarrow> Inl e
          | (vals, None) \<Rightarrow> map_sum id (map (named_hook releaseName)) (hlFindHooks lib ns chrt vals))))"

definition PreInstallRelease :: "'w helm_lib \<Rightarrow> install_request \<Rightarrow> string \<Rightarrow> string \<Rightarrow> 'w
    \<Rightarrow> release_hook list res" where
  "PreInstallRelease lib req username password w =
     (case get_release lib (iqNamespace req) (iqReleaseName req) w of
        Inl e \<Rightarrow> Inl e
      | Inr (Some _) \<Rightarrow> Inl (''release '' @ iqReleaseName req @ '' already exist'')
      | Inr None \<Rightarrow> chart_hooks lib (path_of (iqRepoURL req) (iqChartVersion req) username password)
          (iqNamespace req) (iqChartName req) (iqValues req) (iqReleaseName req) w)"

text \<open>The installation that a missing release turns an upgrade into, for the hooks and for the release.\<close>

definition pre_install_of :: "upgrade_request \<Rightarrow> install_request" where
  "pre_install_of uq = \<lparr>iqRepoURL = uqRepoURL uq, iqChartName = uqChartName uq,
     iqChartVersion = uqChartVersion uq, iqValues = uqValues uq, iqReleaseName = uqReleaseName uq,
     iqCommit = [], iqCommand = 0, iqV1Command = [], iqNamespace = uqNamespace uq,
     iqAppServiceId = uqAppServiceId uq, iqV1AppServiceId = [], iqImagePullSecrets = uqImagePullSecrets uq,
     iqFailedCount = 0, iqLasttimeFailedInstallErr = []\<rparr>"

definition install_of :: "upgrade_request \<Rightarrow> install_request" where
  "install_of uq = (pre_install_of uq)\<lparr>iqCommand := uqCommand uq\<rparr>"

definition PreUpgradeRelease :: "'w helm_lib \<Rightarrow> upgrade_request \<Rightarrow> string \<Rightarrow> string \<Rightarrow> 'w
    \<Rightarrow> release_hook list res" where
  "PreUpgradeRelease lib req username password w =
     (case get_release lib (uqNamespace req) (uqReleaseName req) w of
        Inl e \<Rightarrow> Inl e
      | Inr None \<Rightarrow> PreInstallRelease lib (pre_install_of req) username password w
      | Inr (Some _) \<Rightarrow> chart_hooks lib (path_of (uqRepoURL req) (uqChartVersion req) username password)
          (uqNamespace req) (uqChartName req) (uqValues req) (uqReleaseName req) w)"

section \<open>Installation\<close>

type_synonym 'w release_answer = "((release_info option \<times> gerror option) \<times> 'w) go"

definition isChartInstallable :: "chart \<Rightarrow> gerror option" where
  "isChartInstallable ch = (if chType ch \<in> {[], ''application''} then None
     else Some (chType ch @ '' charts are not installable''))"

definition install_call :: "'w helm_lib \<Rightarrow> install_request \<Rightarrow> string \<Rightarrow> string \<Rightarrow> release_call" where
  "install_call lib req username password =
     \<lparr>rcPath = path_of (iqRepoURL req) (iqChartVersion req) username password, rcCommit = iqCommit req,
      rcCommand = iqCommand req, rcV1Command = iqV1Command req, rcSecrets = iqImagePullSecrets req,
      rcNamespace = iqNamespace req, rcReleaseName = iqReleaseName req, rcChartName = iqChartName req,
      rcChartVersion = iqChartVersion req, rcAppServiceId = iqAppServiceId req,
      rcV1AppServiceId = iqV1AppServiceId req, rcAgentVersion = glAgentVersion (hlGlobals lib),
      rcReUseValues = False\<rparr>"

definition install_dependencies :: "'w helm_lib \<Rightarrow> string \<Rightarrow> chart \<Rightarrow> 'w \<Rightarrow> gerror option \<times> 'w" where
  "install_dependencies lib cp ch w = (case chDependencies ch of
     None \<Rightarrow> (None, w)
   | Some req \<Rightarrow> (case hlCheckDependencies lib ch req of
       None \<Rightarrow> (None, w)
     | Some e \<Rightarrow> if hlDependencyUpdate lib then hlManUpdate lib cp w else (Some e, w)))"

definition install_chart :: "'w helm_lib \<Rightarrow> install_request \<Rightarrow> string \<Rightarrow> string \<Rightarrow> 'w \<Rightarrow> (chart \<times> jmap) res \<times> 'w" where
  "install_chart lib req username password w =
     (case hlLocate lib (path_of (iqRepoURL req) (iqChartVersion req) username password) (iqChartName req)
         (iqNamespace req) w of
        Inl e \<Rightarrow> (Inl e, w)
      | Inr cp \<Rightarrow> (case hlMergeValues lib (iqValues req) of
          (_, Some e) \<Rightarrow> (Inl e, w)
        | (vals, None) \<Rightarrow> (case hlLoad lib cp w of
            Inl e \<Rightarrow> (Inl e, w)
          | Inr ch \<Rightarrow> (case isChartInstallable ch of
              Some e \<Rightarrow> (Inl e, w)
            | None \<Rightarrow> (case install_dependencies lib cp ch w of
                (Some e, w') \<Rightarrow> (Inl e, w')
              | (None, w') \<Rightarrow> (Inr (ch, vals), w'))))))"

definition getCertManagerIssuerData :: "'w helm_lib \<Rightarrow> string" where
  "getCertManagerIssuerData lib = hlIssuerTemplate lib
     (if hlAcmeEmail lib = [] then ''change_it@choerodon.io'' else hlAcmeEmail lib)"

text \<open>The data of two charts is too large for an answer.\<close>

definition trim_large :: "release_info \<Rightarrow> release_info" where
  "trim_large rls = (if xrChartName rls \<in> {''prometheus-operator'', ''cert-manager''}
     then rls\<lparr>xrHooks := [], xrResources := []\<rparr> else rls)"

text \<open>
  Without \<^verbatim>\<open>kubectl\<close> the process ends.  The issuers of the certificate manager are written after it is
  installed; their error comes back beside the release.
\<close>

definition finish_install :: "'w helm_lib \<Rightarrow> install_request \<Rightarrow> release_info \<Rightarrow> 'w \<Rightarrow> 'w release_answer" where
  "finish_install lib req rls w =
     (let rls1 = rls\<lparr>xrCommand := iqCommand req, xrV1Command := iqV1Command req, xrCommit := iqCommit req\<rparr> in
      go_map (\<lambda>(err, w'). ((Some (trim_large rls1), err), w'))
        (if xrName rls1 \<noteq> ''cert-manager'' then Ret (None, w)
         else if hlKubectlFound lib
           then Ret (hlApplySingleObj lib ''choerodon'' (getCertManagerIssuerData lib) w)
         else Panic))"

definition InstallRelease :: "'w helm_lib \<Rightarrow> install_request \<Rightarrow> string \<Rightarrow> string \<Rightarrow> 'w \<Rightarrow> 'w release_answer" where
  "InstallRelease lib req username password w =
     go_bind (if iqChartName req \<noteq> ''prometheus-operator'' then Ret w
              else if hlKubectlFound lib then Ret (snd (hlDeletePrometheusCrd lib w)) else Panic)
       (\<lambda>w1. case install_chart lib req username password w1 of
          (Inl e, w2) \<Rightarrow> Ret ((None, Some e), w2)
        | (Inr (ch, vals), w2) \<Rightarrow>
           (case hlInstall lib (install_call lib req username password) ch vals (iqValues req) w2 of
              (Inl e, w3) \<Rightarrow> Ret ((None, Some e), w3)
            | (Inr rel, w3) \<Rightarrow> (case getHelmRelease lib rel w3 of
                Inl e \<Rightarrow> Ret ((None, Some e), w3)
              | Inr rls \<Rightarrow> finish_install lib req rls w3)))"

definition ApplyCertManagerCrd :: "'w helm_lib \<Rightarrow> 'w \<Rightarrow> (gerror option \<times> 'w) go" where
  "ApplyCertManagerCrd lib w =
     (if \<not> hlKubectlFound lib then Panic
      else go_map (\<lambda>new.
        case hlReadFile lib (if new then ''/choerodon/cert-manager.crds.yaml''
             else ''/choerodon/cert-manager-legacy.crds.yaml'') of
          Inl e \<Rightarrow> (Some e, w)
        | Inr crd \<Rightarrow> hlApplySingleObj lib ''cert-manager'' crd w)
        (CompareVersion (hlKubernetesVersion lib)))"

section \<open>Upgrade\<close>

definition upgrade_call :: "'w helm_lib \<Rightarrow> upgrade_request \<Rightarrow> string \<Rightarrow> string \<Rightarrow> release_call" where
  "upgrade_call lib req username password =
     \<lparr>rcPath = path_of (uqRepoURL req) (uqChartVersion req) username password, rcCommit = uqCommit req,
      rcCommand = uqCommand req, rcV1Command = uqV1Command req, rcSecrets = uqImagePullSecrets req,
      rcNamespace = uqNamespace req, rcReleaseName = uqReleaseName req, rcChartName = uqChartName req,
      rcChartVersion = uqChartVersion req, rcAppServiceId = uqAppServiceId req,
      rcV1AppServiceId = uqV1AppServiceId req, rcAgentVersion = glAgentVersion (hlGlobals lib),
      rcReUseValues = uqReUseValues req\<rparr>"

text \<open>
  An agent that may not change the cluster installs itself without roles.  The assertions of the types
  of what it finds in the values panic when they do not hold.
\<close>

definition assert_map :: "jmap \<Rightarrow> string \<Rightarrow> jmap go" where
  "assert_map m k = (case map_of m k of Some (JObj o1) \<Rightarrow> Ret o1 | _ \<Rightarrow> Panic)"

definition restrict_values :: "jmap \<Rightarrow> jmap go" where
  "restrict_values vals =
     go_bind (assert_map vals ''rbac'') (\<lambda>rbac.
       (let vals1 = AList.update ''rbac'' (JObj (AList.update ''create'' (JBool False) rbac)) vals in
        go_bind (assert_map vals1 ''config'') (\<lambda>config.
          go_map (\<lambda>extraArgs. AList.update ''config'' (JObj (AList.update ''extraArgs''
              (JObj (AList.update ''restricted-mode'' (JBool True) extraArgs)) config)) vals1)
            (case map_of config ''extraArgs'' of
               None \<Rightarrow> Ret [] | Some JNull \<Rightarrow> Ret [] | _ \<Rightarrow> assert_map config ''extraArgs''))))"

definition upgrade_values :: "'w helm_lib \<Rightarrow> upgrade_request \<Rightarrow> jmap res go" where
  "upgrade_values lib req = (case hlMergeValues lib (uqValues req) of (vals, err) \<Rightarrow>
     go_map (\<lambda>vals'. case err of Some e \<Rightarrow> Inl e | None \<Rightarrow> Inr vals')
       (if uqChartName req = ''choerodon-cluster-agent'' \<and> glRestrictedModel (hlGlobals lib)
        then restrict_values vals else Ret vals))"

definition upgrade_chart :: "'w helm_lib \<Rightarrow> upgrade_request \<Rightarrow> string \<Rightarrow> string \<Rightarrow> 'w \<Rightarrow> chart res" where
  "upgrade_chart lib req username password w =
     (case hlLocate lib (path_of (uqRepoURL req) (uqChartVersion req) username password) (uqChartName req)
         (uqNamespace req) w of
        Inl e \<Rightarrow> Inl e
      | Inr cp \<Rightarrow> (case hlLoad lib cp w of
          Inl e \<Rightarrow> Inl e
        | Inr ch \<Rightarrow> (case chDependencies ch of
            None \<Rightarrow> Inr ch
          | Some req \<Rightarrow> (case hlCheckDependencies lib ch req of Some e \<Rightarrow> Inl e | None \<Rightarrow> Inr ch))))"

definition finish_upgrade :: "'w helm_lib \<Rightarrow> upgrade_request \<Rightarrow> hrelease option \<times> gerror option \<Rightarrow> 'w
    \<Rightarrow> 'w release_answer" where
  "finish_upgrade lib req result w = (case result of
     (resp, Some e) \<Rightarrow>
       (let newErr = ''update release '' @ uqReleaseName req @ '': '' @ e in
        Ret (case resp of
          None \<Rightarrow> (None, Some newErr)
        | Some rel \<Rightarrow> (case getHelmRelease lib rel w of
            Inl e' \<Rightarrow> (None, Some e') | Inr rls \<Rightarrow> (Some rls, Some newErr)), w))
   | (None, None) \<Rightarrow> Panic
   | (Some rel, None) \<Rightarrow>
       Ret (case getHelmRelease lib rel w of
          Inl e' \<Rightarrow> (None, Some e')
        | Inr rls \<Rightarrow> (Some (trim_large (rls\<lparr>xrCommit := uqCommit req, xrCommand := uqCommand req,
            xrV1Command := uqV1Command req\<rparr>)), None), w))"

definition UpgradeRelease :: "'w helm_lib \<Rightarrow> upgrade_request \<Rightarrow> string \<Rightarrow> string \<Rightarrow> 'w \<Rightarrow> 'w release_answer" where
  "UpgradeRelease lib req username password w =
     (case get_release lib (uqNamespace req) (uqReleaseName req) w of
        Inl e \<Rightarrow> Ret ((None, Some e), w)
      | Inr None \<Rightarrow> go_map (\<lambda>((rls, err), w'). ((if err \<noteq> None then None else rls, err), w'))
          (InstallRelease lib (install_of req) username password w)
      | Inr (Some _) \<Rightarrow> (case upgrade_chart lib req username password w of
          Inl e \<Rightarrow> Ret ((None, Some e), w)
        | Inr ch \<Rightarrow> go_bind (upgrade_values lib req) (\<lambda>vs. case vs of
            Inl e \<Rightarrow> Ret ((None, Some e), w)
          | Inr vals \<Rightarrow>
              (let r = hlUpgrade lib (upgrade_call lib req username password) ch vals (uqValues req) w
               in finish_upgrade lib req (fst r) (snd r)))))"

section \<open>Deletion\<close>

text \<open>What is uninstalled is emptied for the two large charts; an error drops it.\<close>

definition DeleteRelease :: "'w helm_lib \<Rightarrow> release_ref \<Rightarrow> 'w \<Rightarrow> (uninstalled option \<times> gerror option) \<times> 'w" where
  "DeleteRelease lib rf w = (case hlUninstall lib (rfNamespace rf) (rfReleaseName rf) w of
     ((_, Some e), w') \<Rightarrow> ((None, Some e), w')
   | ((rls, None), w') \<Rightarrow>
       ((map_option (\<lambda>r. if chName (hrChart (unRelease r)) \<in> {''prometheus-operator'', ''cert-manager''}
           then r\<lparr>unRelease := (unRelease r)\<lparr>hrHooks := [], hrManifest := []\<rparr>\<rparr> else r) rls, None), w'))"

fun delete_releases :: "'w helm_lib \<Rightarrow> release_info list \<Rightarrow> 'w \<Rightarrow> 'w" where
  "delete_releases lib [] w = w"
| "delete_releases lib (r # rs) w =
     delete_releases lib rs (snd (DeleteRelease lib \<lparr>rfReleaseName = xrName r, rfNamespace = xrNamespace r\<rparr> w))"

definition DeleteNamespaceReleases :: "'w helm_lib \<Rightarrow> string \<Rightarrow> 'w \<Rightarrow> gerror option \<times> 'w" where
  "DeleteNamespaceReleases lib ns w = (case ListRelease lib ns w of
     Inl e \<Rightarrow> (Some e, w) | Inr rlss \<Rightarrow> (None, delete_releases lib rlss w))"

section \<open>Stopping and starting\<close>

definition ExpectedResourceKind :: "string list" where
  "ExpectedResourceKind = [''Deployment'', ''ReplicaSet'', ''StatefulSet'']"

text \<open>\<^verbatim>\<open>NestedInt64\<close>: an error, nothing, or the number.\<close>

definition nested_int :: "jmap \<Rightarrow> string list \<Rightarrow> int option option" where
  "nested_int obj fs = (case nested_value (JObj obj) fs of
     None \<Rightarrow> None | Some None \<Rightarrow> Some None | Some (Some (JNum n)) \<Rightarrow> Some (Some n) | _ \<Rightarrow> None)"

text \<open>The replicas to scale an object to, one unless the manifest says otherwise.\<close>

definition start_replicas :: "'w helm_lib \<Rightarrow> build_info \<Rightarrow> string res" where
  "start_replicas lib info = (case nested_int (biObject info) [''spec'', ''replicas''] of
     None \<Rightarrow> Inl (''get Template replicas failed, '' @ hlAccessorError lib (biObject info))
   | Some r \<Rightarrow> Inr (int_str (case r of None \<Rightarrow> 1 | Some n \<Rightarrow> n)))"

fun scale_loop :: "'w helm_lib \<Rightarrow> (build_info \<Rightarrow> string res) \<Rightarrow> string \<Rightarrow> build_info list \<Rightarrow> 'w
    \<Rightarrow> gerror option \<times> 'w" where
  "scale_loop lib replicas ns [] w = (None, w)"
| "scale_loop lib replicas ns (info # infos) w =
     (if InArray ExpectedResourceKind (biKind info) then
        (case replicas info of
           Inl e \<Rightarrow> (Some e, w)
         | Inr n \<Rightarrow> (case cluster_ScaleResource (hlScaler lib) ns (biKind info) (jobj_name (biObject info)) n w of
             (Some e, w') \<Rightarrow> (Some (''scale: '' @ e), w')
           | (None, w') \<Rightarrow> scale_loop lib replicas ns infos w'))
      else scale_loop lib replicas ns infos w)"

definition scale_release :: "'w helm_lib \<Rightarrow> (build_info \<Rightarrow> string res) \<Rightarrow> release_ref \<Rightarrow> 'w \<Rightarrow> string res \<times> 'w" where
  "scale_release lib replicas rf w = (case found_release lib rf w of
     Inl e \<Rightarrow> (Inl e, w)
   | Inr rel \<Rightarrow> (case kaBuild (hlApi lib) (rfNamespace rf) (hrManifest rel) of
       Inl e \<Rightarrow> (Inl (''build unstructured: '' @ e), w)
     | Inr infos \<Rightarrow> (case scale_loop lib replicas (rfNamespace rf) infos w of
         (Some e, w') \<Rightarrow> (Inl e, w')
       | (None, w') \<Rightarrow> (Inr (rfReleaseName rf), w'))))"

definition StopRelease :: "'w helm_lib \<Rightarrow> release_ref \<Rightarrow> 'w \<Rightarrow> string res \<times> 'w" where
  "StopRelease lib = scale_release lib (\<lambda>_. Inr ''0'')"

definition StartRelease :: "'w helm_lib \<Rightarrow> release_ref \<Rightarrow> 'w \<Rightarrow> string res \<times> 'w" where
  "StartRelease lib = scale_release lib (start_replicas lib)"

section \<open>Properties\<close>

lemma nat_digits_digit: "c \<in> set (nat_digits n) \<Longrightarrow> is_digit c"
proof (induction n rule: nat_digits.induct)
  case (1 n)
  have d: "is_digit (char_of (48 + m))" if "m < 10" for m :: nat
    using that by (simp add: is_digit_def less_eq_char_def of_char_of)
  show ?case using 1 d by (auto simp: nat_digits.simps [of n] split: if_splits)
qed

lemma digits_value_nat_digits: "digits_value (nat_digits n) = n"
proof (induction n rule: nat_digits.induct)
  case (1 n)
  have d: "of_char (char_of (48 + m) :: char) = 48 + m" if "m < 10" for m :: nat
    using that by (simp add: of_char_of)
  show ?case using 1 d by (auto simp: nat_digits.simps [of n] digits_value_def)
qed

lemma nat_digits_not_Nil: "nat_digits n \<noteq> []"
  by (simp add: nat_digits.simps [of n])

lemma takeWhile_nat_digits: "takeWhile is_digit (nat_digits n @ CHR ''.'' # rest) = nat_digits n"
proof -
  have "\<not> is_digit CHR ''.''" by (simp add: is_digit_def)
  then show ?thesis using nat_digits_digit by (subst takeWhile_append2) auto
qed

lemma nat_digits_one: "nat_digits (Suc 0) = ''1''"
  by (simp add: nat_digits.simps [of "Suc 0"] char_of_def bit_0)

lemma drop_three: "drop (3 + n) (a # b # c # s) = drop n s"
  by (simp add: numeral_3_eq_3)

lemma no_version: "CHR ''v'' \<notin> set s \<Longrightarrow> version_match s = None"
  by (induction s) (auto simp: has_prefix_def)

text \<open>
  A version of three numbers is at least the fifteenth of the first generation exactly by its second
  number; a cluster of any other generation makes the comparison panic.
\<close>

theorem compare_version_correct:
  "CompareVersion (''v'' @ nat_digits m @ ''.'' @ nat_digits n @ ''.'' @ nat_digits k) =
     (if m = 1 then Ret (15 \<le> n) else Panic)"
proof (cases "m = 1")
  case True
  then show ?thesis
    by (simp add: CompareVersion_def getVersionNumber_def nat_digits_one has_prefix_def drop_three Let_def
        takeWhile_nat_digits digits_value_nat_digits min_def not_less)
next
  case False
  have v: "CHR ''v'' \<notin> set (nat_digits m @ ''.'' @ nat_digits n @ ''.'' @ nat_digits k)"
    using nat_digits_digit [of "CHR ''v''"] by (auto simp: is_digit_def)
  have "\<not> has_prefix (nat_digits m @ ''.'' @ nat_digits n @ ''.'' @ nat_digits k) ''1.''"
  proof
    assume p: "has_prefix (nat_digits m @ ''.'' @ nat_digits n @ ''.'' @ nat_digits k) ''1.''"
    obtain c ds where ds: "nat_digits m = c # ds" using nat_digits_not_Nil [of m] by (cases "nat_digits m") auto
    with p have "c = CHR ''1''" "ds = [] \<or> hd ds = CHR ''.''" by (cases ds; auto simp: has_prefix_def)+
    with ds nat_digits_digit [of "CHR ''.''" m] have "nat_digits m = ''1''"
      by (cases ds) (auto simp: is_digit_def)
    then have "m = 1" using digits_value_nat_digits [of m] by (simp add: digits_value_def)
    with False show False by simp
  qed
  with no_version [OF v] False show ?thesis
    by (simp add: CompareVersion_def getVersionNumber_def has_prefix_def)
qed

text \<open>
  A successful upgrade answers with the commit and the commands it was asked with; but where the release
  is missing and is installed instead, the commit and the second command are lost.
\<close>

theorem upgrade_commit:
  assumes "UpgradeRelease lib req username password w = Ret ((Some rls, None), w')"
  shows "xrCommand rls = uqCommand req \<and>
    (xrCommit rls, xrV1Command rls) =
      (if get_release lib (uqNamespace req) (uqReleaseName req) w = Inr None then ([], [])
       else (uqCommit req, uqV1Command req))"
proof -
  have install: "xrCommand r = iqCommand q \<and> xrCommit r = iqCommit q \<and> xrV1Command r = iqV1Command q"
    if "InstallRelease lib q username password w = Ret ((Some r, err), w'')" for q r err w''
    using that
    by (auto simp: InstallRelease_def finish_install_def trim_large_def Let_def go_simps
        split: if_splits prod.splits sum.splits)
  have upgrade: "xrCommand r = uqCommand req \<and> xrCommit r = uqCommit req \<and> xrV1Command r = uqV1Command req"
    if "finish_upgrade lib req res w1 = Ret ((Some r, None), w2)" for res r w1 w2
    using that
    by (auto simp: finish_upgrade_def trim_large_def Let_def split: prod.splits option.splits sum.splits if_splits)
  have third: "\<exists>vals. f vals = Ret ((Some r, None), w2)"
    if "go_bind m (\<lambda>vs. case vs of Inl e \<Rightarrow> Ret ((None, Some e), w1) | Inr vals \<Rightarrow> f vals) = Ret ((Some r, None), w2)"
    for m f r w1 w2
    using that by (cases m) (auto split: sum.split_asm)
  from assms show ?thesis
    by (auto simp: UpgradeRelease_def install_of_def pre_install_of_def Let_def go_map_eq_Ret
        dest!: install upgrade third split: sum.split_asm option.split_asm if_split_asm)
qed

text \<open>
  An agent that may not change the cluster never upgrades itself with the values it was sent: if the
  upgrade goes on at all, no role is created, the new agent is restricted too, and every other value is
  the one that was merged.
\<close>

theorem restricted_upgrade:
  assumes "uqChartName req = ''choerodon-cluster-agent''" "glRestrictedModel (hlGlobals lib)"
    and "upgrade_values lib req = Ret (Inr vals)"
  shows "nested_value (JObj vals) [''rbac'', ''create''] = Some (Some (JBool False))
    \<and> nested_value (JObj vals) [''config'', ''extraArgs'', ''restricted-mode''] = Some (Some (JBool True))
    \<and> (\<forall>k. k \<notin> {''rbac'', ''config''} \<longrightarrow> map_of vals k = map_of (fst (hlMergeValues lib (uqValues req))) k)"
  using assms
  by (auto simp: upgrade_values_def restrict_values_def Let_def go_simps update_conv'
      split: prod.splits option.splits)

text \<open>The objects that are scaled, and what a scaling client that does what it is told leaves behind.\<close>

definition scaled :: "build_info list \<Rightarrow> build_info list" where
  "scaled = filter (\<lambda>i. InArray ExpectedResourceKind (biKind i))"

definition obj_key :: "build_info \<Rightarrow> string \<times> string" where
  "obj_key i = (biKind i, jobj_name (biObject i))"

definition scales :: "'w helm_lib \<Rightarrow> string \<Rightarrow> ('w \<Rightarrow> string \<times> string \<Rightarrow> string) \<Rightarrow> bool" where
  "scales lib ns cnt \<longleftrightarrow> (\<forall>kind name n w. fst (hlScaler lib ns kind name n w) = None
     \<and> cnt (snd (hlScaler lib ns kind name n w)) = (cnt w)((kind, name) := n))"

lemma scale_loop_counts:
  assumes sc: "scales lib ns cnt" and r: "\<And>i. i \<in> set (scaled infos) \<Longrightarrow> replicas i = Inr (num i)"
    and d: "distinct (map obj_key (scaled infos))"
  shows "fst (scale_loop lib replicas ns infos w) = None \<and>
    cnt (snd (scale_loop lib replicas ns infos w)) =
      (\<lambda>k. case map_of (map (\<lambda>i. (obj_key i, num i)) (scaled infos)) k of None \<Rightarrow> cnt w k | Some n \<Rightarrow> n)"
  using r d
proof (induction infos arbitrary: w)
  case (Cons i infos)
  show ?case
  proof (cases "InArray ExpectedResourceKind (biKind i)")
    case True
    obtain w2 where r1: "hlScaler lib ns (biKind i) (jobj_name (biObject i)) (num i) w = (None, w2)"
      and r: "cnt w2 = (cnt w)(obj_key i := num i)"
      using sc unfolding scales_def obj_key_def by (metis prod.collapse)
    have sl: "scale_loop lib replicas ns (i # infos) w = scale_loop lib replicas ns infos w2"
      using True Cons.prems(1) [of i] by (simp add: scaled_def cluster_ScaleResource_def r1)
    have new: "map_of (map (\<lambda>j. (obj_key j, num j)) (scaled infos)) (obj_key i) = None"
      using Cons.prems(2) True by (auto simp: map_of_eq_None_iff scaled_def)
    have "scaled (i # infos) = i # scaled infos" using True by (simp add: scaled_def)
    then show ?thesis using Cons.IH [of w2] Cons.prems r new
      by (auto simp: sl fun_eq_iff simp del: scale_loop.simps split_paired_All split: option.split)
  next
    case False
    then show ?thesis using Cons.IH [of w] Cons.prems by (simp add: scaled_def)
  qed
qed (simp add: scaled_def)

lemma scale_release_counts:
  assumes "scales lib (rfNamespace rf) cnt" "\<And>w. found_release lib rf w = Inr rel"
    and "kaBuild (hlApi lib) (rfNamespace rf) (hrManifest rel) = Inr infos"
    and "\<And>i. i \<in> set (scaled infos) \<Longrightarrow> replicas i = Inr (num i)" "distinct (map obj_key (scaled infos))"
  shows "fst (scale_release lib replicas rf w) = Inr (rfReleaseName rf) \<and>
    cnt (snd (scale_release lib replicas rf w)) =
      (\<lambda>k. case map_of (map (\<lambda>i. (obj_key i, num i)) (scaled infos)) k of None \<Rightarrow> cnt w k | Some n \<Rightarrow> n)"
proof -
  have "fst (scale_loop lib replicas (rfNamespace rf) infos w) = None \<and>
    cnt (snd (scale_loop lib replicas (rfNamespace rf) infos w)) =
      (\<lambda>k. case map_of (map (\<lambda>i. (obj_key i, num i)) (scaled infos)) k of None \<Rightarrow> cnt w k | Some n \<Rightarrow> n)"
    using assms(4) by (intro scale_loop_counts [OF assms(1) _ assms(5)]) auto
  then show ?thesis using assms(2,3)
    by (cases "scale_loop lib replicas (rfNamespace rf) infos w") (auto simp: scale_release_def)
qed

text \<open>
  Where the scaling works, stopping a release brings exactly the deployments, replica sets and stateful
  sets of its manifest to no replica, starting it brings them to the number of the manifest, one where there
  is none, and everything else is left alone; so a stop is undone by a start.
\<close>

theorem stop_start_replicas:
  assumes "scales lib (rfNamespace rf) cnt" "\<And>w. found_release lib rf w = Inr rel"
    and "kaBuild (hlApi lib) (rfNamespace rf) (hrManifest rel) = Inr infos"
    and num: "\<And>i. i \<in> set (scaled infos) \<Longrightarrow> start_replicas lib i = Inr (num i)"
    and dist: "distinct (map obj_key (scaled infos))"
  shows "fst (StopRelease lib rf w) = Inr (rfReleaseName rf) \<and> fst (StartRelease lib rf w) = Inr (rfReleaseName rf)
    \<and> (\<forall>i \<in> set (scaled infos). cnt (snd (StopRelease lib rf w)) (obj_key i) = ''0''
         \<and> cnt (snd (StartRelease lib rf w)) (obj_key i) = num i)
    \<and> (\<forall>k. k \<notin> obj_key ` set (scaled infos) \<longrightarrow> cnt (snd (StopRelease lib rf w)) k = cnt w k
         \<and> cnt (snd (StartRelease lib rf w)) k = cnt w k)
    \<and> cnt (snd (StartRelease lib rf (snd (StopRelease lib rf w)))) = cnt (snd (StartRelease lib rf w))"
proof -
  let ?t = "\<lambda>f :: build_info \<Rightarrow> string. map_of (map (\<lambda>i. (obj_key i, f i)) (scaled infos))"
  have hit: "?t f (obj_key i) = Some (f i)" if "i \<in> set (scaled infos)" for f i
    using that dist by (intro map_of_is_SomeI) (auto simp: comp_def)
  have miss: "?t f k = None \<longleftrightarrow> k \<notin> obj_key ` set (scaled infos)" for f k
    by (auto simp: map_of_eq_None_iff image_image)
  have counts: "fst (scale_release lib f rf w) = Inr (rfReleaseName rf)
      \<and> cnt (snd (scale_release lib f rf w)) =
        (\<lambda>k. case ?t g k of None \<Rightarrow> cnt w k | Some n \<Rightarrow> n)"
    if "\<And>i. i \<in> set (scaled infos) \<Longrightarrow> f i = Inr (g i)" for f g w
    using that by (intro scale_release_counts [OF assms(1,2,3) _ dist]) auto
  note stop = counts [of "\<lambda>_. Inr ''0''" "\<lambda>_. ''0''", folded StopRelease_def, OF HOL.refl]
    and start = counts [of "start_replicas lib", folded StartRelease_def, OF num]
  have absent: "?t f k = None" if "k \<notin> obj_key ` set (scaled infos)" for f k
    using that miss by blast
  have undone: "cnt (snd (StartRelease lib rf (snd (StopRelease lib rf w)))) = cnt (snd (StartRelease lib rf w))"
  proof
    fix k
    show "cnt (snd (StartRelease lib rf (snd (StopRelease lib rf w)))) k = cnt (snd (StartRelease lib rf w)) k"
      using miss [of num k] miss [of "\<lambda>_. ''0''" k] by (auto simp: start stop split: option.split)
  qed
  show ?thesis using hit absent by (simp add: stop start undone del: split_paired_All)
qed

section \<open>Instances\<close>

text \<open>A small library: one release, whose manifest is one deployment, and counts of replicas as state.\<close>

type_synonym counts = "string \<times> string \<Rightarrow> string"

definition demo_info :: build_info where
  "demo_info = \<lparr>biKind = ''Deployment'',
     biObject = [(''metadata'', JObj [(''name'', JStr ''web'')]), (''spec'', JObj [(''replicas'', JNum 2)])]\<rparr>"

definition demo_chart :: "string \<Rightarrow> chart" where
  "demo_chart n = \<lparr>chName = n, chVersion = ''1'', chType = [], chDependencies = None\<rparr>"

definition demo_hrelease :: "string \<Rightarrow> hrelease" where
  "demo_hrelease n = \<lparr>hrName = n, hrVersion = 1, hrNamespace = ''dev'', hrStatus = ''deployed'',
     hrChart = demo_chart n, hrManifest = ''web'', hrHooks = [], hrConfig = [], hrConfigRaw = []\<rparr>"

definition plain_api :: "'w kube_api" where
  "plain_api = \<lparr>kaGet = \<lambda>_ _ _ _. Inl (NotFoundErr ''gone''), kaGetSecret = \<lambda>_ _ _. Inl (NotFoundErr ''secret not found''),
     kaGetClaim = \<lambda>_ _ _ _. Inl (NotFoundErr ''gone''), kaGetService = \<lambda>_ _ _. Inl (NotFoundErr ''gone''),
     kaGetJob = \<lambda>_ _ _. Inl (NotFoundErr ''gone''), kaGetPod = \<lambda>_ _ _. Inl (NotFoundErr ''gone''),
     kaGetRelease = \<lambda>_ _ _. Inl (NotFoundErr ''gone''), kaListPods = \<lambda>_ _ _. Inr [], kaList = \<lambda>_ _ _ _. Inr [],
     kaCreate = \<lambda>_ _ o1 w. (Inr o1, w), kaUpdate = \<lambda>_ _ o1 w. (Inr o1, w),
     kaCreateService = \<lambda>_ o1 w. (Inr o1, w), kaUpdateService = \<lambda>_ o1 w. (Inr o1, w),
     kaCreateSecret = \<lambda>_ o1 w. (Inr o1, w), kaUpdateSecret = \<lambda>_ o1 w. (Inr o1, w),
     kaUpdateRelease = \<lambda>_ o1 w. (Inr o1, w), kaDelete = \<lambda>_ _ _ w. (None, w), kaDeletePods = \<lambda>_ _ w. (None, w),
     kaSelector = Inr, kaLogs = \<lambda>_ _ _ _. Inr [], kaExec = \<lambda>_ _ _ _ w. (None, w), kaClientSet = None,
     kaRESTConfig = None, kaUnmarshalService = \<lambda>_. Inl ''no'', kaUnmarshalIngress = \<lambda>_. Inl ''no'',
     kaBuild = \<lambda>_ _. Inr [demo_info], kaYaml = \<lambda>_. Inr [], kaSecretYaml = \<lambda>_. Inr [], kaSpec = \<lambda>_. Inr zero_spec\<rparr>"

definition demo_lib :: "(string \<Rightarrow> string \<Rightarrow> string \<Rightarrow> 'w \<Rightarrow> 'w) \<Rightarrow> hrelease option \<Rightarrow> 'w helm_lib" where
  "demo_lib scale found = \<lparr>hlApi = plain_api, hlGlobals = demo_globals_k\<lparr>glRestrictedModel := True\<rparr>,
     hlKubernetesVersion = ''v1.20.1'', hlGet = \<lambda>_ _ _. (found, None), hlList = \<lambda>_ _. ([], None),
     hlLocate = \<lambda>_ n _ _. Inr n, hlLoad = \<lambda>n _. Inr (demo_chart n),
     hlMergeValues = \<lambda>v. ([(''rbac'', JObj []), (''config'', JObj []), (''env'', JStr v)], None),
     hlFindHooks = \<lambda>_ _ _. Inr [], hlCheckDependencies = \<lambda>_ _. None, hlDependencyUpdate = False,
     hlManUpdate = \<lambda>_ w. (None, w), hlInstall = \<lambda>c _ _ _ w. (Inr (demo_hrelease (rcReleaseName c)), w),
     hlUpgrade = \<lambda>c _ _ _ w. ((Some (demo_hrelease (rcReleaseName c)), None), w),
     hlUninstall = \<lambda>_ _ w. ((None, None), w), hlYaml = \<lambda>_. Inr [], hlJson = \<lambda>_. Inr [], hlJsonPod = \<lambda>_. Inr [],
     hlPodVersion = \<lambda>_. [], hlRefresh = \<lambda>_ _. Inl ''gone'', hlSelectorText = \<lambda>_. [], hlAccessorError = \<lambda>_. [],
     hlKubectlFound = True, hlDeletePrometheusCrd = \<lambda>w. (None, w), hlApplySingleObj = \<lambda>_ _ w. (None, w),
     hlScaler = \<lambda>_ k n r w. (None, scale k n r w), hlReadFile = Inr, hlAcmeEmail = [], hlIssuerTemplate = id\<rparr>"

definition demo_helm :: "hrelease option \<Rightarrow> counts helm_lib" where
  "demo_helm = demo_lib (\<lambda>k n r w. w((k, n) := r))"

definition demo_upgrade :: "string \<Rightarrow> upgrade_request" where
  "demo_upgrade n = \<lparr>uqReleaseName = ''web'', uqRepoURL = ''http://charts'', uqChartName = n,
     uqChartVersion = ''1'', uqValues = ''a: 1'', uqCommand = 7, uqV1Command = ''seven'', uqCommit = ''abc'',
     uqNamespace = ''dev'', uqAppServiceId = 1, uqV1AppServiceId = ''one'', uqImagePullSecrets = None,
     uqReUseValues = False\<rparr>"

lemmas demo_helm_simps = demo_helm_def demo_lib_def plain_api_def demo_info_def demo_chart_def demo_hrelease_def
  demo_upgrade_def demo_globals_k_def

lemma demo_found:
  "found_release (demo_helm (Some (demo_hrelease n))) rf w = Inr (demo_hrelease n)"
  by (simp add: found_release_def get_release_def demo_helm_def demo_lib_def)

lemma demo_missing_install:
  "\<exists>rls w'. UpgradeRelease (demo_helm None) (demo_upgrade ''app'') u p (\<lambda>_. []) = Ret ((Some rls, None), w')
     \<and> xrCommit rls = []"
  by (simp add: UpgradeRelease_def InstallRelease_def get_release_def install_chart_def isChartInstallable_def
      install_dependencies_def getHelmRelease_def helm_GetResources_def finish_install_def trim_large_def
      release_base_def install_of_def pre_install_of_def install_call_def Let_def demo_helm_simps)

lemma upgrade_commit_witness:
  "\<exists>rls w'. UpgradeRelease (demo_helm None) (demo_upgrade ''app'') [] [] (\<lambda>_. []) = Ret ((Some rls, None), w')
     \<and> xrCommand rls = 7 \<and> xrCommit rls = [] \<and> xrV1Command rls = []"
proof -
  obtain rls w' where r: "UpgradeRelease (demo_helm None) (demo_upgrade ''app'') [] [] (\<lambda>_. []) = Ret ((Some rls, None), w')"
    using demo_missing_install by blast
  have "get_release (demo_helm None) ns n w = Inr None" for ns n w
    by (simp add: get_release_def demo_helm_def demo_lib_def)
  then show ?thesis using upgrade_commit [OF r] r by (simp add: demo_upgrade_def)
qed

definition demo_restricted :: jmap where
  "demo_restricted = [(''rbac'', JObj [(''create'', JBool False)]),
     (''config'', JObj [(''extraArgs'', JObj [(''restricted-mode'', JBool True)])]), (''env'', JStr ''a: 1'')]"

lemma restricted_upgrade_witness:
  "upgrade_values (demo_helm None) (demo_upgrade ''choerodon-cluster-agent'') = Ret (Inr demo_restricted)
   \<and> map_of demo_restricted ''env'' = Some (JStr ''a: 1'')"
proof -
  have v: "upgrade_values (demo_helm None) (demo_upgrade ''choerodon-cluster-agent'') = Ret (Inr demo_restricted)"
    by (simp add: upgrade_values_def restrict_values_def assert_map_def demo_restricted_def demo_helm_simps)
  show ?thesis
    using restricted_upgrade [OF _ _ v] v by (simp add: demo_helm_simps)
qed

lemma stop_start_replicas_witness:
  "snd (StopRelease (demo_helm (Some (demo_hrelease ''web''))) \<lparr>rfReleaseName = ''web'', rfNamespace = ''dev''\<rparr>
      (\<lambda>_. ''5'')) (''Deployment'', ''web'') = ''0''
   \<and> snd (StartRelease (demo_helm (Some (demo_hrelease ''web''))) \<lparr>rfReleaseName = ''web'', rfNamespace = ''dev''\<rparr>
      (\<lambda>_. ''5'')) (''Deployment'', ''web'') = ''2''"
proof -
  let ?lib = "demo_helm (Some (demo_hrelease ''web''))"
  have s: "scaled [demo_info] = [demo_info]" "obj_key demo_info = (''Deployment'', ''web'')"
    by (simp_all add: scaled_def obj_key_def InArray_def ExpectedResourceKind_def demo_info_def jobj_name_def
        nested_string_def)
  have two: "nat_digits 2 = ''2''" by (simp add: nat_digits.simps [of 2] char_of_def bit_0 bit_Suc)
  have n: "start_replicas ?lib demo_info = Inr ''2''"
    by (simp add: start_replicas_def nested_int_def demo_info_def int_str_def two)
  have sc: "scales ?lib ''dev'' id" by (simp add: scales_def demo_helm_def demo_lib_def)
  show ?thesis
    using stop_start_replicas [of ?lib "\<lparr>rfReleaseName = ''web'', rfNamespace = ''dev''\<rparr>" id "demo_hrelease ''web''"
        "[demo_info]" "\<lambda>_. ''2''" "\<lambda>_. ''5''"] s n sc demo_found
    by (simp add: demo_helm_simps)
qed

end
