(* ===== verification/Controllers.thy ===== *)
theory Controllers
  imports KubeApi AgentSync
begin

text \<open>
  The controllers (\<^verbatim>\<open>pkg/controller\<close>): each is called with the name of an object that changed, reads
  it and reports to the platform.  The read is an argument, so that a theorem over all arguments
  is one over all states of the cluster and all orders of events.
\<close>

section \<open>Requests and results\<close>

record request =
  rqName :: string
  rqNamespace :: string

text \<open>An error as result puts the request back into the queue.\<close>

record rec_out =
  roResponses :: "packet list"
  roCommands :: "packet list"
  roErr :: "gerror option"

definition nothing :: rec_out where
  "nothing = \<lparr>roResponses = [], roCommands = [], roErr = None\<rparr>"

definition respond :: "packet list \<Rightarrow> rec_out" where
  "respond ps = \<lparr>roResponses = ps, roCommands = [], roErr = None\<rparr>"

definition requeue :: "api_err \<Rightarrow> rec_out" where
  "requeue e = \<lparr>roResponses = [], roCommands = [], roErr = Some (api_text e)\<rparr>"

lemmas rec_out_simps = nothing_def respond_def requeue_def

text \<open>\<^verbatim>\<open>controller.Args\<close>, as far as the controllers use it, and the JSON printer.\<close>

record 'o rec_args =
  raNamespaces :: namespaces
  raPlatformCode :: string
  raGlobals :: globals
  raMarshal :: "'o \<Rightarrow> string res"

definition annotation :: "'a k8s_obj_scheme \<Rightarrow> string \<Rightarrow> string" where
  "annotation o1 a = gm_get [] (koAnnotations o1) a"

definition olabel :: "'a k8s_obj_scheme \<Rightarrow> string \<Rightarrow> string" where
  "olabel o1 l = gm_get [] (koLabels o1) l"

text \<open>The packets: an error of the printer is logged and leaves the payload empty.\<close>

definition payload_of :: "'o rec_args \<Rightarrow> 'o \<Rightarrow> string" where
  "payload_of args o1 = (case raMarshal args o1 of Inl e \<Rightarrow> [] | Inr p \<Rightarrow> p)"

definition del_rep :: "string \<Rightarrow> request \<Rightarrow> packet" where
  "del_rep kind rq = mk_packet (''env:'' @ rqNamespace rq @ ''.'' @ kind @ '':'' @ rqName rq) ResourceDelete []"

definition repo_rep :: "'a k8s_obj_scheme rec_args \<Rightarrow> string \<Rightarrow> 'a k8s_obj_scheme \<Rightarrow> packet" where
  "repo_rep args kind o1 = mk_packet (''env:'' @ koNamespace o1 @ ''.'' @ kind @ '':'' @ koName o1)
     ResourceUpdate (payload_of args o1)"

definition release_rep :: "'a k8s_obj_scheme rec_args \<Rightarrow> string \<Rightarrow> 'a k8s_obj_scheme \<Rightarrow> packet" where
  "release_rep args kind o1 = mk_packet (''env:'' @ koNamespace o1 @ ''.release:'' @ olabel o1 ReleaseLabel
     @ ''.'' @ kind @ '':'' @ koName o1) ResourceUpdate (payload_of args o1)"

definition prometheus :: "'a k8s_obj_scheme \<Rightarrow> bool" where
  "prometheus o1 \<longleftrightarrow> contains (olabel o1 ''release'') ''prometheus-operator''"

type_synonym 'o reader = "api_err + 'o"

section \<open>Workloads\<close>

definition workload_reps :: "'a k8s_obj_scheme rec_args \<Rightarrow> string \<Rightarrow> 'a k8s_obj_scheme \<Rightarrow> rec_out" where
  "workload_reps args kind o1 =
     (if olabel o1 ReleaseLabel \<noteq> [] then respond [release_rep args kind o1]
      else if olabel o1 WorkloadLabel \<noteq> [] then respond [repo_rep args kind o1]
      else nothing)"

definition rec_Deployment :: "k8s_obj rec_args \<Rightarrow> request \<Rightarrow> k8s_obj reader \<Rightarrow> rec_out" where
  "rec_Deployment args rq got =
     (if \<not> ns_Contain (raNamespaces args) (rqNamespace rq) then nothing
      else (case got of
          Inl e \<Rightarrow> if IsNotFound e then respond [del_rep ''Deployment'' rq] else requeue e
        | Inr o1 \<Rightarrow> workload_reps args ''Deployment'' o1))"

definition rec_DaemonSet :: "k8s_obj rec_args \<Rightarrow> request \<Rightarrow> k8s_obj reader \<Rightarrow> rec_out" where
  "rec_DaemonSet args rq got = (case got of
       Inl e \<Rightarrow> if IsNotFound e then respond [del_rep ''DaemonSet'' rq] else requeue e
     | Inr o1 \<Rightarrow> if prometheus o1 then nothing else workload_reps args ''DaemonSet'' o1)"

definition rec_ReplicaSet :: "k8s_obj rec_args \<Rightarrow> request \<Rightarrow> k8s_obj reader \<Rightarrow> rec_out" where
  "rec_ReplicaSet args rq got = (case got of
       Inl e \<Rightarrow> if IsNotFound e then respond [del_rep ''ReplicaSet'' rq] else requeue e
     | Inr o1 \<Rightarrow> if olabel o1 ReleaseLabel \<noteq> [] then respond [release_rep args ''ReplicaSet'' o1] else nothing)"

definition rec_CronJob :: "k8s_obj rec_args \<Rightarrow> request \<Rightarrow> k8s_obj reader \<Rightarrow> rec_out" where
  "rec_CronJob args rq got = (case got of
       Inl e \<Rightarrow> if IsNotFound e then respond [del_rep ''CronJob'' rq] else requeue e
     | Inr o1 \<Rightarrow> if olabel o1 WorkloadLabel \<noteq> [] then respond [repo_rep args ''CronJob'' o1] else nothing)"

text \<open>
  The stateful sets of the monitoring leave their claims behind; the agent sends itself a command to
  delete them.  The key shows the labels as Go prints a map.
\<close>

definition deletePvcCmd :: "(string \<times> string \<Rightarrow> string res) \<Rightarrow> string \<Rightarrow> string \<Rightarrow> packet option" where
  "deletePvcCmd marshal ns app = (case marshal (ns, app) of
       Inl e \<Rightarrow> None
     | Inr bytes \<Rightarrow> Some (mk_packet (''env:'' @ ns @ ''.PersistentVolumeClaimLabels:map[app:'' @ app @ '']'')
         DeletePersistentVolumeClaimByLabels bytes))"

text \<open>A nil command is sent like any other; the worker ignores it.\<close>

definition monitoring_cmds :: "(string \<times> string \<Rightarrow> string res) \<Rightarrow> request \<Rightarrow> packet list" where
  "monitoring_cmds marshal rq =
     (let cmd = (\<lambda>app. case deletePvcCmd marshal (rqNamespace rq) app of Some p \<Rightarrow> [p] | None \<Rightarrow> []) in
      if \<not> contains (rqName rq) ''c7n-prometheus'' then []
      else if rqName rq = ''prometheus-c7n-prometheus-prometheus'' then cmd ''prometheus''
      else if rqName rq = ''alertmanager-c7n-prometheus-alertmanager'' then cmd ''alertmanager''
      else [])"

definition rec_StatefulSet :: "(string \<times> string \<Rightarrow> string res) \<Rightarrow> k8s_obj rec_args \<Rightarrow> request \<Rightarrow> k8s_obj reader \<Rightarrow> rec_out" where
  "rec_StatefulSet marshal args rq got = (case got of
       Inl e \<Rightarrow> if IsNotFound e
         then (respond [del_rep ''StatefulSet'' rq])\<lparr>roCommands := monitoring_cmds marshal rq\<rparr> else requeue e
     | Inr o1 \<Rightarrow> if prometheus o1 then nothing else workload_reps args ''StatefulSet'' o1)"

section \<open>Pods\<close>

definition newTestPodRep :: "k8s_obj rec_args \<Rightarrow> k8s_obj \<Rightarrow> packet" where
  "newTestPodRep args o1 = mk_packet (''env:'' @ koNamespace o1 @ ''.release:'' @ olabel o1 ReleaseLabel
     @ ''.Pod:'' @ koName o1 @ ''.label:'' @ olabel o1 TestLabel) TestPodUpdate (payload_of args o1)"

definition rec_Pod :: "k8s_obj rec_args \<Rightarrow> request \<Rightarrow> k8s_obj reader \<Rightarrow> rec_out" where
  "rec_Pod args rq got = (case got of
       Inl e \<Rightarrow> if IsNotFound e then respond [del_rep ''Pod'' rq] else requeue e
     | Inr o1 \<Rightarrow>
        if olabel o1 ReleaseLabel \<noteq> [] \<and> olabel o1 TestLabel = [] then respond [release_rep args ''Pod'' o1]
        else if olabel o1 TestLabel = raPlatformCode args \<and> olabel o1 TestLabel \<noteq> [] then respond [newTestPodRep args o1]
        else if olabel o1 ParentWorkloadLabel \<noteq> [] then respond [repo_rep args ''Pod'' o1]
        else nothing)"

section \<open>Network and storage\<close>

definition rec_Ingress :: "k8s_obj rec_args \<Rightarrow> request \<Rightarrow> k8s_obj reader \<Rightarrow> rec_out" where
  "rec_Ingress args rq got =
     (if \<not> ns_Contain (raNamespaces args) (rqNamespace rq) then nothing
      else (case got of
          Inl e \<Rightarrow> if IsNotFound e then respond [del_rep ''Ingress'' rq] else requeue e
        | Inr o1 \<Rightarrow> if prometheus o1 then nothing
            else if olabel o1 NetworkLabel \<noteq> [] then respond [repo_rep args ''Ingress'' o1] else nothing))"

definition rec_PersistentVolume :: "k8s_obj rec_args \<Rightarrow> request \<Rightarrow> k8s_obj reader \<Rightarrow> rec_out" where
  "rec_PersistentVolume args rq got = (case got of
       Inl e \<Rightarrow> if IsNotFound e then respond [del_rep ''PersistentVolume'' rq] else requeue e
     | Inr o1 \<Rightarrow>
        if olabel o1 AgentVersionLabel \<noteq> [] \<and> olabel o1 PvLabel = ''pv-cluster-'' @ glClusterId (raGlobals args)
        then respond [mk_packet (''env:.PersistentVolume:'' @ koName o1) ResourceUpdate (payload_of args o1)]
        else nothing)"

definition rec_PersistentVolumeClaim :: "k8s_obj rec_args \<Rightarrow> request \<Rightarrow> k8s_obj reader \<Rightarrow> rec_out" where
  "rec_PersistentVolumeClaim args rq got = (case got of
       Inl e \<Rightarrow> if IsNotFound e then respond [del_rep ''PersistentVolumeClaim'' rq] else requeue e
     | Inr o1 \<Rightarrow> if olabel o1 AgentVersionLabel \<noteq> []
        then respond [repo_rep args ''PersistentVolumeClaim'' o1] else nothing)"

definition rec_Endpoints :: "request \<Rightarrow> k8s_obj reader \<Rightarrow> rec_out" where
  "rec_Endpoints rq got = (case got of
       Inl e \<Rightarrow> if IsNotFound e then nothing else requeue e
     | Inr o1 \<Rightarrow> nothing)"

definition rec_Namespace :: "globals \<Rightarrow> (string list \<Rightarrow> string res) \<Rightarrow> api_err + k8s_obj list \<Rightarrow> rec_out" where
  "rec_Namespace gl marshal got = (case got of
       Inl e \<Rightarrow> requeue e
     | Inr nss \<Rightarrow> respond [NamespacePacket gl marshal nss])"

section \<open>Configuration\<close>

text \<open>
  The object that a failed read leaves behind is empty.  The annotation is looked up in it before the
  error is looked at.
\<close>

definition no_obj :: k8s_obj where
  "no_obj = \<lparr>koName = [], koNamespace = [], koLabels = [], koAnnotations = [], koBody = []\<rparr>"

definition read_obj :: "k8s_obj reader \<Rightarrow> k8s_obj" where
  "read_obj got = (case got of Inl e \<Rightarrow> no_obj | Inr o1 \<Rightarrow> o1)"

definition rec_ConfigMap :: "k8s_obj rec_args \<Rightarrow> request \<Rightarrow> k8s_obj reader \<Rightarrow> rec_out" where
  "rec_ConfigMap args rq got =
     (if \<not> ns_Contain (raNamespaces args) (rqNamespace rq) then nothing
      else if \<not> gm_has (koAnnotations (read_obj got)) CommitLabel then nothing
      else (case got of
          Inl e \<Rightarrow> if IsNotFound e then respond [del_rep ''ConfigMap'' rq] else requeue e
        | Inr o1 \<Rightarrow>
            if prometheus o1 then nothing
            else if olabel o1 ReleaseLabel \<noteq> [] then respond [release_rep args ''ConfigMap'' o1]
            else if annotation o1 MicroServiceConfig \<noteq> [] then
              respond [mk_packet (pkKey (repo_rep args ''ConfigMap'' o1)) ConfigUpdate (payload_of args o1)]
            else if olabel o1 AgentVersionLabel \<noteq> [] then respond [repo_rep args ''ConfigMap'' o1]
            else nothing))"

text \<open>A secret carries its type; an issued certificate is reported with its commit.\<close>

definition tls_type :: string where "tls_type = ''kubernetes.io/tls''"

definition no_secret :: secret where
  "no_secret = \<lparr>koName = [], koNamespace = [], koLabels = [], koAnnotations = [], koBody = [],
     scType = [], scData = []\<rparr>"

definition newCertIssuedRep :: "secret rec_args \<Rightarrow> secret \<Rightarrow> packet option" where
  "newCertIssuedRep args s = (case raMarshal args s of
       Inl e \<Rightarrow> None
     | Inr p \<Rightarrow> Some (mk_packet (''env:'' @ koNamespace s @ ''.Cert:'' @ koName s @ ''.commit:''
         @ annotation s CommitLabel) Cert_Issued p))"

definition rec_Secret :: "secret rec_args \<Rightarrow> request \<Rightarrow> secret reader \<Rightarrow> rec_out" where
  "rec_Secret args rq got =
     (let inst = (case got of Inl e \<Rightarrow> no_secret | Inr s \<Rightarrow> s) in
      if \<not> gm_has (koAnnotations inst) CommitLabel \<and> scType inst \<noteq> tls_type then nothing
      else (case got of
          Inl e \<Rightarrow> if IsNotFound e then respond [del_rep ''Secret'' rq] else requeue e
        | Inr s \<Rightarrow>
            if prometheus s then nothing
            else if olabel s ReleaseLabel \<noteq> [] then respond [release_rep args ''Secret'' s]
            else if scType s = tls_type then
              (case newCertIssuedRep args s of Some p \<Rightarrow> respond [p] | None \<Rightarrow> nothing)
            else if olabel s AgentVersionLabel \<noteq> [] then respond [repo_rep args ''Secret'' s]
            else nothing))"

section \<open>Jobs\<close>

record job_condition =
  jcType :: string
  jcStatus :: string

record job_obj = k8s_obj +
  joConditions :: "job_condition list"

text \<open>The first condition that is true and final.\<close>

fun IsJobFinished :: "job_condition list \<Rightarrow> bool \<times> bool" where
  "IsJobFinished [] = (False, False)"
| "IsJobFinished (c # cs) =
     (if jcStatus c = ''True'' \<and> jcType c = ''Complete'' then (True, True)
      else if jcStatus c = ''True'' \<and> jcType c = ''Failed'' then (True, False)
      else IsJobFinished cs)"

text \<open>A log that is too long loses its beginning; \<^verbatim>\<open>MaxJobLogLength\<close> is an argument of the program.\<close>

definition cut_log :: "nat \<Rightarrow> string \<Rightarrow> string" where
  "cut_log mx log = (if length log > mx then drop (length log - mx) log else log)"

definition newJobLogRep :: "string \<Rightarrow> string \<Rightarrow> string \<Rightarrow> string \<Rightarrow> packet" where
  "newJobLogRep name release jobLogs ns =
     mk_packet (''env:'' @ ns @ ''.release:'' @ release @ ''.Job:'' @ name) HelmJobLog jobLogs"

definition job_log_reps :: "nat \<Rightarrow> 'w kube_api \<Rightarrow> request \<Rightarrow> job_obj \<Rightarrow> 'w \<Rightarrow> packet list" where
  "job_log_reps mx api rq jb w = (case kc_LogsForJob api (rqNamespace rq) (koName jb) ReleaseLabel w of
     (jobLogs, _, err) \<Rightarrow>
       if err \<noteq> None \<or> trim_space jobLogs = [] then []
       else [newJobLogRep (koName jb) (olabel jb ReleaseLabel) (cut_log mx jobLogs) (rqNamespace rq)])"

definition rec_Job :: "nat \<Rightarrow> 'w kube_api \<Rightarrow> job_obj rec_args \<Rightarrow> request \<Rightarrow> job_obj reader \<Rightarrow> 'w \<Rightarrow> rec_out \<times> 'w" where
  "rec_Job mx api args rq got w = (case got of
       Inl e \<Rightarrow> (if IsNotFound e then respond [del_rep ''Job'' rq] else requeue e, w)
     | Inr jb \<Rightarrow>
        if olabel jb ReleaseLabel \<noteq> [] \<and> olabel jb TestLabel = [] then
          (if fst (IsJobFinished (joConditions jb)) then
             (respond (release_rep args ''Job'' jb # job_log_reps mx api rq jb w),
              snd (kc_DeleteJob api (rqNamespace rq) (koName jb) w))
           else (respond [release_rep args ''Job'' jb], w))
        else if olabel jb TestLabel \<noteq> [] \<and> olabel jb TestLabel = raPlatformCode args then (nothing, w)
        else if olabel jb WorkloadLabel \<noteq> [] then (respond [repo_rep args ''Job'' jb], w)
        else (nothing, w))"

section \<open>Events\<close>

record event_obj = k8s_obj +
  evKind :: string
  evInvolvedNamespace :: string
  evInvolvedName :: string
  evReason :: string
  evMessage :: string

text \<open>What is printed: the event with the commit of the object it is about.\<close>

type_synonym event_info = "event_obj \<times> string"

definition event_rep :: "event_info rec_args \<Rightarrow> string \<Rightarrow> string \<Rightarrow> string \<Rightarrow> event_obj \<Rightarrow> k8s_obj \<Rightarrow> packet" where
  "event_rep args middle at_end t ev o1 =
     mk_packet (''env:'' @ koNamespace ev @ middle @ at_end) t (payload_of args (ev, olabel o1 CommitLabel))"

definition pod_event :: "event_info rec_args \<Rightarrow> event_obj \<Rightarrow> k8s_obj \<Rightarrow> packet" where
  "pod_event args ev o1 =
     (let release = olabel o1 ReleaseLabel; test = olabel o1 TestLabel; at_event = ''.Event:'' @ koName ev in
      if release \<noteq> [] \<and> test = [] then event_rep args (''.release:'' @ release) at_event HelmPodEvent ev o1
      else if test \<noteq> [] \<and> test = raPlatformCode args
        then event_rep args (''.release:'' @ release) (''.label:'' @ test) TestPodEvent ev o1
      else if olabel o1 ParentWorkloadLabel \<noteq> [] \<and> olabel o1 ParentWorkloadNameLabel \<noteq> []
        then event_rep args (''.workload:'' @ olabel o1 ParentWorkloadNameLabel) at_event WorkloadPodEvent ev o1
      else event_rep args [] at_event HelmJobEvent ev o1)"

text \<open>The commit is taken out of the message of a certificate by position.\<close>

definition newCertFailed :: "event_obj \<Rightarrow> packet" where
  "newCertFailed ev = mk_packet (''env:'' @ koNamespace ev @ ''.Cert:'' @ evInvolvedName ev @ ''.commit:''
     @ take 40 (drop 1 (evMessage ev))) Cert_Faild (drop 42 (evMessage ev))"

definition rec_Event :: "(string \<Rightarrow> string \<Rightarrow> string \<Rightarrow> k8s_obj reader) \<Rightarrow> event_info rec_args \<Rightarrow> request
    \<Rightarrow> event_obj reader \<Rightarrow> rec_out" where
  "rec_Event involved args rq got =
     (if \<not> ns_Contain (raNamespaces args) (rqNamespace rq) then nothing
      else (case got of
          Inl e \<Rightarrow> if IsNotFound e then nothing else requeue e
        | Inr ev \<Rightarrow>
            if evKind ev = ''Job'' then
              (case involved ''Job'' (evInvolvedNamespace ev) (evInvolvedName ev) of
                 Inl e \<Rightarrow> if IsNotFound e then nothing else requeue e
               | Inr jb \<Rightarrow> if olabel jb TestLabel = []
                   then respond [event_rep args [] (''.Event:'' @ koName ev) HelmJobEvent ev jb] else nothing)
            else if evKind ev = ''Pod'' then
              (case involved ''Pod'' (evInvolvedNamespace ev) (evInvolvedName ev) of
                 Inl e \<Rightarrow> if IsNotFound e then nothing else requeue e
               | Inr pd \<Rightarrow> respond [pod_event args ev pd])
            else if evKind ev = ''Certificate'' \<and> contains (evReason ev) ''Err'' \<and> length (evMessage ev) > 43
              then respond [newCertFailed ev]
            else nothing))"

section \<open>The contract of a controller\<close>

text \<open>
  A queue of requests with what each read gave.  Requests whose controller fails go back.
\<close>

definition put_back :: "(request \<Rightarrow> 'o reader \<Rightarrow> rec_out) \<Rightarrow> (request \<times> 'o reader) list \<Rightarrow> request list" where
  "put_back run queue = map fst (filter (\<lambda>(rq, got). roErr (run rq got) \<noteq> None) queue)"

definition sent :: "(request \<Rightarrow> 'o reader \<Rightarrow> rec_out) \<Rightarrow> (request \<times> 'o reader) list \<Rightarrow> packet list" where
  "sent run queue = concat (map (\<lambda>(rq, got). roResponses (run rq got)) queue)"

definition read_gone :: "'o reader \<Rightarrow> bool" where
  "read_gone got \<longleftrightarrow> (case got of Inl e \<Rightarrow> IsNotFound e | Inr _ \<Rightarrow> False)"

definition read_failed :: "'o reader \<Rightarrow> bool" where
  "read_failed got \<longleftrightarrow> (case got of Inl e \<Rightarrow> \<not> IsNotFound e | Inr _ \<Rightarrow> False)"

locale reconciler =
  fixes run :: "request \<Rightarrow> 'o reader \<Rightarrow> rec_out"
    and watched :: "request \<Rightarrow> bool"
    and gone :: "request \<Rightarrow> packet"
  assumes unwatched: "\<not> watched rq \<Longrightarrow> run rq got = nothing"
    and deleted: "watched rq \<Longrightarrow> IsNotFound e \<Longrightarrow> roResponses (run rq (Inl e)) = [gone rq] \<and> roErr (run rq (Inl e)) = None"
    and failed: "watched rq \<Longrightarrow> \<not> IsNotFound e \<Longrightarrow> run rq (Inl e) = requeue e"
    and found: "roErr (run rq (Inr o1)) = None"
begin

lemma put_back_failed: "put_back run queue = map fst (filter (\<lambda>(rq, got). watched rq \<and> read_failed got) queue)"
proof -
  have "roErr (run rq got) \<noteq> None \<longleftrightarrow> watched rq \<and> read_failed got" for rq got
  proof (cases got)
    case (Inl e)
    then show ?thesis using unwatched [of rq got] deleted [of rq e] failed [of rq e]
      by (cases "watched rq"; cases "IsNotFound e") (auto simp: read_failed_def rec_out_simps)
  next
    case (Inr o1)
    then show ?thesis using found [of rq o1] by (simp add: read_failed_def)
  qed
  then show ?thesis by (simp add: put_back_def)
qed

lemma deletions_sent: "map gone (map fst (filter (\<lambda>(rq, got). watched rq \<and> read_gone got) queue))
    = sent run (filter (\<lambda>(rq, got). \<not> watched rq \<or> isl got) queue)"
proof (induction queue)
  case (Cons x queue)
  obtain rq got where x: "x = (rq, got)" by (cases x)
  show ?case
  proof (cases got)
    case (Inl e)
    then show ?thesis using Cons x unwatched [of rq got] deleted [of rq e] failed [of rq e]
      by (cases "watched rq"; cases "IsNotFound e") (auto simp: sent_def read_gone_def rec_out_simps)
  next
    case (Inr o1)
    then show ?thesis using Cons x unwatched [of rq got]
      by (cases "watched rq") (auto simp: sent_def read_gone_def rec_out_simps)
  qed
qed (simp add: sent_def)

end

lemmas controller_simps = rec_out_simps IsNotFound_def workload_reps_def Let_def

definition in_watched :: "'o rec_args \<Rightarrow> request \<Rightarrow> bool" where
  "in_watched args rq = ns_Contain (raNamespaces args) (rqNamespace rq)"

interpretation deployment: reconciler "rec_Deployment args" "in_watched args" "del_rep ''Deployment''" for args
  by unfold_locales (auto simp: rec_Deployment_def in_watched_def controller_simps)

interpretation ingress: reconciler "rec_Ingress args" "in_watched args" "del_rep ''Ingress''" for args
  by unfold_locales (auto simp: rec_Ingress_def in_watched_def controller_simps)

interpretation daemonset: reconciler "rec_DaemonSet args" "\<lambda>_. True" "del_rep ''DaemonSet''" for args
  by unfold_locales (auto simp: rec_DaemonSet_def controller_simps)

interpretation replicaset: reconciler "rec_ReplicaSet args" "\<lambda>_. True" "del_rep ''ReplicaSet''" for args
  by unfold_locales (auto simp: rec_ReplicaSet_def controller_simps)

interpretation cronjob: reconciler "rec_CronJob args" "\<lambda>_. True" "del_rep ''CronJob''" for args
  by unfold_locales (auto simp: rec_CronJob_def controller_simps)

interpretation statefulset: reconciler "rec_StatefulSet marshal args" "\<lambda>_. True" "del_rep ''StatefulSet''"
  for marshal args
  by unfold_locales (auto simp: rec_StatefulSet_def controller_simps)

interpretation pod: reconciler "rec_Pod args" "\<lambda>_. True" "del_rep ''Pod''" for args
  by unfold_locales (auto simp: rec_Pod_def controller_simps)

interpretation volume: reconciler "rec_PersistentVolume args" "\<lambda>_. True" "del_rep ''PersistentVolume''" for args
  by unfold_locales (auto simp: rec_PersistentVolume_def controller_simps)

interpretation claim: reconciler "rec_PersistentVolumeClaim args" "\<lambda>_. True" "del_rep ''PersistentVolumeClaim''"
  for args
  by unfold_locales (auto simp: rec_PersistentVolumeClaim_def controller_simps)

interpretation job: reconciler "\<lambda>rq got. fst (rec_Job mx api args rq got w)" "\<lambda>_. True" "del_rep ''Job''"
  for mx api args w
  by unfold_locales (auto simp: rec_Job_def controller_simps)

section \<open>Properties\<close>

text \<open>The controllers of plain objects, in the order in which they are added to a manager.\<close>

definition object_controllers :: "(string \<times> string \<Rightarrow> string res) \<Rightarrow> k8s_obj rec_args
    \<Rightarrow> (string \<times> (request \<Rightarrow> k8s_obj reader \<Rightarrow> rec_out)) list" where
  "object_controllers marshal args =
     [(''CronJob'', rec_CronJob args), (''DaemonSet'', rec_DaemonSet args), (''Deployment'', rec_Deployment args),
      (''Ingress'', rec_Ingress args), (''PersistentVolume'', rec_PersistentVolume args),
      (''PersistentVolumeClaim'', rec_PersistentVolumeClaim args), (''Pod'', rec_Pod args),
      (''ReplicaSet'', rec_ReplicaSet args), (''StatefulSet'', rec_StatefulSet marshal args)]"

definition kind_watched :: "string \<Rightarrow> 'o rec_args \<Rightarrow> request \<Rightarrow> bool" where
  "kind_watched kind args rq \<longleftrightarrow> kind \<notin> {''Deployment'', ''Ingress''} \<or> in_watched args rq"

lemma kind_watched_abs: "kind_watched kind args = (if kind \<in> {''Deployment'', ''Ingress''} then in_watched args else (\<lambda>_. True))"
  by (auto simp: kind_watched_def fun_eq_iff)

lemma controllers_contract:
  assumes "(kind, run) \<in> set (object_controllers marshal args)"
  shows "reconciler run (kind_watched kind args) (del_rep kind)"
  using assms unfolding object_controllers_def list.set insert_iff prod.inject empty_iff
  by (elim disjE conjE; simp add: kind_watched_abs deployment.reconciler_axioms ingress.reconciler_axioms
      daemonset.reconciler_axioms replicaset.reconciler_axioms cronjob.reconciler_axioms
      statefulset.reconciler_axioms pod.reconciler_axioms volume.reconciler_axioms claim.reconciler_axioms)


definition demo_args :: "k8s_obj rec_args" where
  "demo_args = \<lparr>raNamespaces = [(''dev'', True)], raPlatformCode = ''code'', raGlobals = demo_globals_k,
     raMarshal = (\<lambda>o1. Inr (koBody o1))\<rparr>"


text \<open>
  The controllers of configuration do not keep that contract: they look for an annotation in the object
  before they look at the error of the read, so that the deletion of a config map or a secret is never
  reported, and no failed read puts the request back.
\<close>

theorem config_deletions_lost:
  "sent (rec_ConfigMap args) (map (\<lambda>(rq, e). (rq, Inl e)) queue) = []
   \<and> put_back (rec_ConfigMap args) (map (\<lambda>(rq, e). (rq, Inl e)) queue) = []
   \<and> sent (rec_Secret args') (map (\<lambda>(rq, e). (rq, Inl e)) queue) = []
   \<and> put_back (rec_Secret args') (map (\<lambda>(rq, e). (rq, Inl e)) queue) = []"
proof -
  have "rec_ConfigMap args rq (Inl e) = nothing" "rec_Secret args' rq (Inl e) = nothing" for rq e
    by (simp_all add: rec_ConfigMap_def rec_Secret_def read_obj_def no_obj_def no_secret_def tls_type_def gm_has_def)
  then show ?thesis by (induction queue) (auto simp: sent_def put_back_def nothing_def)
qed

lemma env_packet:
  assumes "CHR ''.'' \<notin> set ns" "CHR '':'' \<notin> set ns"
  shows "packet_Namespace (mk_packet (CHR ''e'' # CHR ''n'' # CHR ''v'' # CHR '':'' # ns @ CHR ''.'' # rest) t p) = Ret ns"
  using namespace_env_key(1) [OF assms, of rest t p] by simp

text \<open>
  The platform finds the namespace of every report again: of what any of the nine controllers sends about
  an object in a namespace, the key names exactly this namespace, or none for a volume of the cluster.
\<close>

theorem reports_name_namespace:
  assumes "(kind, run) \<in> set (object_controllers marshal args)"
    and "CHR ''.'' \<notin> set (rqNamespace rq)" "CHR '':'' \<notin> set (rqNamespace rq)"
    and "koNamespace ` (case got of Inl e \<Rightarrow> {} | Inr o1 \<Rightarrow> {o1}) \<subseteq> {rqNamespace rq}"
  shows "packet_Namespace ` set (roResponses (run rq got)) \<subseteq> {Ret (rqNamespace rq), Ret []}"
proof -
  note simps = rec_out_simps del_rep_def repo_rep_def release_rep_def newTestPodRep_def workload_reps_def
    env_packet [OF assms(2,3)]
  have pv: "packet_Namespace (mk_packet (CHR ''e'' # CHR ''n'' # CHR ''v'' # CHR '':'' # CHR ''.'' # n) t p) = Ret []"
    for n t p using env_packet [of "[]" n] by simp
  show ?thesis
    using assms(1,4) unfolding object_controllers_def
    by (auto simp: rec_Pod_def rec_Deployment_def rec_Ingress_def rec_DaemonSet_def rec_ReplicaSet_def
        rec_CronJob_def rec_StatefulSet_def rec_PersistentVolume_def rec_PersistentVolumeClaim_def simps pv
        split: sum.split_asm if_split_asm)
qed

text \<open>
  The log of a finished job is sent as its end, never longer than the limit, and only if it has other
  characters than blanks; the job is deleted exactly when it is finished, whatever became of the log.
\<close>

theorem job_log_bounded:
  "pkPayload ` set (job_log_reps mx api rq jb w) \<subseteq>
     {l. length l \<le> mx \<and> (\<exists>us. us @ l = fst (kc_LogsForJob api (rqNamespace rq) (koName jb) ReleaseLabel w))
       \<and> trim_space (fst (kc_LogsForJob api (rqNamespace rq) (koName jb) ReleaseLabel w)) \<noteq> []}
   \<and> snd (rec_Job mx api args rq (Inr jb) w) =
     (if olabel jb ReleaseLabel \<noteq> [] \<and> olabel jb TestLabel = [] \<and> fst (IsJobFinished (joConditions jb))
      then snd (kc_DeleteJob api (rqNamespace rq) (koName jb) w) else w)"
proof
  obtain log st err where l: "kc_LogsForJob api (rqNamespace rq) (koName jb) ReleaseLabel w = (log, st, err)"
    by (rule prod_cases3)
  have "length (cut_log mx log) \<le> mx" "\<exists>us. us @ cut_log mx log = log"
    by (auto simp: cut_log_def intro: append_take_drop_id)
  then show "pkPayload ` set (job_log_reps mx api rq jb w) \<subseteq>
     {l. length l \<le> mx \<and> (\<exists>us. us @ l = fst (kc_LogsForJob api (rqNamespace rq) (koName jb) ReleaseLabel w))
       \<and> trim_space (fst (kc_LogsForJob api (rqNamespace rq) (koName jb) ReleaseLabel w)) \<noteq> []}"
    by (simp add: job_log_reps_def newJobLogRep_def l)
qed (simp add: rec_Job_def)

lemma reports_name_namespace_witness:
  "packet_Namespace ` set (roResponses (rec_Pod demo_args \<lparr>rqName = ''web'', rqNamespace = ''dev''\<rparr>
      (Inl (NotFoundErr ''gone'')))) \<subseteq> {Ret ''dev'', Ret []}"
  using reports_name_namespace [of "''Pod''" "rec_Pod demo_args" "\<lambda>_. Inl []" demo_args
      "\<lparr>rqName = ''web'', rqNamespace = ''dev''\<rparr>" "Inl (NotFoundErr ''gone'')"]
  by (simp add: object_controllers_def)

end
