(* ===== verification/HelmCmd.thy ===== *)
theory HelmCmd
  imports Helm Controllers AgentCmd
begin

text \<open>
  The commands on Helm releases (\<^verbatim>\<open>pkg/command/helm\<close>), the controller of the resources that ask for
  them (\<^verbatim>\<open>pkg/controller/c7nhelmrelease\<close>) and the worker that runs commands
  (\<^verbatim>\<open>pkg/agent/worker.go\<close>).
\<close>

section \<open>Types of commands\<close>

definition HelmCrossUpgradeJobInfo :: string where "HelmCrossUpgradeJobInfo = ''helm_cross_upgrade_job_info''"
definition HelmReleaseCrossUpgradeFailed :: string where
  "HelmReleaseCrossUpgradeFailed = ''helm_release_cross_upgrade_failed''"

section \<open>What the handlers use\<close>

record chart_account =
  caRepoUrl :: string
  caUsername :: string
  caPassword :: string

type_synonym accounts = "(string, chart_account) gomap"

record sync_request =
  srResourceType :: string
  srResourceName :: string
  srCommit :: string
  srId :: int
  srNamespace :: string
  srResourceStatus :: string

text \<open>
  The JSON reader and printer, the URL parser and the caches of the managers are arguments.  A struct
  that is read keeps what was filled in before an error.
\<close>

record 'w helm_env =
  heLib :: "'w helm_lib"
  heInstall :: "string \<Rightarrow> install_request \<times> gerror option"
  heUpgrade :: "string \<Rightarrow> upgrade_request \<times> gerror option"
  heRef :: "string \<Rightarrow> release_ref res"
  heAccount :: "string \<Rightarrow> chart_account res"
  heAccounts :: "string \<Rightarrow> accounts option res"
  heSyncRequests :: "string \<Rightarrow> sync_request list res"
  heJson :: "string \<Rightarrow> jmap res"
  heParseUrl :: "string \<Rightarrow> (string \<times> string) res"
  heMarshalInstall :: "install_request \<Rightarrow> string res"
  heMarshalUpgrade :: "upgrade_request \<Rightarrow> string res"
  heMarshalRef :: "release_ref \<Rightarrow> string res"
  heMarshalRelease :: "release_info option \<Rightarrow> string res"
  heMarshalHooks :: "release_hook list \<Rightarrow> string res"
  heMarshalUninstalled :: "uninstalled option \<Rightarrow> string res"
  heMarshalName :: "string \<Rightarrow> string res"
  heMarshalCert :: "cert_status \<Rightarrow> string res"
  heMarshalAccounts :: "accounts \<Rightarrow> string res"
  heMarshalSecret :: "secret \<Rightarrow> string res"
  heMarshalSyncs :: "sync_request list \<Rightarrow> string res"
  heSetCertVersion :: "string \<Rightarrow> 'w \<Rightarrow> 'w"
  heMgrGet :: "string \<Rightarrow> (string \<Rightarrow> 'w \<Rightarrow> api_err + release) option"
  heCrd :: "'w \<Rightarrow> api_err option"
  heGid :: string

text \<open>The commands sent to the worker itself, and the response.\<close>

type_synonym helm_out = "packet list \<times> packet option"
type_synonym 'w helm_handler = "'w helm_env \<Rightarrow> packet \<Rightarrow> 'w \<Rightarrow> (helm_out \<times> 'w) go"

abbreviation he_api :: "'w helm_env \<Rightarrow> 'w kube_api" where "he_api env \<equiv> hlApi (heLib env)"
abbreviation he_globals :: "'w helm_env \<Rightarrow> globals" where "he_globals env \<equiv> hlGlobals (heLib env)"

text \<open>The packet of \<^verbatim>\<open>NewResponseErrorWithCommit\<close> for an error that is not nil.\<close>

definition error_packet :: "string \<Rightarrow> string \<Rightarrow> string \<Rightarrow> gerror \<Rightarrow> packet" where
  "error_packet key commit cmdType err = mk_packet (key @ ''.commit:'' @ commit) cmdType err"

lemma error_packet: "NewResponseErrorWithCommit key commit cmdType (Some err) = Ret (error_packet key commit cmdType err)"
  by (simp add: error_packet_def)

definition failed :: "packet \<Rightarrow> string \<Rightarrow> gerror \<Rightarrow> helm_out" where
  "failed cmd commit err = ([], Some (error_packet (pkKey cmd) commit HelmReleaseInstallFailed err))"

definition refused :: "packet \<Rightarrow> string \<Rightarrow> gerror \<Rightarrow> helm_out" where
  "refused cmd cmdType err = ([], Some (mk_packet (pkKey cmd) cmdType err))"

text \<open>The payload of an answer, or the error of its printer.\<close>

definition printed :: "packet \<Rightarrow> string \<Rightarrow> (gerror \<Rightarrow> helm_out) \<Rightarrow> string res \<Rightarrow> helm_out" where
  "printed cmd cmdType fail_with r = (case r of
     Inl e \<Rightarrow> fail_with e | Inr p \<Rightarrow> ([], Some (mk_packet (pkKey cmd) cmdType p)))"

definition namespace_or :: "packet \<Rightarrow> string \<Rightarrow> string go" where
  "namespace_or cmd ns = (if ns = [] then packet_Namespace cmd else Ret ns)"

section \<open>Accounts of chart repositories\<close>

definition SecretName :: string where "SecretName = ''chart-authentication''"

definition account_of :: "accounts option \<Rightarrow> string \<Rightarrow> string \<times> string" where
  "account_of m repoHost = (case map_of (case m of None \<Rightarrow> [] | Some m' \<Rightarrow> m') repoHost of
     None \<Rightarrow> ([], []) | Some c \<Rightarrow> (caUsername c, caPassword c))"

definition GetCharUsernameAndPassword :: "'w helm_env \<Rightarrow> packet \<Rightarrow> 'w \<Rightarrow> (string \<times> string) res go" where
  "GetCharUsernameAndPassword env cmd w = (case heJson env (pkPayload cmd) of
     Inl e \<Rightarrow> Ret (Inl e)
   | Inr payload \<Rightarrow> (case map_of payload ''repoUrl'' of
       None \<Rightarrow> Ret (Inr ([], []))
     | Some JNull \<Rightarrow> Ret (Inr ([], []))
     | Some (JStr repoUrl) \<Rightarrow> Ret (case heParseUrl env repoUrl of
         Inl e \<Rightarrow> Inl e
       | Inr (scheme, host) \<Rightarrow>
          (case kaGetSecret (he_api env) (glAgentNamespace (he_globals env)) SecretName w of
             Inl e \<Rightarrow> if err_IsNotFound (api_text e) then Inr ([], []) else Inl (api_text e)
           | Inr s \<Rightarrow> (case heAccounts env (gm_get [] (scData s) ''info'') of
               Inl e \<Rightarrow> Inl e
             | Inr m \<Rightarrow> Inr (account_of m (trim_suffix (scheme @ ''://'' @ host) ''/'')))))
     | Some _ \<Rightarrow> Panic))"

text \<open>An account is written into the map that is stored; a stored \<^verbatim>\<open>null\<close> is a nil map and panics.\<close>

definition makeChartAccountJsonContent :: "'w helm_env \<Rightarrow> string \<Rightarrow> chart_account \<Rightarrow> string res go" where
  "makeChartAccountJsonContent env info account =
     (let put = (\<lambda>m. Ret (heMarshalAccounts env (AList.update (caRepoUrl account) account m))) in
      if info = [] then put []
      else (case heAccounts env info of
          Inl e \<Rightarrow> Ret (Inl e) | Inr None \<Rightarrow> Panic | Inr (Some m) \<Rightarrow> put m))"

text \<open>
  The account is added to the secret.  Where the secret exists, neither the error of the printer nor that
  of the update is looked at.
\<close>

definition update_account :: "'w helm_env \<Rightarrow> packet \<Rightarrow> chart_account \<Rightarrow> secret \<Rightarrow> 'w \<Rightarrow> (helm_out \<times> 'w) go" where
  "update_account env cmd account s w =
     go_bind (makeChartAccountJsonContent env (gm_get [] (scData s) ''info'') account) (\<lambda>content.
       if scData s = [] then Panic
       else (let s1 = s\<lparr>scData := AList.update ''info'' (case content of Inl e \<Rightarrow> [] | Inr c \<Rightarrow> c) (scData s)\<rparr>;
                 r = kaUpdateSecret (he_api env) (glAgentNamespace (he_globals env)) s1 w;
                 s2 = (case fst r of Inl e \<Rightarrow> no_secret | Inr s' \<Rightarrow> s')
             in Ret (printed cmd OperateDockerRegistrySecret (refused cmd ChartMuseumAuthenticationFailed)
                  (heMarshalSecret env s2), snd r)))"

definition create_account :: "'w helm_env \<Rightarrow> packet \<Rightarrow> chart_account \<Rightarrow> 'w \<Rightarrow> (helm_out \<times> 'w) go" where
  "create_account env cmd account w =
     go_map (\<lambda>content. case content of
         Inl e \<Rightarrow> (refused cmd ChartMuseumAuthenticationFailed e, w)
       | Inr c \<Rightarrow>
          (let r = kaCreateSecret (he_api env) (glAgentNamespace (he_globals env))
                 (no_secret\<lparr>koName := SecretName, scData := [(''info'', c)]\<rparr>) w
           in (case fst r of
                 Inl e \<Rightarrow> refused cmd ChartMuseumAuthenticationFailed (api_text e)
               | Inr s \<Rightarrow> printed cmd OperateDockerRegistrySecret (refused cmd OperateDockerRegistrySecretFailed)
                   (heMarshalSecret env s), snd r)))
       (makeChartAccountJsonContent env [] account)"

definition cmd_AddHelmAccount :: "'w helm_handler" where
  "cmd_AddHelmAccount env cmd w = (case heAccount env (pkPayload cmd) of
     Inl e \<Rightarrow> Ret (refused cmd ChartMuseumAuthenticationFailed e, w)
   | Inr a \<Rightarrow>
      (let account = a\<lparr>caRepoUrl := trim_suffix (caRepoUrl a) ''/''\<rparr> in
       case kaGetSecret (he_api env) (glAgentNamespace (he_globals env)) SecretName w of
         Inl e \<Rightarrow> if IsNotFound e then create_account env cmd account w
                  else Ret (refused cmd ChartMuseumAuthenticationFailed (api_text e), w)
       | Inr s \<Rightarrow> update_account env cmd account s w))"

section \<open>Installation\<close>

text \<open>The mark that asks for an operation is taken off when the operation is over, whatever its result.\<close>

definition deleteC7NHelmReleaseOperateAnnotation :: "'w kube_api \<Rightarrow> string \<Rightarrow> string \<Rightarrow> 'w \<Rightarrow> 'w" where
  "deleteC7NHelmReleaseOperateAnnotation api releaseName ns w =
     (case kc_GetC7NHelmRelease api releaseName ns w of
        None \<Rightarrow> w
      | Some r \<Rightarrow> kc_UpdateC7nHelmRelease api
          (r\<lparr>koAnnotations := AList.delete C7NHelmReleaseOperateAnnotation (koAnnotations r)\<rparr>) ns w)"

text \<open>
  An error that names \<^verbatim>\<open>EOF\<close> sends the command again with its counter raised, unless the counter is at
  its limit; the texts of the two callers disagree on the number of attempts.
\<close>

definition retry :: "'w helm_env \<Rightarrow> packet \<Rightarrow> install_request \<Rightarrow> string \<Rightarrow> string \<Rightarrow> gerror \<Rightarrow> helm_out" where
  "retry env cmd req cmdType tms err =
     (if \<not> contains err ''EOF'' then failed cmd (iqCommit req) err
      else if iqFailedCount req = 5 then failed cmd (iqCommit req)
        (''install failed With '' @ tms @ '' times retry,err:'' @ iqLasttimeFailedInstallErr req)
      else (case heMarshalInstall env
              (req\<lparr>iqFailedCount := iqFailedCount req + 1, iqLasttimeFailedInstallErr := err\<rparr>) of
          Inl e \<Rightarrow> failed cmd (iqCommit req) e
        | Inr p \<Rightarrow> ([mk_packet (''env:'' @ iqNamespace req @ ''.release:'' @ iqReleaseName req) cmdType p], None)))"

definition install_with :: "'w helm_env \<Rightarrow> packet \<Rightarrow> install_request \<Rightarrow> 'w \<Rightarrow> (helm_out \<times> 'w) go" where
  "install_with env cmd req w = go_bind (GetCharUsernameAndPassword env cmd w) (\<lambda>acc. case acc of
     Inl e \<Rightarrow> Ret (failed cmd (iqCommit req) e, w)
   | Inr (username, password) \<Rightarrow>
       go_map (\<lambda>((resp, err), w'). (case err of
            Some e \<Rightarrow> retry env cmd req HelmReleaseInstallResourceInfo ''3'' e
          | None \<Rightarrow> printed cmd HelmReleaseInstallResourceInfo (failed cmd (iqCommit req))
              (heMarshalRelease env resp), w'))
         (InstallRelease (heLib env) req username password w))"

definition cmd_InstallHelmRelease :: "'w helm_handler" where
  "cmd_InstallHelmRelease env cmd w = (case heInstall env (pkPayload cmd) of
     (req, Some e) \<Rightarrow> Ret (failed cmd (iqCommit req) e, w)
   | (req0, None) \<Rightarrow> go_bind (namespace_or cmd (iqNamespace req0)) (\<lambda>ns.
       go_map (\<lambda>(r, w'). (r, deleteC7NHelmReleaseOperateAnnotation (he_api env) (iqReleaseName req0) ns w'))
         (install_with env cmd (req0\<lparr>iqNamespace := ns\<rparr>) w)))"

definition cmd_InstallCertManager :: "'w helm_handler" where
  "cmd_InstallCertManager env cmd w =
     (if glRestrictedModel (he_globals env) then Ret (([], None), w)
      else go_bind (ApplyCertManagerCrd (heLib env) (heSetCertVersion env ''1.1.1'' w)) (\<lambda>(err, w').
        case err of Some e \<Rightarrow> Ret (refused cmd HelmReleaseInstallFailed e, w')
        | None \<Rightarrow> cmd_InstallHelmRelease env cmd w'))"

text \<open>The hooks come first; the command of the installation follows with the same payload.\<close>

definition cmd_InstallJobInfo :: "'w helm_handler" where
  "cmd_InstallJobInfo env cmd w = (case heInstall env (pkPayload cmd) of
     (req, Some e) \<Rightarrow> Ret (failed cmd (iqCommit req) e, w)
   | (req0, None) \<Rightarrow> go_bind (namespace_or cmd (iqNamespace req0)) (\<lambda>ns.
       (let req = req0\<lparr>iqNamespace := ns\<rparr>;
            next_cmd = mk_packet (pkKey cmd) HelmReleaseInstallResourceInfo (pkPayload cmd) in
        if iqChartName req = ''prometheus-operator'' then Ret (([next_cmd], None), w)
        else go_map (\<lambda>acc. (case acc of
            Inl e \<Rightarrow> failed cmd (iqCommit req) e
          | Inr (username, password) \<Rightarrow> (case PreInstallRelease (heLib env) req username password w of
              Inl e \<Rightarrow> retry env cmd req HelmInstallJobInfo ''5'' e
            | Inr hooks \<Rightarrow> (case heMarshalHooks env hooks of
                Inl e \<Rightarrow> failed cmd (iqCommit req) e
              | Inr p \<Rightarrow> ([next_cmd], Some (mk_packet (pkKey cmd) HelmInstallJobInfo p)))), w))
          (GetCharUsernameAndPassword env cmd w))))"

section \<open>Upgrade\<close>

definition upgrade_with :: "'w helm_env \<Rightarrow> packet \<Rightarrow> upgrade_request \<Rightarrow> 'w \<Rightarrow> (helm_out \<times> 'w) go" where
  "upgrade_with env cmd req w = go_bind (GetCharUsernameAndPassword env cmd w) (\<lambda>acc. case acc of
     Inl e \<Rightarrow> Ret (failed cmd (uqCommit req) e, w)
   | Inr (username, password) \<Rightarrow>
       go_map (\<lambda>((resp, err), w'). (case err of
            Some e \<Rightarrow> failed cmd (uqCommit req) e
          | None \<Rightarrow> printed cmd HelmReleaseUpgradeResourceInfo (failed cmd (uqCommit req))
              (heMarshalRelease env resp), w'))
         (UpgradeRelease (heLib env) req username password w))"

definition cmd_UpgradeHelmRelease :: "'w helm_handler" where
  "cmd_UpgradeHelmRelease env cmd w = (case heUpgrade env (pkPayload cmd) of
     (req, Some e) \<Rightarrow> Ret (failed cmd (uqCommit req) e, w)
   | (req0, None) \<Rightarrow> go_bind (namespace_or cmd (uqNamespace req0)) (\<lambda>ns.
       go_map (\<lambda>(r, w'). (r, deleteC7NHelmReleaseOperateAnnotation (he_api env) (uqReleaseName req0) ns w'))
         (upgrade_with env cmd (req0\<lparr>uqNamespace := ns\<rparr>) w)))"

definition cmd_UpgradeJobInfo :: "'w helm_handler" where
  "cmd_UpgradeJobInfo env cmd w = (case heUpgrade env (pkPayload cmd) of
     (req, Some e) \<Rightarrow> Ret (failed cmd (uqCommit req) e, w)
   | (req0, None) \<Rightarrow> go_bind (namespace_or cmd (uqNamespace req0)) (\<lambda>ns.
       (let req = req0\<lparr>uqNamespace := ns\<rparr>;
            next_cmd = mk_packet (pkKey cmd) HelmReleaseUpgradeResourceInfo (pkPayload cmd) in
        if uqChartName req = ''prometheus-operator'' then Ret (([next_cmd], None), w)
        else go_map (\<lambda>acc. (case acc of
            Inl e \<Rightarrow> failed cmd (uqCommit req) e
          | Inr (username, password) \<Rightarrow> (case PreUpgradeRelease (heLib env) req username password w of
              Inl e \<Rightarrow> failed cmd (uqCommit req) e
            | Inr hooks \<Rightarrow> (case heMarshalHooks env hooks of
                Inl e \<Rightarrow> failed cmd (uqCommit req) e
              | Inr p \<Rightarrow> ([next_cmd], Some (mk_packet (pkKey cmd) HelmUpgradeJobInfo p)))), w))
          (GetCharUsernameAndPassword env cmd w))))"

text \<open>The old release goes, and the request to upgrade is read again as one to install.\<close>

definition cmd_CrossUpgradeJobInfo :: "'w helm_handler" where
  "cmd_CrossUpgradeJobInfo env cmd w = (case heUpgrade env (pkPayload cmd) of
     (req, Some e) \<Rightarrow> Ret (refused cmd HelmReleaseCrossUpgradeFailed e, w)
   | (req, None) \<Rightarrow>
      (let r = DeleteRelease (heLib env) \<lparr>rfReleaseName = uqReleaseName req, rfNamespace = uqNamespace req\<rparr> w in
       Ret (case snd (fst r) of
          Some e \<Rightarrow> ([], Some (error_packet (pkKey cmd) (uqCommit req) HelmReleaseCrossUpgradeFailed e))
        | None \<Rightarrow> ([mk_packet (''env:'' @ uqNamespace req @ ''.release:'' @ uqReleaseName req)
            HelmInstallJobInfo (pkPayload cmd)], None), snd r)))"

section \<open>Deletion, start and stop\<close>

definition cmd_DeleteHelmRelease :: "'w helm_handler" where
  "cmd_DeleteHelmRelease env cmd w = (case heRef env (pkPayload cmd) of
     Inl e \<Rightarrow> Ret (refused cmd HelmReleaseDeleteFailed e, w)
   | Inr req \<Rightarrow>
      (let r = DeleteRelease (heLib env) req w in
       Ret (case snd (fst r) of
          Some e \<Rightarrow> refused cmd HelmReleaseDeleteFailed e
        | None \<Rightarrow> printed cmd HelmReleaseDelete (refused cmd HelmReleaseDeleteFailed)
            (heMarshalUninstalled env (fst (fst r))), snd r)))"

definition cmd_DeleteCertManagerRelease :: "'w helm_handler" where
  "cmd_DeleteCertManagerRelease env cmd w =
     (if glRestrictedModel (he_globals env) then Ret (([], None), w)
      else (case heRef env (pkPayload cmd) of
          Inl e \<Rightarrow> Ret (refused cmd HelmReleaseDeleteFailed e, w)
        | Inr req \<Rightarrow>
           (case heMarshalCert env \<lparr>ceStatus = ''deleted'', ceChartVersion = [],
                ceNamespace = rfNamespace req, ceReleaseName = rfReleaseName req\<rparr> of
              Inl e \<Rightarrow> Ret (if contains e ErrReleaseNotFound
                then ([], Some (mk_packet (pkKey cmd) CertManagerStatus []))
                else refused cmd (pkType cmd) e, w)
            | Inr p \<Rightarrow> go_map (\<lambda>(_, w'). (([], Some (mk_packet (pkKey cmd) CertManagerStatus p)), w'))
                (cmd_DeleteHelmRelease env cmd w))))"

definition cmd_StartHelmRelease :: "'w helm_handler" where
  "cmd_StartHelmRelease env cmd w = (case heRef env (pkPayload cmd) of
     Inl e \<Rightarrow> Ret (refused cmd HelmReleaseStartFailed e, w)
   | Inr req \<Rightarrow>
      (let r = StartRelease (heLib env) req w in
       Ret (case fst r of
          Inl e \<Rightarrow> refused cmd HelmReleaseStartFailed e
        | Inr name \<Rightarrow> printed cmd HelmReleaseStart (refused cmd HelmReleaseStartFailed)
            (heMarshalName env name), snd r)))"

definition cmd_StopHelmRelease :: "'w helm_handler" where
  "cmd_StopHelmRelease env cmd w = (case heRef env (pkPayload cmd) of
     Inl e \<Rightarrow> Ret (refused cmd HelmReleaseStopFailed e, w)
   | Inr req \<Rightarrow>
      (let r = StopRelease (heLib env) req w in
       Ret (case fst r of
          Inl e \<Rightarrow> refused cmd HelmReleaseStopFailed e
        | Inr name \<Rightarrow> printed cmd HelmReleaseStop (refused cmd HelmReleaseStopFailed)
            (heMarshalName env name), snd r)))"

section \<open>The status of resources\<close>

definition newSyncResponse :: "sync_request \<Rightarrow> string \<Rightarrow> string \<Rightarrow> sync_request" where
  "newSyncResponse rq commit status = \<lparr>srResourceType = srResourceType rq, srResourceName = srResourceName rq,
     srCommit = commit, srId = srId rq, srNamespace = [], srResourceStatus = status\<rparr>"

text \<open>An error answers with an empty commit, an object without commit with nothing.\<close>

definition commit_answers :: "sync_request \<Rightarrow> string api \<Rightarrow> sync_request list" where
  "commit_answers rq r = (case r of
     Inl e \<Rightarrow> [newSyncResponse rq [] []]
   | Inr commit \<Rightarrow> if commit \<noteq> [] then [newSyncResponse rq commit []] else [])"

definition volume_answers :: "sync_request \<Rightarrow> (string \<times> string) api \<Rightarrow> sync_request list" where
  "volume_answers rq r = (case r of
     Inl e \<Rightarrow> [newSyncResponse rq [] []]
   | Inr (commit, status) \<Rightarrow> if commit \<noteq> [] then [newSyncResponse rq commit status] else [])"

definition GetC7nHelmRelease :: "'w helm_env \<Rightarrow> string \<Rightarrow> string \<Rightarrow> 'w \<Rightarrow> release option api" where
  "GetC7nHelmRelease env ns releaseName w = (case heMgrGet env ns of
     None \<Rightarrow> Inr None
   | Some get \<Rightarrow> (case get releaseName w of
       Inl e \<Rightarrow> if IsNotFound e then Inl e else Inr None
     | Inr r \<Rightarrow> if annotation r CommitLabel \<noteq> [] then Inr (Some r) else Inr None))"

text \<open>
  The release is looked up in the namespace of the request, its resource in that of the command.  Whatever
  the error of the look-up, and whether or not a job runs, the answer is an empty commit.
\<close>

definition instance_answers :: "'w helm_env \<Rightarrow> string \<Rightarrow> sync_request \<Rightarrow> 'w \<Rightarrow> sync_request list" where
  "instance_answers env ns rq w = (case GetC7nHelmRelease env ns (srResourceName rq) w of
     Inl e \<Rightarrow> [newSyncResponse rq [] []]
   | Inr None \<Rightarrow> []
   | Inr (Some chr) \<Rightarrow>
      (if annotation chr CommitLabel \<noteq> srCommit rq then [newSyncResponse rq (srCommit rq) []]
       else (case GetRelease (heLib env) \<lparr>rfReleaseName = srResourceName rq, rfNamespace = srNamespace rq\<rparr> w of
           Inl e \<Rightarrow> [newSyncResponse rq [] []]
         | Inr rls \<Rightarrow>
             if xrStatus rls \<noteq> ''deployed'' then []
             else if xrChartVersion rls \<noteq> rsChartVersion (rlSpec chr) \<or> xrConfig rls \<noteq> rsValues (rlSpec chr)
               then [newSyncResponse rq [] []]
             else [newSyncResponse rq (srCommit rq) []])))"

definition sync_answers :: "'w helm_env \<Rightarrow> string \<Rightarrow> sync_request \<Rightarrow> 'w \<Rightarrow> sync_request list" where
  "sync_answers env ns rq w =
     (let api = he_api env; t = srResourceType rq; name = srResourceName rq in
      if t = ''ingress'' then commit_answers rq (kc_GetIngress api ns name w)
      else if t = ''service'' then commit_answers rq (kc_GetService api ns name w)
      else if t = ''certificate'' then
        (case kc_IsSecretExist api ns name w of
           (_, Some e) \<Rightarrow> [newSyncResponse rq [] []]
         | (exist, None) \<Rightarrow> if exist then [newSyncResponse rq (srCommit rq) []] else [])
      else if t = ''instance'' then instance_answers env ns rq w
      else if t = ''configmap'' then commit_answers rq (kc_GetConfigMap api ns name w)
      else if t = ''secret'' then commit_answers rq (kc_GetSecret api ns name w)
      else if t = ''persistentvolume'' then volume_answers rq (kc_GetPersistentVolume api ns name w)
      else if t = ''persistentvolumeclaim'' then volume_answers rq (kc_GetPersistentVolumeClaim api ns name w)
      else if t = ''deployment'' then commit_answers rq (kc_GetDeployment api ns name w)
      else if t = ''statefulset'' then commit_answers rq (kc_GetStatefulSet api ns name w)
      else if t = ''job'' then commit_answers rq (kc_GetJob api ns name w)
      else if t = ''cronjob'' then commit_answers rq (kc_GetCronJob api ns name w)
      else if t = ''daemonset'' then commit_answers rq (kc_GetDaemonSet api ns name w)
      else [])"

definition cmd_SyncStatus :: "'w helm_handler" where
  "cmd_SyncStatus env cmd w = (case heSyncRequests env (pkPayload cmd) of
     Inl e \<Rightarrow> Ret (([], None), w)
   | Inr [] \<Rightarrow> Ret (([], None), w)
   | Inr reqs \<Rightarrow> go_map (\<lambda>ns.
       (let reps = concat (map (\<lambda>rq. sync_answers env ns rq w) reqs) in
        (if reps = [] then ([], None)
         else (case heMarshalSyncs env reps of
             Inl e \<Rightarrow> ([], None) | Inr p \<Rightarrow> ([], Some (mk_packet (pkKey cmd) ResourceStatusSync p))), w)))
       (packet_Namespace cmd))"

section \<open>The worker\<close>

text \<open>The commands on releases, as they are registered.\<close>

definition helm_Funcs :: "(string \<times> 'w helm_handler) list" where
  "helm_Funcs = [(CertManagerInstall, cmd_InstallCertManager), (CertManagerUninstall, cmd_DeleteCertManagerRelease),
     (HelmReleaseInstallResourceInfo, cmd_InstallHelmRelease),
     (HelmReleaseUpgradeResourceInfo, cmd_UpgradeHelmRelease), (HelmReleaseDelete, cmd_DeleteHelmRelease),
     (HelmInstallJobInfo, cmd_InstallJobInfo), (HelmUpgradeJobInfo, cmd_UpgradeJobInfo),
     (HelmCrossUpgradeJobInfo, cmd_CrossUpgradeJobInfo), (HelmReleaseStart, cmd_StartHelmRelease),
     (HelmReleaseStop, cmd_StopHelmRelease), (ResourceStatusSync, cmd_SyncStatus),
     (ChartMuseumAuthentication, cmd_AddHelmAccount)]"

definition process_cmd :: "'w helm_handler" where
  "process_cmd env cmd w = (case map_of helm_Funcs (pkType cmd) of
     None \<Rightarrow> Ret (([], None), w) | Some func \<Rightarrow> func env cmd w)"

text \<open>
  Each command runs in a goroutine of its own, and so do the sends of what it leads to: the commands
  under way are taken in any order.  A handler is one step.
\<close>

record 'w worker =
  wkCommands :: "packet list"
  wkResponses :: "packet list"
  wkWorld :: 'w

inductive worker_step :: "(packet \<Rightarrow> 'w \<Rightarrow> (helm_out \<times> 'w) go) \<Rightarrow> 'w worker \<Rightarrow> 'w worker \<Rightarrow> bool" for process where
  step: "wkCommands s = xs @ cmd # ys \<Longrightarrow> process cmd (wkWorld s) = Ret ((newCmds, resp), w') \<Longrightarrow>
    worker_step process s \<lparr>wkCommands = xs @ ys @ newCmds,
      wkResponses = wkResponses s @ (case resp of None \<Rightarrow> [] | Some p \<Rightarrow> [p]), wkWorld = w'\<rparr>"

inductive_cases worker_stepE: "worker_step process s s'"

section \<open>The controller of releases\<close>

definition release_cmd :: "release \<Rightarrow> string \<Rightarrow> string res \<Rightarrow> packet list" where
  "release_cmd inst cmdType r = (case r of
     Inl e \<Rightarrow> []
   | Inr p \<Rightarrow> [mk_packet (''env:'' @ koNamespace inst @ ''.release:'' @ koName inst) cmdType p])"

definition installHelmReleaseCmd :: "'w helm_env \<Rightarrow> release \<Rightarrow> packet list" where
  "installHelmReleaseCmd env inst = (let spec = rlSpec inst in
     release_cmd inst HelmInstallJobInfo (heMarshalInstall env
       \<lparr>iqRepoURL = rsRepoURL spec, iqChartName = rsChartName spec, iqChartVersion = rsChartVersion spec,
        iqValues = rsValues spec, iqReleaseName = koName inst, iqCommit = annotation inst CommitLabel,
        iqCommand = rsCommandId spec, iqV1Command = rsV1CommandId spec, iqNamespace = koNamespace inst,
        iqAppServiceId = rsAppServiceId spec, iqV1AppServiceId = rsV1AppServiceId spec,
        iqImagePullSecrets = rsImagePullSecrets spec, iqFailedCount = 0, iqLasttimeFailedInstallErr = []\<rparr>))"

definition upgrade_request_of :: "release \<Rightarrow> upgrade_request" where
  "upgrade_request_of inst = (let spec = rlSpec inst in
     \<lparr>uqReleaseName = koName inst, uqRepoURL = rsRepoURL spec, uqChartName = rsChartName spec,
      uqChartVersion = rsChartVersion spec, uqValues = rsValues spec, uqCommand = rsCommandId spec,
      uqV1Command = rsV1CommandId spec, uqCommit = annotation inst CommitLabel, uqNamespace = koNamespace inst,
      uqAppServiceId = rsAppServiceId spec, uqV1AppServiceId = rsV1AppServiceId spec,
      uqImagePullSecrets = rsImagePullSecrets spec, uqReUseValues = False\<rparr>)"

definition upgradeHelmReleaseCmd :: "'w helm_env \<Rightarrow> release \<Rightarrow> packet list" where
  "upgradeHelmReleaseCmd env inst =
     release_cmd inst HelmUpgradeJobInfo (heMarshalUpgrade env (upgrade_request_of inst))"

definition crossUpgradeHelmReleaseCmd :: "'w helm_env \<Rightarrow> release \<Rightarrow> packet list" where
  "crossUpgradeHelmReleaseCmd env inst =
     release_cmd inst HelmCrossUpgradeJobInfo (heMarshalUpgrade env (upgrade_request_of inst))"

definition deleteHelmReleaseCmd :: "'w helm_env \<Rightarrow> request \<Rightarrow> packet list" where
  "deleteHelmReleaseCmd env rq =
     (case heMarshalRef env \<lparr>rfReleaseName = rqName rq, rfNamespace = rqNamespace rq\<rparr> of
        Inl e \<Rightarrow> []
      | Inr p \<Rightarrow> [mk_packet (''env:'' @ rqNamespace rq @ ''.release:'' @ rqName rq) HelmReleaseDelete p])"

text \<open>An error of the printer is reported beside the release with an empty payload.\<close>

definition sendReleaseInfo :: "'w helm_env \<Rightarrow> release_info \<Rightarrow> release \<Rightarrow> packet list" where
  "sendReleaseInfo env rls inst =
     (let key = ''env:'' @ xrNamespace rls @ ''.release:'' @ xrName rls; commitSha = annotation inst CommitLabel in
      case heMarshalRelease env (Some (rls\<lparr>xrCommand := rsCommandId (rlSpec inst), xrCommit := commitSha\<rparr>)) of
        Inl e \<Rightarrow> [error_packet key commitSha HelmReleaseInstallFailed e,
                 mk_packet key HelmReleaseInstallResourceInfo []]
      | Inr p \<Rightarrow> [mk_packet key HelmReleaseInstallResourceInfo p])"

definition checkCrdDeleted :: "'w helm_env \<Rightarrow> 'w \<Rightarrow> bool" where
  "checkCrdDeleted env w \<longleftrightarrow> (case heCrd env w of Some e \<Rightarrow> IsNotFound e | None \<Rightarrow> False)"

definition commands :: "packet list \<Rightarrow> rec_out" where
  "commands cs = \<lparr>roResponses = [], roCommands = cs, roErr = None\<rparr>"

definition install_instance :: "'w helm_env \<Rightarrow> release \<Rightarrow> 'w \<Rightarrow> rec_out \<times> 'w" where
  "install_instance env inst w =
     (case GetRelease (heLib env) \<lparr>rfReleaseName = koName inst, rfNamespace = koNamespace inst\<rparr> w of
        Inl e \<Rightarrow> (commands (installHelmReleaseCmd env inst), w)
      | Inr rls \<Rightarrow>
         (let r = kaUpdateRelease (he_api env) (koNamespace inst)
                (inst\<lparr>koAnnotations := AList.delete C7NHelmReleaseOperateAnnotation (koAnnotations inst)\<rparr>) w
          in (\<lparr>roResponses = sendReleaseInfo env rls inst, roCommands = [],
               roErr = (case fst r of Inl e \<Rightarrow> Some (api_text e) | Inr _ \<Rightarrow> None)\<rparr>, snd r)))"

definition rec_C7NHelmRelease :: "'w helm_env \<Rightarrow> request \<Rightarrow> release reader \<Rightarrow> 'w \<Rightarrow> rec_out \<times> 'w" where
  "rec_C7NHelmRelease env rq got w = (case got of
     Inl e \<Rightarrow>
       (if \<not> IsNotFound e then requeue e
        else if \<not> checkCrdDeleted env w then commands (deleteHelmReleaseCmd env rq)
        else nothing, w)
   | Inr inst \<Rightarrow>
      (if rqNamespace rq = glAgentNamespace (he_globals env)
          \<and> olabel inst C7NHelmReleaseClusterLabel \<noteq> glClusterId (he_globals env) then (nothing, w)
       else if annotation inst CommitLabel = [] then
         (nothing\<lparr>roErr := Some (''[Goroutine '' @ heGid env @ ''] c7nhelmrelease has no commit annotations'')\<rparr>, w)
       else (case map_of (koAnnotations inst) C7NHelmReleaseOperateAnnotation of
           None \<Rightarrow> (nothing, w)
         | Some operate \<Rightarrow>
             if operate = INSTALL then install_instance env inst w
             else if operate = UPGRADE then (commands (upgradeHelmReleaseCmd env inst), w)
             else if operate = CROSS_UPGRADE then (commands (crossUpgradeHelmReleaseCmd env inst), w)
             else (nothing, w))))"

end
