(* ===== verification/ReleaseFlow.thy ===== *)
theory ReleaseFlow
  imports HelmCmd
begin

text \<open>
  The way of an operation on a release through the controller, the worker and the handlers: what the
  worker does with a pool of commands comes to an end, an operation is asked for once, and the accounts
  of the chart repositories are kept.
\<close>

section \<open>Pools of commands\<close>

text \<open>
  The contract of handlers that lead a command to its end: each either answers for good, or leaves one
  command that is nearer to its end and at most says something in between.
\<close>

locale command_flow =
  fixes run :: "packet \<Rightarrow> 'w \<Rightarrow> (helm_out \<times> 'w) go"
    and ok :: "packet \<Rightarrow> bool"
    and steps :: "packet \<Rightarrow> nat"
    and final :: "packet \<Rightarrow> bool"
  assumes positive: "ok c \<Longrightarrow> 0 < steps c"
    and outcome: "ok c \<Longrightarrow> run c w = Ret ((newCmds, resp), w') \<Longrightarrow>
      newCmds = [] \<and> (\<exists>p. resp = Some p \<and> final p) \<or>
      (\<exists>c'. newCmds = [c'] \<and> ok c' \<and> steps c' < steps c) \<and> (\<forall>p. resp = Some p \<longrightarrow> \<not> final p)"
begin

lemma step:
  assumes s: "list_all ok (wkCommands s)" "worker_step run s s'"
  shows "list_all ok (wkCommands s')
    \<and> sum_list (map steps (wkCommands s')) < sum_list (map steps (wkCommands s))
    \<and> length (wkCommands s') + length (filter final (wkResponses s'))
      = length (wkCommands s) + length (filter final (wkResponses s))"
proof -
  from s(2) obtain xs cmd ys newCmds resp w' where step: "wkCommands s = xs @ cmd # ys"
    "run cmd (wkWorld s) = Ret ((newCmds, resp), w')"
    and s': "s' = \<lparr>wkCommands = xs @ ys @ newCmds,
      wkResponses = wkResponses s @ (case resp of None \<Rightarrow> [] | Some p \<Rightarrow> [p]), wkWorld = w'\<rparr>"
    by (elim worker_stepE)
  have "ok cmd" using s(1) step(1) by simp
  then show ?thesis using positive [of cmd] outcome [OF _ step(2)] s(1) step(1)
    by (auto simp: s' split: option.split)
qed

text \<open>The potential of a pool pays for every step, and every command ends in exactly one final answer.\<close>

lemma runs:
  assumes "list_all ok (wkCommands s)" "(worker_step run ^^ n) s s'"
  shows "list_all ok (wkCommands s')
    \<and> n + sum_list (map steps (wkCommands s')) \<le> sum_list (map steps (wkCommands s))
    \<and> length (wkCommands s') + length (filter final (wkResponses s'))
      = length (wkCommands s) + length (filter final (wkResponses s))"
  using assms(2)
proof (induction n arbitrary: s')
  case (Suc n)
  from Suc.prems obtain t where t: "(worker_step run ^^ n) s t" "worker_step run t s'" by auto
  show ?case using Suc.IH [OF t(1)] step [OF _ t(2)] by linarith
qed (use assms(1) in simp)

lemma bounded:
  assumes "list_all ok (wkCommands s)" "(worker_step run ^^ n) s s'" "\<And>c. ok c \<Longrightarrow> steps c \<le> k"
  shows "n \<le> k * length (wkCommands s)"
proof -
  have "sum_list (map steps cs) \<le> k * length cs" if "list_all ok cs" for cs
    using that by (induction cs) (auto dest: assms(3))
  then show ?thesis using runs [OF assms(1,2)] assms(1) by (meson add_leD1 le_trans)
qed

end

section \<open>Operations on releases\<close>

lemmas helm_types = HelmInstallJobInfo_def HelmReleaseInstallResourceInfo_def HelmReleaseInstallFailed_def
  CertManagerInstall_def CertManagerUninstall_def HelmReleaseUpgradeResourceInfo_def HelmReleaseDelete_def
  HelmUpgradeJobInfo_def HelmCrossUpgradeJobInfo_def HelmReleaseCrossUpgradeFailed_def

lemma types_distinct:
  "distinct [HelmCrossUpgradeJobInfo, HelmInstallJobInfo, HelmReleaseInstallResourceInfo, HelmUpgradeJobInfo,
     HelmReleaseUpgradeResourceInfo, HelmReleaseInstallFailed, HelmReleaseCrossUpgradeFailed]"
  "distinct [HelmReleaseCrossUpgradeFailed, HelmReleaseInstallFailed, HelmReleaseUpgradeResourceInfo, HelmUpgradeJobInfo,
     HelmReleaseInstallResourceInfo, HelmInstallJobInfo, HelmCrossUpgradeJobInfo]"
  by (simp_all add: helm_types)

lemmas type_neqs = types_distinct [unfolded distinct.simps list.set insert_iff empty_iff, simplified]

text \<open>The printer of requests to install is undone by the reader.\<close>

definition keeps_requests :: "'w helm_env \<Rightarrow> bool" where
  "keeps_requests env \<longleftrightarrow> (\<forall>req p. heMarshalInstall env req = Inr p \<longrightarrow> heInstall env p = (req, None))"

text \<open>How often the request of a command has failed, what it has left, and the answers that end one.\<close>

definition tries :: "'w helm_env \<Rightarrow> packet \<Rightarrow> nat" where
  "tries env c = unat (iqFailedCount (fst (heInstall env (pkPayload c))))"

definition install_types :: "string list" where
  "install_types = [HelmCrossUpgradeJobInfo, HelmInstallJobInfo, HelmReleaseInstallResourceInfo]"

definition release_op :: "'w helm_env \<Rightarrow> packet \<Rightarrow> bool" where
  "release_op env c \<longleftrightarrow> keeps_requests env \<and>
     (pkType c \<in> set install_types \<and> tries env c \<le> 5
      \<or> pkType c \<in> {HelmUpgradeJobInfo, HelmReleaseUpgradeResourceInfo})"

definition steps_left :: "'w helm_env \<Rightarrow> packet \<Rightarrow> nat" where
  "steps_left env c =
     (if pkType c = HelmCrossUpgradeJobInfo then 8 - tries env c
      else if pkType c = HelmInstallJobInfo then 7 - tries env c
      else if pkType c = HelmReleaseInstallResourceInfo then 6 - tries env c
      else if pkType c = HelmUpgradeJobInfo then 2 else 1)"

definition final_answer :: "packet \<Rightarrow> bool" where
  "final_answer p \<longleftrightarrow> pkType p \<in> {HelmReleaseInstallFailed, HelmReleaseInstallResourceInfo,
     HelmReleaseUpgradeResourceInfo, HelmReleaseCrossUpgradeFailed}"

lemma process_ops:
  "pkType c = HelmInstallJobInfo \<Longrightarrow> process_cmd env c w = cmd_InstallJobInfo env c w"
  "pkType c = HelmReleaseInstallResourceInfo \<Longrightarrow> process_cmd env c w = cmd_InstallHelmRelease env c w"
  "pkType c = HelmCrossUpgradeJobInfo \<Longrightarrow> process_cmd env c w = cmd_CrossUpgradeJobInfo env c w"
  "pkType c = HelmUpgradeJobInfo \<Longrightarrow> process_cmd env c w = cmd_UpgradeJobInfo env c w"
  "pkType c = HelmReleaseUpgradeResourceInfo \<Longrightarrow> process_cmd env c w = cmd_UpgradeHelmRelease env c w"
  by (simp_all add: process_cmd_def helm_Funcs_def helm_types)

lemma unat_next: "unat (k :: 64 word) \<le> 5 \<Longrightarrow> k \<noteq> 5 \<Longrightarrow> unat (k + 1) = Suc (unat k) \<and> unat k < 5"
proof -
  assume k: "unat k \<le> 5" "k \<noteq> 5"
  have "unat k \<noteq> unat (5 :: 64 word)" using k(2) by (simp add: word_unat_eq_iff)
  then have "unat k < 5" using k(1) by simp
  then show ?thesis by (simp add: unat_word_ariths)
qed

text \<open>Each outcome of a step: either one command that has one step less, or one final answer.\<close>

definition progress :: "'w helm_env \<Rightarrow> packet \<Rightarrow> helm_out \<Rightarrow> bool" where
  "progress env c out \<longleftrightarrow>
     fst out = [] \<and> (\<exists>p. snd out = Some p \<and> final_answer p) \<or>
     (\<exists>c'. fst out = [c'] \<and> release_op env c' \<and> steps_left env c' < steps_left env c)
        \<and> (\<forall>p. snd out = Some p \<longrightarrow> \<not> final_answer p)"

lemma failed_progress: "progress env c (failed c commit e)"
  by (simp add: progress_def failed_def error_packet_def final_answer_def)

lemma printed_progress:
  assumes "t \<in> {HelmReleaseInstallResourceInfo, HelmReleaseUpgradeResourceInfo}"
  shows "progress env c (printed c t (failed c commit) r)"
  using assms by (auto simp: printed_def failed_progress split: sum.split) (auto simp: progress_def final_answer_def)

lemma retry_progress:
  assumes c: "release_op env c" "pkType c = t" "t \<in> {HelmInstallJobInfo, HelmReleaseInstallResourceInfo}"
    "tries env c = unat (iqFailedCount req)"
  shows "progress env c (retry env c req t tms e)"
proof (cases "contains e ''EOF'' \<and> iqFailedCount req \<noteq> 5")
  case True
  have u: "unat (iqFailedCount req + 1) = Suc (tries env c) \<and> tries env c < 5"
    using unat_next [of "iqFailedCount req"] True c by (auto simp: release_op_def type_neqs install_types_def)
  show ?thesis
  proof (cases "heMarshalInstall env (req\<lparr>iqFailedCount := iqFailedCount req + 1, iqLasttimeFailedInstallErr := e\<rparr>)")
    case (Inr p)
    then have "heInstall env p = (req\<lparr>iqFailedCount := iqFailedCount req + 1, iqLasttimeFailedInstallErr := e\<rparr>, None)"
      using c(1) by (simp add: release_op_def keeps_requests_def)
    then have "tries env (mk_packet key t p) = Suc (tries env c)" for key using u by (simp add: tries_def)
    then show ?thesis using True c u Inr
      by (auto simp: retry_def progress_def release_op_def steps_left_def install_types_def type_neqs)
  qed (use True in \<open>simp add: retry_def failed_progress\<close>)
qed (auto simp: retry_def failed_progress)

lemma next_progress:
  assumes "release_op env c" "\<And>p. resp = Some p \<Longrightarrow> \<not> final_answer p"
    and "(pkType c, t) \<in> {(HelmCrossUpgradeJobInfo, HelmInstallJobInfo),
      (HelmInstallJobInfo, HelmReleaseInstallResourceInfo), (HelmUpgradeJobInfo, HelmReleaseUpgradeResourceInfo)}"
  shows "progress env c ([mk_packet key t (pkPayload c)], resp)"
  using assms
  by (auto simp: progress_def release_op_def steps_left_def tries_def install_types_def type_neqs)

lemma not_final: "t \<in> {HelmInstallJobInfo, HelmUpgradeJobInfo} \<Longrightarrow> \<not> final_answer (mk_packet key t p)"
  by (auto simp: final_answer_def type_neqs)

lemma install_job_progress:
  assumes c: "release_op env c" "pkType c = HelmInstallJobInfo" "cmd_InstallJobInfo env c w = Ret (out, w')"
  shows "progress env c out"
proof (cases "heInstall env (pkPayload c)")
  case (Pair req err)
  show ?thesis
  proof (cases err)
    case None
    from c(3) obtain ns where ns: "namespace_or c (iqNamespace req) = Ret ns"
      by (auto simp: cmd_InstallJobInfo_def Pair None go_bind_eq_Ret)
    show ?thesis
    proof (cases "iqChartName req = ''prometheus-operator''")
      case True
      then show ?thesis using c(3) ns
        by (auto simp: cmd_InstallJobInfo_def Pair None Let_def c(2) intro!: next_progress [OF c(1)])
    next
      case False
      then obtain acc where "GetCharUsernameAndPassword env c w = Ret acc" and out: "out = (case acc of
            Inl e \<Rightarrow> failed c (iqCommit (req\<lparr>iqNamespace := ns\<rparr>)) e
          | Inr (u, p) \<Rightarrow> (case PreInstallRelease (heLib env) (req\<lparr>iqNamespace := ns\<rparr>) u p w of
              Inl e \<Rightarrow> retry env c (req\<lparr>iqNamespace := ns\<rparr>) HelmInstallJobInfo ''5'' e
            | Inr hooks \<Rightarrow> (case heMarshalHooks env hooks of
                Inl e \<Rightarrow> failed c (iqCommit (req\<lparr>iqNamespace := ns\<rparr>)) e
              | Inr p \<Rightarrow> ([mk_packet (pkKey c) HelmReleaseInstallResourceInfo (pkPayload c)],
                  Some (mk_packet (pkKey c) HelmInstallJobInfo p)))))"
        using c(3) ns by (auto simp: cmd_InstallJobInfo_def Pair None Let_def go_map_eq_Ret)
      have "tries env c = unat (iqFailedCount (req\<lparr>iqNamespace := ns\<rparr>))" by (simp add: tries_def Pair)
      then show ?thesis unfolding out
        by (auto intro!: retry_progress [OF c(1,2)] next_progress [OF c(1)] simp: failed_progress not_final c(2)
            split: sum.split)
    qed
  qed (use c(3) in \<open>auto simp: cmd_InstallJobInfo_def Pair failed_progress\<close>)
qed

lemma install_release_progress:
  assumes c: "release_op env c" "pkType c = HelmReleaseInstallResourceInfo"
      "cmd_InstallHelmRelease env c w = Ret (out, w')"
  shows "progress env c out"
proof (cases "heInstall env (pkPayload c)")
  case (Pair req err)
  show ?thesis
  proof (cases err)
    case None
    from c(3) obtain ns w1 where out: "install_with env c (req\<lparr>iqNamespace := ns\<rparr>) w = Ret (out, w1)"
      by (auto simp: cmd_InstallHelmRelease_def Pair None go_bind_eq_Ret go_map_eq_Ret)
    then obtain acc where acc: "GetCharUsernameAndPassword env c w = Ret acc"
      by (auto simp: install_with_def go_bind_eq_Ret)
    have t: "tries env c = unat (iqFailedCount (req\<lparr>iqNamespace := ns\<rparr>))" by (simp add: tries_def Pair)
    show ?thesis
    proof (cases acc)
      case (Inl e)
      then show ?thesis using out acc by (auto simp: install_with_def failed_progress)
    next
      case (Inr up)
      obtain u p where up: "up = (u, p)" by (cases up)
      from out obtain resp err' where "InstallRelease (heLib env) (req\<lparr>iqNamespace := ns\<rparr>) u p w = Ret ((resp, err'), w1)"
        and "out = (case err' of
            Some e \<Rightarrow> retry env c (req\<lparr>iqNamespace := ns\<rparr>) HelmReleaseInstallResourceInfo ''3'' e
          | None \<Rightarrow> printed c HelmReleaseInstallResourceInfo (failed c (iqCommit (req\<lparr>iqNamespace := ns\<rparr>)))
              (heMarshalRelease env resp))"
        by (auto simp: install_with_def acc Inr up go_map_eq_Ret)
      then show ?thesis using retry_progress [OF c(1,2) _ t]
        by (auto simp: printed_progress split: option.split)
    qed
  qed (use c(3) in \<open>auto simp: cmd_InstallHelmRelease_def Pair failed_progress\<close>)
qed

lemma upgrade_job_progress:
  assumes c: "release_op env c" "pkType c = HelmUpgradeJobInfo" "cmd_UpgradeJobInfo env c w = Ret (out, w')"
  shows "progress env c out"
proof (cases "heUpgrade env (pkPayload c)")
  case (Pair req err)
  show ?thesis
  proof (cases err)
    case None
    from c(3) obtain ns where ns: "namespace_or c (uqNamespace req) = Ret ns"
      by (auto simp: cmd_UpgradeJobInfo_def Pair None go_bind_eq_Ret)
    show ?thesis
    proof (cases "uqChartName req = ''prometheus-operator''")
      case True
      then show ?thesis using c(3) ns
        by (auto simp: cmd_UpgradeJobInfo_def Pair None Let_def c(2) intro!: next_progress [OF c(1)])
    next
      case False
      then obtain acc where "GetCharUsernameAndPassword env c w = Ret acc" and out: "out = (case acc of
            Inl e \<Rightarrow> failed c (uqCommit (req\<lparr>uqNamespace := ns\<rparr>)) e
          | Inr (u, p) \<Rightarrow> (case PreUpgradeRelease (heLib env) (req\<lparr>uqNamespace := ns\<rparr>) u p w of
              Inl e \<Rightarrow> failed c (uqCommit (req\<lparr>uqNamespace := ns\<rparr>)) e
            | Inr hooks \<Rightarrow> (case heMarshalHooks env hooks of
                Inl e \<Rightarrow> failed c (uqCommit (req\<lparr>uqNamespace := ns\<rparr>)) e
              | Inr p \<Rightarrow> ([mk_packet (pkKey c) HelmReleaseUpgradeResourceInfo (pkPayload c)],
                  Some (mk_packet (pkKey c) HelmUpgradeJobInfo p)))))"
        using c(3) ns by (auto simp: cmd_UpgradeJobInfo_def Pair None Let_def go_map_eq_Ret)
      show ?thesis unfolding out
        by (auto intro!: next_progress [OF c(1)] simp: failed_progress not_final c(2) split: sum.split)
    qed
  qed (use c(3) in \<open>auto simp: cmd_UpgradeJobInfo_def Pair failed_progress\<close>)
qed

lemma upgrade_release_progress:
  assumes c: "cmd_UpgradeHelmRelease env c w = Ret (out, w')"
  shows "progress env c out"
proof (cases "heUpgrade env (pkPayload c)")
  case (Pair req err)
  show ?thesis
  proof (cases err)
    case None
    from c obtain ns w1 where out: "upgrade_with env c (req\<lparr>uqNamespace := ns\<rparr>) w = Ret (out, w1)"
      by (auto simp: cmd_UpgradeHelmRelease_def Pair None go_bind_eq_Ret go_map_eq_Ret)
    then obtain acc where acc: "GetCharUsernameAndPassword env c w = Ret acc"
      by (auto simp: upgrade_with_def go_bind_eq_Ret)
    show ?thesis
    proof (cases acc)
      case (Inl e)
      then show ?thesis using out acc by (auto simp: upgrade_with_def failed_progress)
    next
      case (Inr up)
      then show ?thesis using out acc
        by (auto simp: upgrade_with_def go_map_eq_Ret failed_progress printed_progress split: prod.splits option.split)
    qed
  qed (use c in \<open>auto simp: cmd_UpgradeHelmRelease_def Pair failed_progress\<close>)
qed

lemma cross_upgrade_progress:
  assumes c: "release_op env c" "pkType c = HelmCrossUpgradeJobInfo" "cmd_CrossUpgradeJobInfo env c w = Ret (out, w')"
  shows "progress env c out"
proof -
  have "progress env c ([], Some (mk_packet key HelmReleaseCrossUpgradeFailed e))" for key e
    by (simp add: progress_def final_answer_def)
  then show ?thesis using c(3)
    by (auto simp: cmd_CrossUpgradeJobInfo_def Let_def refused_def error_packet_def c(2) intro!: next_progress [OF c(1)]
        split: prod.splits option.splits)
qed

lemma release_op_progress:
  assumes "release_op env c" "process_cmd env c w = Ret (out, w')"
  shows "progress env c out"
proof -
  consider "pkType c = HelmInstallJobInfo" | "pkType c = HelmReleaseInstallResourceInfo"
    | "pkType c = HelmCrossUpgradeJobInfo" | "pkType c = HelmUpgradeJobInfo"
    | "pkType c = HelmReleaseUpgradeResourceInfo"
    using assms(1) by (auto simp: release_op_def install_types_def)
  then show ?thesis
    using assms(2) install_job_progress [OF assms(1)] install_release_progress [OF assms(1)]
      cross_upgrade_progress [OF assms(1)] upgrade_job_progress [OF assms(1)] upgrade_release_progress
    by cases (simp_all only: process_ops)
qed

interpretation release_flow: command_flow "process_cmd env" "release_op env" "steps_left env" final_answer for env
proof
  show "0 < steps_left env c" if "release_op env c" for c
    using that by (auto simp: release_op_def steps_left_def install_types_def type_neqs)
  show "newCmds = [] \<and> (\<exists>p. resp = Some p \<and> final_answer p) \<or>
      (\<exists>c'. newCmds = [c'] \<and> release_op env c' \<and> steps_left env c' < steps_left env c)
        \<and> (\<forall>p. resp = Some p \<longrightarrow> \<not> final_answer p)"
    if "release_op env c" "process_cmd env c w = Ret ((newCmds, resp), w')" for c w newCmds resp w'
    using release_op_progress [OF that] by (simp add: progress_def)
qed


section \<open>Operations are asked for once\<close>

text \<open>An API that stores what it is given: a release that is written is the one that is read.\<close>

definition stores_releases :: "'w kube_api \<Rightarrow> string \<Rightarrow> string \<Rightarrow> bool" where
  "stores_releases api ns name \<longleftrightarrow> (\<forall>r w. kaGetRelease api name ns (snd (kaUpdateRelease api ns r w)) = Inr r)"

definition mark_of :: "'a k8s_obj_scheme \<Rightarrow> string option" where
  "mark_of o1 = map_of (koAnnotations o1) C7NHelmReleaseOperateAnnotation"

lemma mark_deleted:
  assumes "stores_releases api ns name"
    and "kaGetRelease api name ns (deleteC7NHelmReleaseOperateAnnotation api name ns w) = Inr inst"
  shows "mark_of inst = None"
proof (cases "kc_GetC7NHelmRelease api name ns w")
  case None
  then have "\<exists>e. kaGetRelease api name ns w = Inl e"
    by (auto simp: kc_GetC7NHelmRelease_def split: sum.splits if_splits)
  with assms(2) None show ?thesis by (auto simp: deleteC7NHelmReleaseOperateAnnotation_def)
next
  case (Some r)
  then show ?thesis using assms
    by (auto simp: deleteC7NHelmReleaseOperateAnnotation_def kc_UpdateC7nHelmRelease_def stores_releases_def
        mark_of_def delete_conv')
qed

lemma unmarked_idle:
  "mark_of inst = None \<Longrightarrow> rec_C7NHelmRelease env rq (Inr inst) w =
     ((if rqNamespace rq = glAgentNamespace (he_globals env)
         \<and> olabel inst C7NHelmReleaseClusterLabel \<noteq> glClusterId (he_globals env) then nothing
       else if annotation inst CommitLabel = []
         then nothing\<lparr>roErr := Some (''[Goroutine '' @ heGid env @ ''] c7nhelmrelease has no commit annotations'')\<rparr>
       else nothing), w)"
  by (simp add: rec_C7NHelmRelease_def mark_of_def)


text \<open>
  The status of an instance is confirmed with the commit that was asked about when its release is deployed
  with the version and the values of its resource; but also, without a look at the release, when the resource
  is at another commit than the one asked about.
\<close>

theorem instance_confirmed:
  assumes "srCommit rq \<noteq> []" "GetC7nHelmRelease env ns (srResourceName rq) w = Inr (Some chr)"
  shows "newSyncResponse rq (srCommit rq) [] \<in> set (instance_answers env ns rq w) \<longleftrightarrow>
    annotation chr CommitLabel \<noteq> srCommit rq \<or>
    (\<exists>rel. found_release (heLib env) \<lparr>rfReleaseName = srResourceName rq, rfNamespace = srNamespace rq\<rparr> w = Inr rel
       \<and> hrStatus rel = ''deployed'' \<and> chVersion (hrChart rel) = rsChartVersion (rlSpec chr)
       \<and> hrConfigRaw rel = rsValues (rlSpec chr))"
proof (cases "found_release (heLib env) \<lparr>rfReleaseName = srResourceName rq, rfNamespace = srNamespace rq\<rparr> w")
qed (use assms in \<open>auto simp: instance_answers_def GetRelease_def getHelmReleaseNoResource_def release_base_def
      newSyncResponse_def\<close>)

section \<open>Accounts are found again\<close>

text \<open>An API and a printer that keep what they are given.\<close>

definition stores_accounts :: "'w helm_env \<Rightarrow> bool" where
  "stores_accounts env \<longleftrightarrow>
     (\<forall>s w. fst (kaUpdateSecret (he_api env) (glAgentNamespace (he_globals env)) s w) = Inr s
         \<and> kaGetSecret (he_api env) (glAgentNamespace (he_globals env)) SecretName
             (snd (kaUpdateSecret (he_api env) (glAgentNamespace (he_globals env)) s w)) = Inr s)
     \<and> (\<forall>s w. fst (kaCreateSecret (he_api env) (glAgentNamespace (he_globals env)) s w) = Inr s
         \<and> kaGetSecret (he_api env) (glAgentNamespace (he_globals env)) SecretName
             (snd (kaCreateSecret (he_api env) (glAgentNamespace (he_globals env)) s w)) = Inr s)
     \<and> (\<forall>m p. heMarshalAccounts env m = Inr p \<longrightarrow> heAccounts env p = Inr (Some m))
     \<and> (\<forall>s. \<exists>p. heMarshalSecret env s = Inr p)"

text \<open>The accounts that are stored; none where they are missing or unreadable.\<close>

definition stored_accounts :: "'w helm_env \<Rightarrow> 'w \<Rightarrow> accounts option" where
  "stored_accounts env w = (case kaGetSecret (he_api env) (glAgentNamespace (he_globals env)) SecretName w of
     Inl e \<Rightarrow> if IsNotFound e then Some [] else None
   | Inr s \<Rightarrow> if scData s = [] then None
       else if gm_get [] (scData s) ''info'' = [] then Some []
       else (case heAccounts env (gm_get [] (scData s) ''info'') of Inr (Some m) \<Rightarrow> Some m | _ \<Rightarrow> None))"

definition stored_as :: "chart_account \<Rightarrow> chart_account" where
  "stored_as a = a\<lparr>caRepoUrl := trim_suffix (caRepoUrl a) ''/''\<rparr>"

lemma lookup_stored:
  assumes "heJson env p = Inr payload" "map_of payload ''repoUrl'' = Some (JStr u)"
    and "heParseUrl env u = Inr (scheme, host)"
    and "kaGetSecret (he_api env) (glAgentNamespace (he_globals env)) SecretName w = Inr s"
    and "heAccounts env (gm_get [] (scData s) ''info'') = Inr m"
  shows "GetCharUsernameAndPassword env (mk_packet key t p) w =
    Ret (Inr (account_of m (trim_suffix (scheme @ ''://'' @ host) ''/'')))"
  using assms by (simp add: GetCharUsernameAndPassword_def)

text \<open>
  An account that was added is found for a chart of its repository: the answer is positive, and the name
  and password are the ones that were added, for a new secret as for one that holds other accounts; provided
  the address that was stored is the scheme and host of the chart's address, and the stored text is readable.
\<close>

theorem account_roundtrip:
  assumes st: "stores_accounts env" and add: "heAccount env (pkPayload cmd) = Inr a"
    and old: "stored_accounts env w = Some m"
    and new: "heMarshalAccounts env (AList.update (caRepoUrl (stored_as a)) (stored_as a) m) = Inr c"
    and url: "caRepoUrl (stored_as a) = trim_suffix (scheme @ ''://'' @ host) ''/''"
    and look: "heJson env p = Inr payload" "map_of payload ''repoUrl'' = Some (JStr u)"
      "heParseUrl env u = Inr (scheme, host)"
  shows "\<exists>resp w'. cmd_AddHelmAccount env cmd w = Ret (([], Some resp), w')
    \<and> pkType resp = OperateDockerRegistrySecret
    \<and> GetCharUsernameAndPassword env (mk_packet key t p) w' = Ret (Inr (caUsername a, caPassword a))"
proof -
  let ?ns = "glAgentNamespace (he_globals env)"
  have readable: "heAccounts env c = Inr (Some (AList.update (caRepoUrl (stored_as a)) (stored_as a) m))"
    using st new by (simp add: stores_accounts_def)
  obtain sec where sec: "\<And>s. heMarshalSecret env s = Inr (sec s)"
    using st unfolding stores_accounts_def by metis
  have found: "account_of (Some (AList.update (caRepoUrl (stored_as a)) (stored_as a) m))
      (trim_suffix (scheme @ ''://'' @ host) ''/'') = (caUsername a, caPassword a)"
    by (simp only: account_of_def url option.case update_conv' fun_upd_same) (simp add: stored_as_def)
  show ?thesis
  proof (cases "kaGetSecret (he_api env) ?ns SecretName w")
    case (Inl e)
    then have m: "m = []" "IsNotFound e" using old by (auto simp: stored_accounts_def split: if_splits)
    let ?s = "no_secret\<lparr>koName := SecretName, scData := [(''info'', c)]\<rparr>"
    let ?r = "kaCreateSecret (he_api env) ?ns ?s w"
    have r: "fst ?r = Inr ?s" "kaGetSecret (he_api env) ?ns SecretName (snd ?r) = Inr ?s"
      using st by (simp_all add: stores_accounts_def)
    have "GetCharUsernameAndPassword env (mk_packet key t p) (snd ?r) = Ret (Inr (caUsername a, caPassword a))"
      by (subst lookup_stored [OF look r(2)]) (simp_all only: found [symmetric], simp add: readable gm_get_def)
    then show ?thesis using Inl m add new r(1)
      by (simp add: cmd_AddHelmAccount_def create_account_def makeChartAccountJsonContent_def printed_def sec
          stored_as_def [symmetric])
  next
    case (Inr s)
    then have content: "makeChartAccountJsonContent env (gm_get [] (scData s) ''info'') (stored_as a) = Ret (Inr c)"
      and data: "scData s \<noteq> []"
      using old new
      by (auto simp: stored_accounts_def makeChartAccountJsonContent_def split: if_splits sum.splits option.splits)
    let ?s = "s\<lparr>scData := AList.update ''info'' c (scData s)\<rparr>"
    let ?r = "kaUpdateSecret (he_api env) ?ns ?s w"
    have r: "fst ?r = Inr ?s" "kaGetSecret (he_api env) ?ns SecretName (snd ?r) = Inr ?s"
      using st by (simp_all add: stores_accounts_def)
    have "GetCharUsernameAndPassword env (mk_packet key t p) (snd ?r) = Ret (Inr (caUsername a, caPassword a))"
      by (subst lookup_stored [OF look r(2)]) (simp_all only: found [symmetric], simp add: readable)
    then show ?thesis using Inr content data add r(1)
      by (simp add: cmd_AddHelmAccount_def update_account_def Let_def printed_def sec stored_as_def [symmetric])
  qed
qed

text \<open>
  When the stored accounts cannot be read, adding one answers as if it had worked and empties the
  secret, so that every account in it is lost.
\<close>

theorem accounts_wiped:
  assumes "stores_accounts env" "heAccount env (pkPayload cmd) = Inr a"
    and "kaGetSecret (he_api env) (glAgentNamespace (he_globals env)) SecretName w = Inr s"
    and "gm_get [] (scData s) ''info'' \<noteq> []" "heAccounts env (gm_get [] (scData s) ''info'') = Inl e"
  shows "\<exists>resp w' s'. cmd_AddHelmAccount env cmd w = Ret (([], Some resp), w')
    \<and> pkType resp = OperateDockerRegistrySecret
    \<and> kaGetSecret (he_api env) (glAgentNamespace (he_globals env)) SecretName w' = Inr s'
    \<and> gm_get [] (scData s') ''info'' = []"
proof -
  let ?ns = "glAgentNamespace (he_globals env)"
  let ?s = "s\<lparr>scData := AList.update ''info'' [] (scData s)\<rparr>"
  let ?r = "kaUpdateSecret (he_api env) ?ns ?s w"
  have upd: "fst ?r = Inr ?s" "kaGetSecret (he_api env) ?ns SecretName (snd ?r) = Inr ?s"
    using assms(1) by (simp_all add: stores_accounts_def)
  obtain p where "heMarshalSecret env ?s = Inr p" using assms(1) unfolding stores_accounts_def by blast
  moreover have "scData s \<noteq> []" using assms(4) by (auto simp: gm_get_def)
  ultimately show ?thesis using assms(2-5) upd
    by (simp add: cmd_AddHelmAccount_def update_account_def makeChartAccountJsonContent_def Let_def printed_def)
qed

section \<open>Instances\<close>

type_synonym demo_state = "secret option \<times> release option"

definition demo_release_api :: "demo_state kube_api" where
  "demo_release_api = plain_api\<lparr>
     kaGetSecret := \<lambda>_ _ w. case fst w of None \<Rightarrow> Inl (NotFoundErr ''secret not found'') | Some s \<Rightarrow> Inr s,
     kaUpdateSecret := \<lambda>_ s w. (Inr s, (Some s, snd w)), kaCreateSecret := \<lambda>_ s w. (Inr s, (Some s, snd w)),
     kaGetRelease := \<lambda>_ _ w. case snd w of None \<Rightarrow> Inl (NotFoundErr ''release not found'') | Some r \<Rightarrow> Inr r,
     kaUpdateRelease := \<lambda>_ r w. (Inr r, (fst w, Some r))\<rparr>"

definition demo_account :: chart_account where
  "demo_account = \<lparr>caRepoUrl = ''http://charts'', caUsername = ''ann'', caPassword = ''pw''\<rparr>"

text \<open>Requests are printed as their number of failures, in unary.\<close>

definition demo_install :: "64 word \<Rightarrow> install_request" where
  "demo_install k = \<lparr>iqRepoURL = ''http://charts'', iqChartName = ''app'', iqChartVersion = ''1'', iqValues = [],
     iqReleaseName = ''web'', iqCommit = ''abc'', iqCommand = 7, iqV1Command = [], iqNamespace = ''dev'',
     iqAppServiceId = 1, iqV1AppServiceId = [], iqImagePullSecrets = None, iqFailedCount = k,
     iqLasttimeFailedInstallErr = []\<rparr>"

definition demo_helm_env :: "hrelease option \<Rightarrow> demo_state helm_env" where
  "demo_helm_env found = \<lparr>heLib = (demo_lib (\<lambda>_ _ _ w. w) found)\<lparr>hlApi := demo_release_api\<rparr>,
     heInstall = \<lambda>p. (demo_install (of_nat (length p)), None),
     heUpgrade = \<lambda>p. (demo_upgrade ''app'', None), heRef = \<lambda>p. Inl ''no'', heAccount = \<lambda>p. Inr demo_account,
     heAccounts = \<lambda>p. if p = ''x'' then Inr (Some [(''http://charts'', demo_account)]) else Inl ''bad'',
     heSyncRequests = \<lambda>p. Inl ''no'', heJson = \<lambda>p. Inr [(''repoUrl'', JStr ''http://charts'')],
     heParseUrl = \<lambda>p. Inr (''http'', ''charts''),
     heMarshalInstall = \<lambda>r. if r = demo_install 1 then Inr ''1'' else Inl ''no'',
     heMarshalUpgrade = \<lambda>r. Inl ''no'', heMarshalRef = \<lambda>r. Inl ''no'', heMarshalRelease = \<lambda>r. Inr [],
     heMarshalHooks = \<lambda>r. Inr [], heMarshalUninstalled = \<lambda>r. Inr [], heMarshalName = Inr,
     heMarshalCert = \<lambda>r. Inr [],
     heMarshalAccounts = \<lambda>m. if m = [(''http://charts'', demo_account)] then Inr ''x'' else Inl ''no'',
     heMarshalSecret = \<lambda>s. Inr [], heMarshalSyncs = \<lambda>s. Inr [], heSetCertVersion = \<lambda>v w. w,
     heMgrGet = \<lambda>ns. Some (\<lambda>n w. case snd w of None \<Rightarrow> Inl (NotFoundErr ''release not found'') | Some r \<Rightarrow> Inr r),
     heCrd = \<lambda>w. None, heGid = ''1''\<rparr>"

lemmas demo_env_simps = demo_helm_env_def demo_release_api_def demo_lib_def plain_api_def demo_globals_k_def
  demo_account_def

definition demo_marked :: release where
  "demo_marked = \<lparr>koName = ''web'', koNamespace = ''dev'', koLabels = [],
     koAnnotations = [(CommitLabel, ''old''), (C7NHelmReleaseOperateAnnotation, INSTALL)], koBody = [], rlSpec = zero_spec\<rparr>"

lemma demo_codec: "keeps_requests (demo_helm_env found)"
  by (auto simp: keeps_requests_def demo_helm_env_def split: if_splits)

lemma demo_stores: "stores_accounts (demo_helm_env found)"
  by (auto simp: stores_accounts_def demo_env_simps split: if_splits)

lemma account_roundtrip_witness:
  "\<exists>resp w'. cmd_AddHelmAccount (demo_helm_env None) (mk_packet [] [] []) (None, None) = Ret (([], Some resp), w')
    \<and> GetCharUsernameAndPassword (demo_helm_env None) (mk_packet [] [] []) w' = Ret (Inr (''ann'', ''pw''))"
proof -
  have a: "stored_as demo_account = demo_account"
    by (simp add: stored_as_def demo_account_def trim_suffix_def has_suffix_def)
  have u: "caRepoUrl (stored_as demo_account) = trim_suffix (''http'' @ ''://'' @ ''charts'') ''/''"
    by (simp add: a) (simp add: demo_account_def trim_suffix_def has_suffix_def)
  have old: "stored_accounts (demo_helm_env None) (None, None) = Some []"
    by (simp add: stored_accounts_def IsNotFound_def demo_env_simps)
  have new: "heMarshalAccounts (demo_helm_env None)
      (AList.update (caRepoUrl (stored_as demo_account)) (stored_as demo_account) []) = Inr ''x''"
    by (simp add: a) (simp add: demo_helm_env_def demo_account_def)
  have look: "heAccount (demo_helm_env None) p = Inr demo_account"
    "heJson (demo_helm_env None) p = Inr [(''repoUrl'', JStr ''http://charts'')]"
    "heParseUrl (demo_helm_env None) p = Inr (''http'', ''charts'')" for p
    by (simp_all add: demo_helm_env_def)
  show ?thesis
    using account_roundtrip [OF demo_stores look(1) old new u look(2) _ look(3)]
    by (simp add: demo_account_def) blast
qed

lemma accounts_wiped_witness:
  "\<exists>resp w' s'. cmd_AddHelmAccount (demo_helm_env None) (mk_packet [] [] [])
      (Some (no_secret\<lparr>scData := [(''info'', ''?'')]\<rparr>), None) = Ret (([], Some resp), w')
    \<and> kaGetSecret demo_release_api [] SecretName w' = Inr s' \<and> gm_get [] (scData s') ''info'' = []"
  using accounts_wiped [OF demo_stores, of None "mk_packet [] [] []" demo_account
      "(Some (no_secret\<lparr>scData := [(''info'', ''?'')]\<rparr>), None)" "no_secret\<lparr>scData := [(''info'', ''?'')]\<rparr>" "''bad''"]
  by (simp add: demo_env_simps gm_get_def) blast

lemma demo_no_account:
  "GetCharUsernameAndPassword (demo_helm_env found) cmd (None, r) = Ret (Inr ([], []))"
  by (simp add: GetCharUsernameAndPassword_def err_IsNotFound_def has_prefix_def demo_env_simps)

lemma demo_installed:
  "iqChartName q = ''app'' \<Longrightarrow> iqReleaseName q = ''web'' \<Longrightarrow>
   \<exists>rls. InstallRelease (heLib (demo_helm_env None)) q [] [] w = Ret ((Some rls, None), w)"
  by (simp add: InstallRelease_def install_chart_def isChartInstallable_def install_dependencies_def
      getHelmRelease_def helm_GetResources_def finish_install_def install_call_def release_base_def Let_def
      demo_hrelease_def demo_chart_def demo_env_simps)

lemma demo_upgraded:
  "\<exists>rls. UpgradeRelease (heLib (demo_helm_env None)) (demo_upgrade ''app'') [] [] w = Ret ((Some rls, None), w)"
proof -
  have "get_release (heLib (demo_helm_env None)) ns n w = Inr None" for ns n
    by (simp add: get_release_def demo_helm_env_def demo_lib_def)
  moreover obtain rls where "InstallRelease (heLib (demo_helm_env None)) (install_of (demo_upgrade ''app'')) [] [] w
      = Ret ((Some rls, None), w)"
    using demo_installed [of "install_of (demo_upgrade ''app'')" w]
    by (auto simp: install_of_def pre_install_of_def demo_upgrade_def)
  ultimately show ?thesis by (simp add: UpgradeRelease_def)
qed



lemma instance_confirmed_witness:
  "newSyncResponse \<lparr>srResourceType = ''instance'', srResourceName = ''web'', srCommit = ''new'', srId = 1,
      srNamespace = ''dev'', srResourceStatus = []\<rparr> ''new'' [] \<in> set (instance_answers (demo_helm_env None) ''dev''
     \<lparr>srResourceType = ''instance'', srResourceName = ''web'', srCommit = ''new'', srId = 1,
      srNamespace = ''dev'', srResourceStatus = []\<rparr> (None, Some demo_marked))"
  using instance_confirmed [of "\<lparr>srResourceType = ''instance'', srResourceName = ''web'', srCommit = ''new'', srId = 1,
      srNamespace = ''dev'', srResourceStatus = []\<rparr>" "demo_helm_env None" "''dev''" "(None, Some demo_marked)" demo_marked]
  by (simp add: GetC7nHelmRelease_def annotation_def gm_get_def demo_marked_def demo_helm_env_def)

end
