(* ===== verification/Polaris.thy ===== *)
theory Polaris
  imports GoSort GoStrings "HOL-Library.Word"
begin

text \<open>
  The audit of the workloads (\<^verbatim>\<open>pkg/polaris\<close>): the configuration with its checks and exemptions
  (\<^verbatim>\<open>config\<close>), the controllers that are audited (\<^verbatim>\<open>validator/controllers\<close>), the validation of their
  pods and containers, and the summaries (\<^verbatim>\<open>validator\<close>).

  The YAML and JSON readers, the printer of specifications, the JSON schema library and the parser of
  quantities are arguments.
\<close>

section \<open>Kinds of controllers\<close>

datatype supported = Unsupported | Deployments | StatefulSets | DaemonSets | Jobs | CronJobs
  | ReplicationControllers | NakedPods

fun iota :: "supported \<Rightarrow> nat" where
  "iota Unsupported = 0"
| "iota Deployments = 1"
| "iota StatefulSets = 2"
| "iota DaemonSets = 3"
| "iota Jobs = 4"
| "iota CronJobs = 5"
| "iota ReplicationControllers = 6"
| "iota NakedPods = 7"

definition ControllerStrings :: "string list" where
  "ControllerStrings = [''Unsupported'', ''Deployment'', ''StatefulSet'', ''DaemonSet'', ''Job'', ''CronJob'',
     ''ReplicationController'', ''NakedPod'']"

definition stringLookupForSupportedControllers :: "(string, supported) gomap" where
  "stringLookupForSupportedControllers =
     [(''deployment'', Deployments), (''deployments'', Deployments),
      (''statefulset'', StatefulSets), (''statefulsets'', StatefulSets),
      (''daemonset'', DaemonSets), (''daemonsets'', DaemonSets),
      (''job'', Jobs), (''jobs'', Jobs), (''cronjob'', CronJobs), (''cronjobs'', CronJobs),
      (''replicationcontroller'', ReplicationControllers),
      (''replicationcontrollers'', ReplicationControllers),
      (''nakedpod'', NakedPods), (''nakedpods'', NakedPods)]"

definition sc_String :: "supported \<Rightarrow> string go" where
  "sc_String s = go_index ControllerStrings (iota s)"

definition GetSupportedControllerFromString :: "string \<Rightarrow> supported" where
  "GetSupportedControllerFromString str =
     gm_get Unsupported stringLookupForSupportedControllers (to_lower str)"

definition sc_MarshalJSON :: "supported \<Rightarrow> string res go" where
  "sc_MarshalJSON s =
     (if s = Unsupported then Ret (Inl ''Unsupported is not a valid Supported Controller'')
      else go_map (\<lambda>t. Inr (CHR 0x22 # t @ [CHR 0x22])) (sc_String s))"

definition sc_UnmarshalJSON :: "(string \<Rightarrow> string res) \<Rightarrow> string \<Rightarrow> supported res" where
  "sc_UnmarshalJSON json_string b = (case json_string b of
     Inl e \<Rightarrow> Inl e
   | Inr j \<Rightarrow> (let s = GetSupportedControllerFromString j in
       if s = Unsupported then Inl (''Unsupported controller kind: '' @ j) else Inr s))"

section \<open>Severities and targets\<close>

definition SeverityIgnore :: string where "SeverityIgnore = ''ignore''"
definition SeverityWarning :: string where "SeverityWarning = ''warning''"
definition SeverityError :: string where "SeverityError = ''error''"

definition severity_IsActionable :: "string \<Rightarrow> bool" where
  "severity_IsActionable sev \<longleftrightarrow> sev = SeverityWarning \<or> sev = SeverityError"

definition TargetContainer :: string where "TargetContainer = ''Container''"
definition TargetPod :: string where "TargetPod = ''Pod''"

section \<open>Checks\<close>

record include_exclude =
  ieInclude :: "string list"
  ieExclude :: "string list"

record 's check =
  ckID :: string
  ckCategory :: string
  ckSuccessMessage :: string
  ckFailureMessage :: string
  ckControllers :: include_exclude
  ckContainers :: include_exclude
  ckTarget :: string
  ckSchemaTarget :: string
  ckSchema :: 's
  ckJSONSchema :: string

text \<open>\<^verbatim>\<open>Initialize\<close> reads a schema that is given as text over the one that was decoded.\<close>

definition check_Initialize ::
  "(string \<Rightarrow> 's \<Rightarrow> gerror option \<times> 's) \<Rightarrow> string \<Rightarrow> 's check \<Rightarrow> gerror option \<times> 's check" where
  "check_Initialize unmarshal i check =
     (let c = check\<lparr>ckID := i\<rparr> in
      if ckJSONSchema c \<noteq> []
      then (case unmarshal (ckJSONSchema c) (ckSchema c) of (e, s) \<Rightarrow> (e, c\<lparr>ckSchema := s\<rparr>))
      else (None, c))"

definition init_matches :: "bool \<Rightarrow> string \<Rightarrow> bool" where
  "init_matches isInit w \<longleftrightarrow> w = ''initContainer'' \<and> isInit \<or> w = ''container'' \<and> \<not> isInit"

definition check_IsActionable :: "'s check \<Rightarrow> string \<Rightarrow> supported \<Rightarrow> bool \<Rightarrow> bool" where
  "check_IsActionable check target controllerType isInit =
     (if ckTarget check \<noteq> target then False
      else if \<not> (ieInclude (ckControllers check) = [] \<or>
          list_ex (\<lambda>i. GetSupportedControllerFromString i = controllerType) (ieInclude (ckControllers check)))
      then False
      else if list_ex (\<lambda>x. GetSupportedControllerFromString x = controllerType) (ieExclude (ckControllers check))
      then False
      else if ckTarget check = TargetContainer then
        (if \<not> (ieInclude (ckContainers check) = [] \<or> list_ex (init_matches isInit) (ieInclude (ckContainers check)))
         then False
         else \<not> list_ex (init_matches isInit) (ieExclude (ckContainers check)))
      else True)"

section \<open>Ranges of quantities\<close>

text \<open>What a schema library hands to a validator is a string or something else.\<close>

datatype 'd iface = IString string | IOther 'd

record ('d, 'q) quantities =
  qtParse :: "string \<Rightarrow> 'q res"
  qtShow :: "'q \<Rightarrow> string"
  qtShowOther :: "'d \<Rightarrow> string"

fun parseQuantity :: "('d, 'q) quantities \<Rightarrow> 'd iface \<Rightarrow> string list + 'q" where
  "parseQuantity qt (IOther d) = Inl [''Resource quantity '' @ qtShowOther qt d @ '' is not a string'']"
| "parseQuantity qt (IString s) = (case qtParse qt s of
     Inl e \<Rightarrow> Inl [''Could not parse resource quantity: '' @ s] | Inr q \<Rightarrow> Inr q)"

definition validateRange ::
  "('d, 'q::linorder) quantities \<Rightarrow> string \<Rightarrow> 'd iface \<Rightarrow> 'd iface \<Rightarrow> bool \<Rightarrow> string list option" where
  "validateRange qt path limit data isMinimum = (case parseQuantity qt limit of
     Inl errs \<Rightarrow> Some errs
   | Inr limitQuantity \<Rightarrow> (case parseQuantity qt data of
       Inl errs \<Rightarrow> Some errs
     | Inr actualQuantity \<Rightarrow>
         if isMinimum then
           (if limitQuantity > actualQuantity
            then Some [path @ '' quantity '' @ qtShow qt actualQuantity @ '' is > '' @ qtShow qt limitQuantity]
            else None)
         else
           (if limitQuantity < actualQuantity
            then Some [path @ '' quantity '' @ qtShow qt actualQuantity @ '' is < '' @ qtShow qt limitQuantity]
            else None)))"

definition min_Validate ::
  "('d, 'q::linorder) quantities \<Rightarrow> string \<Rightarrow> string \<Rightarrow> 'd iface \<Rightarrow> string list \<Rightarrow> string list" where
  "min_Validate qt limit path data errs = (case validateRange qt path (IString limit) data True of
     None \<Rightarrow> errs | Some es \<Rightarrow> errs @ es)"

definition max_Validate ::
  "('d, 'q::linorder) quantities \<Rightarrow> string \<Rightarrow> string \<Rightarrow> 'd iface \<Rightarrow> string list \<Rightarrow> string list" where
  "max_Validate qt limit path data errs = (case validateRange qt path (IString limit) data False of
     None \<Rightarrow> errs | Some es \<Rightarrow> errs @ es)"

section \<open>The configuration\<close>

record exemption =
  exRules :: "string list"
  exControllerNames :: "string list"

record 's conf =
  cfDisplayName :: string
  cfChecks :: "(string, string) gomap"
  cfControllersToScan :: "supported list"
  cfCustomChecks :: "(string, 's check) gomap"
  cfExemptions :: "exemption list"
  cfDisallowExemptions :: bool

definition zero_conf :: "'s conf" where
  "zero_conf = \<lparr>cfDisplayName = [], cfChecks = [], cfControllersToScan = [], cfCustomChecks = [],
     cfExemptions = [], cfDisallowExemptions = False\<rparr>"

definition is_exempt :: "'s conf \<Rightarrow> string \<Rightarrow> string \<Rightarrow> bool" where
  "is_exempt conf ruleID controllerName \<longleftrightarrow>
     list_ex (\<lambda>example. list_ex (\<lambda>rule. rule = ruleID \<and>
         list_ex (has_prefix controllerName) (exControllerNames example)) (exRules example))
       (cfExemptions conf)"

definition conf_IsActionable :: "'s conf \<Rightarrow> string \<Rightarrow> string \<Rightarrow> bool" where
  "conf_IsActionable conf ruleID controllerName = (case map_of (cfChecks conf) ruleID of
     None \<Rightarrow> False
   | Some severity \<Rightarrow>
       if \<not> severity_IsActionable severity then False
       else if cfDisallowExemptions conf then True
       else \<not> is_exempt conf ruleID controllerName)"

definition CheckIfKindIsConfiguredForValidation :: "'s conf \<Rightarrow> string \<Rightarrow> bool" where
  "CheckIfKindIsConfiguredForValidation c kind =
     (let controller = GetSupportedControllerFromString kind in
      controller \<noteq> Unsupported \<and> list_ex (\<lambda>s. controller = s) (cfControllersToScan c))"

text \<open>
  A YAML stream is the list of its documents, each a decoder that fills in a struct and may fail;
  the end of the list is \<^verbatim>\<open>io.EOF\<close>.
\<close>

type_synonym 'x decoder = "'x \<Rightarrow> gerror option \<times> 'x"

fun decode_all :: "'x decoder list \<Rightarrow> 'x decoder" where
  "decode_all [] x = (None, x)"
| "decode_all (d # ds) x = (case d x of (Some e, x') \<Rightarrow> (Some e, x') | (None, x') \<Rightarrow> decode_all ds x')"

fun init_checks ::
  "(string \<Rightarrow> 's \<Rightarrow> gerror option \<times> 's) \<Rightarrow> (string \<times> 's check) list \<Rightarrow> 's conf \<Rightarrow> gerror option \<times> 's conf" where
  "init_checks unmarshal [] conf = (None, conf)"
| "init_checks unmarshal ((key, check) # ms) conf = (case check_Initialize unmarshal key check of
     (Some e, _) \<Rightarrow> (Some e, conf)
   | (None, c) \<Rightarrow> init_checks unmarshal ms (conf\<lparr>cfCustomChecks := AList.update key c (cfCustomChecks conf)\<rparr>))"

record 's conf_lib =
  clDocs :: "string \<Rightarrow> 's conf decoder list"
  clUnmarshalSchema :: "string \<Rightarrow> 's \<Rightarrow> gerror option \<times> 's"
  clBox :: "string res"
  clGet :: "string \<Rightarrow> (string res) res"
  clReadFile :: "string \<Rightarrow> string res"

definition conf_Parse :: "'s conf_lib \<Rightarrow> string \<Rightarrow> gerror option \<times> 's conf" where
  "conf_Parse cl rawBytes = (case decode_all (clDocs cl rawBytes) zero_conf of
     (Some e, conf) \<Rightarrow> (Some (''Decoding config failed: '' @ e), conf)
   | (None, conf) \<Rightarrow> init_checks (clUnmarshalSchema cl) (cfCustomChecks conf) conf)"

definition conf_ParseFile :: "'s conf_lib \<Rightarrow> string \<Rightarrow> gerror option \<times> 's conf" where
  "conf_ParseFile cl path =
     (let raw = (if path = [] then Inr (clBox cl)
        else if has_prefix path ''https://'' \<or> has_prefix path ''http://'' then clGet cl path
        else Inr (clReadFile cl path))
      in case raw of
        Inl err2 \<Rightarrow> (Some err2, zero_conf)
      | Inr (Inl err) \<Rightarrow> (Some err, zero_conf)
      | Inr (Inr rawBytes) \<Rightarrow> conf_Parse cl rawBytes)"

section \<open>Controllers\<close>

text \<open>Of a specification the checks see the containers and what the printer prints of the rest.\<close>

record container =
  pcName :: string
  pcRest :: string

record pod_spec =
  psInitContainers :: "container list"
  psContainers :: "container list"
  psRest :: string

record object_meta =
  omName :: string
  omNamespace :: string
  omAnnotations :: "(string, string) gomap"

text \<open>The workloads whose template is a value, and the replication controller with a pointer to it.\<close>

record workload =
  woMeta :: object_meta
  woSpec :: pod_spec

record replication_controller =
  rcMeta :: object_meta
  rcTemplate :: "pod_spec option"

text \<open>An interface value is what its methods return; the template is given by its specification.\<close>

record controller =
  ciName :: string
  ciNamespace :: string
  ciPodTemplate :: "pod_spec option"
  ciPodSpec :: "pod_spec go"
  ciKind :: supported
  ciMeta :: object_meta

definition GenericController :: "object_meta \<Rightarrow> pod_spec option \<Rightarrow> pod_spec go \<Rightarrow> supported \<Rightarrow> controller" where
  "GenericController meta template spec kind = \<lparr>ciName = omName meta, ciNamespace = omNamespace meta,
     ciPodTemplate = template, ciPodSpec = spec, ciKind = kind, ciMeta = meta\<rparr>"

definition NewDeploymentController :: "workload \<Rightarrow> controller" where
  "NewDeploymentController w = GenericController (woMeta w) (Some (woSpec w)) (Ret (woSpec w)) Deployments"

definition NewStatefulSetController :: "workload \<Rightarrow> controller" where
  "NewStatefulSetController w = GenericController (woMeta w) (Some (woSpec w)) (Ret (woSpec w)) StatefulSets"

definition NewDaemonSetController :: "workload \<Rightarrow> controller" where
  "NewDaemonSetController w = GenericController (woMeta w) (Some (woSpec w)) (Ret (woSpec w)) DaemonSets"

definition NewJobController :: "workload \<Rightarrow> controller" where
  "NewJobController w = GenericController (woMeta w) (Some (woSpec w)) (Ret (woSpec w)) Jobs"

definition NewCronJobController :: "workload \<Rightarrow> controller" where
  "NewCronJobController w = GenericController (woMeta w) (Some (woSpec w)) (Ret (woSpec w)) CronJobs"

definition NewNakedPodController :: "workload \<Rightarrow> controller" where
  "NewNakedPodController w = GenericController (woMeta w) None (Ret (woSpec w)) NakedPods"

text \<open>The specification of a replication controller without template is behind a nil pointer.\<close>

definition NewReplicationControllerController :: "replication_controller \<Rightarrow> controller" where
  "NewReplicationControllerController r = GenericController (rcMeta r) (rcTemplate r)
     (case rcTemplate r of None \<Rightarrow> Panic | Some t \<Rightarrow> Ret t) ReplicationControllers"

record provider =
  rpServerVersion :: string
  rpCreationTime :: string
  rpSourceName :: string
  rpSourceType :: string
  rpNodes :: "string list"
  rpDeployments :: "workload list"
  rpStatefulSets :: "workload list"
  rpDaemonSets :: "workload list"
  rpJobs :: "workload list"
  rpCronJobs :: "workload list"
  rpReplicationControllers :: "replication_controller list"
  rpNamespaces :: "string list"
  rpPods :: "workload list"

definition controllers_of :: "supported \<Rightarrow> provider \<Rightarrow> controller list" where
  "controllers_of controllerKind kubeResources = (case controllerKind of
     Deployments \<Rightarrow> map NewDeploymentController (rpDeployments kubeResources)
   | StatefulSets \<Rightarrow> map NewStatefulSetController (rpStatefulSets kubeResources)
   | DaemonSets \<Rightarrow> map NewDaemonSetController (rpDaemonSets kubeResources)
   | Jobs \<Rightarrow> map NewJobController (rpJobs kubeResources)
   | CronJobs \<Rightarrow> map NewCronJobController (rpCronJobs kubeResources)
   | ReplicationControllers \<Rightarrow> map NewReplicationControllerController (rpReplicationControllers kubeResources)
   | _ \<Rightarrow> [])"

definition LoadControllersByKind :: "supported \<Rightarrow> provider \<Rightarrow> controller list res go" where
  "LoadControllersByKind controllerKind kubeResources =
     (let interfaces = controllers_of controllerKind kubeResources in
      if interfaces \<noteq> [] then Ret (Inr interfaces)
      else go_map (\<lambda>k. Inl (''Controller type ('' @ k @ '') does not have a generator'')) (sc_String controllerKind))"

section \<open>Built-in checks\<close>

definition checkOrder :: "string list" where
  "checkOrder = [''hostIPCSet'', ''hostPIDSet'', ''hostNetworkSet'',
     ''memoryLimitsMissing'', ''memoryRequestsMissing'', ''cpuLimitsMissing'', ''cpuRequestsMissing'',
     ''readinessProbeMissing'', ''livenessProbeMissing'', ''pullPolicyNotAlways'', ''tagNotSpecified'',
     ''hostPortSet'', ''runAsRootAllowed'', ''runAsPrivileged'', ''notReadOnlyRootFileSystem'',
     ''privilegeEscalationAllowed'', ''dangerousCapabilities'', ''insecureCapabilities'']"

definition zero_check :: "'s \<Rightarrow> 's check" where
  "zero_check s = \<lparr>ckID = [], ckCategory = [], ckSuccessMessage = [], ckFailureMessage = [],
     ckControllers = \<lparr>ieInclude = [], ieExclude = []\<rparr>, ckContainers = \<lparr>ieInclude = [], ieExclude = []\<rparr>,
     ckTarget = [], ckSchemaTarget = [], ckSchema = s, ckJSONSchema = []\<rparr>"

definition parseCheck :: "(string \<Rightarrow> 's check decoder list) \<Rightarrow> 's \<Rightarrow> string \<Rightarrow> gerror option \<times> 's check" where
  "parseCheck docs s rawBytes = (case decode_all (docs rawBytes) (zero_check s) of
     (Some e, check) \<Rightarrow> (Some (''Decoding schema check failed: '' @ e), check)
   | (None, check) \<Rightarrow> (None, check))"

text \<open>A check that is missing or unreadable ends the start of the program.\<close>

fun validator_init :: "(string \<Rightarrow> string res) \<Rightarrow> (string \<Rightarrow> 's check decoder list) \<Rightarrow> 's \<Rightarrow> string list
    \<Rightarrow> (string, 's check) gomap \<Rightarrow> (string, 's check) gomap go" where
  "validator_init box docs s [] builtInChecks = Ret builtInChecks"
| "validator_init box docs s (checkID # ids) builtInChecks = (case box checkID of
     Inl e \<Rightarrow> Panic
   | Inr contents \<Rightarrow> (case parseCheck docs s contents of
       (Some e, _) \<Rightarrow> Panic
     | (None, check) \<Rightarrow> validator_init box docs s ids
         (AList.update checkID (check\<lparr>ckID := checkID\<rparr>) builtInChecks)))"

section \<open>Results\<close>

record result_message =
  rmID :: string
  rmMessage :: string
  rmSuccess :: bool
  rmSeverity :: string
  rmCategory :: string

type_synonym result_set = "(string, result_message) gomap"

record container_result =
  crName :: string
  crResults :: result_set

record pod_result =
  prName :: string
  prResults :: result_set
  prContainerResults :: "container_result list"

record controller_result =
  ctName :: string
  ctNamespace :: string
  ctKind :: string
  ctResults :: result_set
  ctPodResult :: pod_result

section \<open>Checking one controller\<close>

record 's schema_lib =
  slMarshalPod :: "pod_spec \<Rightarrow> string res"
  slMarshalContainer :: "container \<Rightarrow> string res"
  slValidate :: "'s \<Rightarrow> string \<Rightarrow> string list \<times> gerror option"
  slBuiltIn :: "(string, 's check) gomap"

definition CheckObject ::
  "'s schema_lib \<Rightarrow> ('o \<Rightarrow> string res) \<Rightarrow> 's check \<Rightarrow> 'o \<Rightarrow> bool \<times> gerror option" where
  "CheckObject sl marshal check obj = (case marshal obj of
     Inl e \<Rightarrow> (False, Some e)
   | Inr bytes \<Rightarrow> (case slValidate sl (ckSchema check) bytes of (errs, err) \<Rightarrow> (errs = [], err)))"

definition CheckPod :: "'s schema_lib \<Rightarrow> 's check \<Rightarrow> pod_spec \<Rightarrow> bool \<times> gerror option" where
  "CheckPod sl check pod = CheckObject sl (slMarshalPod sl) check pod"

definition CheckContainer :: "'s schema_lib \<Rightarrow> 's check \<Rightarrow> container \<Rightarrow> bool \<times> gerror option" where
  "CheckContainer sl check c = CheckObject sl (slMarshalContainer sl) check c"

definition lookup_check :: "'s schema_lib \<Rightarrow> 's conf \<Rightarrow> string \<Rightarrow> 's check option" where
  "lookup_check sl conf checkID = (case map_of (cfCustomChecks conf) checkID of
     Some check \<Rightarrow> Some check | None \<Rightarrow> map_of (slBuiltIn sl) checkID)"

definition resolveCheck :: "'s schema_lib \<Rightarrow> 's conf \<Rightarrow> string \<Rightarrow> controller \<Rightarrow> string \<Rightarrow> bool \<Rightarrow> 's check option res" where
  "resolveCheck sl conf checkID ctrl target isInitContainer = (case lookup_check sl conf checkID of
     None \<Rightarrow> Inl (''Check '' @ checkID @ '' not found'')
   | Some check \<Rightarrow>
       if \<not> conf_IsActionable conf (ckID check) (ciName ctrl) then Inr None
       else if \<not> check_IsActionable check target (ciKind ctrl) isInitContainer then Inr None
       else Inr (Some check))"

definition makeResult :: "'s conf \<Rightarrow> 's check \<Rightarrow> bool \<Rightarrow> result_message" where
  "makeResult conf check passes = \<lparr>rmID = ckID check,
     rmMessage = (if passes then ckSuccessMessage check else ckFailureMessage check),
     rmSuccess = passes, rmSeverity = gm_get [] (cfChecks conf) (ckID check), rmCategory = ckCategory check\<rparr>"

definition getExemptKey :: "string \<Rightarrow> string" where
  "getExemptKey checkID = ''polaris.fairwinds.com/'' @ checkID @ ''-exempt''"

definition annotated_exempt :: "controller \<Rightarrow> string \<Rightarrow> bool" where
  "annotated_exempt ctrl checkID \<longleftrightarrow>
     to_lower (gm_get [] (omAnnotations (ciMeta ctrl)) (getExemptKey checkID)) = ''true''"

definition getSortedKeys :: "(string, string) gomap \<Rightarrow> string list" where
  "getSortedKeys m = sort_by (\<lambda>a b. a < b) (map fst m)"

text \<open>The loop of both functions that apply checks; they differ in how a check is resolved and run.\<close>

fun checks_loop ::
  "(string \<Rightarrow> 's check option res) \<Rightarrow> ('s check \<Rightarrow> (bool \<times> gerror option) go) \<Rightarrow> 's conf \<Rightarrow> controller
    \<Rightarrow> string list \<Rightarrow> result_set \<Rightarrow> result_set res go" where
  "checks_loop resolve run conf ctrl [] results = Ret (Inr results)"
| "checks_loop resolve run conf ctrl (checkID # ids) results =
     (if annotated_exempt ctrl checkID then checks_loop resolve run conf ctrl ids results
      else case resolve checkID of
        Inl err \<Rightarrow> Ret (Inl err)
      | Inr None \<Rightarrow> checks_loop resolve run conf ctrl ids results
      | Inr (Some check) \<Rightarrow> (case run check of
          Panic \<Rightarrow> Panic
        | Ret (passes, Some err) \<Rightarrow> Ret (Inl err)
        | Ret (passes, None) \<Rightarrow> checks_loop resolve run conf ctrl ids
            (AList.update (ckID check) (makeResult conf check passes) results)))"

definition run_pod_check :: "'s schema_lib \<Rightarrow> controller \<Rightarrow> 's check \<Rightarrow> (bool \<times> gerror option) go" where
  "run_pod_check sl ctrl check = go_map (CheckPod sl check) (ciPodSpec ctrl)"

definition applyPodSchemaChecks :: "'s schema_lib \<Rightarrow> 's conf \<Rightarrow> controller \<Rightarrow> result_set res go" where
  "applyPodSchemaChecks sl conf ctrl =
     checks_loop (\<lambda>checkID. resolveCheck sl conf checkID ctrl TargetPod False) (run_pod_check sl ctrl)
       conf ctrl (getSortedKeys (cfChecks conf)) []"

definition run_container_check ::
  "'s schema_lib \<Rightarrow> controller \<Rightarrow> container \<Rightarrow> 's check \<Rightarrow> (bool \<times> gerror option) go" where
  "run_container_check sl ctrl c check =
     (if ckSchemaTarget check = TargetPod
      then go_map (\<lambda>pod. CheckPod sl check (pod\<lparr>psInitContainers := [], psContainers := [c]\<rparr>)) (ciPodSpec ctrl)
      else Ret (CheckContainer sl check c))"

definition applyContainerSchemaChecks ::
  "'s schema_lib \<Rightarrow> 's conf \<Rightarrow> controller \<Rightarrow> container \<Rightarrow> bool \<Rightarrow> result_set res go" where
  "applyContainerSchemaChecks sl conf ctrl c isInit =
     checks_loop (\<lambda>checkID. resolveCheck sl conf checkID ctrl TargetContainer isInit) (run_container_check sl ctrl c)
       conf ctrl (getSortedKeys (cfChecks conf)) []"

definition ValidateContainer ::
  "'s schema_lib \<Rightarrow> 's conf \<Rightarrow> controller \<Rightarrow> container \<Rightarrow> bool \<Rightarrow> container_result res go" where
  "ValidateContainer sl conf ctrl c isInit = (case applyContainerSchemaChecks sl conf ctrl c isInit of
     Panic \<Rightarrow> Panic | Ret (Inl err) \<Rightarrow> Ret (Inl err)
   | Ret (Inr results) \<Rightarrow> Ret (Inr \<lparr>crName = pcName c, crResults = results\<rparr>))"

text \<open>A loop that appends the result of every element and stops at the first error.\<close>

fun collect :: "('a \<Rightarrow> 'b res go) \<Rightarrow> 'a list \<Rightarrow> 'b list \<Rightarrow> 'b list res go" where
  "collect f [] results = Ret (Inr results)"
| "collect f (x # xs) results = (case f x of
     Panic \<Rightarrow> Panic | Ret (Inl err) \<Rightarrow> Ret (Inl err) | Ret (Inr r) \<Rightarrow> collect f xs (results @ [r]))"

definition ValidateAllContainers :: "'s schema_lib \<Rightarrow> 's conf \<Rightarrow> controller \<Rightarrow> container_result list res go" where
  "ValidateAllContainers sl conf ctrl = go_bind (ciPodSpec ctrl) (\<lambda>pod.
     case collect (\<lambda>c. ValidateContainer sl conf ctrl c True) (psInitContainers pod) [] of
       Panic \<Rightarrow> Panic | Ret (Inl err) \<Rightarrow> Ret (Inl err)
     | Ret (Inr results) \<Rightarrow> collect (\<lambda>c. ValidateContainer sl conf ctrl c False) (psContainers pod) results)"

definition ValidatePod :: "'s schema_lib \<Rightarrow> 's conf \<Rightarrow> controller \<Rightarrow> pod_result res go" where
  "ValidatePod sl conf ctrl = (case applyPodSchemaChecks sl conf ctrl of
     Panic \<Rightarrow> Panic | Ret (Inl err) \<Rightarrow> Ret (Inl err)
   | Ret (Inr podResults) \<Rightarrow> (case ValidateAllContainers sl conf ctrl of
       Panic \<Rightarrow> Panic | Ret (Inl err) \<Rightarrow> Ret (Inl err)
     | Ret (Inr cs) \<Rightarrow> Ret (Inr \<lparr>prName = [], prResults = podResults, prContainerResults = cs\<rparr>)))"

definition ValidateController :: "'s schema_lib \<Rightarrow> 's conf \<Rightarrow> controller \<Rightarrow> controller_result res go" where
  "ValidateController sl conf ctrl = (case ValidatePod sl conf ctrl of
     Panic \<Rightarrow> Panic | Ret (Inl err) \<Rightarrow> Ret (Inl err)
   | Ret (Inr podResult) \<Rightarrow> go_map (\<lambda>kind. Inr \<lparr>ctName = ciName ctrl, ctNamespace = omNamespace (ciMeta ctrl),
       ctKind = kind, ctResults = [], ctPodResult = podResult\<rparr>) (sc_String (ciKind ctrl)))"

definition exemptionAnnotationKey :: string where
  "exemptionAnnotationKey = ''polaris.fairwinds.com/exempt''"

definition hasExemptionAnnotation :: "controller \<Rightarrow> bool" where
  "hasExemptionAnnotation ctrl \<longleftrightarrow>
     to_lower (gm_get [] (omAnnotations (ciMeta ctrl)) exemptionAnnotationKey) = ''true''"

text \<open>An error of \<^verbatim>\<open>LoadControllersByKind\<close> is ignored; the slice that comes with it is empty.\<close>

fun load_controllers :: "provider \<Rightarrow> supported list \<Rightarrow> controller list go" where
  "load_controllers kr [] = Ret []"
| "load_controllers kr (k # ks) = go_bind (LoadControllersByKind k kr) (\<lambda>r.
     go_map ((@) (case r of Inl e \<Rightarrow> [] | Inr cs \<Rightarrow> cs)) (load_controllers kr ks))"

definition audited :: "'s conf \<Rightarrow> controller list \<Rightarrow> controller list" where
  "audited conf cs = filter (\<lambda>c. \<not> (\<not> cfDisallowExemptions conf \<and> hasExemptionAnnotation c)) cs"

definition ValidateControllers :: "'s schema_lib \<Rightarrow> 's conf \<Rightarrow> provider \<Rightarrow> controller_result list res go" where
  "ValidateControllers sl conf kr = go_bind (load_controllers kr (cfControllersToScan conf)) (\<lambda>cs.
     collect (ValidateController sl conf) (audited conf cs) [])"

section \<open>The audit\<close>

record cluster_summary =
  csVersion :: string
  csNodes :: nat
  csPods :: nat
  csNamespaces :: nat
  csDeployments :: nat
  csStatefulSets :: nat
  csDaemonSets :: nat
  csJobs :: nat
  csCronJobs :: nat
  csReplicationControllers :: nat

record audit_data =
  adPolarisOutputVersion :: string
  adAuditTime :: string
  adSourceType :: string
  adSourceName :: string
  adDisplayName :: string
  adClusterInfo :: cluster_summary
  adResults :: "controller_result list"

definition PolarisOutputVersion :: string where "PolarisOutputVersion = ''1.0''"

definition RunAudit :: "'s schema_lib \<Rightarrow> 's conf \<Rightarrow> provider \<Rightarrow> audit_data res go" where
  "RunAudit sl config kr =
     (let displayName = (if cfDisplayName config = [] then rpSourceName kr else cfDisplayName config) in
      go_map (\<lambda>r. case r of
          Inl err \<Rightarrow> Inl err
        | Inr results \<Rightarrow> Inr \<lparr>adPolarisOutputVersion = PolarisOutputVersion, adAuditTime = rpCreationTime kr,
            adSourceType = rpSourceType kr, adSourceName = rpSourceName kr, adDisplayName = displayName,
            adClusterInfo = \<lparr>csVersion = rpServerVersion kr, csNodes = length (rpNodes kr),
              csPods = length (rpPods kr), csNamespaces = length (rpNamespaces kr),
              csDeployments = length (rpDeployments kr), csStatefulSets = length (rpStatefulSets kr),
              csDaemonSets = length (rpDaemonSets kr), csJobs = length (rpJobs kr),
              csCronJobs = length (rpCronJobs kr),
              csReplicationControllers = length (rpReplicationControllers kr)\<rparr>,
            adResults = results\<rparr>)
        (ValidateControllers sl config kr))"

text \<open>A report is read as the documents of its stream, one over the other.\<close>

definition ParseAudit :: "(string \<Rightarrow> 'a decoder list) \<Rightarrow> 'a \<Rightarrow> string \<Rightarrow> gerror option \<times> 'a" where
  "ParseAudit docs zero oldFileBytes = (case decode_all (docs oldFileBytes) zero of
     (Some e, a) \<Rightarrow> (Some (''Decoding config failed: '' @ e), a) | (None, a) \<Rightarrow> (None, a))"

section \<open>Summaries\<close>

text \<open>The counters are unsigned words of 64 bits.\<close>

record count_summary =
  smSuccesses :: "64 word"
  smWarnings :: "64 word"
  smErrors :: "64 word"

definition zero_summary :: count_summary where
  "zero_summary = \<lparr>smSuccesses = 0, smWarnings = 0, smErrors = 0\<rparr>"

definition cs_AddSummary :: "count_summary \<Rightarrow> count_summary \<Rightarrow> count_summary" where
  "cs_AddSummary cs other = \<lparr>smSuccesses = smSuccesses cs + smSuccesses other,
     smWarnings = smWarnings cs + smWarnings other, smErrors = smErrors cs + smErrors other\<rparr>"

definition cs_AddResult :: "count_summary \<Rightarrow> result_message \<Rightarrow> count_summary" where
  "cs_AddResult cs result =
     (if \<not> rmSuccess result then
        (if rmSeverity result = SeverityWarning then cs\<lparr>smWarnings := smWarnings cs + 1\<rparr>
         else cs\<lparr>smErrors := smErrors cs + 1\<rparr>)
      else cs\<lparr>smSuccesses := smSuccesses cs + 1\<rparr>)"

type_synonym category_summary = "(string, count_summary) gomap"

definition csc_AddSummary :: "category_summary \<Rightarrow> category_summary \<Rightarrow> category_summary" where
  "csc_AddSummary csc other = fold (\<lambda>cat m. AList.update cat
       (cs_AddSummary (gm_get zero_summary m cat) (gm_get zero_summary other cat)) m)
     (map fst csc @ map fst other) csc"

definition rs_GetSummary :: "result_set \<Rightarrow> count_summary" where
  "rs_GetSummary rs = foldl cs_AddResult zero_summary (map snd rs)"

definition rs_GetSummaryByCategory :: "result_set \<Rightarrow> category_summary" where
  "rs_GetSummaryByCategory rs = foldl (\<lambda>summaries result. AList.update (rmCategory result)
       (cs_AddResult (gm_get zero_summary summaries (rmCategory result)) result) summaries) [] (map snd rs)"

definition pr_GetSummary :: "pod_result \<Rightarrow> count_summary" where
  "pr_GetSummary p = foldl (\<lambda>summary c. cs_AddSummary summary (rs_GetSummary (crResults c)))
     (rs_GetSummary (prResults p)) (prContainerResults p)"

definition pr_GetSummaryByCategory :: "pod_result \<Rightarrow> category_summary" where
  "pr_GetSummaryByCategory p = foldl (\<lambda>summaries c. csc_AddSummary summaries (rs_GetSummaryByCategory (crResults c)))
     (rs_GetSummaryByCategory (prResults p)) (prContainerResults p)"

definition ct_GetSummary :: "controller_result \<Rightarrow> count_summary" where
  "ct_GetSummary c = cs_AddSummary (rs_GetSummary (ctResults c)) (pr_GetSummary (ctPodResult c))"

definition ct_GetSummaryByCategory :: "controller_result \<Rightarrow> category_summary" where
  "ct_GetSummaryByCategory c =
     csc_AddSummary (rs_GetSummaryByCategory (ctResults c)) (pr_GetSummaryByCategory (ctPodResult c))"

definition ad_GetSummary :: "audit_data \<Rightarrow> count_summary" where
  "ad_GetSummary a = foldl (\<lambda>summary c. cs_AddSummary summary (ct_GetSummary c)) zero_summary (adResults a)"

definition ad_GetSummaryByCategory :: "audit_data \<Rightarrow> category_summary" where
  "ad_GetSummaryByCategory a =
     foldl (\<lambda>summaries c. csc_AddSummary summaries (ct_GetSummaryByCategory c)) [] (adResults a)"

text \<open>The results of a namespace are pointers into the list, given here by their indices.\<close>

definition GetResultsByNamespace :: "audit_data \<Rightarrow> (string, nat list) gomap" where
  "GetResultsByNamespace a = foldl (\<lambda>allResults (idx, c). AList.update (ctNamespace c)
       (gm_get [] allResults (ctNamespace c) @ [idx]) allResults) [] (enumerate 0 (adResults a))"

definition GetSuccesses :: "result_set \<Rightarrow> result_message list" where
  "GetSuccesses rs = filter rmSuccess (map snd rs)"

definition GetWarnings :: "result_set \<Rightarrow> result_message list" where
  "GetWarnings rs = filter (\<lambda>m. \<not> rmSuccess m \<and> rmSeverity m = SeverityWarning) (map snd rs)"

definition GetErrors :: "result_set \<Rightarrow> result_message list" where
  "GetErrors rs = filter (\<lambda>m. \<not> rmSuccess m \<and> rmSeverity m = SeverityError) (map snd rs)"

definition GetSortedResults :: "result_set \<Rightarrow> result_message list" where
  "GetSortedResults rs = GetErrors rs @ GetWarnings rs @ GetSuccesses rs"

end
