(* ===== verification/PolarisAudit.thy ===== *)
theory PolarisAudit
  imports Polaris
begin

text \<open>
  What the audit does: every check that is due has its result and no other, the order in which Go
  iterates over its maps does not matter, panics are confined to replication controllers without
  template, and the summary counts the results.
\<close>

section \<open>Kinds\<close>

definition kind_name :: "supported \<Rightarrow> string" where
  "kind_name s = the_ret (sc_String s)"

lemma sc_String [simp]: "sc_String s = Ret (kind_name s)"
  by (cases s) (simp_all add: sc_String_def kind_name_def ControllerStrings_def eval_nat_numeral)

lemma kind_name_simps:
  "kind_name Unsupported = ''Unsupported''" "kind_name Deployments = ''Deployment''"
  "kind_name StatefulSets = ''StatefulSet''" "kind_name DaemonSets = ''DaemonSet''"
  "kind_name Jobs = ''Job''" "kind_name CronJobs = ''CronJob''"
  "kind_name ReplicationControllers = ''ReplicationController''" "kind_name NakedPods = ''NakedPod''"
  by (simp_all add: kind_name_def sc_String_def ControllerStrings_def eval_nat_numeral del: sc_String)

lemma kind_of_name: "GetSupportedControllerFromString (kind_name s) = s"
  by (cases s; simp only: kind_name_simps; code_simp)

definition letter :: "char \<Rightarrow> bool" where
  "letter c \<longleftrightarrow> (let n = of_char c :: nat in 65 \<le> n \<and> n \<le> 90 \<or> 97 \<le> n \<and> n \<le> 122)"

lemma kind_name_letters: "list_all letter (kind_name s)"
  by (cases s) (simp_all add: kind_name_simps letter_def of_char_def)

text \<open>
  A kind of controller that is written as JSON is read back as the same kind, whatever reader of JSON
  strings is used, as long as it takes the quotes off a word of letters; the value for unsupported kinds
  is neither written nor read.
\<close>

theorem kind_json_roundtrip:
  assumes "\<And>w. list_all letter w \<Longrightarrow> json_string (CHR 0x22 # w @ [CHR 0x22]) = Inr w"
  shows "s \<noteq> Unsupported \<Longrightarrow>
      \<exists>b. sc_MarshalJSON s = Ret (Inr b) \<and> sc_UnmarshalJSON json_string b = Inr s"
    and "\<exists>e. sc_MarshalJSON Unsupported = Ret (Inl e)"
    and "sc_UnmarshalJSON json_string b \<noteq> Inr Unsupported"
proof -
  show "\<exists>b. sc_MarshalJSON s = Ret (Inr b) \<and> sc_UnmarshalJSON json_string b = Inr s" if "s \<noteq> Unsupported"
    using that assms [OF kind_name_letters [of s]]
    by (simp add: sc_MarshalJSON_def sc_UnmarshalJSON_def kind_of_name Let_def)
qed (auto simp: sc_MarshalJSON_def sc_UnmarshalJSON_def Let_def split: sum.splits if_splits)

lemma kind_json_roundtrip_witness:
  "\<exists>b. sc_MarshalJSON CronJobs = Ret (Inr b)
      \<and> sc_UnmarshalJSON (\<lambda>b. Inr (butlast (tl b))) b = Inr CronJobs"
  by (rule kind_json_roundtrip(1)) simp_all

section \<open>Sorted keys\<close>

lemma set_getSortedKeys [simp]: "set (getSortedKeys m) = set (map fst m)"
  by (simp add: getSortedKeys_def)

lemma getSortedKeys_cong:
  assumes "gm_ok m" "gm_ok m'" "map_of m = map_of m'"
  shows "getSortedKeys m = getSortedKeys m'"
proof -
  have "set (map fst m) = set (map fst m')"
    using assms(3) by (metis dom_map_of_conv_image_fst list.set_map)
  with assms(1,2) have "mset (map fst m) = mset (map fst m')"
    using set_eq_iff_mset_eq_distinct [of "map fst m" "map fst m'"] by (simp only: gm_ok_def)
  then show ?thesis
    by (simp only: getSortedKeys_def sort_by_less sorted_list_of_multiset_mset [symmetric])
qed

section \<open>Applying checks\<close>

text \<open>The result of a check, where one is due.\<close>

definition outcome ::
  "(string \<Rightarrow> 's check option res) \<Rightarrow> ('s check \<Rightarrow> (bool \<times> gerror option) go) \<Rightarrow> 's conf \<Rightarrow> controller
    \<Rightarrow> string \<Rightarrow> result_message option" where
  "outcome resolve run conf ctrl k =
     (if annotated_exempt ctrl k then None else case resolve k of
        Inr (Some check) \<Rightarrow> (case run check of
            Ret (passes, None) \<Rightarrow> Some (makeResult conf check passes) | _ \<Rightarrow> None)
      | _ \<Rightarrow> None)"

lemma checks_loop_map_of:
  assumes "\<And>k c. resolve k = Inr (Some c) \<Longrightarrow> ckID c = k"
    and "checks_loop resolve run conf ctrl ids results = Ret (Inr rs)"
  shows "map_of rs k = (if k \<in> set ids \<and> outcome resolve run conf ctrl k \<noteq> None
      then outcome resolve run conf ctrl k else map_of results k)"
  using assms(2)
proof (induction ids arbitrary: results)
  case (Cons i ids)
  show ?case
  proof (cases "annotated_exempt ctrl i")
    case True
    then show ?thesis using Cons by (auto simp: outcome_def)
  next
    case False
    show ?thesis
    proof (cases "\<exists>c. resolve i = Inr (Some c)")
      case True
      then obtain c where c: "resolve i = Inr (Some c)" "ckID c = i" using assms(1) by blast
      with Cons.prems False obtain p where p: "run c = Ret (p, None)"
        by (auto split: go.splits prod.splits option.splits)
      then have "outcome resolve run conf ctrl i = Some (makeResult conf c p)"
        using c False by (simp add: outcome_def)
      then show ?thesis using Cons.IH [of "AList.update i (makeResult conf c p) results"] Cons.prems c p False
        by (auto simp: update_conv')
    next
      case no: False
      then have "outcome resolve run conf ctrl i = None"
        by (auto simp: outcome_def split: sum.splits option.splits)
      then show ?thesis using Cons no False by (auto split: sum.splits option.splits)
    qed
  qed
qed simp

lemma checks_loop_ok:
  assumes "checks_loop resolve run conf ctrl ids results = Ret (Inr rs)" "gm_ok results"
  shows "gm_ok rs"
  using assms
  by (induction ids arbitrary: results) (auto split: if_splits sum.splits option.splits go.splits prod.splits)

text \<open>The configuration matters only through the severities.\<close>

lemma checks_loop_cong:
  assumes "map_of (cfChecks conf) = map_of (cfChecks conf')"
  shows "checks_loop resolve run conf ctrl ids results = checks_loop resolve run conf' ctrl ids results"
proof -
  have "makeResult conf c p = makeResult conf' c p" for c :: "'a check" and p
    using assms by (simp add: makeResult_def gm_get_def)
  then show ?thesis
    by (induction ids arbitrary: results) (auto split: sum.splits option.splits go.splits prod.splits)
qed

lemma checks_loop_Panic:
  assumes "checks_loop resolve run conf ctrl ids results = Panic"
  shows "\<exists>c. run c = Panic"
  using assms
  by (induction ids arbitrary: results) (auto split: if_splits sum.splits option.splits go.splits prod.splits)

text \<open>Every check carries the name under which it is found.\<close>

definition ids_ok :: "'s schema_lib \<Rightarrow> 's conf \<Rightarrow> bool" where
  "ids_ok sl conf \<longleftrightarrow> (\<forall>k c. lookup_check sl conf k = Some c \<longrightarrow> ckID c = k)"

lemma resolveCheck_id: "ids_ok sl conf \<Longrightarrow> resolveCheck sl conf k ctrl t i = Inr (Some c) \<Longrightarrow> ckID c = k"
  by (auto simp: resolveCheck_def ids_ok_def split: option.splits if_splits)

lemma resolveCheck_Some:
  "resolveCheck sl conf k ctrl t i = Inr (Some c) \<longleftrightarrow>
     lookup_check sl conf k = Some c \<and> conf_IsActionable conf (ckID c) (ciName ctrl)
       \<and> check_IsActionable c t (ciKind ctrl) i"
  by (auto simp: resolveCheck_def split: option.splits)

text \<open>A check that is due for a target of a controller.\<close>

definition check_due :: "'s schema_lib \<Rightarrow> 's conf \<Rightarrow> controller \<Rightarrow> string \<Rightarrow> bool \<Rightarrow> string \<Rightarrow> 's check \<Rightarrow> bool" where
  "check_due sl conf ctrl target isInit k check \<longleftrightarrow>
     lookup_check sl conf k = Some check \<and> \<not> annotated_exempt ctrl k
     \<and> (\<exists>sev. map_of (cfChecks conf) k = Some sev \<and> severity_IsActionable sev)
     \<and> (cfDisallowExemptions conf \<or> \<not> is_exempt conf k (ciName ctrl))
     \<and> check_IsActionable check target (ciKind ctrl) isInit"

lemma conf_IsActionable_iff:
  "conf_IsActionable conf k n \<longleftrightarrow> (\<exists>sev. map_of (cfChecks conf) k = Some sev \<and> severity_IsActionable sev)
     \<and> (cfDisallowExemptions conf \<or> \<not> is_exempt conf k n)"
  by (auto simp: conf_IsActionable_def split: option.splits)

lemma outcome_Some:
  assumes "ids_ok sl conf"
  shows "outcome (\<lambda>k. resolveCheck sl conf k ctrl t i) run conf ctrl k = Some m \<longleftrightarrow>
     (\<exists>c p. check_due sl conf ctrl t i k c \<and> run c = Ret (p, None) \<and> m = makeResult conf c p)"
proof
  assume o: "outcome (\<lambda>k. resolveCheck sl conf k ctrl t i) run conf ctrl k = Some m"
  then obtain c p where c: "resolveCheck sl conf k ctrl t i = Inr (Some c)" "run c = Ret (p, None)"
      "m = makeResult conf c p" "\<not> annotated_exempt ctrl k"
    by (auto simp: outcome_def split: if_splits sum.splits option.splits go.splits prod.splits)
  with resolveCheck_id [OF assms c(1)]
  show "\<exists>c p. check_due sl conf ctrl t i k c \<and> run c = Ret (p, None) \<and> m = makeResult conf c p"
    by (auto simp: check_due_def resolveCheck_Some conf_IsActionable_iff)
next
  assume "\<exists>c p. check_due sl conf ctrl t i k c \<and> run c = Ret (p, None) \<and> m = makeResult conf c p"
  then obtain c p where c: "check_due sl conf ctrl t i k c" "run c = Ret (p, None)" "m = makeResult conf c p"
    by blast
  then have "resolveCheck sl conf k ctrl t i = Inr (Some c)"
    using assms by (auto simp: check_due_def ids_ok_def resolveCheck_Some conf_IsActionable_iff)
  with c show "outcome (\<lambda>k. resolveCheck sl conf k ctrl t i) run conf ctrl k = Some m"
    by (auto simp: outcome_def check_due_def)
qed

lemma check_due_configured: "check_due sl conf ctrl t i k c \<Longrightarrow> k \<in> set (map fst (cfChecks conf))"
  by (auto simp: check_due_def dest!: map_of_SomeD intro: rev_image_eqI)

lemma applied_exactly:
  assumes "ids_ok sl conf"
    and "checks_loop (\<lambda>k. resolveCheck sl conf k ctrl t i) run conf ctrl (getSortedKeys (cfChecks conf)) [] =
      Ret (Inr rs)"
  shows "map_of rs k = Some m \<longleftrightarrow>
    (\<exists>c p. check_due sl conf ctrl t i k c \<and> run c = Ret (p, None) \<and> m = makeResult conf c p)"
proof -
  let ?o = "outcome (\<lambda>k. resolveCheck sl conf k ctrl t i) run conf ctrl k"
  have "map_of rs k = (if k \<in> set (getSortedKeys (cfChecks conf)) \<and> ?o \<noteq> None then ?o else map_of [] k)"
    using assms by (intro checks_loop_map_of [OF resolveCheck_id]) blast+
  then have "map_of rs k = Some m \<longleftrightarrow> k \<in> set (map fst (cfChecks conf)) \<and> ?o = Some m" by auto
  then show ?thesis using outcome_Some [OF assms(1)] check_due_configured [of sl conf ctrl t i k] by blast
qed

section \<open>The start\<close>

lemma validator_init_ids:
  assumes "validator_init box docs s ids b0 = Ret b" "map_of b k = Some c"
  shows "(k \<in> set ids \<longrightarrow> ckID c = k) \<and> (k \<notin> set ids \<longrightarrow> map_of b0 k = Some c)"
  using assms
proof (induction ids arbitrary: b0)
  case (Cons i ids)
  then obtain c0 where "validator_init box docs s ids (AList.update i (c0\<lparr>ckID := i\<rparr>) b0) = Ret b"
    by (auto split: sum.splits prod.splits option.splits)
  from Cons.IH [OF this Cons.prems(2)] show ?case by (auto simp: update_conv' split: if_splits)
qed simp

lemma check_Initialize_id: "check_Initialize unm k c = (e, c') \<Longrightarrow> ckID c' = k"
  by (auto simp: check_Initialize_def Let_def split: if_splits prod.splits)

lemma init_checks_ids:
  assumes "init_checks unm ms conf = (None, conf')" "map_of (cfCustomChecks conf') k = Some c"
  shows "(k \<in> fst ` set ms \<longrightarrow> ckID c = k) \<and> (k \<notin> fst ` set ms \<longrightarrow> map_of (cfCustomChecks conf) k = Some c)"
  using assms
proof (induction ms arbitrary: conf)
  case (Cons m ms)
  obtain i c0 where m: "m = (i, c0)" by (cases m)
  with Cons.prems obtain c1 where c1: "check_Initialize unm i c0 = (None, c1)"
      "init_checks unm ms (conf\<lparr>cfCustomChecks := AList.update i c1 (cfCustomChecks conf)\<rparr>) = (None, conf')"
    by (auto split: prod.splits option.splits)
  from Cons.IH [OF c1(2) Cons.prems(2)] check_Initialize_id [OF c1(1)] m
  show ?case by (auto simp: update_conv' split: if_splits)
qed simp

text \<open>The checks of a program that has started: a configuration that was read, and the built-in checks.\<close>

definition started :: "'s schema_lib \<Rightarrow> 's conf \<Rightarrow> bool" where
  "started sl conf \<longleftrightarrow>
     (\<exists>cl raw. conf_Parse cl raw = (None, conf)) \<and>
     (\<exists>box docs s. validator_init box docs s checkOrder [] = Ret (slBuiltIn sl))"

lemma started_ids_ok: "started sl conf \<Longrightarrow> ids_ok sl conf"
proof -
  assume "started sl conf"
  then obtain cl raw box docs s where p: "conf_Parse cl raw = (None, conf)"
    and b: "validator_init box docs s checkOrder [] = Ret (slBuiltIn sl)"
    by (auto simp: started_def)
  from p obtain conf0 where c0: "init_checks (clUnmarshalSchema cl) (cfCustomChecks conf0) conf0 = (None, conf)"
    by (auto simp: conf_Parse_def split: prod.splits option.splits)
  have "ckID c = k" if "map_of (cfCustomChecks conf) k = Some c" for k c
    using init_checks_ids [OF c0 that] by (force dest: map_of_SomeD)
  moreover have "ckID c = k" if "map_of (slBuiltIn sl) k = Some c" for k c
    using validator_init_ids [OF b that] by auto
  ultimately show "ids_ok sl conf" by (auto simp: ids_ok_def lookup_check_def split: option.splits)
qed

text \<open>
  C24: Once the program has started, the results of a pod, and those of a container, hold exactly the checks
  that are configured with an actionable severity, aim at this target, this kind of controller and this
  kind of container and are exempted neither by the configuration nor by an annotation; each result is the
  outcome of its check, filed under the name of the check.
\<close>

theorem checks_applied_exactly:
  assumes "started sl conf"
  shows "(applyPodSchemaChecks sl conf ctrl = Ret (Inr rs) \<longrightarrow>
      (map_of rs k = Some m \<longleftrightarrow> (\<exists>check pod p. check_due sl conf ctrl TargetPod False k check
        \<and> ciPodSpec ctrl = Ret pod \<and> CheckPod sl check pod = (p, None) \<and> m = makeResult conf check p)))
    \<and> (applyContainerSchemaChecks sl conf ctrl c isInit = Ret (Inr rs) \<longrightarrow>
      (map_of rs k = Some m \<longleftrightarrow> (\<exists>check p. check_due sl conf ctrl TargetContainer isInit k check
        \<and> run_container_check sl ctrl c check = Ret (p, None) \<and> m = makeResult conf check p)))"
  using applied_exactly [OF started_ids_ok [OF assms]]
  by (auto simp: applyPodSchemaChecks_def applyContainerSchemaChecks_def run_pod_check_def go_map_eq_Ret
      simp del: not_None_eq)

section \<open>A small start\<close>

definition polaris_check :: "string \<Rightarrow> nat check" where
  "polaris_check target = (zero_check 0)\<lparr>ckTarget := target, ckCategory := ''Security'',
     ckSuccessMessage := ''good'', ckFailureMessage := ''bad''\<rparr>"

definition polaris_builtin :: "(string, nat check) gomap" where
  "polaris_builtin = map (\<lambda>i. (i, (polaris_check (if i \<in> set (take 3 checkOrder) then TargetPod else TargetContainer))\<lparr>ckID := i\<rparr>))
     checkOrder"

definition polaris_lib :: "nat schema_lib" where
  "polaris_lib = \<lparr>slMarshalPod = \<lambda>p. Inr (psRest p), slMarshalContainer = \<lambda>c. Inr (pcRest c),
     slValidate = \<lambda>s bytes. (if bytes = ''bad'' then [''no''] else [], None), slBuiltIn = polaris_builtin\<rparr>"

definition polaris_conf :: "nat conf" where
  "polaris_conf = zero_conf\<lparr>cfChecks := [(''runAsPrivileged'', ''error''), (''hostIPCSet'', ''warning'')],
     cfControllersToScan := [Deployments, NakedPods]\<rparr>"

lemma polaris_started: "started polaris_lib polaris_conf"
proof -
  have "validator_init (\<lambda>i. Inr i) (\<lambda>i. [\<lambda>_. (None, polaris_check (if i \<in> set (take 3 checkOrder) then TargetPod else TargetContainer))])
      0 checkOrder [] = Ret (slBuiltIn polaris_lib)"
    by code_simp
  moreover have "conf_Parse \<lparr>clDocs = \<lambda>_. [\<lambda>_. (None, polaris_conf)], clUnmarshalSchema = \<lambda>_ s. (None, s),
      clBox = Inl [], clGet = \<lambda>_. Inl [], clReadFile = \<lambda>_. Inl []\<rparr> [] = (None, polaris_conf)"
    by code_simp
  ultimately show ?thesis unfolding started_def by blast
qed

definition polaris_ctrl :: controller where
  "polaris_ctrl = NewDeploymentController \<lparr>woMeta = \<lparr>omName = ''web'', omNamespace = ''ns'', omAnnotations = []\<rparr>,
     woSpec = \<lparr>psInitContainers = [], psContainers = [\<lparr>pcName = ''c'', pcRest = ''bad''\<rparr>], psRest = ''bad''\<rparr>\<rparr>"

lemma checks_applied_exactly_witness:
  "\<exists>rs m. applyPodSchemaChecks polaris_lib polaris_conf polaris_ctrl = Ret (Inr rs) \<and> map_of rs ''hostIPCSet'' = Some m
     \<and> (\<exists>check pod p. check_due polaris_lib polaris_conf polaris_ctrl TargetPod False ''hostIPCSet'' check
        \<and> ciPodSpec polaris_ctrl = Ret pod \<and> CheckPod polaris_lib check pod = (p, None) \<and> m = makeResult polaris_conf check p)"
proof -
  have a: "applyPodSchemaChecks polaris_lib polaris_conf polaris_ctrl = Ret (Inr [(''hostIPCSet'',
      \<lparr>rmID = ''hostIPCSet'', rmMessage = ''bad'', rmSuccess = False, rmSeverity = ''warning'', rmCategory = ''Security''\<rparr>)])"
    by code_simp
  show ?thesis
    by (rule exI, rule exI, intro conjI, rule a, simp,
        rule checks_applied_exactly [OF polaris_started, THEN conjunct1, rule_format, OF a, THEN iffD1], simp)
qed

section \<open>All controllers\<close>

lemma go_res_cases [case_names Panic Inl Inr]:
  "(r = Panic \<Longrightarrow> P) \<Longrightarrow> (\<And>e. r = Ret (Inl e) \<Longrightarrow> P) \<Longrightarrow> (\<And>a. r = Ret (Inr a) \<Longrightarrow> P) \<Longrightarrow> P"
  by (metis go.exhaust sum.exhaust)

lemma collect_Inr:
  assumes "collect f xs acc = Ret (Inr rs)"
  shows "\<exists>ys. rs = acc @ ys \<and> list_all2 (\<lambda>x y. f x = Ret (Inr y)) xs ys"
  using assms
proof (induction xs arbitrary: acc)
  case (Cons x xs)
  then obtain y where "f x = Ret (Inr y)" "collect f xs (acc @ [y]) = Ret (Inr rs)"
    by (auto split: go.splits sum.splits)
  with Cons.IH [OF this(2)] show ?case by auto
qed simp

lemma collect_Panic: "collect f xs acc = Panic \<Longrightarrow> \<exists>x \<in> set xs. f x = Panic"
  by (induction xs arbitrary: acc) (auto split: go.splits sum.splits)

lemma collect_cong: "(\<And>x. x \<in> set xs \<Longrightarrow> f x = g x) \<Longrightarrow> collect f xs acc = collect g xs acc"
  by (induction xs arbitrary: acc) (auto split: go.splits sum.splits)

lemma load_controllers: "load_controllers kr ks = Ret (concat (map (\<lambda>k. controllers_of k kr) ks))"
  by (induction ks) (auto simp: LoadControllersByKind_def Let_def)

definition to_audit :: "'s conf \<Rightarrow> provider \<Rightarrow> controller list" where
  "to_audit conf kr = audited conf (concat (map (\<lambda>k. controllers_of k kr) (cfControllersToScan conf)))"

lemma ValidateControllers_collect:
  "ValidateControllers sl conf kr = collect (ValidateController sl conf) (to_audit conf kr) []"
  by (simp add: ValidateControllers_def load_controllers to_audit_def)

definition result_sets :: "controller_result \<Rightarrow> result_set list" where
  "result_sets c = ctResults c # prResults (ctPodResult c) # map crResults (prContainerResults (ctPodResult c))"

text \<open>Where the results of a controller come from.\<close>

lemma ValidateAllContainers_Inr:
  "ValidateAllContainers sl conf ctrl = Ret (Inr crs) \<longleftrightarrow>
     (\<exists>pod crs0. ciPodSpec ctrl = Ret pod
       \<and> collect (\<lambda>c. ValidateContainer sl conf ctrl c True) (psInitContainers pod) [] = Ret (Inr crs0)
       \<and> collect (\<lambda>c. ValidateContainer sl conf ctrl c False) (psContainers pod) crs0 = Ret (Inr crs))"
proof (cases "ciPodSpec ctrl")
  case (Ret pod)
  then show ?thesis
    by (cases "collect (\<lambda>c. ValidateContainer sl conf ctrl c True) (psInitContainers pod) []" rule: go_res_cases)
      (auto simp: ValidateAllContainers_def)
qed (simp add: ValidateAllContainers_def)

lemma ValidateController_Inr:
  assumes "ValidateController sl conf ctrl = Ret (Inr r)"
  shows "ctName r = ciName ctrl \<and> ctNamespace r = omNamespace (ciMeta ctrl) \<and> ctKind r = kind_name (ciKind ctrl)
    \<and> ctResults r = []
    \<and> applyPodSchemaChecks sl conf ctrl = Ret (Inr (prResults (ctPodResult r)))
    \<and> (\<forall>cr \<in> set (prContainerResults (ctPodResult r)).
         \<exists>c i. applyContainerSchemaChecks sl conf ctrl c i = Ret (Inr (crResults cr)))"
proof -
  from assms obtain rs pod crs0 crs where p: "applyPodSchemaChecks sl conf ctrl = Ret (Inr rs)"
      "ciPodSpec ctrl = Ret pod"
      "collect (\<lambda>c. ValidateContainer sl conf ctrl c True) (psInitContainers pod) [] = Ret (Inr crs0)"
      "collect (\<lambda>c. ValidateContainer sl conf ctrl c False) (psContainers pod) crs0 = Ret (Inr crs)"
    and r: "r = \<lparr>ctName = ciName ctrl, ctNamespace = omNamespace (ciMeta ctrl), ctKind = kind_name (ciKind ctrl),
       ctResults = [], ctPodResult = \<lparr>prName = [], prResults = rs, prContainerResults = crs\<rparr>\<rparr>"
    by (auto simp: ValidateController_def ValidatePod_def ValidateAllContainers_Inr split: go.splits sum.splits)
  have one: "\<exists>c i. applyContainerSchemaChecks sl conf ctrl c i = Ret (Inr (crResults cr))"
    if "ValidateContainer sl conf ctrl c i = Ret (Inr cr)" for c i cr
    using that by (auto simp: ValidateContainer_def split: go.splits sum.splits; blast)
  from collect_Inr [OF p(3)] collect_Inr [OF p(4)] obtain ys where ys: "crs = crs0 @ ys"
      "list_all2 (\<lambda>c y. ValidateContainer sl conf ctrl c True = Ret (Inr y)) (psInitContainers pod) crs0"
      "list_all2 (\<lambda>c y. ValidateContainer sl conf ctrl c False = Ret (Inr y)) (psContainers pod) ys"
    by auto
  then have "\<forall>cr \<in> set crs. \<exists>c i. ValidateContainer sl conf ctrl c i = Ret (Inr cr)"
    by (auto simp: list_all2_conv_all_nth in_set_conv_nth) metis+
  with one p(1) r show ?thesis by fastforce
qed

lemma list_all2_set2: "list_all2 P xs ys \<Longrightarrow> y \<in> set ys \<Longrightarrow> \<exists>x \<in> set xs. P x y"
  by (induction rule: list_all2_induct) auto

lemma ValidateControllers_Inr:
  assumes "ValidateControllers sl conf kr = Ret (Inr rs)"
  shows "list_all2 (\<lambda>c r. ValidateController sl conf c = Ret (Inr r)) (to_audit conf kr) rs"
  using collect_Inr [of "ValidateController sl conf" "to_audit conf kr" "[]" rs] assms
  by (simp add: ValidateControllers_collect)

lemma RunAudit_results:
  assumes "RunAudit sl conf kr = Ret (Inr a)"
  shows "ValidateControllers sl conf kr = Ret (Inr (adResults a))"
  using assms
  by (cases "ValidateControllers sl conf kr" rule: go_res_cases) (auto simp: RunAudit_def Let_def)

section \<open>Well-formed results\<close>

definition set_ok :: "result_set \<Rightarrow> bool" where
  "set_ok rs \<longleftrightarrow> gm_ok rs \<and> (\<forall>(k, m) \<in> set rs. rmID m = k \<and> severity_IsActionable (rmSeverity m))"

lemma applied_set_ok:
  assumes "ids_ok sl conf"
    and "checks_loop (\<lambda>k. resolveCheck sl conf k ctrl t i) run conf ctrl (getSortedKeys (cfChecks conf)) [] =
      Ret (Inr rs)"
  shows "set_ok rs"
proof -
  have ok: "gm_ok rs" using checks_loop_ok [OF assms(2)] by simp
  moreover have "rmID m = k \<and> severity_IsActionable (rmSeverity m)" if "(k, m) \<in> set rs" for k m
  proof -
    from that ok have "map_of rs k = Some m" by (simp add: gm_ok_map_of)
    then obtain c p where c: "check_due sl conf ctrl t i k c" "m = makeResult conf c p"
      using applied_exactly [OF assms] by blast
    then have "ckID c = k" using assms(1) by (auto simp: check_due_def ids_ok_def)
    with c show ?thesis by (auto simp: check_due_def makeResult_def gm_get_def)
  qed
  ultimately show ?thesis by (auto simp: set_ok_def)
qed

lemma controller_sets_ok:
  assumes "ids_ok sl conf" "ValidateController sl conf ctrl = Ret (Inr r)"
  shows "\<forall>rs \<in> set (result_sets r). set_ok rs"
proof -
  have "set_ok rs" if "applyContainerSchemaChecks sl conf ctrl c i = Ret (Inr rs)" for c i rs
    using that applied_set_ok [OF assms(1)] by (simp add: applyContainerSchemaChecks_def)
  moreover have "set_ok rs" if "applyPodSchemaChecks sl conf ctrl = Ret (Inr rs)" for rs
    using that applied_set_ok [OF assms(1)] by (simp add: applyPodSchemaChecks_def)
  moreover have "set_ok []" by (simp add: set_ok_def)
  ultimately show ?thesis using ValidateController_Inr [OF assms(2)] by (auto simp: result_sets_def)
qed

lemma controllers_of_kind: "c \<in> set (controllers_of k kr) \<Longrightarrow> ciKind c = k \<and> k \<noteq> Unsupported \<and> k \<noteq> NakedPods"
  by (cases k) (auto simp: controllers_of_def NewDeploymentController_def NewStatefulSetController_def
      NewDaemonSetController_def NewJobController_def NewCronJobController_def
      NewReplicationControllerController_def GenericController_def)

lemma to_audit_kind:
  "c \<in> set (to_audit conf kr) \<Longrightarrow>
     ciKind c \<in> set (cfControllersToScan conf) \<and> ciKind c \<noteq> Unsupported \<and> ciKind c \<noteq> NakedPods"
  by (auto simp: to_audit_def audited_def dest: controllers_of_kind)

text \<open>
  C25: Every report of a program that has started is well formed: each result set has one result per check,
  filed under the identifier of the check, with the severity warning or error, and the kind of each
  controller is the name of one of the kinds that the configuration asks for, which reads back as this kind.
\<close>

theorem audit_well_formed:
  assumes "started sl conf" "RunAudit sl conf kr = Ret (Inr a)"
  shows "\<forall>r \<in> set (adResults a). (\<forall>rs \<in> set (result_sets r). set_ok rs)
    \<and> GetSupportedControllerFromString (ctKind r) \<in> set (cfControllersToScan conf) - {Unsupported, NakedPods}
    \<and> CheckIfKindIsConfiguredForValidation conf (ctKind r)"
proof
  fix r assume r: "r \<in> set (adResults a)"
  from ValidateControllers_Inr [OF RunAudit_results [OF assms(2)]] r
  obtain c where c: "c \<in> set (to_audit conf kr)" "ValidateController sl conf c = Ret (Inr r)"
    by (blast dest: list_all2_set2)
  show "(\<forall>rs \<in> set (result_sets r). set_ok rs)
    \<and> GetSupportedControllerFromString (ctKind r) \<in> set (cfControllersToScan conf) - {Unsupported, NakedPods}
    \<and> CheckIfKindIsConfiguredForValidation conf (ctKind r)"
    using controller_sets_ok [OF started_ids_ok [OF assms(1)] c(2)] to_audit_kind [OF c(1)] ValidateController_Inr [OF c(2)]
    by (auto simp: kind_of_name CheckIfKindIsConfiguredForValidation_def list_ex_iff)
qed

definition polaris_provider :: provider where
  "polaris_provider = \<lparr>rpServerVersion = ''1.16'', rpCreationTime = [], rpSourceName = [], rpSourceType = ''Cluster'',
     rpNodes = [''n''], rpDeployments = [\<lparr>woMeta = ciMeta polaris_ctrl, woSpec = the (ciPodTemplate polaris_ctrl)\<rparr>],
     rpStatefulSets = [], rpDaemonSets = [], rpJobs = [], rpCronJobs = [], rpReplicationControllers = [],
     rpNamespaces = [''ns''], rpPods = [\<lparr>woMeta = ciMeta polaris_ctrl, woSpec = the (ciPodTemplate polaris_ctrl)\<rparr>]\<rparr>"

lemma polaris_audit: "\<exists>a r. RunAudit polaris_lib polaris_conf polaris_provider = Ret (Inr a) \<and> adResults a = [r]
    \<and> map rmSuccess (concat (map (map snd) (result_sets r))) = [False, False]"
  by (intro exI conjI, code_simp, simp, code_simp)

lemma audit_well_formed_witness:
  "\<exists>a r. RunAudit polaris_lib polaris_conf polaris_provider = Ret (Inr a) \<and> adResults a = [r]
     \<and> (\<forall>rs \<in> set (result_sets r). set_ok rs)"
proof -
  obtain a r where a: "RunAudit polaris_lib polaris_conf polaris_provider = Ret (Inr a)" "adResults a = [r]"
    using polaris_audit by blast
  show ?thesis using audit_well_formed [OF polaris_started a(1)] a by auto
qed

section \<open>The order of maps\<close>

definition same_checks :: "'s conf \<Rightarrow> 's conf \<Rightarrow> bool" where
  "same_checks conf conf' \<longleftrightarrow> getSortedKeys (cfChecks conf) = getSortedKeys (cfChecks conf')
     \<and> map_of (cfChecks conf) = map_of (cfChecks conf')
     \<and> map_of (cfCustomChecks conf) = map_of (cfCustomChecks conf')
     \<and> cfExemptions conf = cfExemptions conf' \<and> cfDisallowExemptions conf = cfDisallowExemptions conf'"

definition reordered :: "'s conf \<Rightarrow> 's conf \<Rightarrow> bool" where
  "reordered conf conf' \<longleftrightarrow> gm_ok (cfChecks conf) \<and> gm_ok (cfChecks conf')
     \<and> map_of (cfChecks conf) = map_of (cfChecks conf')
     \<and> map_of (cfCustomChecks conf) = map_of (cfCustomChecks conf')
     \<and> cfDisplayName conf = cfDisplayName conf' \<and> cfControllersToScan conf = cfControllersToScan conf'
     \<and> cfExemptions conf = cfExemptions conf' \<and> cfDisallowExemptions conf = cfDisallowExemptions conf'"

lemma reordered_same: "reordered conf conf' \<Longrightarrow> same_checks conf conf'"
  by (simp add: reordered_def same_checks_def getSortedKeys_cong)

lemma resolveCheck_cong: "same_checks conf conf' \<Longrightarrow> resolveCheck sl conf = resolveCheck sl conf'"
  by (intro ext) (auto simp: same_checks_def resolveCheck_def lookup_check_def conf_IsActionable_def is_exempt_def
      split: option.splits)

lemma applyChecks_cong:
  assumes "same_checks conf conf'"
  shows "applyPodSchemaChecks sl conf ctrl = applyPodSchemaChecks sl conf' ctrl"
    and "applyContainerSchemaChecks sl conf ctrl c i = applyContainerSchemaChecks sl conf' ctrl c i"
proof -
  have k: "getSortedKeys (cfChecks conf) = getSortedKeys (cfChecks conf')"
    and m: "map_of (cfChecks conf) = map_of (cfChecks conf')" using assms by (simp_all add: same_checks_def)
  show "applyPodSchemaChecks sl conf ctrl = applyPodSchemaChecks sl conf' ctrl"
    by (simp only: applyPodSchemaChecks_def k resolveCheck_cong [OF assms] checks_loop_cong [OF m])
  show "applyContainerSchemaChecks sl conf ctrl c i = applyContainerSchemaChecks sl conf' ctrl c i"
    by (simp only: applyContainerSchemaChecks_def k resolveCheck_cong [OF assms] checks_loop_cong [OF m])
qed

lemma ValidateController_cong:
  assumes "same_checks conf conf'"
  shows "ValidateController sl conf = ValidateController sl conf'"
proof
  fix ctrl
  have "ValidateContainer sl conf ctrl = ValidateContainer sl conf' ctrl"
    by (intro ext) (simp add: ValidateContainer_def applyChecks_cong [OF assms])
  then have "ValidateAllContainers sl conf ctrl = ValidateAllContainers sl conf' ctrl"
    by (auto simp: ValidateAllContainers_def intro!: arg_cong [of _ _ "go_bind (ciPodSpec ctrl)"] split: go.split sum.split)
  then show "ValidateController sl conf ctrl = ValidateController sl conf' ctrl"
    by (auto simp: ValidateController_def ValidatePod_def applyChecks_cong [OF assms] split: go.split sum.split)
qed

text \<open>
  C26: The audit is the same for every order in which Go iterates over the configured checks, whose keys are
  sorted first, and over the custom checks: two configurations with the same maps give the same report, the
  same first error, or both a panic.
\<close>

theorem audit_order_free:
  assumes "reordered conf conf'"
  shows "RunAudit sl conf kr = RunAudit sl conf' kr"
proof -
  have "to_audit conf kr = to_audit conf' kr"
    using assms by (simp add: reordered_def to_audit_def audited_def)
  moreover have "cfDisplayName conf = cfDisplayName conf'" using assms by (simp add: reordered_def)
  ultimately show ?thesis
    by (simp add: RunAudit_def ValidateControllers_collect ValidateController_cong [OF reordered_same [OF assms]])
qed

lemma audit_order_free_witness:
  "RunAudit polaris_lib polaris_conf polaris_provider =
     RunAudit polaris_lib (polaris_conf\<lparr>cfChecks := rev (cfChecks polaris_conf)\<rparr>) polaris_provider"
  by (rule audit_order_free) (auto simp: reordered_def polaris_conf_def zero_conf_def gm_ok_def)

section \<open>Panics and kinds\<close>

lemma ValidateController_Panic:
  assumes "ValidateController sl conf ctrl = Panic"
  shows "ciPodSpec ctrl = Panic"
proof (rule ccontr)
  assume "ciPodSpec ctrl \<noteq> Panic"
  then obtain pod where pod: "ciPodSpec ctrl = Ret pod" by (auto simp: not_Panic_iff)
  have 1: "applyPodSchemaChecks sl conf ctrl \<noteq> Panic"
    using checks_loop_Panic [of _ "run_pod_check sl ctrl"] pod
    by (auto simp: applyPodSchemaChecks_def run_pod_check_def)
  have "run_container_check sl ctrl c k \<noteq> Panic" for c k using pod by (simp add: run_container_check_def)
  then have "applyContainerSchemaChecks sl conf ctrl c i \<noteq> Panic" for c i
    using checks_loop_Panic [of _ "run_container_check sl ctrl c"]
    by (auto simp: applyContainerSchemaChecks_def)
  then have "ValidateContainer sl conf ctrl c i \<noteq> Panic" for c i
    by (auto simp: ValidateContainer_def split: go.splits sum.splits)
  then have "collect (\<lambda>c. ValidateContainer sl conf ctrl c i) cs acc \<noteq> Panic" for i cs acc
    by (meson collect_Panic)
  then have 2: "ValidateAllContainers sl conf ctrl \<noteq> Panic"
    using pod by (auto simp: ValidateAllContainers_def split: go.splits sum.splits)
  from 1 2 assms show False
    by (auto simp: ValidateController_def ValidatePod_def split: go.splits sum.splits)
qed

lemma audit_template:
  assumes "RunAudit sl conf kr = Panic"
  shows "ReplicationControllers \<in> set (cfControllersToScan conf)
    \<and> (\<exists>r \<in> set (rpReplicationControllers kr). rcTemplate r = None)"
proof -
  have "collect (ValidateController sl conf) (to_audit conf kr) [] = Panic"
    using assms by (simp add: RunAudit_def ValidateControllers_collect Let_def go_map_eq_Panic)
  from collect_Panic [OF this] obtain c where c: "c \<in> set (to_audit conf kr)" "ciPodSpec c = Panic"
    using ValidateController_Panic by blast
  then obtain k where k: "k \<in> set (cfControllersToScan conf)" "c \<in> set (controllers_of k kr)"
    by (auto simp: to_audit_def audited_def)
  have "k = ReplicationControllers \<and> (\<exists>r \<in> set (rpReplicationControllers kr). rcTemplate r = None)"
    using k(2) c(2)
    by (cases k) (auto simp: controllers_of_def NewDeploymentController_def NewStatefulSetController_def
        NewDaemonSetController_def NewJobController_def NewCronJobController_def
        NewReplicationControllerController_def GenericController_def split: option.splits)
  with k(1) show ?thesis by blast
qed

text \<open>
  The audit panics only over a replication controller without template, when replication controllers are
  to be scanned.
\<close>

theorem audit_panics_only_without_template:
  assumes "RunAudit sl conf kr = Panic"
  shows "ReplicationControllers \<in> set (cfControllersToScan conf)
    \<and> (\<exists>r \<in> set (rpReplicationControllers kr). rcTemplate r = None)"
  by (rule audit_template [OF assms])

lemma audit_panics_only_without_template_witness:
  "(let conf = polaris_conf\<lparr>cfControllersToScan := [ReplicationControllers]\<rparr>;
        kr = polaris_provider\<lparr>rpReplicationControllers := [\<lparr>rcMeta = ciMeta polaris_ctrl, rcTemplate = None\<rparr>]\<rparr>
    in RunAudit polaris_lib conf kr = Panic \<and> (\<exists>r \<in> set (rpReplicationControllers kr). rcTemplate r = None))"
proof -
  let ?conf = "polaris_conf\<lparr>cfControllersToScan := [ReplicationControllers]\<rparr>"
  let ?kr = "polaris_provider\<lparr>rpReplicationControllers := [\<lparr>rcMeta = ciMeta polaris_ctrl, rcTemplate = None\<rparr>]\<rparr>"
  have a: "RunAudit polaris_lib ?conf ?kr = Panic" by code_simp
  show ?thesis unfolding Let_def using a audit_panics_only_without_template [OF a] by blast
qed

text \<open>
  Pods without controller are never audited: asking for their kind changes nothing in the result, although
  they are counted in the report.
\<close>

theorem naked_pods_never_audited:
  "RunAudit sl conf kr = RunAudit sl (conf\<lparr>cfControllersToScan := filter ((\<noteq>) NakedPods) (cfControllersToScan conf)\<rparr>) kr"
  "RunAudit sl conf kr = Ret (Inr a) \<Longrightarrow> csPods (adClusterInfo a) = length (rpPods kr)"
proof -
  let ?conf = "conf\<lparr>cfControllersToScan := filter ((\<noteq>) NakedPods) (cfControllersToScan conf)\<rparr>"
  have "concat (map (\<lambda>k. controllers_of k kr) ks) = concat (map (\<lambda>k. controllers_of k kr) (filter ((\<noteq>) NakedPods) ks))" for ks
    by (induction ks) (auto simp: controllers_of_def)
  then have t: "to_audit conf kr = to_audit ?conf kr" by (simp add: to_audit_def audited_def)
  have "ValidateController sl conf = ValidateController sl ?conf"
    by (rule ValidateController_cong) (simp add: same_checks_def)
  with t show "RunAudit sl conf kr = RunAudit sl ?conf kr"
    by (simp add: RunAudit_def ValidateControllers_collect)
  show "RunAudit sl conf kr = Ret (Inr a) \<Longrightarrow> csPods (adClusterInfo a) = length (rpPods kr)"
    by (cases "ValidateControllers sl conf kr" rule: go_res_cases) (auto simp: RunAudit_def Let_def)
qed

lemma naked_pods_never_audited_witness:
  "\<exists>a. RunAudit polaris_lib polaris_conf polaris_provider = Ret (Inr a) \<and> csPods (adClusterInfo a) = 1"
proof -
  obtain a where "RunAudit polaris_lib polaris_conf polaris_provider = Ret (Inr a)" using polaris_audit by blast
  with naked_pods_never_audited(2) [OF this] show ?thesis by (auto simp: polaris_provider_def)
qed

end
