(* ===== verification/PolarisScan.thy ===== *)
theory PolarisScan
  imports PolarisAudit Cluster
begin

text \<open>
  The resources of an audit (\<^verbatim>\<open>pkg/polaris/kube\<close>), read from the cluster or from files, and the command
  that scans the cluster (\<^verbatim>\<open>pkg/command/polaris\<close>), with the facts on the summaries it sends.
\<close>

section \<open>Resources of a cluster\<close>

text \<open>The API server: its version and what it lists, per namespace or for the whole cluster.\<close>

record cluster_lists =
  clVersion :: "(string \<times> string) res"
  clDeployments :: "string \<Rightarrow> workload list res"
  clStatefulSets :: "string \<Rightarrow> workload list res"
  clDaemonSets :: "string \<Rightarrow> workload list res"
  clJobs :: "string \<Rightarrow> workload list res"
  clCronJobs :: "string \<Rightarrow> workload list res"
  clReplicationControllers :: "string \<Rightarrow> replication_controller list res"
  clNodes :: "string list res"
  clNamespaces :: "string list res"
  clPods :: "string \<Rightarrow> workload list res"

definition CreateResourceProviderFromAPI :: "cluster_lists \<Rightarrow> string \<Rightarrow> string \<Rightarrow> string \<Rightarrow> provider res" where
  "CreateResourceProviderFromAPI kube now clusterName namespace =
     res_bind (clVersion kube) (\<lambda>(major, minor).
     res_bind (clDeployments kube namespace) (\<lambda>deploys.
     res_bind (clStatefulSets kube namespace) (\<lambda>statefulSets.
     res_bind (clDaemonSets kube namespace) (\<lambda>daemonSets.
     res_bind (clJobs kube namespace) (\<lambda>jobs.
     res_bind (clCronJobs kube namespace) (\<lambda>cronJobs.
     res_bind (clReplicationControllers kube namespace) (\<lambda>replicationControllers.
     res_bind (clNodes kube) (\<lambda>nodes.
     res_bind (clNamespaces kube) (\<lambda>nss.
     res_bind (clPods kube namespace) (\<lambda>pods.
       Inr \<lparr>rpServerVersion = major @ ''.'' @ minor, rpCreationTime = now, rpSourceName = clusterName,
         rpSourceType = ''Cluster'', rpNodes = nodes, rpDeployments = deploys, rpStatefulSets = statefulSets,
         rpDaemonSets = daemonSets, rpJobs = jobs, rpCronJobs = cronJobs,
         rpReplicationControllers = replicationControllers, rpNamespaces = nss, rpPods = pods\<rparr>))))))))))"

section \<open>Resources of files\<close>

text \<open>The YAML decoder for each type; what a failed decoder has filled in comes with the error.\<close>

record yaml_lib =
  ylKind :: "string \<Rightarrow> string res"
  ylWorkload :: "string \<Rightarrow> gerror option \<times> workload"
  ylReplicationController :: "string \<Rightarrow> gerror option \<times> replication_controller"
  ylNamespace :: "string \<Rightarrow> gerror option \<times> string"

definition addResourceFromString :: "yaml_lib \<Rightarrow> string \<Rightarrow> provider \<Rightarrow> gerror option \<times> provider" where
  "addResourceFromString yl contents resources = (case ylKind yl contents of
     Inl err \<Rightarrow> (Some err, resources)
   | Inr kind \<Rightarrow>
       (case ylWorkload yl contents of (err, controller) \<Rightarrow>
        if kind = ''Deployment'' then (err, resources\<lparr>rpDeployments := rpDeployments resources @ [controller]\<rparr>)
        else if kind = ''StatefulSet'' then (err, resources\<lparr>rpStatefulSets := rpStatefulSets resources @ [controller]\<rparr>)
        else if kind = ''DaemonSet'' then (err, resources\<lparr>rpDaemonSets := rpDaemonSets resources @ [controller]\<rparr>)
        else if kind = ''Job'' then (err, resources\<lparr>rpJobs := rpJobs resources @ [controller]\<rparr>)
        else if kind = ''CronJob'' then (err, resources\<lparr>rpCronJobs := rpCronJobs resources @ [controller]\<rparr>)
        else if kind = ''ReplicationController'' then
          (case ylReplicationController yl contents of (err, rc) \<Rightarrow>
             (err, resources\<lparr>rpReplicationControllers := rpReplicationControllers resources @ [rc]\<rparr>))
        else if kind = ''Namespace'' then
          (case ylNamespace yl contents of (err, ns) \<Rightarrow> (err, resources\<lparr>rpNamespaces := rpNamespaces resources @ [ns]\<rparr>))
        else if kind = ''Pod'' then (err, resources\<lparr>rpPods := rpPods resources @ [controller]\<rparr>)
        else (None, resources)))"

text \<open>
  The regular expression \<^verbatim>\<open>\n-+\n\<close>: where it matches at the front, what follows the match.
\<close>

definition separator :: "string \<Rightarrow> string option" where
  "separator s = (case s of
     [] \<Rightarrow> None
   | c # r \<Rightarrow>
       if c = CHR 0x0A \<and> takeWhile (\<lambda>d. d = CHR ''-'') r \<noteq> [] then
         (case dropWhile (\<lambda>d. d = CHR ''-'') r of
            [] \<Rightarrow> None | d # r' \<Rightarrow> if d = CHR 0x0A then Some r' else None)
       else None)"

lemma separator_shorter: "separator s = Some r \<Longrightarrow> length r < length s"
proof -
  assume "separator s = Some r"
  then obtain c t d where s: "s = c # t" and r: "dropWhile (\<lambda>d. d = CHR ''-'') t = d # r"
    by (auto simp: separator_def split: list.splits if_splits)
  from length_dropWhile_le [of "\<lambda>d. d = CHR ''-''" t] r have "Suc (length r) \<le> length t" by simp
  with s show ?thesis by simp
qed

function split_specs :: "string \<Rightarrow> string list" where
  "split_specs s = (case separator s of
     Some r \<Rightarrow> [] # split_specs r
   | None \<Rightarrow> (case s of [] \<Rightarrow> [[]] | c # t \<Rightarrow> (case split_specs t of [] \<Rightarrow> [[c]] | w # ws \<Rightarrow> (c # w) # ws)))"
  by pat_completeness auto
termination by (relation "measure length") (auto dest: separator_shorter)

declare split_specs.simps [simp del]

fun add_specs :: "yaml_lib \<Rightarrow> string list \<Rightarrow> provider \<Rightarrow> gerror option \<times> provider" where
  "add_specs yl [] resources = (None, resources)"
| "add_specs yl (spec # specs) resources =
     (if trim_space spec = [] then add_specs yl specs resources
      else case addResourceFromString yl spec resources of
        (Some err, r) \<Rightarrow> (Some err, r) | (None, r) \<Rightarrow> add_specs yl specs r)"

definition visitFile :: "yaml_lib \<Rightarrow> string \<times> string res \<Rightarrow> provider \<Rightarrow> gerror option \<times> provider" where
  "visitFile yl f resources = (case f of (path, contents) \<Rightarrow>
     if \<not> has_suffix path ''.yml'' \<and> \<not> has_suffix path ''.yaml'' then (None, resources)
     else case contents of
       Inl err \<Rightarrow> (Some err, resources)
     | Inr bytes \<Rightarrow> add_specs yl (split_specs bytes) resources)"

fun walk_files :: "yaml_lib \<Rightarrow> (string \<times> string res) list \<Rightarrow> provider \<Rightarrow> gerror option \<times> provider" where
  "walk_files yl [] resources = (None, resources)"
| "walk_files yl (f # fs) resources = (case visitFile yl f resources of
     (Some err, r) \<Rightarrow> (Some err, r) | (None, r) \<Rightarrow> walk_files yl fs r)"

text \<open>The files of the directory are given in the order in which \<^verbatim>\<open>filepath.Walk\<close> visits them.\<close>

definition CreateResourceProviderFromPath ::
  "yaml_lib \<Rightarrow> (string \<Rightarrow> (string \<times> string res) list) \<Rightarrow> string \<Rightarrow> provider res" where
  "CreateResourceProviderFromPath yl walk directory =
     (case walk_files yl (walk directory) \<lparr>rpServerVersion = ''unknown'',
        rpCreationTime = ''0001-01-01 00:00:00'', rpSourceName = directory, rpSourceType = ''Path'',
        rpNodes = [], rpDeployments = [], rpStatefulSets = [], rpDaemonSets = [], rpJobs = [], rpCronJobs = [],
        rpReplicationControllers = [], rpNamespaces = [], rpPods = []\<rparr> of
      (Some err, _) \<Rightarrow> Inl err | (None, r) \<Rightarrow> Inr r)"

section \<open>The command\<close>

record scan_request =
  sqRecordId :: int
  sqNamespace :: string

record scan_response =
  ssRecordId :: int
  ssAuditData :: audit_data
  ssSummary :: count_summary

record 's scan_env =
  seGlobals :: globals
  seRequest :: "string \<Rightarrow> scan_request res"
  seLists :: cluster_lists
  seNow :: string
  seLib :: "'s schema_lib"
  seConfig :: "'s conf option"
  seScheme :: string
  seHost :: string
  seToken :: string
  seMarshal :: "scan_response \<Rightarrow> string res"
  sePost :: "string \<Rightarrow> string \<Rightarrow> gerror option"

definition responseUrl :: "string \<Rightarrow> string \<Rightarrow> string \<Rightarrow> string \<Rightarrow> string" where
  "responseUrl schema host cluster token =
     schema @ ''://'' @ host @ ''/v1/polaris?cluster_id='' @ cluster @ ''&token='' @ token"

text \<open>What a handler posts, and its response; there are no new commands.\<close>

record scan_out =
  soPosts :: "(string \<times> string) list"
  soResponse :: "packet option"

definition scan_failed :: "packet \<Rightarrow> gerror \<Rightarrow> scan_out" where
  "scan_failed cmd err = \<lparr>soPosts = [], soResponse = Some (mk_packet (pkKey cmd) PolarisRequest err)\<rparr>"

definition scan_post :: "'s scan_env \<Rightarrow> packet \<Rightarrow> scan_response \<Rightarrow> scan_out" where
  "scan_post env cmd responseInfo =
     (let schema = (if seScheme env = ''ws'' then ''http'' else ''https'');
          nowURL = responseUrl schema (seHost env) (glClusterId (seGlobals env)) (seToken env)
      in case seMarshal env responseInfo of
        Inl err \<Rightarrow> scan_failed cmd err
      | Inr jsonByte \<Rightarrow> \<lparr>soPosts = [(nowURL, jsonByte)],
          soResponse = map_option (mk_packet (pkKey cmd) PolarisRequest) (sePost env nowURL jsonByte)\<rparr>)"

definition cmd_ScanSystem :: "'s scan_env \<Rightarrow> packet \<Rightarrow> scan_out go" where
  "cmd_ScanSystem env cmd =
     (if glRestrictedModel (seGlobals env) then Ret \<lparr>soPosts = [], soResponse = None\<rparr>
      else case seRequest env (pkPayload cmd) of
        Inl err \<Rightarrow> Ret (scan_failed cmd err)
      | Inr req \<Rightarrow> (case CreateResourceProviderFromAPI (seLists env) (seNow env) [] (sqNamespace req) of
          Inl err \<Rightarrow> Ret (scan_failed cmd err)
        | Inr provider \<Rightarrow> (case seConfig env of
            None \<Rightarrow> Panic
          | Some config \<Rightarrow> (case RunAudit (seLib env) config provider of
              Panic \<Rightarrow> Panic
            | Ret (Inl err) \<Rightarrow> Ret (scan_failed cmd err)
            | Ret (Inr auditData) \<Rightarrow> Ret (scan_post env cmd \<lparr>ssRecordId = sqRecordId req,
                ssAuditData = auditData, ssSummary = ad_GetSummary auditData\<rparr>)))))"

text \<open>The configuration at the start: it is read unless the agent is restricted.\<close>

definition start_config :: "globals \<Rightarrow> 's conf_lib \<Rightarrow> string \<Rightarrow> 's conf option res" where
  "start_config g cl polarisFile =
     (if glRestrictedModel g then Inr None
      else case conf_ParseFile cl polarisFile of
        (Some err, _) \<Rightarrow> Inl err | (None, conf) \<Rightarrow> Inr (Some conf))"

section \<open>What the summary counts\<close>

definition tally :: "result_message list \<Rightarrow> count_summary" where
  "tally ms = \<lparr>smSuccesses = of_nat (length (filter rmSuccess ms)),
     smWarnings = of_nat (length (filter (\<lambda>m. \<not> rmSuccess m \<and> rmSeverity m = SeverityWarning) ms)),
     smErrors = of_nat (length (filter (\<lambda>m. \<not> rmSuccess m \<and> rmSeverity m \<noteq> SeverityWarning) ms))\<rparr>"

lemma cs_AddSummary_zero [simp]: "cs_AddSummary zero_summary s = s" "cs_AddSummary s zero_summary = s"
  by (simp_all add: cs_AddSummary_def zero_summary_def)

lemma cs_AddSummary_assoc: "cs_AddSummary (cs_AddSummary a b) c = cs_AddSummary a (cs_AddSummary b c)"
  by (simp add: cs_AddSummary_def add.assoc)

lemma tally_Nil [simp]: "tally [] = zero_summary"
  by (simp add: tally_def zero_summary_def)

lemma tally_append: "tally (xs @ ys) = cs_AddSummary (tally xs) (tally ys)"
  by (simp add: tally_def cs_AddSummary_def)

lemma cs_AddResult: "cs_AddResult cs m = cs_AddSummary cs (tally [m])"
  by (simp add: cs_AddResult_def cs_AddSummary_def tally_def)

lemma foldl_AddResult: "foldl cs_AddResult cs ms = cs_AddSummary cs (tally ms)"
proof (induction ms arbitrary: cs)
  case (Cons m ms)
  then show ?case using tally_append [of "[m]" ms] by (simp add: cs_AddResult cs_AddSummary_assoc)
qed simp

lemma foldl_AddSummary:
  "foldl (\<lambda>summary c. cs_AddSummary summary (tally (f c))) cs xs = cs_AddSummary cs (tally (concat (map f xs)))"
  by (induction xs arbitrary: cs) (simp_all add: cs_AddSummary_assoc tally_append)

definition results_of :: "controller_result \<Rightarrow> result_message list" where
  "results_of c = concat (map (map snd) (result_sets c))"

lemma ct_GetSummary_tally: "ct_GetSummary c = tally (results_of c)"
proof -
  have r: "rs_GetSummary rs = tally (map snd rs)" for rs
    by (simp add: rs_GetSummary_def foldl_AddResult)
  have p: "pr_GetSummary p = tally (map snd (prResults p) @ concat (map (map snd) (map crResults (prContainerResults p))))" for p
    using foldl_AddSummary [of "\<lambda>c. map snd (crResults c)" "tally (map snd (prResults p))" "prContainerResults p"]
    by (simp add: pr_GetSummary_def r tally_append comp_def)
  show ?thesis
    by (simp add: ct_GetSummary_def r p results_of_def result_sets_def tally_append)
qed

lemma ad_GetSummary_tally: "ad_GetSummary a = tally (concat (map results_of (adResults a)))"
  using foldl_AddSummary [of results_of zero_summary "adResults a"]
  by (simp add: ad_GetSummary_def ct_GetSummary_tally)

lemma set_ok_errors:
  "set_ok rs \<Longrightarrow> GetErrors rs = filter (\<lambda>m. \<not> rmSuccess m \<and> rmSeverity m \<noteq> SeverityWarning) (map snd rs)"
  unfolding GetErrors_def
  by (rule filter_cong [OF HOL.refl]) (auto simp: set_ok_def severity_IsActionable_def SeverityError_def SeverityWarning_def)

lemma mset_three_way:
  "(\<And>x. x \<in> set xs \<Longrightarrow> P x \<or> Q x \<or> R x) \<Longrightarrow> (\<And>x. \<not> (P x \<and> Q x) \<and> \<not> (P x \<and> R x) \<and> \<not> (Q x \<and> R x)) \<Longrightarrow>
     mset (filter P xs @ filter Q xs @ filter R xs) = mset xs"
  by (induction xs) auto

lemma set_ok_sorted: "set_ok rs \<Longrightarrow> mset (GetSortedResults rs) = mset (map snd rs)"
  unfolding GetSortedResults_def GetErrors_def GetWarnings_def GetSuccesses_def
  by (rule mset_three_way) (auto simp: set_ok_def severity_IsActionable_def SeverityError_def SeverityWarning_def)

lemma length_filter_concat: "length (filter P (concat xss)) = length (concat (map (filter P) xss))"
  by (simp add: filter_concat)

lemma summary_counts:
  assumes "started sl conf" "RunAudit sl conf kr = Ret (Inr a)"
    and sets: "sets = concat (map result_sets (adResults a))"
  shows "smSuccesses (ad_GetSummary a) = of_nat (length (concat (map GetSuccesses sets)))"
    and "smWarnings (ad_GetSummary a) = of_nat (length (concat (map GetWarnings sets)))"
    and "smErrors (ad_GetSummary a) = of_nat (length (concat (map GetErrors sets)))"
    and "mset (concat (map GetSortedResults sets)) = mset (concat (map (map snd) sets))"
proof -
  have ok: "\<forall>rs \<in> set sets. set_ok rs"
    using controller_sets_ok [OF started_ids_ok [OF assms(1)]]
      list_all2_set2 [OF ValidateControllers_Inr [OF RunAudit_results [OF assms(2)]]] sets by fastforce
  have "concat (map results_of cs) = concat (map (map snd) (concat (map result_sets cs)))" for cs
    by (induction cs) (simp_all add: results_of_def)
  then have all: "concat (map results_of (adResults a)) = concat (map (map snd) sets)"
    by (simp only: sets)
  have t: "ad_GetSummary a = tally (concat (map (map snd) sets))"
    by (simp only: ad_GetSummary_tally all)
  show "smSuccesses (ad_GetSummary a) = of_nat (length (concat (map GetSuccesses sets)))"
    by (simp add: t tally_def length_filter_concat GetSuccesses_def [abs_def] comp_def)
  show "smWarnings (ad_GetSummary a) = of_nat (length (concat (map GetWarnings sets)))"
    by (simp add: t tally_def length_filter_concat GetWarnings_def [abs_def] comp_def)
  have "map GetErrors sets = map (\<lambda>rs. filter (\<lambda>m. \<not> rmSuccess m \<and> rmSeverity m \<noteq> SeverityWarning) (map snd rs)) sets"
    using ok by (intro map_cong HOL.refl set_ok_errors) auto
  then have e: "concat (map GetErrors sets) =
      filter (\<lambda>m. \<not> rmSuccess m \<and> rmSeverity m \<noteq> SeverityWarning) (concat (map (map snd) sets))"
    by (simp only: filter_concat map_map comp_def)
  show "smErrors (ad_GetSummary a) = of_nat (length (concat (map GetErrors sets)))"
    by (simp only: e t tally_def count_summary.simps)
  show "mset (concat (map GetSortedResults sets)) = mset (concat (map (map snd) sets))"
    using ok by (induction sets) (auto simp: set_ok_sorted)
qed

text \<open>
  C27: The summary that is sent with a report counts its results: the successes, warnings and errors are, modulo
  the word size, the numbers of results that the sets of all controllers, pods and containers list as such;
  the sorted results are a permutation of all results, so that none is left out.
\<close>

theorem summary_counts_results:
  assumes "started sl conf" "RunAudit sl conf kr = Ret (Inr a)"
    and "sets = concat (map result_sets (adResults a))"
  shows "ad_GetSummary a = \<lparr>smSuccesses = of_nat (length (concat (map GetSuccesses sets))),
        smWarnings = of_nat (length (concat (map GetWarnings sets))),
        smErrors = of_nat (length (concat (map GetErrors sets)))\<rparr>
    \<and> mset (concat (map GetSortedResults sets)) = mset (concat (map (map snd) sets))"
  using summary_counts [OF assms] by simp

lemma summary_counts_results_witness:
  "\<exists>a. RunAudit polaris_lib polaris_conf polaris_provider = Ret (Inr a) \<and> smErrors (ad_GetSummary a) = 1
     \<and> smWarnings (ad_GetSummary a) = 1 \<and> smSuccesses (ad_GetSummary a) = 0"
proof -
  obtain a r where a: "RunAudit polaris_lib polaris_conf polaris_provider = Ret (Inr a)"
    using polaris_audit by blast
  have r: "a = the_ret (go_map (\<lambda>r. case r of Inr a \<Rightarrow> a) (RunAudit polaris_lib polaris_conf polaris_provider))"
    using a by simp
  have n: "length (concat (map GetErrors (concat (map result_sets (adResults a))))) = 1"
     "length (concat (map GetWarnings (concat (map result_sets (adResults a))))) = 1"
     "length (concat (map GetSuccesses (concat (map result_sets (adResults a))))) = 0"
    by (subst r, code_simp)+
  show ?thesis
    using a summary_counts_results [OF polaris_started a HOL.refl]
    by (intro exI [of _ a]) (simp only: n of_nat_1 of_nat_0, simp)
qed

section \<open>Summaries by category\<close>

lemma csc_fold:
  assumes "distinct ks"
  shows "gm_get zero_summary (fold (\<lambda>cat m. AList.update cat (cs_AddSummary (gm_get zero_summary m cat) (f cat)) m) ks m0) k =
    (if k \<in> set ks then cs_AddSummary (gm_get zero_summary m0 k) (f k) else gm_get zero_summary m0 k)"
  using assms by (induction ks arbitrary: m0) auto

text \<open>
  The summary by category doubles: adding two of them adds what the second counts in a category twice when
  both know the category, and once otherwise; so a pod whose containers fail a check of the same category
  is counted more often than it failed.
\<close>

theorem category_summary_doubles:
  assumes "gm_ok csc" "gm_ok other"
  shows "gm_get zero_summary (csc_AddSummary csc other) cat =
    (if gm_has csc cat \<and> gm_has other cat
     then cs_AddSummary (cs_AddSummary (gm_get zero_summary csc cat) (gm_get zero_summary other cat))
            (gm_get zero_summary other cat)
     else cs_AddSummary (gm_get zero_summary csc cat) (gm_get zero_summary other cat))"
proof -
  have z: "\<not> gm_has m k \<Longrightarrow> gm_get zero_summary m k = zero_summary" for m k
    by (simp add: gm_has_def gm_get_def)
  show ?thesis
    using assms z [of csc cat] z [of other cat]
    by (simp add: csc_AddSummary_def csc_fold gm_ok_def gm_has_iff)
qed

lemma category_summary_doubles_witness:
  "(let failed = \<lparr>rmID = ''runAsPrivileged'', rmMessage = [], rmSuccess = False, rmSeverity = ''error'',
        rmCategory = ''Security''\<rparr>;
      p = \<lparr>prName = [], prResults = [], prContainerResults =
        [\<lparr>crName = ''a'', crResults = [(''runAsPrivileged'', failed)]\<rparr>,
         \<lparr>crName = ''b'', crResults = [(''runAsPrivileged'', failed)]\<rparr>]\<rparr>
    in smErrors (pr_GetSummary p) = 2 \<and> smErrors (gm_get zero_summary (pr_GetSummaryByCategory p) ''Security'') = 3)"
proof -
  let ?f = "\<lparr>rmID = ''runAsPrivileged'', rmMessage = [], rmSuccess = False, rmSeverity = ''error'',
        rmCategory = ''Security''\<rparr>"
  let ?one = "[(''Security'', \<lparr>smSuccesses = 0, smWarnings = 0, smErrors = 1\<rparr>)] :: category_summary"
  have one: "rs_GetSummaryByCategory [(''runAsPrivileged'', ?f)] = ?one" "csc_AddSummary [] ?one = ?one"
    by (simp_all add: rs_GetSummaryByCategory_def cs_AddResult_def csc_AddSummary_def cs_AddSummary_def
        zero_summary_def gm_get_def SeverityWarning_def)
  have "gm_get zero_summary (csc_AddSummary ?one ?one) ''Security'' = \<lparr>smSuccesses = 0, smWarnings = 0, smErrors = 3\<rparr>"
    by (subst category_summary_doubles)
      (simp_all add: gm_ok_def gm_has_def gm_get_def cs_AddSummary_def)
  then show ?thesis
    by (simp add: pr_GetSummaryByCategory_def one rs_GetSummaryByCategory_def [of "[]"] Let_def)
      (simp add: pr_GetSummary_def rs_GetSummary_def cs_AddResult_def cs_AddSummary_def zero_summary_def SeverityWarning_def)
qed

section \<open>The command\<close>

lemma provider_controllers:
  "CreateResourceProviderFromAPI kube now name ns = Inr kr \<Longrightarrow>
     clReplicationControllers kube ns = Inr (rpReplicationControllers kr)"
  by (auto simp: CreateResourceProviderFromAPI_def res_bind_eq_Inr split: prod.splits)

lemma scan_cases:
  assumes "start_config (seGlobals env) cl polarisFile = Inr (seConfig env)"
  shows "glRestrictedModel (seGlobals env) \<Longrightarrow> cmd_ScanSystem env cmd = Ret \<lparr>soPosts = [], soResponse = None\<rparr>"
    and "cmd_ScanSystem env cmd = Panic \<Longrightarrow> \<exists>req rcs rc. seRequest env (pkPayload cmd) = Inr req
      \<and> clReplicationControllers (seLists env) (sqNamespace req) = Inr rcs \<and> rc \<in> set rcs \<and> rcTemplate rc = None"
    and "\<not> glRestrictedModel (seGlobals env) \<Longrightarrow> cmd_ScanSystem env cmd = Ret out \<Longrightarrow>
      (case soPosts out of
         [] \<Rightarrow> \<exists>e. soResponse out = Some (mk_packet (pkKey cmd) PolarisRequest e)
       | [(url, body)] \<Rightarrow> soResponse out = map_option (mk_packet (pkKey cmd) PolarisRequest) (sePost env url body)
           \<and> (\<exists>schema \<in> {''http'', ''https''}.
                url = responseUrl schema (seHost env) (glClusterId (seGlobals env)) (seToken env))
       | _ \<Rightarrow> False)"
proof -
  show "glRestrictedModel (seGlobals env) \<Longrightarrow> cmd_ScanSystem env cmd = Ret \<lparr>soPosts = [], soResponse = None\<rparr>"
    by (simp add: cmd_ScanSystem_def)
next
  assume p: "cmd_ScanSystem env cmd = Panic"
  then obtain req kr where r: "\<not> glRestrictedModel (seGlobals env)" "seRequest env (pkPayload cmd) = Inr req"
      "CreateResourceProviderFromAPI (seLists env) (seNow env) [] (sqNamespace req) = Inr kr"
    by (auto simp: cmd_ScanSystem_def split: if_splits sum.splits)
  then obtain conf where c: "seConfig env = Some conf"
    using assms by (cases "seConfig env") (auto simp: start_config_def split: prod.splits option.splits)
  then have "RunAudit (seLib env) conf kr = Panic"
    using p r by (auto simp: cmd_ScanSystem_def split: go.splits sum.splits)
  then have "\<exists>rc \<in> set (rpReplicationControllers kr). rcTemplate rc = None"
    using audit_template [of "seLib env"] by blast
  then show "\<exists>req rcs rc. seRequest env (pkPayload cmd) = Inr req
      \<and> clReplicationControllers (seLists env) (sqNamespace req) = Inr rcs \<and> rc \<in> set rcs \<and> rcTemplate rc = None"
    using r provider_controllers [OF r(3)] by blast
next
  assume "\<not> glRestrictedModel (seGlobals env)" "cmd_ScanSystem env cmd = Ret out"
  then show "case soPosts out of
         [] \<Rightarrow> \<exists>e. soResponse out = Some (mk_packet (pkKey cmd) PolarisRequest e)
       | [(url, body)] \<Rightarrow> soResponse out = map_option (mk_packet (pkKey cmd) PolarisRequest) (sePost env url body)
           \<and> (\<exists>schema \<in> {''http'', ''https''}.
                url = responseUrl schema (seHost env) (glClusterId (seGlobals env)) (seToken env))
       | _ \<Rightarrow> False"
    by (auto simp: cmd_ScanSystem_def scan_failed_def scan_post_def Let_def
        split: sum.splits option.splits go.splits if_splits)
qed

text \<open>
  An agent that has started scans safely.  A restricted one does nothing.  Otherwise the configuration is
  there, and the command panics only when the server lists a replication controller without template; if it
  does not, it makes at most one post, to the platform with the identity of the cluster, and it answers,
  under the key of the request, exactly when nothing was delivered.
\<close>

theorem scan_answers:
  assumes "start_config (seGlobals env) cl polarisFile = Inr (seConfig env)"
  shows "case cmd_ScanSystem env cmd of
     Panic \<Rightarrow> \<not> glRestrictedModel (seGlobals env) \<and> (\<exists>req rcs rc. seRequest env (pkPayload cmd) = Inr req
       \<and> clReplicationControllers (seLists env) (sqNamespace req) = Inr rcs \<and> rc \<in> set rcs \<and> rcTemplate rc = None)
   | Ret out \<Rightarrow> if glRestrictedModel (seGlobals env) then out = \<lparr>soPosts = [], soResponse = None\<rparr>
       else (case soPosts out of
         [] \<Rightarrow> \<exists>e. soResponse out = Some (mk_packet (pkKey cmd) PolarisRequest e)
       | [(url, body)] \<Rightarrow> soResponse out = map_option (mk_packet (pkKey cmd) PolarisRequest) (sePost env url body)
           \<and> (\<exists>schema. (schema = ''http'' \<or> schema = ''https'')
              \<and> url = responseUrl schema (seHost env) (glClusterId (seGlobals env)) (seToken env))
       | _ \<Rightarrow> False)"
proof (cases "glRestrictedModel (seGlobals env)")
  case True
  with scan_cases(1) [OF assms True] show ?thesis by simp
next
  case False
  show ?thesis
  proof (cases "cmd_ScanSystem env cmd")
    case (Ret out)
    with scan_cases(3) [OF assms False Ret] False show ?thesis by (auto split: list.splits)
  next
    case Panic
    with scan_cases(2) [OF assms Panic] False show ?thesis by simp
  qed
qed

definition polaris_cl :: "nat conf_lib" where
  "polaris_cl = \<lparr>clDocs = \<lambda>_. [\<lambda>_. (None, polaris_conf)], clUnmarshalSchema = \<lambda>_ s. (None, s),
     clBox = Inr [], clGet = \<lambda>_. Inl [], clReadFile = \<lambda>_. Inl []\<rparr>"

definition polaris_env :: "nat scan_env" where
  "polaris_env = \<lparr>seGlobals = \<lparr>glCertManagerVersion = [], glClusterId = ''7'', glAgentNamespace = [], glAgentVersion = [],
       glRestrictedModel = False\<rparr>,
     seRequest = \<lambda>_. Inr \<lparr>sqRecordId = 3, sqNamespace = ''ns''\<rparr>,
     seLists = \<lparr>clVersion = Inr (''1'', ''16''), clDeployments = \<lambda>_. Inr (rpDeployments polaris_provider),
       clStatefulSets = \<lambda>_. Inr [], clDaemonSets = \<lambda>_. Inr [], clJobs = \<lambda>_. Inr [], clCronJobs = \<lambda>_. Inr [],
       clReplicationControllers = \<lambda>_. Inr [], clNodes = Inr [], clNamespaces = Inr [], clPods = \<lambda>_. Inr []\<rparr>,
     seNow = [], seLib = polaris_lib, seConfig = Some polaris_conf, seScheme = ''ws'', seHost = ''devops'',
     seToken = ''t'', seMarshal = \<lambda>r. Inr (if smErrors (ssSummary r) = 1 then ''one'' else []),
     sePost = \<lambda>_ _. Some ''refused''\<rparr>"

lemma scan_answers_witness:
  "\<exists>out url. cmd_ScanSystem polaris_env (mk_packet ''cluster:7'' PolarisRequest []) = Ret out
     \<and> soPosts out = [(url, ''one'')] \<and> soResponse out = Some (mk_packet ''cluster:7'' PolarisRequest ''refused'')"
proof -
  let ?cmd = "mk_packet ''cluster:7'' PolarisRequest []"
  have s: "start_config (seGlobals polaris_env) polaris_cl [] = Inr (seConfig polaris_env)" by code_simp
  have r: "\<not> glRestrictedModel (seGlobals polaris_env)" by code_simp
  have c: "go_map soPosts (cmd_ScanSystem polaris_env ?cmd) =
      Ret [(''http://devops/v1/polaris?cluster_id=7&token=t'', ''one'')]"
    by code_simp
  then obtain out where o: "cmd_ScanSystem polaris_env ?cmd = Ret out"
      "soPosts out = [(''http://devops/v1/polaris?cluster_id=7&token=t'', ''one'')]"
    by (auto simp: go_map_eq_Ret)
  have "sePost polaris_env url body = Some ''refused''" for url body by (simp add: polaris_env_def)
  with scan_answers [OF s, of ?cmd] r o show ?thesis by auto
qed

end
