(* ===== verification/Startup.thy ===== *)
theory Startup
  imports ReleaseFlow PolarisScan WsClient KubeCmd
begin

text \<open>
  The start of the program (\<^verbatim>\<open>cmd/manager/options\<close>), the table of all handlers of commands
  (\<^verbatim>\<open>pkg/command/add_*.go\<close>), and the command that upgrades the agent itself
  (\<^verbatim>\<open>pkg/command/agent\<close>).
\<close>

section \<open>The table of handlers\<close>

definition RestartAgent :: string where "RestartAgent = ''restart_agent''"

text \<open>The handlers by name; their behaviour is in the theory of each component.\<close>

datatype handler_name = HInitAgent | HRestartAgent | HReSyncAgent | HAddEnv | HDeleteEnv | HUpgradeAgent
  | HDoSync
  | HInstallCertManager | HDeleteCertManagerRelease | HInstallHelmRelease | HUpgradeHelmRelease
  | HDeleteHelmRelease | HInstallJobInfo | HUpgradeJobInfo | HCrossUpgradeJobInfo | HStartHelmRelease
  | HStopHelmRelease | HSyncStatus | HAddHelmAccount
  | HLogsByKubernetes | HDownloadLogByKubernetes | HExecByKubernetes | HScalePod
  | HCreateDockerRegistrySecret | HCreateService | HDeleteService | HCreateIngress | HDeleteIngress
  | HDescribe | HDeletePod | HDeletePvcByLabels
  | HScanSystem

type_synonym func_map = "(string, handler_name) gomap"

definition fm_Add :: "func_map \<Rightarrow> string \<times> handler_name \<Rightarrow> func_map" where
  "fm_Add fs kf = AList.update (fst kf) (snd kf) fs"

definition add_agent :: "(string \<times> handler_name) list" where
  "add_agent = [(InitAgent, HInitAgent), (RestartAgent, HRestartAgent), (ReSyncAgent, HReSyncAgent),
     (EnvCreate, HAddEnv), (EnvDelete, HDeleteEnv), (HelmReleaseUpgrade, HUpgradeAgent),
     (AgentUpgrade, HUpgradeAgent)]"

definition add_gitops :: "(string \<times> handler_name) list" where
  "add_gitops = [(GitOpsSync, HDoSync)]"

definition add_helm :: "(string \<times> handler_name) list" where
  "add_helm = [(CertManagerInstall, HInstallCertManager), (CertManagerUninstall, HDeleteCertManagerRelease),
     (HelmReleaseInstallResourceInfo, HInstallHelmRelease),
     (HelmReleaseUpgradeResourceInfo, HUpgradeHelmRelease), (HelmReleaseDelete, HDeleteHelmRelease),
     (HelmInstallJobInfo, HInstallJobInfo), (HelmUpgradeJobInfo, HUpgradeJobInfo),
     (HelmCrossUpgradeJobInfo, HCrossUpgradeJobInfo), (HelmReleaseStart, HStartHelmRelease),
     (HelmReleaseStop, HStopHelmRelease), (ResourceStatusSync, HSyncStatus),
     (ChartMuseumAuthentication, HAddHelmAccount)]"

definition add_kubernetes :: "(string \<times> handler_name) list" where
  "add_kubernetes = [(KubernetesGetLogs, HLogsByKubernetes), (KubernetesDownloadLogs, HDownloadLogByKubernetes),
     (KubernetesExec, HExecByKubernetes), (OperatePodCount, HScalePod),
     (OperateDockerRegistrySecret, HCreateDockerRegistrySecret), (NetworkService, HCreateService),
     (NetworkServiceDelete, HDeleteService), (NetworkIngress, HCreateIngress),
     (NetworkIngressDelete, HDeleteIngress), (ResourceDescribe, HDescribe), (DeletePod, HDeletePod),
     (DeletePersistentVolumeClaimByLabels, HDeletePvcByLabels)]"

definition add_polaris :: "(string \<times> handler_name) list" where
  "add_polaris = [(PolarisRequest, HScanSystem)]"

text \<open>The files of a package are initialised in the order of their names.\<close>

definition Funcs :: func_map where
  "Funcs = foldl fm_Add [] (add_agent @ add_gitops @ add_helm @ add_kubernetes @ add_polaris)"

section \<open>Upgrading the agent\<close>

text \<open>After a failure the command is sent again, for the chart of the agent; the waiting time is left out.\<close>

definition cmd_UpgradeAgent :: "'w helm_handler" where
  "cmd_UpgradeAgent env cmd w = (case heUpgrade env (pkPayload cmd) of
     (req, Some e) \<Rightarrow> Ret (failed cmd (uqCommit req) e, w)
   | (req0, None) \<Rightarrow>
      (let req = req0\<lparr>uqNamespace := glAgentNamespace (he_globals env)\<rparr> in
       go_bind (GetCharUsernameAndPassword env cmd w) (\<lambda>acc. case acc of
         Inl e \<Rightarrow> Ret (failed cmd (uqCommit req) e, w)
       | Inr (username, password) \<Rightarrow>
          go_map (\<lambda>((resp, err), w'). (case err of
               Some e \<Rightarrow>
                 (if uqChartName req = ''choerodon-cluster-agent'' \<and> uqNamespace req = glAgentNamespace (he_globals env)
                  then [cmd] else [], snd (failed cmd (uqCommit req) e))
             | None \<Rightarrow> printed cmd HelmReleaseUpgradeResourceInfo (failed cmd (uqCommit req)) (heMarshalRelease env resp), w'))
            (UpgradeRelease (heLib env) req username password w))))"

section \<open>The start\<close>

record agent_options =
  aoClusterId :: string
  aoPrintVersion :: bool
  aoRestricted :: bool
  aoKubectl :: string
  aoPolarisFile :: string
  aoToken :: string
  aoPlatformCode :: string
  aoClearHelmCacheCron :: string

text \<open>
  What the start meets: the leader election, the API server, the platform, the file system, kubectl, the
  readers of the configuration, and the parser of cron specifications.
\<close>

record 's start_env =
  stLeader :: "string \<Rightarrow> gerror option"
  stDiscovery :: "gerror option"
  stServerVersion :: "string res"
  stKubeClient :: "gerror option"
  stWsClient :: "gerror option"
  stLookPath :: "string res"
  stStat :: "string \<Rightarrow> gerror option"
  stCrds :: "string list"
  stConf :: "'s conf_lib"
  stCron :: "string \<Rightarrow> gerror option"

datatype 's start_action = SetVersion string | StartClient | ApplyCrd string string string
  | StartWorker "'s conf option" string | StartMonitor | ListenHttp | CronErr gerror | CronStarted

datatype start_end = ExitVersion | Stopped gerror | Fatal gerror | Serving

definition NewWorkerManager :: "string \<Rightarrow> string \<Rightarrow> string" where
  "NewWorkerManager token platformCode = (if platformCode = [] then token else platformCode)"

definition worker_Start :: "globals \<Rightarrow> 's conf option \<Rightarrow> string \<Rightarrow> 's start_action list" where
  "worker_Start g conf code = StartWorker conf code # (if \<not> glRestrictedModel g then [StartMonitor] else [])"

definition kubectl_path :: "'s start_env \<Rightarrow> string \<Rightarrow> string res" where
  "kubectl_path env p = (if p = [] then stLookPath env
     else case stStat env p of Some e \<Rightarrow> Inl e | None \<Rightarrow> Inr p)"

fun StartCron :: "(string \<Rightarrow> gerror option) \<Rightarrow> string list \<Rightarrow> 's start_action list" where
  "StartCron add [] = [CronStarted]"
| "StartCron add (spec # specs) = (case add spec of
     Some e \<Rightarrow> CronErr (''failed to add cron job: '' @ e) # StartCron add specs
   | None \<Rightarrow> StartCron add specs)"

definition option_globals :: "agent_options \<Rightarrow> globals \<Rightarrow> globals" where
  "option_globals opts g = g\<lparr>glRestrictedModel := aoRestricted opts, glClusterId := aoClusterId opts\<rparr>"

text \<open>A step that may stop the start, and one that ends the process.\<close>

definition or_stop :: "gerror option \<Rightarrow> 'a list \<times> start_end \<Rightarrow> 'a list \<times> start_end" where
  "or_stop err rest = (case err of Some e \<Rightarrow> ([], Stopped e) | None \<Rightarrow> rest)"

definition start_worker :: "globals \<Rightarrow> agent_options \<Rightarrow> 's start_env \<Rightarrow> 's start_action list \<times> start_end" where
  "start_worker g opts env = (case start_config g (stConf env) (aoPolarisFile opts) of
     Inl e \<Rightarrow> ([], Stopped e)
   | Inr conf \<Rightarrow> (worker_Start g conf (NewWorkerManager (aoToken opts) (aoPlatformCode opts))
       @ ListenHttp # StartCron (stCron env) [aoClearHelmCacheCron opts], Serving))"

definition start_cluster :: "globals \<Rightarrow> agent_options \<Rightarrow> 's start_env \<Rightarrow> 's start_action list \<times> start_end" where
  "start_cluster g opts env = (case kubectl_path env (aoKubectl opts) of
     Inl e \<Rightarrow> ([], Fatal e)
   | Inr path \<Rightarrow> (case start_worker g opts env of (as, end1) \<Rightarrow>
       ((if \<not> glRestrictedModel g then map (ApplyCrd path ''kube-system'') (stCrds env) else []) @ as, end1)))"

definition lock_name :: "agent_options \<Rightarrow> string" where
  "lock_name opts = ''c7n-agent-lock-'' @ aoClusterId opts"

definition start_Run :: "globals \<Rightarrow> agent_options \<Rightarrow> 's start_env \<Rightarrow> 's start_action list \<times> start_end" where
  "start_Run g0 opts env =
     (let g = option_globals opts g0 in
      if aoPrintVersion opts then ([], ExitVersion)
      else or_stop (stLeader env (lock_name opts))
       (or_stop (stDiscovery env)
         (case or_stop (stKubeClient env) (or_stop (stWsClient env)
            (case start_cluster g opts env of (as, end1) \<Rightarrow> (StartClient # as, end1))) of
          (as, end1) \<Rightarrow>
            ((case stServerVersion env of Inr v \<Rightarrow> [SetVersion v] | Inl e \<Rightarrow> []) @ as, end1))))"

section \<open>Dispatch\<close>

lemma foldl_Add:
  "foldl fm_Add m kfs = fold (\<lambda>kf. AList.update (fst kf) (snd kf)) kfs m"
  by (induction kfs arbitrary: m) (simp_all add: fm_Add_def)

lemma map_of_fold_Add:
  "distinct (map fst kfs) \<Longrightarrow> map_of (fold (\<lambda>kf. AList.update (fst kf) (snd kf)) kfs m) k =
     (case map_of kfs k of None \<Rightarrow> map_of m k | Some f \<Rightarrow> Some f)"
proof (induction kfs arbitrary: m)
  case (Cons kf kfs)
  then have "map_of kfs (fst kf) = None" by (simp add: map_of_eq_None_iff)
  with Cons show ?case by (cases kf) (simp add: update_conv' split: option.split)
qed simp

definition registrations :: "(string \<times> handler_name) list" where
  "registrations = add_agent @ add_gitops @ add_helm @ add_kubernetes @ add_polaris"

lemma registrations_distinct: "distinct (map fst registrations)"
  by code_simp

text \<open>
  The table of handlers holds exactly the registrations: no type of command is registered twice, so that
  no registration replaces another, and the type of a command finds the handler registered for it or none;
  the commands on releases are those that the model of the worker runs.
\<close>

theorem dispatch_correct:
  "map_of Funcs t = map_of registrations t"
  "(t, h) \<in> set registrations \<longleftrightarrow> map_of Funcs t = Some h"
  "map fst helm_Funcs = map fst add_helm"
proof -
  show f: "map_of Funcs t = map_of registrations t"
    using map_of_fold_Add [OF registrations_distinct, of "[]" t]
    by (simp only: Funcs_def foldl_Add registrations_def [symmetric]) (simp split: option.split)
  show "(t, h) \<in> set registrations \<longleftrightarrow> map_of Funcs t = Some h"
    using registrations_distinct by (simp add: f)
  show "map fst helm_Funcs = map fst add_helm"
    by (simp add: helm_Funcs_def add_helm_def)
qed

section \<open>The start\<close>

lemma or_stop_serving: "snd (or_stop err rest) = Serving \<longleftrightarrow> err = None \<and> snd rest = Serving"
  by (cases err) (simp_all add: or_stop_def)

lemma start_worker_serving:
  "snd (start_worker g opts env) = Serving \<longleftrightarrow> (\<exists>conf. start_config g (stConf env) (aoPolarisFile opts) = Inr conf)"
  by (cases "start_config g (stConf env) (aoPolarisFile opts)") (simp_all add: start_worker_def)

lemma start_cluster_serving:
  "snd (start_cluster g opts env) = Serving \<longleftrightarrow>
     (\<exists>path. kubectl_path env (aoKubectl opts) = Inr path) \<and> snd (start_worker g opts env) = Serving"
  by (cases "kubectl_path env (aoKubectl opts)") (simp_all add: start_cluster_def split: prod.splits)

fun worker_starts :: "'s start_action list \<Rightarrow> ('s conf option \<times> string) list" where
  "worker_starts [] = []"
| "worker_starts (StartWorker c code # as) = (c, code) # worker_starts as"
| "worker_starts (_ # as) = worker_starts as"

lemma worker_starts_append [simp]: "worker_starts (as @ bs) = worker_starts as @ worker_starts bs"
  by (induction as rule: worker_starts.induct) simp_all

lemma worker_starts_crds [simp]: "worker_starts (map (ApplyCrd p n) cs) = []"
  by (induction cs) simp_all

lemma worker_starts_cron [simp]: "worker_starts (StartCron f specs) = []"
  by (induction specs) (simp_all split: option.split)

lemma start_worker_starts:
  "worker_starts (fst (start_worker g opts env)) = (case start_config g (stConf env) (aoPolarisFile opts) of
     Inl e \<Rightarrow> [] | Inr conf \<Rightarrow> [(conf, NewWorkerManager (aoToken opts) (aoPlatformCode opts))])"
  by (auto simp: start_worker_def worker_Start_def simp del: StartCron.simps split: sum.split)

lemma start_cases:
  assumes "start_Run g opts env = (as, end1)" "aoPrintVersion opts = False"
  shows "end1 = Serving \<longleftrightarrow> stLeader env (lock_name opts) = None \<and> stDiscovery env = None
      \<and> stKubeClient env = None \<and> stWsClient env = None \<and> (\<exists>p. kubectl_path env (aoKubectl opts) = Inr p)
      \<and> (aoRestricted opts \<or> fst (conf_ParseFile (stConf env) (aoPolarisFile opts)) = None)"
    and "end1 = Serving \<Longrightarrow> \<exists>conf us. worker_starts as =
        [(conf, if aoPlatformCode opts = [] then aoToken opts else aoPlatformCode opts)]
      \<and> (conf = None \<longleftrightarrow> aoRestricted opts)
      \<and> (\<exists>path rest. as = us @ StartClient # (if aoRestricted opts then [] else map (ApplyCrd path ''kube-system'') (stCrds env))
             @ StartWorker conf (NewWorkerManager (aoToken opts) (aoPlatformCode opts)) # rest)"
    and "end1 \<noteq> Serving \<Longrightarrow> worker_starts as = []"
proof -
  let ?g = "option_globals opts g"
  have r: "glRestrictedModel ?g = aoRestricted opts" by (simp add: option_globals_def)
  have conf: "(\<exists>conf. start_config ?g (stConf env) (aoPolarisFile opts) = Inr conf) \<longleftrightarrow>
      aoRestricted opts \<or> fst (conf_ParseFile (stConf env) (aoPolarisFile opts)) = None"
    by (auto simp: start_config_def r split: prod.splits option.splits)
  have e: "end1 = snd (start_Run g opts env)" "as = fst (start_Run g opts env)" by (simp_all add: assms(1))
  show s: "end1 = Serving \<longleftrightarrow> stLeader env (lock_name opts) = None \<and> stDiscovery env = None
      \<and> stKubeClient env = None \<and> stWsClient env = None \<and> (\<exists>p. kubectl_path env (aoKubectl opts) = Inr p)
      \<and> (aoRestricted opts \<or> fst (conf_ParseFile (stConf env) (aoPolarisFile opts)) = None)"
    unfolding e start_Run_def Let_def conf [symmetric]
    by (simp add: assms(2) or_stop_serving split_beta start_cluster_serving start_worker_serving)
  show "end1 \<noteq> Serving \<Longrightarrow> worker_starts as = []"
  proof -
    assume "end1 \<noteq> Serving"
    then have n: "snd (start_Run g opts env) \<noteq> Serving" by (simp add: assms(1))
    show ?thesis unfolding e(2) using n
      by (auto simp: start_Run_def Let_def assms(2) or_stop_def split_beta start_cluster_def
          start_worker_starts start_worker_serving split: option.splits sum.splits)
  qed
  assume "end1 = Serving"
  with s obtain path where p: "stLeader env (lock_name opts) = None" "stDiscovery env = None"
      "stKubeClient env = None" "stWsClient env = None" "kubectl_path env (aoKubectl opts) = Inr path" by blast
  from s \<open>end1 = Serving\<close> conf obtain c where c: "start_config ?g (stConf env) (aoPolarisFile opts) = Inr c" by blast
  let ?us = "case stServerVersion env of Inr v \<Rightarrow> [SetVersion v] | Inl e \<Rightarrow> []"
  have as: "as = ?us @ StartClient # (if aoRestricted opts then [] else map (ApplyCrd path ''kube-system'') (stCrds env))
      @ fst (start_worker ?g opts env)"
    unfolding e(2) by (simp add: start_Run_def Let_def assms(2) or_stop_def p start_cluster_def split_beta r)
  have "c = None \<longleftrightarrow> aoRestricted opts"
    using c by (auto simp: start_config_def r split: if_splits prod.splits option.splits)
  moreover have "worker_starts as = [(c, NewWorkerManager (aoToken opts) (aoPlatformCode opts))]"
    unfolding as by (simp add: start_worker_starts c split: sum.split)
  moreover have "\<exists>rest. fst (start_worker ?g opts env) =
      StartWorker c (NewWorkerManager (aoToken opts) (aoPlatformCode opts)) # rest"
    by (simp add: start_worker_def c worker_Start_def)
  ultimately show "\<exists>conf us. worker_starts as =
        [(conf, if aoPlatformCode opts = [] then aoToken opts else aoPlatformCode opts)]
      \<and> (conf = None \<longleftrightarrow> aoRestricted opts)
      \<and> (\<exists>path rest. as = us @ StartClient # (if aoRestricted opts then [] else map (ApplyCrd path ''kube-system'') (stCrds env))
             @ StartWorker conf (NewWorkerManager (aoToken opts) (aoPlatformCode opts)) # rest)"
    using as by (intro exI [of _ c] exI [of _ ?us]) (auto simp: NewWorkerManager_def)
qed

text \<open>
  C30: The agent serves exactly when it became leader, reached the server, made its clients, found kubectl and,
  unless restricted, read the configuration of the audits.  Only then is the worker started, once, with the
  platform code or in its absence the token, and with a configuration exactly when not restricted; the
  resource definitions are applied exactly when not restricted, before the worker starts.
\<close>

theorem start_exact:
  assumes "start_Run g opts env = (as, end1)" "aoPrintVersion opts = False"
  shows "(end1 = Serving \<longleftrightarrow> stLeader env (lock_name opts) = None \<and> stDiscovery env = None
      \<and> stKubeClient env = None \<and> stWsClient env = None \<and> (\<exists>p. kubectl_path env (aoKubectl opts) = Inr p)
      \<and> (aoRestricted opts \<or> fst (conf_ParseFile (stConf env) (aoPolarisFile opts)) = None))
    \<and> (if end1 = Serving then \<exists>conf us.
        worker_starts as = [(conf, if aoPlatformCode opts = [] then aoToken opts else aoPlatformCode opts)]
      \<and> (conf = None \<longleftrightarrow> aoRestricted opts)
      \<and> (\<exists>path rest. as = us @ StartClient # (if aoRestricted opts then [] else map (ApplyCrd path ''kube-system'') (stCrds env))
             @ StartWorker conf (NewWorkerManager (aoToken opts) (aoPlatformCode opts)) # rest)
      else worker_starts as = [])"
  using start_cases [OF assms] by presburger

definition polaris_start :: "nat start_env" where
  "polaris_start = \<lparr>stLeader = \<lambda>_. None, stDiscovery = None, stServerVersion = Inl [], stKubeClient = None,
     stWsClient = None, stLookPath = Inr ''/bin/kubectl'', stStat = \<lambda>_. None, stCrds = [''crd''], stConf = polaris_cl,
     stCron = \<lambda>_. None\<rparr>"

definition polaris_opts :: agent_options where
  "polaris_opts = \<lparr>aoClusterId = ''7'', aoPrintVersion = False, aoRestricted = False, aoKubectl = [],
     aoPolarisFile = [], aoToken = ''t'', aoPlatformCode = [], aoClearHelmCacheCron = ''0 0 * * *''\<rparr>"

lemma start_exact_witness:
  "\<exists>as conf. start_Run (seGlobals polaris_env) polaris_opts polaris_start = (as, Serving)
     \<and> worker_starts as = [(conf, ''t'')] \<and> conf \<noteq> None"
proof -
  obtain as end1 where r: "start_Run (seGlobals polaris_env) polaris_opts polaris_start = (as, end1)"
    by fastforce
  have p: "aoPrintVersion polaris_opts = False" by (simp add: polaris_opts_def)
  have "fst (conf_ParseFile polaris_cl []) = None" by code_simp
  then have s: "end1 = Serving"
    using start_exact [OF r p, THEN conjunct1]
    by (simp add: polaris_start_def polaris_opts_def kubectl_path_def)
  from start_exact [OF r p, THEN conjunct2] s obtain conf where "worker_starts as = [(conf, ''t'')]"
      "conf = None \<longleftrightarrow> aoRestricted polaris_opts"
    by (auto simp: polaris_opts_def)
  with r s show ?thesis by (auto simp: polaris_opts_def)
qed

section \<open>Upgrading the agent\<close>

lemma upgrade_cases:
  assumes "heUpgrade env p = (req, None)" "uqChartName req = ''choerodon-cluster-agent''"
    and acc: "\<And>w. GetCharUsernameAndPassword env (mk_packet key t p) w = Ret (Inr (u, pw))"
    and "req' = req\<lparr>uqNamespace := glAgentNamespace (he_globals env)\<rparr>"
  shows "(\<And>w. \<exists>r e w'. UpgradeRelease (heLib env) req' u pw w = Ret ((r, Some e), w')) \<Longrightarrow>
      \<exists>s'. (worker_step (cmd_UpgradeAgent env) ^^ n) \<lparr>wkCommands = [mk_packet key t p], wkResponses = [], wkWorld = w\<rparr> s'
        \<and> wkCommands s' = [mk_packet key t p] \<and> length (wkResponses s') = n
        \<and> list_all (\<lambda>a. pkType a = HelmReleaseInstallFailed) (wkResponses s')"
    and "UpgradeRelease (heLib env) req' u pw w = Ret ((r, None), w') \<Longrightarrow>
      \<exists>a. cmd_UpgradeAgent env (mk_packet key t p) w = Ret (([], Some a), w')"
proof -
  show "UpgradeRelease (heLib env) req' u pw w = Ret ((r, None), w') \<Longrightarrow>
      \<exists>a. cmd_UpgradeAgent env (mk_packet key t p) w = Ret (([], Some a), w')"
    using assms by (auto simp: cmd_UpgradeAgent_def Let_def printed_def failed_def split: sum.split)
next
  assume f: "\<And>w. \<exists>r e w'. UpgradeRelease (heLib env) req' u pw w = Ret ((r, Some e), w')"
  have one: "\<exists>a w'. cmd_UpgradeAgent env (mk_packet key t p) w = Ret (([mk_packet key t p], Some a), w')
      \<and> pkType a = HelmReleaseInstallFailed" for w
  proof -
    from f obtain r e w' where "UpgradeRelease (heLib env) req' u pw w = Ret ((r, Some e), w')" by blast
    with assms show ?thesis by (simp add: cmd_UpgradeAgent_def Let_def failed_def error_packet_def)
  qed
  show "\<exists>s'. (worker_step (cmd_UpgradeAgent env) ^^ n) \<lparr>wkCommands = [mk_packet key t p], wkResponses = [], wkWorld = w\<rparr> s'
        \<and> wkCommands s' = [mk_packet key t p] \<and> length (wkResponses s') = n
        \<and> list_all (\<lambda>a. pkType a = HelmReleaseInstallFailed) (wkResponses s')"
  proof (induction n)
    case (Suc n)
    then obtain s' where s': "(worker_step (cmd_UpgradeAgent env) ^^ n)
          \<lparr>wkCommands = [mk_packet key t p], wkResponses = [], wkWorld = w\<rparr> s'"
        "wkCommands s' = [] @ mk_packet key t p # []" "length (wkResponses s') = n"
        "list_all (\<lambda>a. pkType a = HelmReleaseInstallFailed) (wkResponses s')"
      by auto
    from one obtain a w' where a: "cmd_UpgradeAgent env (mk_packet key t p) (wkWorld s') =
        Ret (([mk_packet key t p], Some a), w')" "pkType a = HelmReleaseInstallFailed"
      by blast
    have "worker_step (cmd_UpgradeAgent env) s' \<lparr>wkCommands = [] @ [] @ [mk_packet key t p],
        wkResponses = wkResponses s' @ (case Some a of None \<Rightarrow> [] | Some q \<Rightarrow> [q]), wkWorld = w'\<rparr>"
      by (rule worker_step.step [where cmd = "mk_packet key t p"]) (use s'(2) a(1) in simp_all)
    with s'(1) have "(worker_step (cmd_UpgradeAgent env) ^^ Suc n)
        \<lparr>wkCommands = [mk_packet key t p], wkResponses = [], wkWorld = w\<rparr>
        \<lparr>wkCommands = [mk_packet key t p], wkResponses = wkResponses s' @ [a], wkWorld = w'\<rparr>"
      by auto
    with s'(3,4) a(2) show ?case by fastforce
  qed simp
qed

text \<open>
  C31: Where requests on releases end after a bounded number of steps, the upgrade of the agent does not: as
  long as the upgrade of its chart fails, the command stays, alone, with the worker and every attempt is
  answered with a failure, for any number of attempts; an upgrade that succeeds ends it with one answer.
\<close>

theorem agent_upgrade_repeats:
  assumes "heUpgrade env p = (req, None)" "uqChartName req = ''choerodon-cluster-agent''"
    and "\<And>w. GetCharUsernameAndPassword env (mk_packet key t p) w = Ret (Inr (u, pw))"
    and "req' = req\<lparr>uqNamespace := glAgentNamespace (he_globals env)\<rparr>"
  shows "((\<forall>w. \<exists>r e w'. UpgradeRelease (heLib env) req' u pw w = Ret ((r, Some e), w')) \<longrightarrow>
      (\<forall>n. \<exists>s'. (worker_step (cmd_UpgradeAgent env) ^^ n) \<lparr>wkCommands = [mk_packet key t p], wkResponses = [], wkWorld = w\<rparr> s'
        \<and> wkCommands s' = [mk_packet key t p] \<and> length (wkResponses s') = n
        \<and> list_all (\<lambda>a. pkType a = HelmReleaseInstallFailed) (wkResponses s')))
    \<and> (\<forall>r w'. UpgradeRelease (heLib env) req' u pw w = Ret ((r, None), w') \<longrightarrow>
      (\<exists>a. cmd_UpgradeAgent env (mk_packet key t p) w = Ret (([], Some a), w')))"
  using upgrade_cases [OF assms] by blast

definition upgrade_env :: "demo_state helm_env" where
  "upgrade_env = (demo_helm_env None)\<lparr>heUpgrade := \<lambda>p. (demo_upgrade ''choerodon-cluster-agent'', None),
     heJson := \<lambda>p. Inr [], heLib := (heLib (demo_helm_env None))\<lparr>hlGet := \<lambda>ns n w. (None, Some ''no server'')\<rparr>\<rparr>"

lemma agent_upgrade_repeats_witness:
  "\<exists>s'. (worker_step (cmd_UpgradeAgent upgrade_env) ^^ 3)
        \<lparr>wkCommands = [mk_packet ''k'' AgentUpgrade []], wkResponses = [], wkWorld = (None, None)\<rparr> s'
     \<and> wkCommands s' = [mk_packet ''k'' AgentUpgrade []] \<and> length (wkResponses s') = 3"
proof -
  have u: "heUpgrade upgrade_env [] = (demo_upgrade ''choerodon-cluster-agent'', None)"
    "GetCharUsernameAndPassword upgrade_env (mk_packet ''k'' AgentUpgrade []) w = Ret (Inr ([], []))" for w
    by (simp_all add: upgrade_env_def GetCharUsernameAndPassword_def)
  have f: "\<exists>r e w'. UpgradeRelease (heLib upgrade_env) req [] [] w = Ret ((r, Some e), w')" for req w
    by (simp add: upgrade_env_def UpgradeRelease_def get_release_def ErrReleaseNotFound_def has_prefix_def)
  have c: "uqChartName (demo_upgrade ''choerodon-cluster-agent'') = ''choerodon-cluster-agent''"
    by (simp add: demo_upgrade_def)
  show ?thesis
    using agent_upgrade_repeats [OF u(1) c u(2) HOL.refl, THEN conjunct1, rule_format, OF f, of 3 "(None, None)"]
    by blast
qed

end
