(* ===== verification/Endpoints.thy ===== *)
theory Endpoints
  imports Controllers "HOL-Library.Word"
begin

text \<open>
  Services that choose the pods of several releases (\<^verbatim>\<open>pkg/controller/service\<close>,
  \<^verbatim>\<open>pkg/util/service\<close>): the agent maintains their endpoints itself.  Go 1.13 has one variable for
  all iterations of a loop, and the address of a pod points into it: the model keeps the store of that
  variable explicit.
\<close>

section \<open>Objects\<close>

record service_port =
  spName :: string
  spProtocol :: string
  spTarget :: string

record net_service = k8s_obj +
  nsvSelector :: "(string, string) gomap option"
  nsvPorts :: "service_port list"
  nsvClusterIP :: string

record ep_pod = k8s_obj +
  epUID :: string
  epVersion :: string
  epIP :: string
  epNode :: string
  epHostname :: string
  epSubdomain :: string
  epDeleted :: bool
  epRestartPolicy :: string
  epPhase :: string

record object_ref =
  orKind :: string
  orNamespace :: string
  orName :: string
  orUID :: string
  orVersion :: string

text \<open>The name of the node is a pointer, or what it points to.\<close>

record 'n address =
  adIP :: string
  adHostname :: string
  adNode :: 'n
  adRef :: object_ref

record end_port =
  enName :: string
  enPort :: "32 word"
  enProtocol :: string

record 'n subset1 =
  suAddresses :: "'n address list"
  suNotReady :: "'n address list"
  suPorts :: "end_port list"

record endpoints = k8s_obj +
  eoVersion :: string
  eoSubsets :: "string subset1 list"

section \<open>Selectors\<close>

definition NetworkServiceInstancesAnno :: string where
  "NetworkServiceInstancesAnno = ''choerodon.io/network-service-instances''"

definition TolerateUnreadyEndpointsAnnotation :: string where
  "TolerateUnreadyEndpointsAnnotation = ''service.alpha.kubernetes.io/tolerate-unready-endpoints''"

definition IsInstancedService :: "net_service \<Rightarrow> bool" where
  "IsInstancedService sv =
     (if nsvSelector sv \<noteq> None then False
      else case map_of (koAnnotations sv) NetworkServiceInstancesAnno of
        None \<Rightarrow> False | Some code \<Rightarrow> code \<noteq> [])"

text \<open>A selector asks for a label with one of some values.\<close>

record selector =
  slKey :: string
  slValues :: "string list"

definition sel_Matches :: "selector \<Rightarrow> (string, string) gomap \<Rightarrow> bool" where
  "sel_Matches sel labels = (case map_of labels (slKey sel) of None \<Rightarrow> False | Some v \<Rightarrow> v \<in> set (slValues sel))"

text \<open>
  The API server as the reconcilers use it; the look-up of a port in a pod, its readiness, the packing of
  subsets, the test of label values and the quoting of texts come from libraries.
\<close>

record 'w ep_api =
  eaListPods :: "string \<Rightarrow> selector \<Rightarrow> 'w \<Rightarrow> api_err + ep_pod list"
  eaListServices :: "string \<Rightarrow> 'w \<Rightarrow> api_err + net_service list"
  eaGet :: "string \<Rightarrow> string \<Rightarrow> 'w \<Rightarrow> api_err + endpoints"
  eaCreate :: "endpoints \<Rightarrow> 'w \<Rightarrow> api_err option \<times> 'w"
  eaUpdate :: "endpoints \<Rightarrow> 'w \<Rightarrow> api_err option \<times> 'w"
  eaDelete :: "endpoints \<Rightarrow> 'w \<Rightarrow> api_err option \<times> 'w"
  eaFindPort :: "ep_pod \<Rightarrow> service_port \<Rightarrow> int res"
  eaReady :: "ep_pod \<Rightarrow> bool"
  eaRepack :: "string subset1 list \<Rightarrow> string subset1 list"
  eaInvalid :: "string list \<Rightarrow> gerror option"
  eaQuote :: "string \<Rightarrow> string"

definition instance_codes :: "net_service \<Rightarrow> string list" where
  "instance_codes sv = split_char (gm_get [] (koAnnotations sv) NetworkServiceInstancesAnno) CHR ''+''"

definition quote_list :: "(string \<Rightarrow> string) \<Rightarrow> string list \<Rightarrow> string" where
  "quote_list quote xs = ''['' @ join (map quote xs) '' '' @ '']''"

definition InstancedPodSelector :: "'w ep_api \<Rightarrow> net_service \<Rightarrow> selector res" where
  "InstancedPodSelector api sv =
     (let codes = instance_codes sv; sel = \<lparr>slKey = ReleaseLabel, slValues = codes\<rparr> in
      if length codes = 1 then Inr sel
      else case eaInvalid api codes of
        Some e \<Rightarrow> Inl (quote_list (eaQuote api) codes @ '' has invalid label selector: '' @ e)
      | None \<Rightarrow> Inr sel)"

section \<open>Addresses\<close>

text \<open>\<^verbatim>\<open>strconv.ParseBool\<close>\<close>

definition ParseBool :: "(string \<Rightarrow> string) \<Rightarrow> string \<Rightarrow> bool res" where
  "ParseBool quote s =
     (if s \<in> set [''1'', ''t'', ''T'', ''true'', ''TRUE'', ''True''] then Inr True
      else if s \<in> set [''0'', ''f'', ''F'', ''false'', ''FALSE'', ''False''] then Inr False
      else Inl (''strconv.ParseBool: parsing '' @ quote s @ '': invalid syntax''))"

definition tolerate_unready :: "'w ep_api \<Rightarrow> net_service \<Rightarrow> bool res" where
  "tolerate_unready api sv = (case map_of (koAnnotations sv) TolerateUnreadyEndpointsAnnotation of
     None \<Rightarrow> Inr False
   | Some v \<Rightarrow> (case ParseBool (eaQuote api) v of
       Inl e \<Rightarrow> Inl (''Failed to parse annotation '' @ TolerateUnreadyEndpointsAnnotation @ '': '' @ e)
     | Inr b \<Rightarrow> Inr b))"

text \<open>The pointer is the cell of the variable that the pod is in.\<close>

definition podToEndpointAddress :: "nat \<Rightarrow> ep_pod \<Rightarrow> nat address" where
  "podToEndpointAddress cell pod = \<lparr>adIP = epIP pod, adHostname = [], adNode = cell,
     adRef = \<lparr>orKind = ''Pod'', orNamespace = koNamespace pod, orName = koName pod, orUID = epUID pod,
       orVersion = epVersion pod\<rparr>\<rparr>"

definition shouldPodBeInEndpoints :: "ep_pod \<Rightarrow> bool" where
  "shouldPodBeInEndpoints pod =
     (if epRestartPolicy pod = ''Never'' then epPhase pod \<noteq> ''Failed'' \<and> epPhase pod \<noteq> ''Succeeded''
      else if epRestartPolicy pod = ''OnFailure'' then epPhase pod \<noteq> ''Succeeded''
      else True)"

definition addEndpointSubset ::
  "'w ep_api \<Rightarrow> nat subset1 list \<Rightarrow> ep_pod \<Rightarrow> nat address \<Rightarrow> end_port \<Rightarrow> bool \<Rightarrow> nat subset1 list" where
  "addEndpointSubset api subsets pod epa epp tol =
     (if tol \<or> eaReady api pod then subsets @ [\<lparr>suAddresses = [epa], suNotReady = [], suPorts = [epp]\<rparr>]
      else if shouldPodBeInEndpoints pod
      then subsets @ [\<lparr>suAddresses = [], suNotReady = [epa], suPorts = [epp]\<rparr>]
      else subsets)"

definition loop_cell :: nat where "loop_cell = 0"

definition pod_address :: "net_service \<Rightarrow> ep_pod \<Rightarrow> nat address" where
  "pod_address sv pod = (let epa = podToEndpointAddress loop_cell pod in
     if epHostname pod \<noteq> [] \<and> epSubdomain pod = koName sv \<and> koNamespace sv = koNamespace pod
     then epa\<lparr>adHostname := epHostname pod\<rparr> else epa)"

fun port_loop :: "'w ep_api \<Rightarrow> bool \<Rightarrow> ep_pod \<Rightarrow> nat address \<Rightarrow> service_port list \<Rightarrow> nat subset1 list \<Rightarrow> nat subset1 list" where
  "port_loop api tol pod epa [] subsets = subsets"
| "port_loop api tol pod epa (sp # sps) subsets = (case eaFindPort api pod sp of
     Inl e \<Rightarrow> port_loop api tol pod epa sps subsets
   | Inr portNum \<Rightarrow> port_loop api tol pod epa sps (addEndpointSubset api subsets pod epa
       \<lparr>enName = spName sp, enPort = word_of_int portNum, enProtocol = spProtocol sp\<rparr> tol))"

definition pod_iter :: "'w ep_api \<Rightarrow> net_service \<Rightarrow> bool \<Rightarrow> ep_pod \<Rightarrow> nat subset1 list \<Rightarrow> nat subset1 list" where
  "pod_iter api sv tol pod subsets =
     (if epIP pod = [] then subsets
      else if \<not> tol \<and> epDeleted pod then subsets
      else if nsvPorts sv = [] then
        (if nsvClusterIP sv = ''None''
         then addEndpointSubset api subsets pod (pod_address sv pod) \<lparr>enName = [], enPort = 0, enProtocol = ''TCP''\<rparr> tol
         else subsets)
      else port_loop api tol pod (pod_address sv pod) (nsvPorts sv) subsets)"

text \<open>Each iteration first assigns the pod to the variable of the loop.\<close>

fun pod_loop :: "'w ep_api \<Rightarrow> net_service \<Rightarrow> bool \<Rightarrow> ep_pod list \<Rightarrow> (nat \<Rightarrow> string) \<times> nat subset1 list
    \<Rightarrow> (nat \<Rightarrow> string) \<times> nat subset1 list" where
  "pod_loop api sv tol [] st = st"
| "pod_loop api sv tol (pod # pods) (nodes, subsets) =
     pod_loop api sv tol pods (nodes(loop_cell := epNode pod), pod_iter api sv tol pod subsets)"

definition deref_address :: "('n \<Rightarrow> 'm) \<Rightarrow> 'n address \<Rightarrow> 'm address" where
  "deref_address f a = \<lparr>adIP = adIP a, adHostname = adHostname a, adNode = f (adNode a), adRef = adRef a\<rparr>"

definition deref_subset :: "('n \<Rightarrow> 'm) \<Rightarrow> 'n subset1 \<Rightarrow> 'm subset1" where
  "deref_subset f s = \<lparr>suAddresses = map (deref_address f) (suAddresses s),
     suNotReady = map (deref_address f) (suNotReady s), suPorts = suPorts s\<rparr>"

definition desired_subsets :: "'w ep_api \<Rightarrow> net_service \<Rightarrow> bool \<Rightarrow> ep_pod list \<Rightarrow> string subset1 list" where
  "desired_subsets api sv tol pods = (case pod_loop api sv tol pods (\<lambda>_. [], []) of
     (nodes, subsets) \<Rightarrow> eaRepack api (map (deref_subset nodes) subsets))"

section \<open>Reconciling\<close>

definition gm_same :: "(string, string) gomap \<Rightarrow> (string, string) gomap \<Rightarrow> bool" where
  "gm_same m m' \<longleftrightarrow> list_all (\<lambda>x. x \<in> set m') m \<and> list_all (\<lambda>x. x \<in> set m) m'"

definition new_endpoints :: "net_service \<Rightarrow> endpoints" where
  "new_endpoints sv = \<lparr>koName = koName sv, koNamespace = koNamespace sv, koLabels = koLabels sv,
     koAnnotations = [], koBody = [], eoVersion = [], eoSubsets = []\<rparr>"

definition put_endpoints :: "'w ep_api \<Rightarrow> net_service \<Rightarrow> string subset1 list \<Rightarrow> endpoints \<Rightarrow> 'w \<Rightarrow> gerror option \<times> 'w" where
  "put_endpoints api sv subsets cur w =
     (let create = (eoVersion cur = []) in
      if \<not> create \<and> eoSubsets cur = subsets \<and> gm_same (koLabels cur) (koLabels sv) then (None, w)
      else (let new = cur\<lparr>eoSubsets := subsets, koLabels := koLabels sv\<rparr>;
                r = (if create then eaCreate api new w else eaUpdate api new w)
            in (map_option api_text (fst r), snd r)))"

definition checkInstancedService :: "'w ep_api \<Rightarrow> net_service \<Rightarrow> 'w \<Rightarrow> gerror option \<times> 'w" where
  "checkInstancedService api sv w = (case InstancedPodSelector api sv of
     Inl e \<Rightarrow> (Some e, w)
   | Inr sel \<Rightarrow> (case eaListPods api (koNamespace sv) sel w of
       Inl e \<Rightarrow> (Some (api_text e), w)
     | Inr pods \<Rightarrow> (case tolerate_unready api sv of
         Inl e \<Rightarrow> (Some e, w)
       | Inr tol \<Rightarrow>
          (let subsets = desired_subsets api sv tol pods in
           case eaGet api (koNamespace sv) (koName sv) w of
             Inl e \<Rightarrow> if IsNotFound e then put_endpoints api sv subsets (new_endpoints sv) w
                      else (Some (api_text e), w)
           | Inr cur \<Rightarrow> put_endpoints api sv subsets cur w))))"

definition deleteInstancedService :: "'w ep_api \<Rightarrow> net_service \<Rightarrow> 'w \<Rightarrow> gerror option \<times> 'w" where
  "deleteInstancedService api sv w = (case eaGet api (koNamespace sv) (koName sv) w of
     Inl e \<Rightarrow> if IsNotFound e
       then (case eaDelete api ((new_endpoints sv)\<lparr>koNamespace := []\<rparr>) w of (e', w') \<Rightarrow> (map_option api_text e', w'))
       else (Some (api_text e), w)
   | Inr ep \<Rightarrow> (case eaDelete api ep w of (e', w') \<Rightarrow> (map_option api_text e', w')))"

definition zero_service :: net_service where
  "zero_service = \<lparr>koName = [], koNamespace = [], koLabels = [], koAnnotations = [], koBody = [],
     nsvSelector = None, nsvPorts = [], nsvClusterIP = []\<rparr>"

definition newServiceRep :: "net_service rec_args \<Rightarrow> net_service \<Rightarrow> packet" where
  "newServiceRep args sv = mk_packet (''env:'' @ koNamespace sv @ ''.Service:'' @ koName sv) ResourceUpdate
     (payload_of args sv)"

definition rec_Service :: "net_service rec_args \<Rightarrow> 'w ep_api \<Rightarrow> request \<Rightarrow> net_service reader \<Rightarrow> 'w \<Rightarrow> rec_out \<times> 'w" where
  "rec_Service args api rq got w = (case got of
     Inl e \<Rightarrow>
       (if IsNotFound e then
          (let r = (if IsInstancedService zero_service then deleteInstancedService api zero_service w
                    else (Some (api_text e), w))
           in (\<lparr>roResponses = [del_rep ''Service'' rq], roCommands = [], roErr = fst r\<rparr>, snd r))
        else (requeue e, w))
   | Inr sv \<Rightarrow>
       if contains (gm_get [] (koLabels sv) ''release'') ''prometheus-operator'' then (nothing, w)
       else
        (let resp = (if gm_get [] (koLabels sv) NetworkLabel \<noteq> [] then [newServiceRep args sv] else []);
             r = (if IsInstancedService sv then checkInstancedService api sv w else (None, w))
         in (\<lparr>roResponses = resp, roCommands = [], roErr = fst r\<rparr>, snd r)))"

section \<open>Changes of pods\<close>

fun pod_services :: "'w ep_api \<Rightarrow> ep_pod \<Rightarrow> net_service list \<Rightarrow> net_service list res" where
  "pod_services api pod [] = Inr []"
| "pod_services api pod (s # ss) =
     (if \<not> IsInstancedService s then pod_services api pod ss
      else case InstancedPodSelector api s of
        Inl e \<Rightarrow> Inl e
      | Inr sel \<Rightarrow> (case pod_services api pod ss of
          Inl e \<Rightarrow> Inl e | Inr rest \<Rightarrow> Inr (if sel_Matches sel (koLabels pod) then s # rest else rest)))"

definition GetPodServices :: "'w ep_api \<Rightarrow> ep_pod \<Rightarrow> 'w \<Rightarrow> net_service list res" where
  "GetPodServices api pod w = (case eaListServices api (koNamespace pod) w of
     Inl e \<Rightarrow> Inl (api_text e) | Inr ss \<Rightarrow> pod_services api pod ss)"

fun check_services :: "'w ep_api \<Rightarrow> net_service list \<Rightarrow> 'w \<Rightarrow> gerror option \<times> 'w" where
  "check_services api [] w = (None, w)"
| "check_services api (s # ss) w = (case checkInstancedService api s w of
     (Some e, w') \<Rightarrow> (Some e, w') | (None, w') \<Rightarrow> check_services api ss w')"

definition updatePodServiceMemberships :: "'w ep_api \<Rightarrow> ep_pod \<Rightarrow> 'w \<Rightarrow> gerror option \<times> 'w" where
  "updatePodServiceMemberships api pod w = (case GetPodServices api pod w of
     Inl e \<Rightarrow> (Some e, w) | Inr ss \<Rightarrow> check_services api ss w)"

definition zero_pod :: ep_pod where
  "zero_pod = \<lparr>koName = [], koNamespace = [], koLabels = [], koAnnotations = [], koBody = [], epUID = [],
     epVersion = [], epIP = [], epNode = [], epHostname = [], epSubdomain = [], epDeleted = False,
     epRestartPolicy = [], epPhase = []\<rparr>"

text \<open>The pod that is gone was not read: its reconciler works with an empty one.  A failed check is dropped.\<close>

definition rec_ServicePod :: "'w ep_api \<Rightarrow> api_err + ep_pod \<Rightarrow> 'w \<Rightarrow> gerror option \<times> 'w" where
  "rec_ServicePod api got w = (case got of
     Inl e \<Rightarrow> if IsNotFound e then updatePodServiceMemberships api zero_pod w else (Some (api_text e), w)
   | Inr pod \<Rightarrow> (None, snd (updatePodServiceMemberships api pod w)))"

section \<open>Which endpoints are written\<close>

text \<open>The endpoints that subsets stand for: addresses with ports, ready or not.\<close>

definition entries :: "'n subset1 list \<Rightarrow> ('n address \<times> end_port \<times> bool) set" where
  "entries subs = {(a, p, r). \<exists>s \<in> set subs. p \<in> set (suPorts s)
     \<and> a \<in> set (if r then suAddresses s else suNotReady s)}"

definition eligible :: "bool \<Rightarrow> ep_pod \<Rightarrow> bool" where
  "eligible tol pod \<longleftrightarrow> epIP pod \<noteq> [] \<and> (tol \<or> \<not> epDeleted pod)"

definition ready_as :: "'w ep_api \<Rightarrow> bool \<Rightarrow> ep_pod \<Rightarrow> bool option" where
  "ready_as api tol pod = (if tol \<or> eaReady api pod then Some True
     else if shouldPodBeInEndpoints pod then Some False else None)"

definition found_ports :: "'w ep_api \<Rightarrow> ep_pod \<Rightarrow> service_port list \<Rightarrow> end_port list" where
  "found_ports api pod sps = concat (map (\<lambda>sp. case eaFindPort api pod sp of
     Inl e \<Rightarrow> [] | Inr n \<Rightarrow> [\<lparr>enName = spName sp, enPort = word_of_int n, enProtocol = spProtocol sp\<rparr>]) sps)"

definition pod_ports :: "'w ep_api \<Rightarrow> net_service \<Rightarrow> ep_pod \<Rightarrow> end_port list" where
  "pod_ports api sv pod =
     (if nsvPorts sv = [] then
        (if nsvClusterIP sv = ''None'' then [\<lparr>enName = [], enPort = 0, enProtocol = ''TCP''\<rparr>] else [])
      else found_ports api pod (nsvPorts sv))"

definition pod_entries :: "'w ep_api \<Rightarrow> net_service \<Rightarrow> bool \<Rightarrow> ep_pod \<Rightarrow> (nat address \<times> end_port \<times> bool) set" where
  "pod_entries api sv tol pod = {(pod_address sv pod, p, r) | p r.
     eligible tol pod \<and> p \<in> set (pod_ports api sv pod) \<and> ready_as api tol pod = Some r}"

lemma entries_Nil [simp]: "entries [] = {}"
  by (simp add: entries_def)

lemma entries_append [simp]: "entries (xs @ ys) = entries xs \<union> entries ys"
  by (auto simp: entries_def)

lemma addEndpointSubset_entries:
  "entries (addEndpointSubset api subsets pod epa epp tol) =
     entries subsets \<union> {(epa, epp, r) | r. ready_as api tol pod = Some r}"
  by (auto simp: addEndpointSubset_def ready_as_def entries_def)

lemma port_loop_entries:
  "entries (port_loop api tol pod epa sps subsets) =
     entries subsets \<union> {(epa, p, r) | p r. p \<in> set (found_ports api pod sps) \<and> ready_as api tol pod = Some r}"
proof (induction sps arbitrary: subsets)
  case (Cons sp sps)
  have f: "found_ports api pod (sp # sps) = (case eaFindPort api pod sp of
      Inl e \<Rightarrow> [] | Inr n \<Rightarrow> [\<lparr>enName = spName sp, enPort = word_of_int n, enProtocol = spProtocol sp\<rparr>])
      @ found_ports api pod sps"
    by (simp add: found_ports_def)
  show ?case by (cases "eaFindPort api pod sp") (auto simp: f Cons.IH addEndpointSubset_entries)
qed (simp add: found_ports_def)

lemma pod_iter_entries: "entries (pod_iter api sv tol pod subsets) = entries subsets \<union> pod_entries api sv tol pod"
  by (auto simp: pod_iter_def pod_entries_def eligible_def pod_ports_def addEndpointSubset_entries port_loop_entries)

lemma pod_loop_entries:
  "entries (snd (pod_loop api sv tol pods (nodes, subsets))) = entries subsets \<union> (\<Union>pod \<in> set pods. pod_entries api sv tol pod)"
  by (induction pods arbitrary: nodes subsets) (auto simp: pod_iter_entries)

lemma pod_loop_nodes:
  "fst (pod_loop api sv tol pods (nodes, subsets)) =
     (if pods = [] then nodes else nodes(loop_cell := epNode (List.last pods)))"
  by (induction pods arbitrary: nodes subsets) auto

lemma entries_Cons: "entries (s # subs) = (\<lambda>(a, p). (a, p, True)) ` (set (suAddresses s) \<times> set (suPorts s))
    \<union> (\<lambda>(a, p). (a, p, False)) ` (set (suNotReady s) \<times> set (suPorts s)) \<union> entries subs"
proof (rule set_eqI)
  fix x :: "'a address \<times> end_port \<times> bool"
  obtain a p r where x: "x = (a, p, r)" by (cases x)
  show "x \<in> entries (s # subs) \<longleftrightarrow> x \<in> (\<lambda>(a, p). (a, p, True)) ` (set (suAddresses s) \<times> set (suPorts s))
    \<union> (\<lambda>(a, p). (a, p, False)) ` (set (suNotReady s) \<times> set (suPorts s)) \<union> entries subs"
    unfolding x by (cases r) (auto simp: entries_def)
qed

lemma entries_deref: "entries (map (deref_subset f) subs) = (\<lambda>(a, p, r). (deref_address f a, p, r)) ` entries subs"
proof (induction subs)
  case (Cons s subs)
  have d: "suAddresses (deref_subset f s) = map (deref_address f) (suAddresses s)"
    "suNotReady (deref_subset f s) = map (deref_address f) (suNotReady s)" "suPorts (deref_subset f s) = suPorts s"
    by (simp_all add: deref_subset_def)
  have t: "(\<lambda>(a, p). (a, p, t)) ` (deref_address f ` A \<times> P) =
      (\<lambda>(a, p, r). (deref_address f a, p, r)) ` ((\<lambda>(a, p). (a, p, t)) ` (A \<times> P))" for A P and t :: bool
    by (auto simp: image_iff)
  show ?case by (simp only: list.map entries_Cons d list.set_map t image_Un Cons.IH)
qed simp

definition last_node :: "ep_pod list \<Rightarrow> string" where
  "last_node pods = (if pods = [] then [] else epNode (List.last pods))"

text \<open>What the endpoints of a service are, for the pods that are listed.\<close>

definition wanted :: "'w ep_api \<Rightarrow> net_service \<Rightarrow> bool \<Rightarrow> ep_pod list \<Rightarrow> (string address \<times> end_port \<times> bool) set" where
  "wanted api sv tol pods = {(deref_address (\<lambda>_. last_node pods) (pod_address sv pod), p, r) | pod p r.
     pod \<in> set pods \<and> eligible tol pod \<and> p \<in> set (pod_ports api sv pod) \<and> ready_as api tol pod = Some r}"

lemma pod_address_cell: "adNode (pod_address sv pod) = loop_cell"
  by (simp add: pod_address_def podToEndpointAddress_def Let_def)

lemma desired_entries:
  assumes "\<And>s. entries (eaRepack api s) = entries s"
  shows "entries (desired_subsets api sv tol pods) = wanted api sv tol pods"
proof -
  obtain nodes subsets where l: "pod_loop api sv tol pods (\<lambda>_. [], []) = (nodes, subsets)" by fastforce
  have "nodes loop_cell = last_node pods"
    using pod_loop_nodes [of api sv tol pods "\<lambda>_. []" "[]"] l by (simp add: last_node_def split: if_splits)
  then have d: "deref_address nodes (pod_address sv pod) = deref_address (\<lambda>_. last_node pods) (pod_address sv pod)" for pod
    by (simp add: deref_address_def pod_address_cell)
  have "entries subsets = (\<Union>pod \<in> set pods. pod_entries api sv tol pod)"
    using pod_loop_entries [of api sv tol pods "\<lambda>_. []" "[]"] l by simp
  then have "entries (desired_subsets api sv tol pods) =
      (\<lambda>(a, p, r). (deref_address nodes a, p, r)) ` (\<Union>pod \<in> set pods. pod_entries api sv tol pod)"
    by (simp add: desired_subsets_def l assms entries_deref)
  also have "\<dots> = wanted api sv tol pods"
    by (auto simp: pod_entries_def wanted_def d image_iff)
  finally show ?thesis .
qed

section \<open>What a check writes\<close>

lemma gm_same_refl [simp]: "gm_same m m"
  by (simp add: gm_same_def list_all_iff)

lemma checkInstancedService_reads:
  assumes "InstancedPodSelector api sv = Inr sel" "eaListPods api (koNamespace sv) sel w = Inr pods"
    and "tolerate_unready api sv = Inr tol"
  shows "checkInstancedService api sv w = (case eaGet api (koNamespace sv) (koName sv) w of
     Inl e \<Rightarrow> if IsNotFound e then put_endpoints api sv (desired_subsets api sv tol pods) (new_endpoints sv) w
              else (Some (api_text e), w)
   | Inr cur \<Rightarrow> put_endpoints api sv (desired_subsets api sv tol pods) cur w)"
  by (simp add: checkInstancedService_def assms Let_def)


text \<open>A server that keeps what it is given.\<close>

definition keeps_endpoints :: "'w ep_api \<Rightarrow> bool" where
  "keeps_endpoints api \<longleftrightarrow>
     (\<forall>put ep w w'. (put = eaCreate api \<or> put = eaUpdate api) \<and> put ep w = (None, w') \<longrightarrow>
        (\<exists>ep'. eaGet api (koNamespace ep) (koName ep) w' = Inr ep' \<and> eoVersion ep' \<noteq> []
           \<and> eoSubsets ep' = eoSubsets ep \<and> koLabels ep' = koLabels ep)
        \<and> (\<forall>ns sel. eaListPods api ns sel w' = eaListPods api ns sel w)) \<and>
     (\<forall>ns n w ep. eaGet api ns n w = Inr ep \<longrightarrow> koNamespace ep = ns \<and> koName ep = n)"


section \<open>Deletions\<close>

lemma zero_not_instanced: "\<not> IsInstancedService zero_service"
  by (simp add: IsInstancedService_def zero_service_def)

lemma pod_services_zero: "pod_services api zero_pod ss = Inr xs \<Longrightarrow> xs = []"
  by (induction ss arbitrary: xs) (auto simp: sel_Matches_def zero_pod_def split: if_splits sum.splits)

text \<open>
  Deletions are not seen: for a service that is gone, every attempt reports the deletion, leaves its endpoints
  and asks to be repeated, so that the report is sent again without end; for a pod that is gone no endpoints
  are changed; and a check that fails after a change of a pod is not repeated.
\<close>

theorem instanced_deletions_lost:
  "(IsNotFound e \<longrightarrow>
      rec_Service args api rq (Inl e) w =
        (\<lparr>roResponses = [del_rep ''Service'' rq], roCommands = [], roErr = Some (api_text e)\<rparr>, w)
      \<and> snd (rec_ServicePod api (Inl e) w) = w)
    \<and> fst (rec_ServicePod api (Inr pod) w) = None"
proof -
  have "snd (updatePodServiceMemberships api zero_pod w) = w"
  proof (cases "GetPodServices api zero_pod w")
    case (Inr ss)
    then have "ss = []" by (auto simp: GetPodServices_def split: sum.splits dest: pod_services_zero)
    with Inr show ?thesis by (simp add: updatePodServiceMemberships_def)
  qed (simp add: updatePodServiceMemberships_def)
  then show ?thesis by (auto simp: rec_Service_def rec_ServicePod_def zero_not_instanced Let_def)
qed

section \<open>A small cluster\<close>

definition small_pod :: "string \<Rightarrow> string \<Rightarrow> ep_pod" where
  "small_pod ip node = zero_pod\<lparr>koName := ip, koNamespace := ''dev'', epIP := ip, epNode := node\<rparr>"

definition small_api :: "endpoints option ep_api" where
  "small_api = \<lparr>eaListPods = \<lambda>_ _ _. Inr [small_pod ''10.0.0.1'' ''a'', small_pod ''10.0.0.2'' ''b''],
     eaListServices = \<lambda>_ _. Inr [],
     eaGet = \<lambda>ns n w. case w of
         Some ep \<Rightarrow> if koNamespace ep = ns \<and> koName ep = n then Inr ep else Inl (NotFoundErr ''not found'')
       | None \<Rightarrow> Inl (NotFoundErr ''not found''),
     eaCreate = \<lambda>ep w. (None, Some (ep\<lparr>eoVersion := ''1''\<rparr>)), eaUpdate = \<lambda>ep w. (None, Some (ep\<lparr>eoVersion := ''1''\<rparr>)),
     eaDelete = \<lambda>ep w. (None, None), eaFindPort = \<lambda>_ _. Inr 8080, eaReady = \<lambda>_. True, eaRepack = \<lambda>s. s,
     eaInvalid = \<lambda>_. None, eaQuote = \<lambda>s. s\<rparr>"

definition small_service :: net_service where
  "small_service = zero_service\<lparr>koName := ''web'', koNamespace := ''dev'',
     koAnnotations := [(NetworkServiceInstancesAnno, ''one+two'')],
     nsvPorts := [\<lparr>spName = ''http'', spProtocol = ''TCP'', spTarget = ''8080''\<rparr>]\<rparr>"

lemma small_reads:
  "InstancedPodSelector small_api small_service = Inr \<lparr>slKey = ReleaseLabel, slValues = [''one'', ''two'']\<rparr>"
  "tolerate_unready small_api small_service = Inr False"
  by (simp_all add: InstancedPodSelector_def instance_codes_def small_api_def small_service_def zero_service_def
      gm_get_def Let_def tolerate_unready_def TolerateUnreadyEndpointsAnnotation_def NetworkServiceInstancesAnno_def)

lemma small_calls:
  "eaListPods small_api ns sel w = Inr [small_pod ''10.0.0.1'' ''a'', small_pod ''10.0.0.2'' ''b'']"
  "eaGet small_api ns n None = Inl (NotFoundErr ''not found'')"
  "eaCreate small_api ep w = (None, Some (ep\<lparr>eoVersion := ''1''\<rparr>))"
  by (simp_all add: small_api_def)


lemma small_keeps: "keeps_endpoints small_api"
  by (auto simp: keeps_endpoints_def small_api_def split: option.splits if_splits)


lemma instanced_deletions_lost_witness:
  "snd (rec_ServicePod small_api (Inl (NotFoundErr ''gone'')) None) = None"
  using instanced_deletions_lost [of "NotFoundErr ''gone''" _ small_api _ None] by (simp add: IsNotFound_def)

end
