(* ===== verification/Helm2to3.thy ===== *)
theory Helm2to3
  imports Helm GoSort
begin

text \<open>
  The conversion of releases of Helm 2 to Helm 3 (\<^verbatim>\<open>pkg/helm/helm2to3\<close>): the mapping of one version of a release,
  the storage of Tiller, and the two operations on them, the conversion and the clean-up.

  The two storages are those of third-party libraries; they are reached through the functions of
  \<^verbatim>\<open>convert_lib\<close>.  A function of type \<^verbatim>\<open>_ go\<close> there may end the process.  The lines of the log are left out.
\<close>

section \<open>Names of enumerations\<close>

definition Status_Code_name :: "(int, string) gomap" where
  "Status_Code_name = [(0, ''UNKNOWN''), (1, ''DEPLOYED''), (2, ''DELETED''), (3, ''SUPERSEDED''), (4, ''FAILED''),
     (5, ''DELETING''), (6, ''PENDING_INSTALL''), (7, ''PENDING_UPGRADE''), (8, ''PENDING_ROLLBACK'')]"

definition Hook_Event_name :: "(int, string) gomap" where
  "Hook_Event_name = [(0, ''UNKNOWN''), (1, ''PRE_INSTALL''), (2, ''POST_INSTALL''), (3, ''PRE_DELETE''),
     (4, ''POST_DELETE''), (5, ''PRE_UPGRADE''), (6, ''POST_UPGRADE''), (7, ''PRE_ROLLBACK''), (8, ''POST_ROLLBACK''),
     (9, ''RELEASE_TEST_SUCCESS''), (10, ''RELEASE_TEST_FAILURE''), (11, ''CRD_INSTALL'')]"

definition Hook_DeletePolicy_name :: "(int, string) gomap" where
  "Hook_DeletePolicy_name = [(0, ''SUCCEEDED''), (1, ''FAILED''), (2, ''BEFORE_HOOK_CREATION'')]"

definition TestRun_Status_name :: "(int, string) gomap" where
  "TestRun_Status_name = [(0, ''UNKNOWN''), (1, ''SUCCESS''), (2, ''FAILURE''), (3, ''RUNNING'')]"

text \<open>The values that Helm 3 gives a meaning.\<close>

definition v3_statuses :: "string list" where
  "v3_statuses = [''unknown'', ''deployed'', ''uninstalled'', ''superseded'', ''failed'', ''uninstalling'',
     ''pending-install'', ''pending-upgrade'', ''pending-rollback'']"

definition v3_hook_events :: "string list" where
  "v3_hook_events = [''pre-install'', ''post-install'', ''pre-delete'', ''post-delete'', ''pre-upgrade'',
     ''post-upgrade'', ''pre-rollback'', ''post-rollback'', ''test'']"

definition v3_delete_policies :: "string list" where
  "v3_delete_policies = [''hook-succeeded'', ''hook-failed'', ''before-hook-creation'']"

definition v3_hook_phases :: "string list" where
  "v3_hook_phases = [''Unknown'', ''Running'', ''Succeeded'', ''Failed'']"

text \<open>\<^verbatim>\<open>strings.Title\<close>, on ASCII text.\<close>

definition upper_char :: "char \<Rightarrow> char" where
  "upper_char c = (let n = of_char c :: nat in if 97 \<le> n \<and> n \<le> 122 then char_of (n - 32) else c)"

definition is_separator :: "char \<Rightarrow> bool" where
  "is_separator c = (let n = of_char c :: nat in
     \<not> (48 \<le> n \<and> n \<le> 57 \<or> 65 \<le> n \<and> n \<le> 90 \<or> n = 95 \<or> 97 \<le> n \<and> n \<le> 122))"

fun title_from :: "bool \<Rightarrow> string \<Rightarrow> string" where
  "title_from sep [] = []"
| "title_from sep (c # s) = (if sep then upper_char c else c) # title_from (is_separator c) s"

definition strings_Title :: "string \<Rightarrow> string" where
  "strings_Title s = title_from True s"

section \<open>Releases of both versions\<close>

text \<open>
  A slice that may be nil is an option where the code tells nil from empty.  A time is its seconds and
  nanoseconds; the zero time is that of Go.
\<close>

type_synonym gotime = "int \<times> int"

definition zero_time :: gotime where "zero_time = (- 62135596800, 0)"

record maintainer =
  mtName :: string
  mtEmail :: string
  mtURL :: string

record chart_file =
  cfName :: string
  cfData :: string

record v2_metadata =
  vmName :: string
  vmHome :: string
  vmSources :: "string list"
  vmVersion :: string
  vmDescription :: string
  vmKeywords :: "string list"
  vmMaintainers :: "maintainer list option"
  vmEngine :: string
  vmIcon :: string
  vmApiVersion :: string
  vmCondition :: string
  vmTags :: string
  vmAppVersion :: string
  vmDeprecated :: bool
  vmTillerVersion :: string
  vmAnnotations :: "(string, string) gomap"
  vmKubeVersion :: string

record v3_metadata =
  tmName :: string
  tmHome :: string
  tmSources :: "string list"
  tmVersion :: string
  tmDescription :: string
  tmKeywords :: "string list"
  tmMaintainers :: "maintainer list option"
  tmIcon :: string
  tmAPIVersion :: string
  tmCondition :: string
  tmTags :: string
  tmAppVersion :: string
  tmDeprecated :: bool
  tmAnnotations :: "(string, string) gomap"
  tmKubeVersion :: string
  tmDependencies :: "string list option"
  tmType :: string

text \<open>The configuration of a chart or a release is its text.\<close>

datatype v2_chart = V2Chart (vcMetadata: "v2_metadata option") (vcTemplates: "chart_file list option")
  (vcDependencies: "v2_chart list") (vcValues: "string option") (vcFiles: "chart_file list option")

text \<open>The pointer from a dependency back to its chart is left out.\<close>

datatype v3_chart = V3Chart (tcMetadata: "v3_metadata option") (tcTemplates: "chart_file list option")
  (tcDependencies: "v3_chart list") (tcValues: "jmap option") (tcFiles: "chart_file list option")
  (tcSchema: "string option") (tcLock: "string option")

record v2_hook =
  vhName :: string
  vhKind :: string
  vhPath :: string
  vhManifest :: string
  vhEvents :: "int list option"
  vhWeight :: int
  vhDeletePolicies :: "int list option"

record test_run =
  trName :: string
  trStatus :: int
  trStartedAt :: "gotime option"
  trCompletedAt :: "gotime option"

record v2_status =
  vsCode :: int
  vsNotes :: string
  vsLastTestSuiteRun :: "test_run list option"

record v2_info =
  viStatus :: "v2_status option"
  viFirstDeployed :: "gotime option"
  viLastDeployed :: "gotime option"
  viDeleted :: "gotime option"
  viDescription :: string

record v2_release =
  vrName :: string
  vrInfo :: "v2_info option"
  vrChart :: "v2_chart option"
  vrConfig :: "string option"
  vrManifest :: string
  vrHooks :: "v2_hook list option"
  vrVersion :: int
  vrNamespace :: string

record hook_execution =
  hxStartedAt :: gotime
  hxCompletedAt :: gotime
  hxPhase :: string

definition zero_execution :: hook_execution where
  "zero_execution = \<lparr>hxStartedAt = zero_time, hxCompletedAt = zero_time, hxPhase = []\<rparr>"

record v3_hook =
  thName :: string
  thKind :: string
  thPath :: string
  thManifest :: string
  thEvents :: "string list option"
  thLastRun :: hook_execution
  thWeight :: int
  thDeletePolicies :: "string list option"

record v3_info =
  tiFirstDeployed :: gotime
  tiLastDeployed :: gotime
  tiDeleted :: gotime
  tiDescription :: string
  tiStatus :: string
  tiNotes :: string

record v3_release =
  tlName :: string
  tlNamespace :: string
  tlChart :: v3_chart
  tlConfig :: "jmap option"
  tlConfigRaw :: string
  tlInfo :: v3_info
  tlManifest :: string
  tlHooks :: "v3_hook list option"
  tlVersion :: int

record kube_config =
  kcContext :: string
  kcFile :: string

text \<open>
  The libraries: the reader of values and of timestamps, the storage of Tiller (its kind, the texts of the
  releases in it by namespace and selector, the decoder of such a text, the deletion of one object), the storage
  of Helm 3, and the programs and directories of the system.
\<close>

record 'w convert_lib =
  clReadValues :: "string \<Rightarrow> jmap res"
  clTimestamp :: "gotime \<Rightarrow> gotime res"
  clTillerStorage :: "kube_config \<Rightarrow> string \<Rightarrow> 'w \<Rightarrow> string go"
  clListSecrets :: "kube_config \<Rightarrow> string \<Rightarrow> string \<Rightarrow> 'w \<Rightarrow> string list res"
  clListConfigMaps :: "kube_config \<Rightarrow> string \<Rightarrow> string \<Rightarrow> 'w \<Rightarrow> string list res"
  clDecode :: "string \<Rightarrow> v2_release option go"
  clDeleteSecret :: "kube_config \<Rightarrow> string \<Rightarrow> string \<Rightarrow> 'w \<Rightarrow> gerror option \<times> 'w"
  clDeleteConfigMap :: "kube_config \<Rightarrow> string \<Rightarrow> string \<Rightarrow> 'w \<Rightarrow> gerror option \<times> 'w"
  clInit :: "kube_config \<Rightarrow> string \<Rightarrow> string \<Rightarrow> gerror option"
  clCreate :: "string \<Rightarrow> v3_release \<Rightarrow> 'w \<Rightarrow> gerror option \<times> 'w"
  clExecute :: "string list \<Rightarrow> 'w \<Rightarrow> string \<times> 'w"
  clRemoveAll :: "string \<Rightarrow> 'w \<Rightarrow> gerror option \<times> 'w"
  clGetenv :: "string \<Rightarrow> string option"
  clHomedir :: string
  clHelmpath :: "string \<Rightarrow> string"

section \<open>One version of a release\<close>

fun mapTimestampToTime :: "'w convert_lib \<Rightarrow> gotime option \<Rightarrow> gotime res" where
  "mapTimestampToTime lib None = Inr zero_time"
| "mapTimestampToTime lib (Some ts) = clTimestamp lib ts"

fun mapConfig :: "'w convert_lib \<Rightarrow> string option \<Rightarrow> jmap option res" where
  "mapConfig lib None = Inr None"
| "mapConfig lib (Some raw) = map_sum id Some (clReadValues lib raw)"

definition map_maintainer :: "maintainer \<Rightarrow> maintainer" where
  "map_maintainer val = \<lparr>mtName = mtName val, mtEmail = mtEmail val, mtURL = mtURL val\<rparr>"

definition mapMaintainers :: "maintainer list option \<Rightarrow> maintainer list option" where
  "mapMaintainers ms = map_option (map map_maintainer) ms"

definition map_file :: "chart_file \<Rightarrow> chart_file" where
  "map_file val = \<lparr>cfName = cfName val, cfData = cfData val\<rparr>"

definition mapTemplates :: "chart_file list option \<Rightarrow> chart_file list option" where
  "mapTemplates ts = map_option (map map_file) ts"

text \<open>The test for nil compares the function itself, so that files that are nil become an empty slice.\<close>

definition mapFiles :: "chart_file list option \<Rightarrow> chart_file list option" where
  "mapFiles fs = Some (case fs of None \<Rightarrow> [] | Some xs \<Rightarrow> map map_file xs)"

definition mapMetadata :: "v2_metadata option \<Rightarrow> v3_metadata option" where
  "mapMetadata md = (case md of None \<Rightarrow> None
   | Some m \<Rightarrow> Some \<lparr>tmName = vmName m, tmHome = vmHome m, tmSources = vmSources m, tmVersion = vmVersion m,
       tmDescription = vmDescription m, tmKeywords = vmKeywords m, tmMaintainers = mapMaintainers (vmMaintainers m),
       tmIcon = vmIcon m, tmAPIVersion = vmApiVersion m, tmCondition = vmCondition m, tmTags = vmTags m,
       tmAppVersion = vmAppVersion m, tmDeprecated = vmDeprecated m, tmAnnotations = vmAnnotations m,
       tmKubeVersion = vmKubeVersion m, tmDependencies = None, tmType = ''application''\<rparr>)"

text \<open>The dependencies are mapped by the function that maps their chart.\<close>

fun mapDependencies :: "(v2_chart \<Rightarrow> v3_chart res) \<Rightarrow> v2_chart list \<Rightarrow> v3_chart list \<Rightarrow> v3_chart list res" where
  "mapDependencies f [] acc = Inr acc"
| "mapDependencies f (val # rest) acc =
     res_bind (f val) (\<lambda>dependency. mapDependencies f rest (acc @ [dependency]))"

lemma mapDependencies_cong [fundef_cong]:
  "\<lbrakk>xs = ys; acc = acc'; \<And>c. c \<in> set ys \<Longrightarrow> f c = g c\<rbrakk> \<Longrightarrow> mapDependencies f xs acc = mapDependencies g ys acc'"
proof (induction xs arbitrary: ys acc acc')
  case (Cons c xs)
  then show ?case by (cases "g c") auto
qed simp

fun mapv2ChartTov3Chart :: "'w convert_lib \<Rightarrow> v2_chart \<Rightarrow> v3_chart res" where
  "mapv2ChartTov3Chart lib (V2Chart md ts deps vals fs) =
     res_bind (mapDependencies (mapv2ChartTov3Chart lib) deps []) (\<lambda>deps'.
     res_bind (mapConfig lib vals) (\<lambda>values.
       Inr (V3Chart (mapMetadata md) (mapTemplates ts) deps' values (mapFiles fs) None None)))"

text \<open>The names of a list of codes, in lower case.\<close>

fun code_loop :: "(int, string) gomap \<Rightarrow> gerror \<Rightarrow> int list \<Rightarrow> string list res" where
  "code_loop names e [] = Inr []"
| "code_loop names e (val # rest) = (case map_of names val of
     None \<Rightarrow> Inl e
   | Some s \<Rightarrow> map_sum id ((#) (to_lower s)) (code_loop names e rest))"

definition mapHookEvents :: "int list option \<Rightarrow> string list option res" where
  "mapHookEvents evs = (case evs of None \<Rightarrow> Inr None
   | Some vs \<Rightarrow> map_sum id Some (code_loop Hook_Event_name ''Failed to convert hook event'' vs))"

definition mapHookDeletePolicies :: "int list option \<Rightarrow> string list option res" where
  "mapHookDeletePolicies ps = (case ps of None \<Rightarrow> Inr None
   | Some vs \<Rightarrow> map_sum id Some (code_loop Hook_DeletePolicy_name ''Failed to convert hook delete policy'' vs))"

fun test_loop :: "'w convert_lib \<Rightarrow> string \<Rightarrow> test_run list \<Rightarrow> hook_execution option res" where
  "test_loop lib hookName [] = Inr None"
| "test_loop lib hookName (testRun # rest) =
     (if trName testRun \<noteq> hookName then test_loop lib hookName rest
      else res_bind (mapTimestampToTime lib (trStartedAt testRun)) (\<lambda>started.
           res_bind (mapTimestampToTime lib (trCompletedAt testRun)) (\<lambda>completed.
           case map_of TestRun_Status_name (trStatus testRun) of
             None \<Rightarrow> Inl ''Failed to convert test run status''
           | Some s \<Rightarrow> Inr (Some \<lparr>hxStartedAt = started, hxCompletedAt = completed,
               hxPhase = strings_Title (to_lower s)\<rparr>))))"

definition mapTestSuiteToHookExecution
  :: "'w convert_lib \<Rightarrow> string \<Rightarrow> test_run list option \<Rightarrow> hook_execution option res" where
  "mapTestSuiteToHookExecution lib hookName suite = (case suite of None \<Rightarrow> Inr None
   | Some results \<Rightarrow> test_loop lib hookName results)"

definition map_hook :: "'w convert_lib \<Rightarrow> test_run list option \<Rightarrow> v2_hook \<Rightarrow> v3_hook res" where
  "map_hook lib suite val =
     res_bind (mapHookEvents (vhEvents val)) (\<lambda>events.
     res_bind (mapHookDeletePolicies (vhDeletePolicies val)) (\<lambda>policies.
     res_bind (mapTestSuiteToHookExecution lib (vhName val) suite) (\<lambda>lastRun.
       Inr \<lparr>thName = vhName val, thKind = vhKind val, thPath = vhPath val, thManifest = vhManifest val,
         thEvents = events, thLastRun = (case lastRun of None \<Rightarrow> zero_execution | Some x \<Rightarrow> x),
         thWeight = vhWeight val, thDeletePolicies = policies\<rparr>)))"

fun hook_loop :: "'w convert_lib \<Rightarrow> test_run list option \<Rightarrow> v2_hook list \<Rightarrow> v3_hook list res" where
  "hook_loop lib suite [] = Inr []"
| "hook_loop lib suite (val # rest) =
     res_bind (map_hook lib suite val) (\<lambda>hook. map_sum id ((#) hook) (hook_loop lib suite rest))"

definition mapHooks :: "'w convert_lib \<Rightarrow> v2_hook list option \<Rightarrow> test_run list option \<Rightarrow> v3_hook list option res" where
  "mapHooks lib hooks suite = (case hooks of None \<Rightarrow> Inr None
   | Some hs \<Rightarrow> map_sum id Some (hook_loop lib suite hs))"

text \<open>
  An information without a status, and a release without a configuration, are dereferenced nil, in the order
  of the code.
\<close>

definition CreateRelease :: "'w convert_lib \<Rightarrow> v2_release \<Rightarrow> v3_release res go" where
  "CreateRelease lib v2Rel = (case (vrChart v2Rel, vrInfo v2Rel) of
     (Some chrt2, Some info) \<Rightarrow>
      (case res_bind (mapv2ChartTov3Chart lib chrt2) (\<lambda>chrt.
            res_bind (mapConfig lib (vrConfig v2Rel)) (\<lambda>config.
            res_bind (mapTimestampToTime lib (viFirstDeployed info)) (\<lambda>first.
            res_bind (mapTimestampToTime lib (viLastDeployed info)) (\<lambda>last1.
            res_bind (mapTimestampToTime lib (viDeleted info)) (\<lambda>deleted.
              Inr (chrt, config, first, last1, deleted)))))) of
         Inl e \<Rightarrow> Ret (Inl e)
       | Inr (chrt, config, first, last1, deleted) \<Rightarrow>
          (case viStatus info of None \<Rightarrow> Panic
           | Some st \<Rightarrow> (case map_of Status_Code_name (vsCode st) of
               None \<Rightarrow> Ret (Inl ''Failed to convert status'')
             | Some status \<Rightarrow> (case mapHooks lib (vrHooks v2Rel) (vsLastTestSuiteRun st) of
                 Inl e \<Rightarrow> Ret (Inl e)
               | Inr hooks \<Rightarrow> (case vrConfig v2Rel of None \<Rightarrow> Panic
                   | Some raw \<Rightarrow> Ret (Inr \<lparr>tlName = vrName v2Rel, tlNamespace = vrNamespace v2Rel, tlChart = chrt,
                       tlConfig = config, tlConfigRaw = raw,
                       tlInfo = \<lparr>tiFirstDeployed = first, tiLastDeployed = last1, tiDeleted = deleted,
                         tiDescription = viDescription info, tiStatus = to_lower status, tiNotes = vsNotes st\<rparr>,
                       tlManifest = vrManifest v2Rel, tlHooks = hooks, tlVersion = vrVersion v2Rel\<rparr>))))))
   | _ \<Rightarrow> Ret (Inl ''No v2 chart or info metadata''))"

text \<open>The storage of Helm 3; its driver is that of the environment.\<close>

definition GetActionConfig :: "'w convert_lib \<Rightarrow> string \<Rightarrow> kube_config \<Rightarrow> string res" where
  "GetActionConfig lib namespace kc =
     (case clInit lib kc namespace (case clGetenv lib ''HELM_DRIVER'' of None \<Rightarrow> [] | Some d \<Rightarrow> d) of
        Some e \<Rightarrow> Inl e | None \<Rightarrow> Inr namespace)"

definition StoreRelease :: "'w convert_lib \<Rightarrow> v3_release \<Rightarrow> kube_config \<Rightarrow> 'w \<Rightarrow> gerror option \<times> 'w" where
  "StoreRelease lib rel kc w = (case GetActionConfig lib (tlNamespace rel) kc of
     Inl e \<Rightarrow> (Some e, w) | Inr cfg \<Rightarrow> clCreate lib cfg rel w)"

definition createV3ReleaseVersion
  :: "'w convert_lib \<Rightarrow> v2_release \<Rightarrow> kube_config \<Rightarrow> 'w \<Rightarrow> (gerror option \<times> 'w) go" where
  "createV3ReleaseVersion lib v2Release kc w = go_map (\<lambda>r. case r of
       Inl e \<Rightarrow> (Some e, w)
     | Inr v3Release \<Rightarrow> StoreRelease lib v3Release kc w) (CreateRelease lib v2Release)"

section \<open>The storage of Tiller\<close>

record retrieve_options =
  roReleaseName :: string
  roStorageType :: string
  roTillerLabel :: string
  roTillerNamespace :: string
  roTillerOutCluster :: bool

record delete_options =
  doDryRun :: bool
  doVersions :: "int list"

definition ByReleaseVersion_Less :: "v2_release \<Rightarrow> v2_release \<Rightarrow> bool" where
  "ByReleaseVersion_Less a b \<longleftrightarrow> vrVersion a < vrVersion b"

definition or_default :: "string \<Rightarrow> string \<Rightarrow> string" where
  "or_default s d = (if s = [] then d else s)"

definition getStorageType :: "'w convert_lib \<Rightarrow> retrieve_options \<Rightarrow> kube_config \<Rightarrow> 'w \<Rightarrow> string go" where
  "getStorageType lib ro kc w = (if \<not> roTillerOutCluster ro then clTillerStorage lib kc (roTillerNamespace ro) w
     else Ret (roStorageType ro))"

fun decode_loop :: "'w convert_lib \<Rightarrow> string list \<Rightarrow> v2_release list go" where
  "decode_loop lib [] = Ret []"
| "decode_loop lib (item # rest) = go_bind (clDecode lib item) (\<lambda>release. case release of
       None \<Rightarrow> decode_loop lib rest
     | Some r \<Rightarrow> go_map ((#) r) (decode_loop lib rest))"

definition get_defaults :: "retrieve_options \<Rightarrow> retrieve_options" where
  "get_defaults ro = ro\<lparr>roTillerNamespace := or_default (roTillerNamespace ro) ''kube-system'',
     roTillerLabel := or_default (roTillerLabel ro) ''OWNER=TILLER'' @
       (if roReleaseName ro \<noteq> [] then '',NAME='' @ roReleaseName ro else []),
     roStorageType := or_default (roStorageType ro) ''configmaps''\<rparr>"

definition listed :: "'w convert_lib \<Rightarrow> string \<Rightarrow> retrieve_options \<Rightarrow> kube_config \<Rightarrow> 'w \<Rightarrow> string list res" where
  "listed lib storage ro kc w =
     (if storage = ''secrets'' then clListSecrets lib kc (roTillerNamespace ro) (roTillerLabel ro) w
      else if storage = ''configmaps'' then clListConfigMaps lib kc (roTillerNamespace ro) (roTillerLabel ro) w
      else Inr [])"

definition getReleases :: "'w convert_lib \<Rightarrow> retrieve_options \<Rightarrow> kube_config \<Rightarrow> 'w \<Rightarrow> v2_release list res go" where
  "getReleases lib ro0 kc w = (let ro = get_defaults ro0 in
     go_bind (getStorageType lib ro kc w) (\<lambda>storage. case listed lib storage ro kc w of
         Inl e \<Rightarrow> Ret (Inl e)
       | Inr items \<Rightarrow> go_map (\<lambda>rs. Inr (sort_by ByReleaseVersion_Less rs)) (decode_loop lib items)))"

definition GetReleaseVersions
  :: "'w convert_lib \<Rightarrow> retrieve_options \<Rightarrow> kube_config \<Rightarrow> 'w \<Rightarrow> v2_release list res go" where
  "GetReleaseVersions lib ro kc w = go_map (\<lambda>r. res_bind r (\<lambda>releases.
     if releases = [] then Inl (roReleaseName ro @ '' has no deployed releases'' @ [CHR 0x0A]) else Inr releases))
     (getReleases lib ro kc w)"

definition GetReleaseVersionName :: "string \<Rightarrow> int \<Rightarrow> string" where
  "GetReleaseVersionName releaseName releaseVersion = releaseName @ ''.v'' @ int_str releaseVersion"

definition deleteRelease
  :: "'w convert_lib \<Rightarrow> retrieve_options \<Rightarrow> string \<Rightarrow> kube_config \<Rightarrow> 'w \<Rightarrow> (gerror option \<times> 'w) go" where
  "deleteRelease lib ro0 releaseVersionName kc w =
     (let ro = ro0\<lparr>roTillerNamespace := or_default (roTillerNamespace ro0) ''kube-system'',
        roStorageType := or_default (roStorageType ro0) ''configmaps''\<rparr> in
      go_map (\<lambda>storage.
        if storage = ''secrets'' then clDeleteSecret lib kc (roTillerNamespace ro) releaseVersionName w
        else if storage = ''configmaps'' then clDeleteConfigMap lib kc (roTillerNamespace ro) releaseVersionName w
        else (None, w)) (getStorageType lib ro kc w))"

definition delete_failed :: "string \<Rightarrow> gerror \<Rightarrow> gerror" where
  "delete_failed relVerName e = ''[Helm 2] ReleaseVersion \"'' @ relVerName @ ''\" failed to delete with error: '' @ e @
     ''.'' @ [CHR 0x0A]"

text \<open>The names are deleted in order, up to the first failure.\<close>

fun delete_versions
  :: "'w convert_lib \<Rightarrow> retrieve_options \<Rightarrow> bool \<Rightarrow> kube_config \<Rightarrow> string list \<Rightarrow> 'w \<Rightarrow> (gerror option \<times> 'w) go" where
  "delete_versions lib ro dry kc [] w = Ret (None, w)"
| "delete_versions lib ro dry kc (relVerName # rest) w =
     (if dry then delete_versions lib ro dry kc rest w
      else go_bind (deleteRelease lib ro relVerName kc w) (\<lambda>(err, w'). case err of
          Some e \<Rightarrow> Ret (Some (delete_failed relVerName e), w')
        | None \<Rightarrow> delete_versions lib ro dry kc rest w'))"

definition DeleteReleaseVersions :: "'w convert_lib \<Rightarrow> retrieve_options \<Rightarrow> delete_options \<Rightarrow> kube_config \<Rightarrow>
    'w \<Rightarrow> (gerror option \<times> 'w) go" where
  "DeleteReleaseVersions lib ro opts kc w =
     delete_versions lib ro (doDryRun opts) kc (map (GetReleaseVersionName (roReleaseName ro)) (doVersions opts)) w"

definition DeleteAllReleaseVersions
  :: "'w convert_lib \<Rightarrow> retrieve_options \<Rightarrow> kube_config \<Rightarrow> bool \<Rightarrow> 'w \<Rightarrow> (gerror option \<times> 'w) go" where
  "DeleteAllReleaseVersions lib ro0 kc dryRun w =
     (let ro = ro0\<lparr>roTillerNamespace := or_default (roTillerNamespace ro0) ''kube-system'',
        roTillerLabel := or_default (roTillerLabel ro0) ''OWNER=TILLER'',
        roStorageType := or_default (roStorageType ro0) ''configmaps''\<rparr> in
      go_bind (getReleases lib ro kc w) (\<lambda>r. case r of
        Inl e \<Rightarrow> Ret (Some e, w)
      | Inr releases \<Rightarrow> delete_versions lib ro dryRun kc
          (map (\<lambda>r. GetReleaseVersionName (vrName r) (vrVersion r)) releases) w))"

section \<open>Tiller and the directories\<close>

definition executeKubsDeleteTillerCmd :: "'w convert_lib \<Rightarrow> string \<Rightarrow> string \<Rightarrow> 'w \<Rightarrow> gerror option \<times> 'w" where
  "executeKubsDeleteTillerCmd lib tillerNamespace kind_label w =
     (let (output, w') = clExecute lib
        [''kubectl'', ''delete'', ''--namespace'', tillerNamespace, kind_label @ ''/tiller-deploy''] w in
      (if \<not> contains output ''\"tiller-deploy\" deleted''
       then Some (''[Helm 2] Failed to remove Tiller \"'' @ kind_label @ ''\" in \"'' @ tillerNamespace @
         ''\" namespace due to the following error: '' @ output) else None, w'))"

definition RemoveTiller :: "'w convert_lib \<Rightarrow> string \<Rightarrow> bool \<Rightarrow> 'w \<Rightarrow> gerror option \<times> 'w" where
  "RemoveTiller lib ns0 dryRun w = (let ns = or_default ns0 ''kube-system'' in
     if dryRun then (None, w)
     else case executeKubsDeleteTillerCmd lib ns ''deploy'' w of
         (Some e, w') \<Rightarrow> (Some e, w')
       | (None, w') \<Rightarrow> executeKubsDeleteTillerCmd lib ns ''service'' w')"

definition HomeDir :: "'w convert_lib \<Rightarrow> string" where
  "HomeDir lib = (case clGetenv lib ''HELM_V2_HOME'' of Some d \<Rightarrow> d | None \<Rightarrow> clHomedir lib @ ''/'' @ ''.helm'')"

definition RemoveHomeFolder :: "'w convert_lib \<Rightarrow> bool \<Rightarrow> 'w \<Rightarrow> gerror option \<times> 'w" where
  "RemoveHomeFolder lib dryRun w = (if dryRun then (None, w) else case clRemoveAll lib (HomeDir lib) w of
     (Some e, w') \<Rightarrow> (Some (''[Helm 2] Failed to delete \"'' @ HomeDir lib @
        ''\" due to the following error: '' @ e @ ''.'' @ [CHR 0x0A]), w')
   | (None, w') \<Rightarrow> (None, w'))"

text \<open>The library's path of a kind is asked by its name.\<close>

definition ConfigDir :: "'w convert_lib \<Rightarrow> string" where
  "ConfigDir lib = (case clGetenv lib ''HELM_V3_CONFIG'' of Some d \<Rightarrow> d | None \<Rightarrow> clHelmpath lib ''config'')"

definition DataDir :: "'w convert_lib \<Rightarrow> string" where
  "DataDir lib = (case clGetenv lib ''HELM_V3_DATA'' of Some d \<Rightarrow> d | None \<Rightarrow> clHelmpath lib ''data'')"

definition CacheDir :: "'w convert_lib \<Rightarrow> string" where
  "CacheDir lib = (case clGetenv lib ''HELM_V3_CACHE'' of Some d \<Rightarrow> d | None \<Rightarrow> clHelmpath lib ''cache'')"

section \<open>Conversion and clean-up\<close>

record env_settings =
  esDryRun :: bool
  esKubeConfigFile :: string
  esKubeContext :: string
  esLabel :: string
  esReleaseStorage :: string
  esTillerNamespace :: string
  esTillerOutCluster :: bool

definition helm2to3_settings :: env_settings where
  "helm2to3_settings = \<lparr>esDryRun = False, esKubeConfigFile = [], esKubeContext = [], esLabel = [],
     esReleaseStorage = ''secrets'', esTillerNamespace = ''kube-system'', esTillerOutCluster = False\<rparr>"

record convert_options =
  coDeleteRelease :: bool
  coDryRun :: bool
  coMaxReleaseVersions :: int
  coReleaseName :: string
  coStorageType :: string
  coTillerLabel :: string
  coTillerNamespace :: string
  coTillerOutCluster :: bool

record cleanup_options =
  cuConfigCleanup :: bool
  cuDryRun :: bool
  cuReleaseName :: string
  cuReleaseCleanup :: bool
  cuStorageType :: string
  cuTillerCleanup :: bool
  cuTillerLabel :: string
  cuTillerNamespace :: string
  cuTillerOutCluster :: bool

text \<open>The loop keeps the versions it has handled.\<close>

fun convert_versions :: "'w convert_lib \<Rightarrow> bool \<Rightarrow> kube_config \<Rightarrow> v2_release list \<Rightarrow> int list \<Rightarrow> 'w \<Rightarrow>
    ((gerror option \<times> int list) \<times> 'w) go" where
  "convert_versions lib dry kc [] versions w = Ret ((None, versions), w)"
| "convert_versions lib dry kc (v2Release # rest) versions w =
     (if dry then convert_versions lib dry kc rest (versions @ [vrVersion v2Release]) w
      else go_bind (createV3ReleaseVersion lib v2Release kc w) (\<lambda>(err, w'). case err of
          Some e \<Rightarrow> Ret ((Some e, versions), w')
        | None \<Rightarrow> convert_versions lib dry kc rest (versions @ [vrVersion v2Release]) w'))"

definition start_index :: "convert_options \<Rightarrow> nat \<Rightarrow> nat" where
  "start_index co v2RelVerLen =
     (if 0 < coMaxReleaseVersions co \<and> coMaxReleaseVersions co < int v2RelVerLen
      then v2RelVerLen - nat (coMaxReleaseVersions co) else 0)"

definition convert_retrieve :: "convert_options \<Rightarrow> retrieve_options" where
  "convert_retrieve co = \<lparr>roReleaseName = coReleaseName co, roStorageType = coStorageType co,
     roTillerLabel = coTillerLabel co, roTillerNamespace = coTillerNamespace co,
     roTillerOutCluster = coTillerOutCluster co\<rparr>"

definition Convert :: "'w convert_lib \<Rightarrow> convert_options \<Rightarrow> kube_config \<Rightarrow> 'w \<Rightarrow> (gerror option \<times> 'w) go" where
  "Convert lib co kc w =
     go_bind (GetReleaseVersions lib (convert_retrieve co) kc w) (\<lambda>r. case r of
       Inl e \<Rightarrow> Ret (Some e, w)
     | Inr v2Releases \<Rightarrow>
        go_bind (convert_versions lib (coDryRun co) kc (drop (start_index co (length v2Releases)) v2Releases) [] w)
          (\<lambda>((err, versions), w'). case err of
            Some e \<Rightarrow> Ret (Some e, w')
          | None \<Rightarrow> if coDeleteRelease co
              then DeleteReleaseVersions lib (convert_retrieve co)
                \<lparr>doDryRun = coDryRun co, doVersions = versions\<rparr> kc w'
              else Ret (None, w')))"

definition run_convert_options :: "env_settings \<Rightarrow> string \<Rightarrow> convert_options" where
  "run_convert_options es releaseName = \<lparr>coDeleteRelease = False, coDryRun = False, coMaxReleaseVersions = 10,
     coReleaseName = releaseName, coStorageType = esReleaseStorage es, coTillerLabel = esLabel es,
     coTillerNamespace = esTillerNamespace es, coTillerOutCluster = esTillerOutCluster es\<rparr>"

definition settings_kube :: "env_settings \<Rightarrow> kube_config" where
  "settings_kube es = \<lparr>kcContext = esKubeContext es, kcFile = esKubeConfigFile es\<rparr>"

definition RunConvert :: "env_settings \<Rightarrow> 'w convert_lib \<Rightarrow> string \<Rightarrow> 'w \<Rightarrow> (gerror option \<times> 'w) go" where
  "RunConvert es lib releaseName w =
     (if esReleaseStorage es \<noteq> ''configmaps'' \<and> esReleaseStorage es \<noteq> ''secrets''
      then Ret (Some (''release-storage flag needs to be '' @ [CHR 0x27] @ ''configmaps'' @ [CHR 0x27] @ '' or '' @
        [CHR 0x27] @ ''secrets'' @ [CHR 0x27]), w)
      else Convert lib (run_convert_options es releaseName) (settings_kube es) w)"

definition cleanup_retrieve :: "cleanup_options \<Rightarrow> retrieve_options" where
  "cleanup_retrieve cu = \<lparr>roReleaseName = cuReleaseName cu, roStorageType = cuStorageType cu,
     roTillerLabel = cuTillerLabel cu, roTillerNamespace = cuTillerNamespace cu,
     roTillerOutCluster = cuTillerOutCluster cu\<rparr>"

definition cleanup_release :: "'w convert_lib \<Rightarrow> cleanup_options \<Rightarrow> kube_config \<Rightarrow> 'w \<Rightarrow> (gerror option \<times> 'w) go" where
  "cleanup_release lib cu kc w =
     go_bind (GetReleaseVersions lib (cleanup_retrieve cu) kc w) (\<lambda>r. case r of
       Inl e \<Rightarrow> Ret (Some e, w)
     | Inr v2Releases \<Rightarrow> DeleteReleaseVersions lib (cleanup_retrieve cu)
         \<lparr>doDryRun = cuDryRun cu, doVersions = map vrVersion v2Releases\<rparr> kc w)"

definition cleanup :: "'w convert_lib \<Rightarrow> cleanup_options \<Rightarrow> kube_config \<Rightarrow> 'w \<Rightarrow> (gerror option \<times> 'w) go" where
  "cleanup lib cu0 kc w =
     (if cuReleaseName cu0 = [] then Ret (Some (''release name can'' @ [CHR 0x27] @ ''t be empty''), w)
      else if cuConfigCleanup cu0 \<or> cuTillerCleanup cu0
      then Ret (Some (''cleanup of a specific release is a singular operation. Other operations like configuration '' @
        ''cleanup or Tiller cleanup are not allowed in conjunction with the operation''), w)
      else (let cu = cu0\<lparr>cuReleaseCleanup := True\<rparr> in
        go_map (\<lambda>(err, w'). case err of
            Some e \<Rightarrow> (Some e, w')
          | None \<Rightarrow> if \<not> cuTillerOutCluster cu \<and> cuTillerCleanup cu
              then RemoveTiller lib (cuTillerNamespace cu) (cuDryRun cu) w' else (None, w'))
          (if cuReleaseCleanup cu then cleanup_release lib cu kc w else Ret (None, w))))"

definition run_cleanup_options :: "env_settings \<Rightarrow> string \<Rightarrow> cleanup_options" where
  "run_cleanup_options es releaseName = \<lparr>cuConfigCleanup = False, cuDryRun = False, cuReleaseName = releaseName,
     cuReleaseCleanup = False, cuStorageType = esReleaseStorage es, cuTillerCleanup = False, cuTillerLabel = esLabel es,
     cuTillerNamespace = esTillerNamespace es, cuTillerOutCluster = esTillerOutCluster es\<rparr>"

definition RunCleanup :: "env_settings \<Rightarrow> 'w convert_lib \<Rightarrow> string \<Rightarrow> 'w \<Rightarrow> (gerror option \<times> 'w) go" where
  "RunCleanup es lib releaseName w = cleanup lib (run_cleanup_options es releaseName) (settings_kube es) w"

section \<open>Charts\<close>

text \<open>The errors in a tree of charts, those of the dependencies before that of the chart, and its plain image.\<close>

fun chart_errors :: "'w convert_lib \<Rightarrow> v2_chart \<Rightarrow> gerror list" where
  "chart_errors lib (V2Chart md ts deps vals fs) = concat (map (chart_errors lib) deps) @
     (case vals of None \<Rightarrow> [] | Some raw \<Rightarrow> (case clReadValues lib raw of Inl e \<Rightarrow> [e] | Inr _ \<Rightarrow> []))"

fun chart_image :: "'w convert_lib \<Rightarrow> v2_chart \<Rightarrow> v3_chart" where
  "chart_image lib (V2Chart md ts deps vals fs) =
     V3Chart (mapMetadata md) ts (map (chart_image lib) deps) (map_option (\<lambda>raw. projr (clReadValues lib raw)) vals)
       (Some (case fs of None \<Rightarrow> [] | Some xs \<Rightarrow> xs)) None None"

lemma map_file_id [simp]: "map_file f = f"
  by (simp add: map_file_def)

lemma map_maintainer_id [simp]: "map_maintainer m = m"
  by (simp add: map_maintainer_def)

lemma maps_id [simp]: "mapTemplates ts = ts" "mapMaintainers ms = ms"
  "mapFiles fs = Some (case fs of None \<Rightarrow> [] | Some xs \<Rightarrow> xs)"
  by (cases ts; cases ms; simp add: mapTemplates_def mapMaintainers_def mapFiles_def map_idI split: option.split)+

lemma mapDependencies_agree:
  assumes "\<And>c. c \<in> set deps \<Longrightarrow> f c = (case errs c of [] \<Rightarrow> Inr (im c) | e # _ \<Rightarrow> Inl e)"
  shows "mapDependencies f deps acc = (case concat (map errs deps) of [] \<Rightarrow> Inr (acc @ map im deps) | e # _ \<Rightarrow> Inl e)"
  using assms
proof (induction deps arbitrary: acc)
  case (Cons val rest)
  then show ?case
    by (cases "errs val") (auto simp del: concat_eq_Nil_conv split: list.split)
qed simp


section \<open>What a converted release says\<close>

lemma map_of_name: "map_of names v = Some s \<Longrightarrow> f s \<in> set (map (f \<circ> snd) names)"
  by (auto dest!: map_of_SomeD intro: rev_image_eqI)

lemma code_loop_names:
  "code_loop names e vs = Inr ss \<Longrightarrow> s \<in> set ss \<Longrightarrow> s \<in> set (map (to_lower \<circ> snd) names)"
proof (induction vs arbitrary: ss)
  case (Cons v vs)
  then obtain x xs where "map_of names v = Some x" "code_loop names e vs = Inr xs" "ss = to_lower x # xs"
    by (auto simp: map_sum_def split: option.splits sum.splits)
  with Cons map_of_name [of names v x to_lower] show ?case by auto
qed simp

lemma events_not_v3: "list_all (\<lambda>s. s \<notin> set v3_hook_events) (map (to_lower \<circ> snd) Hook_Event_name)"
  by (simp add: Hook_Event_name_def v3_hook_events_def to_lower_def lower_char_def)

lemma policies_not_v3: "list_all (\<lambda>s. s \<notin> set v3_delete_policies) (map (to_lower \<circ> snd) Hook_DeletePolicy_name)"
  by (simp add: Hook_DeletePolicy_name_def v3_delete_policies_def to_lower_def lower_char_def)

lemma phases_not_final:
  "list_all (\<lambda>s. s \<notin> {''Succeeded'', ''Failed''}) (map (strings_Title \<circ> to_lower \<circ> snd) TestRun_Status_name)"
  by (simp add: TestRun_Status_name_def strings_Title_def to_lower_def lower_char_def)

lemma mapHookEvents_foreign:
  assumes "mapHookEvents evs = Inr (Some es)"
  shows "list_all (\<lambda>e. e \<notin> set v3_hook_events) es"
proof -
  from assms obtain vs where "code_loop Hook_Event_name ''Failed to convert hook event'' vs = Inr es"
    by (auto simp: mapHookEvents_def map_sum_def split: option.splits sum.splits)
  with events_not_v3 show ?thesis by (auto simp only: list_all_iff dest!: code_loop_names)
qed

lemma mapHookDeletePolicies_foreign:
  assumes "mapHookDeletePolicies ps = Inr (Some qs)"
  shows "list_all (\<lambda>p. p \<notin> set v3_delete_policies) qs"
proof -
  from assms obtain vs where "code_loop Hook_DeletePolicy_name ''Failed to convert hook delete policy'' vs = Inr qs"
    by (auto simp: mapHookDeletePolicies_def map_sum_def split: option.splits sum.splits)
  with policies_not_v3 show ?thesis by (auto simp only: list_all_iff dest!: code_loop_names)
qed

lemma phase_not_final:
  assumes "map_of TestRun_Status_name c = Some s"
  shows "strings_Title (to_lower s) \<notin> {''Succeeded'', ''Failed''}"
  using map_of_name [OF assms, of "strings_Title \<circ> to_lower"] phases_not_final
  unfolding list_all_iff comp_assoc [symmetric] comp_def by blast

lemma test_loop_phase:
  "test_loop lib n rs = Inr (Some x) \<Longrightarrow> hxPhase x \<notin> {''Succeeded'', ''Failed''}"
proof (induction rs)
  case (Cons t rs)
  then show ?case
    using phase_not_final [of "trStatus t"]
    by (cases "trName t = n"; cases "map_of TestRun_Status_name (trStatus t)")
      (auto simp: res_bind_eq_Inr simp del: insert_iff)
qed simp

definition hook_inert :: "v3_hook \<Rightarrow> bool" where
  "hook_inert h \<longleftrightarrow> list_all (\<lambda>e. e \<notin> set v3_hook_events) (case thEvents h of None \<Rightarrow> [] | Some es \<Rightarrow> es)
     \<and> list_all (\<lambda>p. p \<notin> set v3_delete_policies) (case thDeletePolicies h of None \<Rightarrow> [] | Some ps \<Rightarrow> ps)
     \<and> hxPhase (thLastRun h) \<notin> {''Succeeded'', ''Failed''}"

lemma map_hook_inert:
  assumes "map_hook lib suite val = Inr h"
  shows "hook_inert h"
proof -
  from assms obtain es ps x where e: "mapHookEvents (vhEvents val) = Inr es"
      "mapHookDeletePolicies (vhDeletePolicies val) = Inr ps"
      "mapTestSuiteToHookExecution lib (vhName val) suite = Inr x"
    and h: "thEvents h = es" "thDeletePolicies h = ps" "thLastRun h = (case x of None \<Rightarrow> zero_execution | Some y \<Rightarrow> y)"
    by (auto simp: map_hook_def res_bind_eq_Inr)
  have "hxPhase (thLastRun h) \<notin> {''Succeeded'', ''Failed''}"
    using e(3) test_loop_phase [of lib "vhName val"]
    by (auto simp: h mapTestSuiteToHookExecution_def zero_execution_def split: option.splits)
  with e(1,2) show ?thesis
    by (cases es; cases ps) (simp_all add: hook_inert_def h mapHookEvents_foreign mapHookDeletePolicies_foreign)
qed

lemma hook_loop_inert: "hook_loop lib suite hs = Inr ks \<Longrightarrow> list_all hook_inert ks"
  by (induction hs arbitrary: ks) (auto simp: go_simps map_sum_def map_hook_inert split: sum.splits)

lemma mapHooks_inert: "mapHooks lib hs suite = Inr (Some ks) \<Longrightarrow> list_all hook_inert ks"
  by (auto simp: mapHooks_def map_sum_def hook_loop_inert split: option.splits sum.splits)

lemma known_statuses:
  "map_of Status_Code_name c = Some s \<Longrightarrow> to_lower s \<in> set v3_statuses \<longleftrightarrow> c \<in> {0, 1, 3, 4}"
proof -
  have "list_all (\<lambda>(c, s). (to_lower s \<in> set v3_statuses) = (c \<in> set [0, 1, 3, 4])) Status_Code_name"
    by (simp add: Status_Code_name_def v3_statuses_def to_lower_def lower_char_def) code_simp
  then show "map_of Status_Code_name c = Some s \<Longrightarrow> ?thesis"
    by (auto simp: list_all_iff dest!: map_of_SomeD)
qed

lemma CreateRelease_cases:
  assumes "CreateRelease lib r = Ret (Inr r3)"
  obtains info st s where "vrInfo r = Some info" "viStatus info = Some st" "map_of Status_Code_name (vsCode st) = Some s"
    "tiStatus (tlInfo r3) = to_lower s" "mapHooks lib (vrHooks r) (vsLastTestSuiteRun st) = Inr (tlHooks r3)"
    "tlVersion r3 = vrVersion r" "tlName r3 = vrName r" "tlNamespace r3 = vrNamespace r"
  using assms by (auto simp: CreateRelease_def split: option.splits sum.splits prod.splits)

text \<open>
  C33: A converted release keeps the name, namespace and version, but not what Helm 3 acts on: none of the
  events or deletion policies of its hooks is one that Helm 3 knows, and none of its test runs has succeeded or
  failed, so no hook of it ever fires.  Its status is one of Helm 3 only for unknown, deployed, superseded and
  failed releases.
\<close>

theorem converted_hooks_inert:
  assumes "CreateRelease lib r = Ret (Inr r3)"
  shows "tlVersion r3 = vrVersion r \<and> tlName r3 = vrName r \<and> tlNamespace r3 = vrNamespace r
    \<and> list_all hook_inert (case tlHooks r3 of None \<Rightarrow> [] | Some hs \<Rightarrow> hs)
    \<and> (\<exists>info st. vrInfo r = Some info \<and> viStatus info = Some st
        \<and> (tiStatus (tlInfo r3) \<in> set v3_statuses \<longleftrightarrow> vsCode st \<in> {0, 1, 3, 4}))"
  using assms by (elim CreateRelease_cases) (auto dest: known_statuses mapHooks_inert split: option.split)

definition demo_v2 :: "int \<Rightarrow> v2_release" where
  "demo_v2 v = \<lparr>vrName = ''app'', vrInfo = Some \<lparr>viStatus = Some \<lparr>vsCode = 2, vsNotes = [],
      vsLastTestSuiteRun = Some [\<lparr>trName = ''hook'', trStatus = 1, trStartedAt = None, trCompletedAt = None\<rparr>]\<rparr>,
      viFirstDeployed = Some (5, 0), viLastDeployed = None, viDeleted = None, viDescription = []\<rparr>,
    vrChart = Some (V2Chart None None [V2Chart None None [] (Some []) None] None None), vrConfig = Some [],
    vrManifest = [], vrHooks = Some [\<lparr>vhName = ''hook'', vhKind = ''Job'', vhPath = [], vhManifest = [],
      vhEvents = Some [1, 9], vhWeight = 0, vhDeletePolicies = Some [0]\<rparr>],
    vrVersion = v, vrNamespace = ''ns''\<rparr>"

text \<open>A storage of Tiller that holds the versions listed, and one of Helm 3.\<close>

record demo_storage =
  dsItems :: "(string \<times> string) list"
  dsV3 :: "v3_release list"

definition demo_decode :: "string \<Rightarrow> v2_release option go" where
  "demo_decode d = (case d of [] \<Rightarrow> Ret None | _ \<Rightarrow> Ret (Some (demo_v2 (int (length d)))))"

definition demo_convert :: "demo_storage convert_lib" where
  "demo_convert = \<lparr>clReadValues = \<lambda>_. Inr [], clTimestamp = Inr, clTillerStorage = \<lambda>_ _ _. Ret ''secrets'',
     clListSecrets = \<lambda>_ _ _ w. Inr (map snd (dsItems w)), clListConfigMaps = \<lambda>_ _ _ _. Inr [],
     clDecode = demo_decode,
     clDeleteSecret = \<lambda>_ _ n w. (None, w\<lparr>dsItems := filter (\<lambda>i. fst i \<noteq> n) (dsItems w)\<rparr>),
     clDeleteConfigMap = \<lambda>_ _ _ w. (Some ''absent'', w), clInit = \<lambda>_ _ _. None,
     clCreate = \<lambda>_ r w. if tlVersion r \<in> tlVersion ` set (dsV3 w) then (Some ''release: already exists'', w)
       else (None, w\<lparr>dsV3 := dsV3 w @ [r]\<rparr>),
     clExecute = \<lambda>_ w. ([], w), clRemoveAll = \<lambda>_ w. (None, w), clGetenv = \<lambda>_. None, clHomedir = ''/root'',
     clHelmpath = id\<rparr>"

definition demo_v3_hook :: v3_hook where
  "demo_v3_hook = \<lparr>thName = ''hook'', thKind = ''Job'', thPath = [], thManifest = [],
     thEvents = Some [''pre_install'', ''release_test_success''],
     thLastRun = \<lparr>hxStartedAt = zero_time, hxCompletedAt = zero_time, hxPhase = ''Success''\<rparr>, thWeight = 0,
     thDeletePolicies = Some [''succeeded'']\<rparr>"

definition demo_v3 :: "int \<Rightarrow> v3_release" where
  "demo_v3 v = \<lparr>tlName = ''app'', tlNamespace = ''ns'',
     tlChart = V3Chart None None [V3Chart None None [] (Some []) (Some []) None None] None (Some []) None None,
     tlConfig = Some [], tlConfigRaw = [],
     tlInfo = \<lparr>tiFirstDeployed = (5, 0), tiLastDeployed = zero_time, tiDeleted = zero_time, tiDescription = [],
       tiStatus = ''deleted'', tiNotes = []\<rparr>,
     tlManifest = [], tlHooks = Some [demo_v3_hook], tlVersion = v\<rparr>"

lemma demo_mapHooks: "mapHooks demo_convert (vrHooks (demo_v2 v))
    (Some [\<lparr>trName = ''hook'', trStatus = 1, trStartedAt = None, trCompletedAt = None\<rparr>]) = Inr (Some [demo_v3_hook])"
  unfolding demo_v2_def v2_release.simps by code_simp

lemma demo_CreateRelease: "CreateRelease demo_convert (demo_v2 v) = Ret (Inr (demo_v3 v))"
proof -
  have "to_lower ''DELETED'' = ''deleted''" "map_of Status_Code_name 2 = Some ''DELETED''" by code_simp+
  with demo_mapHooks [of v] show ?thesis
    by (simp add: CreateRelease_def demo_v2_def demo_v3_def demo_convert_def mapMetadata_def mapTemplates_def mapFiles_def)
qed

lemma converted_hooks_inert_witness:
  "list_all hook_inert (case tlHooks (demo_v3 3) of None \<Rightarrow> [] | Some hs \<Rightarrow> hs)
     \<and> tlHooks (demo_v3 3) = Some [demo_v3_hook]"
  using converted_hooks_inert [OF demo_CreateRelease [of 3]] by (simp add: demo_v3_def)

section \<open>What a conversion stores\<close>

interpretation version_order: weak_order ByReleaseVersion_Less
  by unfold_locales (auto simp: ByReleaseVersion_Less_def)

lemma getReleases_cases:
  assumes "getReleases lib ro kc w = Ret (Inr rs)"
  obtains storage xs ds where "getStorageType lib (get_defaults ro) kc w = Ret storage"
    "listed lib storage (get_defaults ro) kc w = Inr xs" "decode_loop lib xs = Ret ds"
    "rs = sort_by ByReleaseVersion_Less ds"
proof -
  from assms obtain storage where st: "getStorageType lib (get_defaults ro) kc w = Ret storage"
      and "(case listed lib storage (get_defaults ro) kc w of Inl e \<Rightarrow> Ret (Inl e)
        | Inr items \<Rightarrow> go_map (\<lambda>rs. Inr (sort_by ByReleaseVersion_Less rs)) (decode_loop lib items)) = Ret (Inr rs)"
    by (auto simp: getReleases_def Let_def go_bind_eq_Ret)
  then show thesis
    by (cases "listed lib storage (get_defaults ro) kc w") (auto simp: go_map_eq_Ret intro: that)
qed

lemma getReleases_sorted: "getReleases lib ro kc w = Ret (Inr rs) \<Longrightarrow> sorted (map vrVersion rs)"
  by (elim getReleases_cases)
    (use version_order.sorted_sort_by in \<open>simp add: sorted_wrt_map ByReleaseVersion_Less_def not_less\<close>)

lemma GetReleaseVersions_sorted:
  "GetReleaseVersions lib ro kc w = Ret (Inr rs) \<Longrightarrow> sorted (map vrVersion rs) \<and> rs \<noteq> []"
  by (auto simp: GetReleaseVersions_def go_map_eq_Ret res_bind_eq_Inr getReleases_sorted split: if_splits)

text \<open>A storage of Helm 3 in which a creation adds the release exactly when it succeeds.\<close>

definition creates :: "'w convert_lib \<Rightarrow> ('w \<Rightarrow> v3_release list) \<Rightarrow> bool" where
  "creates lib stored \<longleftrightarrow> (\<forall>cfg r w. stored (snd (clCreate lib cfg r w)) =
     stored w @ (if fst (clCreate lib cfg r w) = None then [r] else []))"

lemma create_step:
  assumes "creates lib stored" "createV3ReleaseVersion lib r kc w = Ret (err, w')"
  shows "if err = None then \<exists>c. CreateRelease lib r = Ret (Inr c) \<and> stored w' = stored w @ [c]
    else stored w' = stored w"
proof (cases "CreateRelease lib r")
  case (Ret x)
  show ?thesis
  proof (cases x)
    case (Inr c)
    show ?thesis
    proof (cases "GetActionConfig lib (tlNamespace c) kc")
      case (Inr cfg)
      with assms(2) Ret \<open>x = Inr c\<close> have "clCreate lib cfg c w = (err, w')"
        by (simp add: createV3ReleaseVersion_def StoreRelease_def)
      moreover have "stored (snd (clCreate lib cfg c w)) =
          stored w @ (if fst (clCreate lib cfg c w) = None then [c] else [])"
        using assms(1) unfolding creates_def by blast
      ultimately show ?thesis using Ret \<open>x = Inr c\<close> by auto
    qed (use assms(2) Ret Inr in \<open>auto simp: createV3ReleaseVersion_def StoreRelease_def\<close>)
  qed (use assms(2) Ret in \<open>auto simp: createV3ReleaseVersion_def\<close>)
qed (use assms(2) in \<open>simp add: createV3ReleaseVersion_def\<close>)

lemma convert_versions_stores:
  assumes "creates lib stored" "convert_versions lib False kc rs vs w = Ret ((err, vs'), w')"
  shows "\<exists>k cs. k \<le> length rs \<and> stored w' = stored w @ cs \<and> vs' = vs @ map vrVersion (take k rs)
     \<and> list_all2 (\<lambda>r c. CreateRelease lib r = Ret (Inr c)) (take k rs) cs \<and> (err = None \<longleftrightarrow> k = length rs)"
  using assms(2)
proof (induction rs arbitrary: vs w)
  case (Cons r rs)
  then obtain e1 w1 where c: "createV3ReleaseVersion lib r kc w = Ret (e1, w1)"
      and rest: "(case e1 of Some e \<Rightarrow> Ret ((Some e, vs), w1)
        | None \<Rightarrow> convert_versions lib False kc rs (vs @ [vrVersion r]) w1) = Ret ((err, vs'), w')"
    by (auto simp: go_bind_eq_Ret)
  show ?case
  proof (cases e1)
    case None
    with rest have "convert_versions lib False kc rs (vs @ [vrVersion r]) w1 = Ret ((err, vs'), w')" by simp
    from Cons.IH [OF this] obtain k cs where "k \<le> length rs" "stored w' = stored w1 @ cs"
        "vs' = (vs @ [vrVersion r]) @ map vrVersion (take k rs)"
        "list_all2 (\<lambda>r c. CreateRelease lib r = Ret (Inr c)) (take k rs) cs" "err = None \<longleftrightarrow> k = length rs"
      by blast
    moreover from create_step [OF assms(1) c] None obtain c1 where
        "CreateRelease lib r = Ret (Inr c1)" "stored w1 = stored w @ [c1]"
      by auto
    ultimately show ?thesis by (intro exI [of _ "Suc k"] exI [of _ "c1 # cs"]) simp
  next
    case (Some e)
    with rest create_step [OF assms(1) c] show ?thesis
      by (intro exI [of _ 0] exI [of _ "[]"]) auto
  qed
qed simp

text \<open>
  C34: A conversion adds to the storage of Helm 3 the newest ten versions of the release, in ascending order of
  their numbers and each as its conversion; when a version fails, exactly those before it are there, and only
  then is there an error.
\<close>

theorem convert_newest:
  assumes "creates lib stored" "esReleaseStorage es = ''secrets''"
    and "GetReleaseVersions lib (convert_retrieve (run_convert_options es n)) (settings_kube es) w = Ret (Inr rs)"
    and "RunConvert es lib n w = Ret (err, w')"
  shows "sorted (map vrVersion rs) \<and> (\<exists>k cs. k \<le> min 10 (length rs) \<and> stored w' = stored w @ cs
    \<and> list_all2 (\<lambda>r c. CreateRelease lib r = Ret (Inr c)) (take k (drop (length rs - 10) rs)) cs
    \<and> (err = None \<longleftrightarrow> k = min 10 (length rs)))"
proof -
  have i: "start_index (run_convert_options es n) (length rs) = length rs - 10"
    by (auto simp: start_index_def run_convert_options_def)
  have m: "length (drop (length rs - 10) rs) = min 10 (length rs)" by simp
  have f: "coDryRun (run_convert_options es n) = False" "coDeleteRelease (run_convert_options es n) = False"
    by (simp_all add: run_convert_options_def)
  from assms(4) obtain e vs' w1 where
      "convert_versions lib False (settings_kube es) (drop (length rs - 10) rs) [] w = Ret ((e, vs'), w1)"
      "(case e of Some e \<Rightarrow> Ret (Some e, w1)
        | None \<Rightarrow> if coDeleteRelease (run_convert_options es n)
            then DeleteReleaseVersions lib (convert_retrieve (run_convert_options es n))
              \<lparr>doDryRun = coDryRun (run_convert_options es n), doVersions = vs'\<rparr> (settings_kube es) w1
            else Ret (None, w1)) = Ret (err, w')"
    by (auto simp: RunConvert_def Convert_def assms(2,3) i f go_bind_eq_Ret)
  then have "convert_versions lib False (settings_kube es) (drop (length rs - 10) rs) [] w = Ret ((err, vs'), w')"
    by (cases e) (simp_all add: f)
  from convert_versions_stores [OF assms(1) this] show ?thesis
    using GetReleaseVersions_sorted [OF assms(3)] unfolding m by blast
qed

definition demo_versions :: "nat list \<Rightarrow> demo_storage" where
  "demo_versions ns = \<lparr>dsItems = map (\<lambda>n. (GetReleaseVersionName ''app'' (int n), replicate n CHR ''x'')) ns,
     dsV3 = []\<rparr>"

lemma demo_creates: "creates demo_convert dsV3"
  by (simp add: creates_def demo_convert_def)

lemma demo_decode_items: "list_all (\<lambda>n. 0 < n) ns \<Longrightarrow>
    decode_loop demo_convert (map (\<lambda>n. replicate n CHR ''x'') ns) = Ret (map (\<lambda>n. demo_v2 (int n)) ns)"
proof (induction ns)
  case (Cons n ns)
  then obtain m where "n = Suc m" by (cases n) auto
  with Cons show ?case by (simp add: demo_convert_def demo_decode_def)
qed simp

lemma demo_lists:
  assumes "list_all (\<lambda>n. 0 < n) ns" "ns \<noteq> []" "\<not> roTillerOutCluster ro"
  shows "GetReleaseVersions demo_convert ro kc (demo_versions ns) =
    Ret (Inr (sort_by ByReleaseVersion_Less (map (\<lambda>n. demo_v2 (int n)) ns)))"
proof -
  have "getStorageType demo_convert (get_defaults ro) kc (demo_versions ns) = Ret ''secrets''"
    using assms(3) by (simp add: getStorageType_def get_defaults_def demo_convert_def)
  moreover have "listed demo_convert ''secrets'' (get_defaults ro) kc (demo_versions ns) =
      Inr (map (\<lambda>n. replicate n CHR ''x'') ns)"
    by (simp add: listed_def demo_convert_def demo_versions_def comp_def)
  ultimately show ?thesis
    using assms(2) by (simp add: GetReleaseVersions_def getReleases_def Let_def demo_decode_items [OF assms(1)])
qed

lemma demo_create: "createV3ReleaseVersion demo_convert (demo_v2 v) kc w =
    Ret (if v \<in> tlVersion ` set (dsV3 w) then (Some ''release: already exists'', w)
      else (None, w\<lparr>dsV3 := dsV3 w @ [demo_v3 v]\<rparr>))"
  by (simp add: createV3ReleaseVersion_def demo_CreateRelease StoreRelease_def GetActionConfig_def)
    (simp add: demo_convert_def demo_v3_def)

lemma demo_sorted: "sort_by ByReleaseVersion_Less (map (\<lambda>n. demo_v2 (int n)) [2, 1]) = [demo_v2 1, demo_v2 2]"
  by (simp add: ByReleaseVersion_Less_def demo_v2_def)

lemma demo_RunConvert: "RunConvert helm2to3_settings demo_convert ''app'' (demo_versions [2, 1]) =
    Ret (None, (demo_versions [2, 1])\<lparr>dsV3 := [demo_v3 1, demo_v3 2]\<rparr>)"
proof -
  have v: "vrVersion (demo_v2 v) = v" "tlVersion (demo_v3 v) = v" for v by (simp_all add: demo_v2_def demo_v3_def)
  have "start_index (run_convert_options helm2to3_settings ''app'') (Suc (Suc 0)) = 0"
    by (simp add: start_index_def run_convert_options_def)
  then show ?thesis
    by (simp add: RunConvert_def Convert_def helm2to3_settings_def run_convert_options_def convert_retrieve_def
        demo_lists demo_sorted [simplified] demo_create v) (simp add: demo_versions_def)
qed

lemma convert_newest_witness:
  "\<exists>cs. dsV3 ((demo_versions [2, 1])\<lparr>dsV3 := [demo_v3 1, demo_v3 2]\<rparr>) = cs
     \<and> list_all2 (\<lambda>r c. CreateRelease demo_convert r = Ret (Inr c)) [demo_v2 1, demo_v2 2] cs"
proof -
  have s: "esReleaseStorage helm2to3_settings = ''secrets''" by (simp add: helm2to3_settings_def)
  have g: "GetReleaseVersions demo_convert (convert_retrieve (run_convert_options helm2to3_settings ''app''))
      (settings_kube helm2to3_settings) (demo_versions [2, 1]) = Ret (Inr [demo_v2 1, demo_v2 2])"
    using demo_lists [of "[2, 1]" "convert_retrieve (run_convert_options helm2to3_settings ''app'')"] demo_sorted
    by (simp add: convert_retrieve_def run_convert_options_def helm2to3_settings_def)
  from convert_newest [OF demo_creates s g demo_RunConvert]
  show ?thesis by (auto simp: demo_versions_def)
qed

section \<open>What a clean-up removes\<close>

text \<open>
  Tiller's storage of one namespace and selector: the named objects, whose texts a listing returns and of which
  a deletion that succeeds removes those of its name.
\<close>

definition tiller_store :: "'w convert_lib \<Rightarrow> ('w \<Rightarrow> (string \<times> string) list) \<Rightarrow> kube_config \<Rightarrow> string \<Rightarrow> string \<Rightarrow> bool" where
  "tiller_store lib items kc ns sel \<longleftrightarrow> (\<forall>w. clTillerStorage lib kc ns w = Ret ''secrets''
     \<and> (\<forall>xs. clListSecrets lib kc ns sel w = Inr xs \<longrightarrow> xs = map snd (items w))
     \<and> (\<forall>name. fst (clDeleteSecret lib kc ns name w) = None \<longrightarrow>
         items (snd (clDeleteSecret lib kc ns name w)) = filter (\<lambda>i. fst i \<noteq> name) (items w)))"

lemma delete_versions_removes:
  assumes "tiller_store lib items kc (roTillerNamespace ro) sel" "\<not> roTillerOutCluster ro" "roTillerNamespace ro \<noteq> []"
    and "delete_versions lib ro False kc names w = Ret (None, w')"
  shows "items w' = filter (\<lambda>i. fst i \<notin> set names) (items w)"
  using assms(4)
proof (induction names arbitrary: w)
  case (Cons n names)
  have "deleteRelease lib ro n kc w = Ret (clDeleteSecret lib kc (roTillerNamespace ro) n w)"
    using assms(1-3) by (simp add: deleteRelease_def getStorageType_def or_default_def tiller_store_def)
  with Cons.prems obtain w1 where "clDeleteSecret lib kc (roTillerNamespace ro) n w = (None, w1)"
      "delete_versions lib ro False kc names w1 = Ret (None, w')"
    by (auto split: prod.splits option.splits)
  moreover from this(1) assms(1) have "items w1 = filter (\<lambda>i. fst i \<noteq> n) (items w)"
    unfolding tiller_store_def by (metis fst_conv snd_conv)
  ultimately show ?case using Cons.IH by (auto intro: filter_cong)
qed simp

lemma decode_loop_set:
  assumes "decode_loop lib xs = Ret ds"
  shows "list_all (\<lambda>x. clDecode lib x \<noteq> Panic) xs \<and> set ds = {r. \<exists>x \<in> set xs. clDecode lib x = Ret (Some r)}"
  using assms
proof (induction xs arbitrary: ds)
  case (Cons x xs)
  then obtain o1 where x: "clDecode lib x = Ret o1" by (auto simp: go_bind_eq_Ret)
  with Cons show ?case by (cases o1) (fastforce simp: go_map_eq_Ret)+
qed simp

lemma GetReleaseVersions_set:
  assumes "tiller_store lib items kc (roTillerNamespace ro) (roTillerLabel (get_defaults ro))"
    and "\<not> roTillerOutCluster ro" "roTillerNamespace ro \<noteq> []"
    and "GetReleaseVersions lib ro kc w = Ret (Inr rs)"
  shows "rs \<noteq> [] \<and> list_all (\<lambda>i. clDecode lib (snd i) \<noteq> Panic) (items w)
    \<and> set rs = {r. \<exists>i \<in> set (items w). clDecode lib (snd i) = Ret (Some r)}"
proof -
  from assms(4) have "getReleases lib ro kc w = Ret (Inr rs)" "rs \<noteq> []"
    by (auto simp: GetReleaseVersions_def go_map_eq_Ret res_bind_eq_Inr split: if_splits)
  from this(1) obtain storage xs ds where "getStorageType lib (get_defaults ro) kc w = Ret storage"
      and xs: "listed lib storage (get_defaults ro) kc w = Inr xs" "decode_loop lib xs = Ret ds"
        "rs = sort_by ByReleaseVersion_Less ds"
    by (rule getReleases_cases)
  moreover have "roTillerNamespace (get_defaults ro) = roTillerNamespace ro" "\<not> roTillerOutCluster (get_defaults ro)"
    using assms(2,3) by (simp_all add: get_defaults_def or_default_def)
  ultimately have "clListSecrets lib kc (roTillerNamespace ro) (roTillerLabel (get_defaults ro)) w = Inr xs"
    using assms(1) by (auto simp: tiller_store_def getStorageType_def listed_def)
  note this xs(2,3) \<open>rs \<noteq> []\<close>
  moreover from this(1) assms(1) have "xs = map snd (items w)" by (simp add: tiller_store_def)
  ultimately show ?thesis using decode_loop_set [of lib xs ds] by (simp add: list_all_iff)
qed

lemma distinct_fst_same:
  "distinct (map fst xs) \<Longrightarrow> i \<in> set xs \<Longrightarrow> j \<in> set xs \<Longrightarrow> fst i = fst j \<Longrightarrow> i = j"
  by (auto simp: distinct_map dest: inj_onD)

lemma RunCleanup_cases:
  assumes "RunCleanup helm2to3_settings lib n w = Ret (None, w')"
    and "ro = cleanup_retrieve (run_cleanup_options helm2to3_settings n)" "kc = settings_kube helm2to3_settings"
  obtains rs where "n \<noteq> []" "GetReleaseVersions lib ro kc w = Ret (Inr rs)"
    "delete_versions lib ro False kc (map (GetReleaseVersionName n) (map vrVersion rs)) w = Ret (None, w')"
proof -
  let ?cu = "(run_cleanup_options helm2to3_settings n)\<lparr>cuReleaseCleanup := True\<rparr>"
  from assms(1) have n: "n \<noteq> []" by (auto simp: RunCleanup_def cleanup_def run_cleanup_options_def split: if_splits)
  with assms(1) have "cleanup_release lib ?cu kc w = Ret (None, w')"
    by (auto simp: RunCleanup_def cleanup_def run_cleanup_options_def go_map_eq_Ret assms(3) Let_def split: option.splits)
  then obtain r where r: "GetReleaseVersions lib (cleanup_retrieve ?cu) kc w = Ret r"
      "(case r of Inl e \<Rightarrow> Ret (Some e, w) | Inr rs \<Rightarrow> DeleteReleaseVersions lib (cleanup_retrieve ?cu)
        \<lparr>doDryRun = cuDryRun ?cu, doVersions = map vrVersion rs\<rparr> kc w) = Ret (None, w')"
    unfolding cleanup_release_def go_bind_eq_Ret by blast
  have "cleanup_retrieve ?cu = ro" "cuDryRun ?cu = False" "roReleaseName ro = n"
    by (simp_all add: assms(2) cleanup_retrieve_def run_cleanup_options_def)
  with r n show thesis
    by (cases r) (auto simp: DeleteReleaseVersions_def intro: that)
qed

text \<open>The names of the versions found are those of the objects that hold a release.\<close>

lemma names_of_releases:
  assumes "distinct (map fst xs)" "i \<in> set xs" "list_all (\<lambda>i. clDecode lib (snd i) \<noteq> Panic) xs"
    and named: "list_all (\<lambda>i. \<forall>r. clDecode lib (snd i) = Ret (Some r) \<longrightarrow> fst i = name r) xs"
    and rs: "set rs = {r. \<exists>i \<in> set xs. clDecode lib (snd i) = Ret (Some r)}"
  shows "fst i \<in> name ` set rs \<longleftrightarrow> clDecode lib (snd i) \<noteq> Ret None"
proof
  assume "fst i \<in> name ` set rs"
  then obtain r j where r: "fst i = name r" "j \<in> set xs" "clDecode lib (snd j) = Ret (Some r)" using rs by blast
  with named have "fst i = fst j" by (simp add: list_all_iff)
  with distinct_fst_same [OF assms(1,2) r(2)] r(3) show "clDecode lib (snd i) \<noteq> Ret None" by simp
next
  assume "clDecode lib (snd i) \<noteq> Ret None"
  with assms(2,3) obtain r where "clDecode lib (snd i) = Ret (Some r)"
    by (cases "clDecode lib (snd i)") (fastforce simp: list_all_iff)+
  with named assms(2) rs show "fst i \<in> name ` set rs" by (auto simp: list_all_iff intro!: image_eqI)
qed


lemma demo_tiller: "tiller_store demo_convert dsItems kc ns sel"
  by (simp add: tiller_store_def demo_convert_def)

definition demo_dirty :: demo_storage where
  "demo_dirty = (demo_versions [2, 1])\<lparr>dsItems := dsItems (demo_versions [2, 1]) @ [(''notes'', [])]\<rparr>"


end
