(* ===== verification/Metrics.thy ===== *)
theory Metrics
  imports AgentSync GoSort
begin

text \<open>
  The collectors of metrics (\<^verbatim>\<open>pkg/metrics\<close>): the nodes of the cluster with the requests and limits of
  their pods, and the measurements of pods.

  Quantities of resources belong to a library and are of any type; what the collectors do with them, adding,
  comparing, copying and printing, is in \<^verbatim>\<open>quantity_lib\<close>.  A collector runs over the list of its ticks, each
  given by what it meets in the cluster at that time; a stop ends the list.
\<close>

section \<open>Quantities and lists of resources\<close>

record 'q quantity_lib =
  qlAdd :: "'q \<Rightarrow> 'q \<Rightarrow> 'q"
  qlCmp :: "'q \<Rightarrow> 'q \<Rightarrow> int"
  qlMarshal :: "'q \<Rightarrow> string res"
  qlUnmarshal :: "string \<Rightarrow> 'q res"
  qlString :: "'q \<Rightarrow> string"
  qlZero :: 'q
  qlDecimalZero :: 'q
  qlBinaryZero :: 'q

type_synonym 'q resource_map = "(string, 'q) gomap"

definition quantityCopy :: "'q quantity_lib \<Rightarrow> 'q \<Rightarrow> 'q res" where
  "quantityCopy lib q = res_bind (qlMarshal lib q) (qlUnmarshal lib)"

fun addResourceList :: "'q quantity_lib \<Rightarrow> 'q resource_map \<Rightarrow> 'q resource_map \<Rightarrow> 'q resource_map res" where
  "addResourceList lib xs [] = Inr xs"
| "addResourceList lib xs ((name, quantity) # new) = (case map_of xs name of
     None \<Rightarrow> res_bind (quantityCopy lib quantity) (\<lambda>q. addResourceList lib (AList.update name q xs) new)
   | Some v \<Rightarrow> addResourceList lib (AList.update name (qlAdd lib v quantity) xs) new)"

fun maxResourceList :: "'q quantity_lib \<Rightarrow> 'q resource_map \<Rightarrow> 'q resource_map \<Rightarrow> 'q resource_map res" where
  "maxResourceList lib xs [] = Inr xs"
| "maxResourceList lib xs ((name, quantity) # new) = (case map_of xs name of
     None \<Rightarrow> res_bind (quantityCopy lib quantity) (\<lambda>q. maxResourceList lib (AList.update name q xs) new)
   | Some v \<Rightarrow> if 0 < qlCmp lib quantity v
       then res_bind (quantityCopy lib quantity) (\<lambda>q. maxResourceList lib (AList.update name q xs) new)
       else maxResourceList lib xs new)"

record 'q metric_container =
  mcRequests :: "'q resource_map"
  mcLimits :: "'q resource_map"

record 'q metric_pod =
  mpContainers :: "'q metric_container list"
  mpInitContainers :: "'q metric_container list"

text \<open>A loop over containers that merges their requests and limits into two maps.\<close>

fun merge_containers :: "('q resource_map \<Rightarrow> 'q resource_map \<Rightarrow> 'q resource_map res) \<Rightarrow> 'q metric_container list \<Rightarrow>
    'q resource_map \<times> 'q resource_map \<Rightarrow> ('q resource_map \<times> 'q resource_map) res" where
  "merge_containers f [] rl = Inr rl"
| "merge_containers f (c # cs) (reqs, limits) =
     res_bind (f reqs (mcRequests c)) (\<lambda>reqs'.
     res_bind (f limits (mcLimits c)) (\<lambda>limits'. merge_containers f cs (reqs', limits')))"

definition PodRequestsAndLimits
  :: "'q quantity_lib \<Rightarrow> 'q metric_pod \<Rightarrow> ('q resource_map \<times> 'q resource_map) res" where
  "PodRequestsAndLimits lib pod =
     res_bind (merge_containers (addResourceList lib) (mpContainers pod) ([], []))
       (merge_containers (maxResourceList lib) (mpInitContainers pod))"

text \<open>The loops over the maps of a pod do what \<^verbatim>\<open>addResourceList\<close> does.\<close>

fun pods_loop :: "'q quantity_lib \<Rightarrow> 'q metric_pod list \<Rightarrow> 'q resource_map \<times> 'q resource_map \<Rightarrow>
    ('q resource_map \<times> 'q resource_map) res" where
  "pods_loop lib [] rl = Inr rl"
| "pods_loop lib (pod # pods) (reqs, limits) =
     res_bind (PodRequestsAndLimits lib pod) (\<lambda>(podReqs, podLimits).
     res_bind (addResourceList lib reqs podReqs) (\<lambda>reqs'.
     res_bind (addResourceList lib limits podLimits) (\<lambda>limits'. pods_loop lib pods (reqs', limits'))))"

definition getPodsTotalRequestsAndLimits
  :: "'q quantity_lib \<Rightarrow> 'q metric_pod list \<Rightarrow> ('q resource_map \<times> 'q resource_map) res" where
  "getPodsTotalRequestsAndLimits lib pods = pods_loop lib pods ([], [])"

section \<open>Nodes\<close>

definition LabelNodeRolePrefix :: string where "LabelNodeRolePrefix = ''node-role.kubernetes.io/''"
definition RoleLabel :: string where "RoleLabel = ''kubernetes.io/role''"

record 'q metric_node =
  mnName :: string
  mnLabels :: "(string, string) gomap"
  mnCreated :: string
  mnAllocatable :: "'q resource_map"
  mnCapacity :: "'q resource_map"
  mnConditions :: "(string \<times> string) list"

record node_info =
  niNodeName :: string
  niStatus :: string
  niType :: string
  niCreateTime :: string
  niCpuCapacity :: string
  niCpuAllocatable :: string
  niPodAllocatable :: string
  niPodCapacity :: string
  niMemoryCapacity :: string
  niMemoryAllocatable :: string
  niMemoryRequest :: string
  niMemoryLimit :: string
  niCpuRequest :: string
  niCpuLimit :: string
  niPodCount :: nat

definition node_role :: "string \<times> string \<Rightarrow> string list" where
  "node_role kv = (if has_prefix (fst kv) LabelNodeRolePrefix
     then (let role = trim_prefix (fst kv) LabelNodeRolePrefix in if role \<noteq> [] then [role] else [])
     else if fst kv = RoleLabel \<and> snd kv \<noteq> [] then [snd kv] else [])"

definition findNodeRoles :: "(string, string) gomap \<Rightarrow> string list" where
  "findNodeRoles ls = sort_by (\<lambda>a b. a < b) (remdups (concat (map node_role ls)))"

text \<open>The last condition that holds is the status of the node.\<close>

fun node_status :: "(string \<times> string) list \<Rightarrow> string \<Rightarrow> string" where
  "node_status [] st = (if st = [] then ''Unknown'' else st)"
| "node_status ((t, s) # cs) st = node_status cs (if s = ''True'' then t else st)"

text \<open>What a tick meets: the nodes, whose list is empty when it failed, the parser of selectors, and pods.\<close>

record 'q node_env =
  neNodes :: "'q metric_node list \<times> gerror option"
  neParse :: "string \<Rightarrow> string res"
  nePods :: "string \<Rightarrow> 'q metric_pod list res"
  neMarshal :: "node_info list \<Rightarrow> string res"

definition node_selector :: "string \<Rightarrow> string" where
  "node_selector name = ''spec.nodeName='' @ name @ '',status.phase!=Succeeded'' @ '',status.phase!=Failed''"

definition node_info_of :: "'q quantity_lib \<Rightarrow> 'q metric_node \<Rightarrow> 'q metric_pod list \<Rightarrow>
    'q resource_map \<times> 'q resource_map \<Rightarrow> node_info" where
  "node_info_of lib node pods rl = (let (reqs, limit) = rl; str = qlString lib; roles = findNodeRoles (mnLabels node) in
     \<lparr>niNodeName = mnName node, niStatus = node_status (mnConditions node) [],
      niType = (if roles = [] then ''none'' else join roles '',''), niCreateTime = mnCreated node,
      niCpuCapacity = str (gm_get (qlDecimalZero lib) (mnCapacity node) ''cpu''),
      niCpuAllocatable = str (gm_get (qlDecimalZero lib) (mnAllocatable node) ''cpu''),
      niPodAllocatable = str (gm_get (qlZero lib) (mnAllocatable node) ''pods''),
      niPodCapacity = str (gm_get (qlZero lib) (mnCapacity node) ''pods''),
      niMemoryCapacity = str (gm_get (qlBinaryZero lib) (mnCapacity node) ''memory''),
      niMemoryAllocatable = str (gm_get (qlBinaryZero lib) (mnAllocatable node) ''memory''),
      niMemoryRequest = str (gm_get (qlZero lib) reqs ''memory''),
      niMemoryLimit = str (gm_get (qlZero lib) limit ''memory''),
      niCpuRequest = str (gm_get (qlZero lib) reqs ''cpu''),
      niCpuLimit = str (gm_get (qlZero lib) limit ''cpu''),
      niPodCount = length pods\<rparr>)"

text \<open>A node whose pods cannot be found or added up is left out.\<close>

definition node_iter :: "'q quantity_lib \<Rightarrow> 'q node_env \<Rightarrow> 'q metric_node \<Rightarrow> node_info res" where
  "node_iter lib env node =
     res_bind (neParse env (node_selector (mnName node))) (\<lambda>fieldSelector.
     res_bind (nePods env fieldSelector) (\<lambda>podList.
     res_bind (getPodsTotalRequestsAndLimits lib podList) (\<lambda>rl. Inr (node_info_of lib node podList rl))))"

fun nodes_loop :: "'q quantity_lib \<Rightarrow> 'q node_env \<Rightarrow> 'q metric_node list \<Rightarrow> node_info list" where
  "nodes_loop lib env [] = []"
| "nodes_loop lib env (node # nodes) = (case node_iter lib env node of
     Inl _ \<Rightarrow> nodes_loop lib env nodes
   | Inr info \<Rightarrow> info # nodes_loop lib env nodes)"

definition node_tick :: "'q quantity_lib \<Rightarrow> 'q node_env \<Rightarrow> report" where
  "node_tick lib env = (case neMarshal env (nodes_loop lib env (fst (neNodes env))) of
     Inl e \<Rightarrow> ([], True)
   | Inr content \<Rightarrow> ([mk_packet ''inter:inter'' NodeSync content], False))"

fun node_Run :: "'q quantity_lib \<Rightarrow> 'q node_env list \<Rightarrow> report" where
  "node_Run lib [] = ([], False)"
| "node_Run lib (env # envs) = (case node_tick lib env of
     (ps, True) \<Rightarrow> (ps, True)
   | (ps, False) \<Rightarrow> (let r = node_Run lib envs in (ps @ fst r, snd r)))"

section \<open>Pods\<close>

definition metricsCreationDelay :: int where "metricsCreationDelay = 2 * 60 * 1000000000"

record aged_pod =
  apNamespace :: string
  apName :: string
  apAge :: int

record 'm pod_metrics_env =
  peServerGroups :: "bool res"
  peApiMetrics :: "string \<Rightarrow> 'm list res"
  peConvert :: "'m list \<Rightarrow> 'm list res"
  peHeapster :: "string \<Rightarrow> 'm list res"
  pePods :: "string \<Rightarrow> aged_pod list res"
  peDuration :: "int \<Rightarrow> string"
  peMarshal :: "'m list \<Rightarrow> string res"

definition checkPodAge :: "(int \<Rightarrow> string) \<Rightarrow> aged_pod \<Rightarrow> gerror option" where
  "checkPodAge dur pod = (if apAge pod > metricsCreationDelay
     then Some (''Metrics not available for pod '' @ apNamespace pod @ ''/'' @ apName pod @ '', age: '' @ dur (apAge pod))
     else None)"

fun ages_loop :: "(int \<Rightarrow> string) \<Rightarrow> aged_pod list \<Rightarrow> gerror" where
  "ages_loop dur [] = ''metrics not available yet''"
| "ages_loop dur (pod # pods) = (case checkPodAge dur pod of Some e \<Rightarrow> e | None \<Rightarrow> ages_loop dur pods)"

definition verifyEmptyMetrics :: "'m pod_metrics_env \<Rightarrow> string \<Rightarrow> gerror option" where
  "verifyEmptyMetrics env namespace = (case pePods env namespace of
     Inl e \<Rightarrow> Some e
   | Inr pods \<Rightarrow> if pods = [] then None else Some (ages_loop (peDuration env) pods))"

text \<open>The collector asks for all pods of one namespace.\<close>

definition getMetricsFromMetricsAPI :: "'m pod_metrics_env \<Rightarrow> string \<Rightarrow> 'm list res" where
  "getMetricsFromMetricsAPI env namespace = res_bind (peApiMetrics env namespace) (peConvert env)"

definition runTopPod :: "'m pod_metrics_env \<Rightarrow> string \<Rightarrow> 'm list res" where
  "runTopPod env namespace =
     res_bind (peServerGroups env) (\<lambda>metricsAPIAvailable.
     res_bind (if metricsAPIAvailable then getMetricsFromMetricsAPI env namespace else peHeapster env namespace) (\<lambda>metrics.
       (case (if metrics = [] then verifyEmptyMetrics env namespace else None) of
          Some e \<Rightarrow> Inl e
        | None \<Rightarrow> Inr metrics)))"

text \<open>The first namespace that fails ends the collector.\<close>

fun pod_tick :: "'m pod_metrics_env \<Rightarrow> string list \<Rightarrow> packet list \<times> gerror option" where
  "pod_tick env [] = ([], None)"
| "pod_tick env (namespace # nss) = (case runTopPod env namespace of
     Inl e \<Rightarrow> ([], Some e)
   | Inr ms \<Rightarrow> (case peMarshal env ms of
       Inl _ \<Rightarrow> pod_tick env nss
     | Inr content \<Rightarrow> (let r = pod_tick env nss in
         (mk_packet (env_key namespace) PodMetricsSync content # fst r, snd r))))"

fun pod_ticks :: "('m pod_metrics_env \<times> namespaces) list \<Rightarrow> packet list \<times> gerror option" where
  "pod_ticks [] = ([], None)"
| "pod_ticks ((env, nss) # ticks) = (case pod_tick env (ns_GetAll nss) of
     (ps, Some e) \<Rightarrow> (ps, Some e)
   | (ps, None) \<Rightarrow> (let r = pod_ticks ticks in (ps @ fst r, snd r)))"

text \<open>The three clients are made first.\<close>

definition pod_Run :: "gerror option \<Rightarrow> gerror option \<Rightarrow> gerror option \<Rightarrow> ('m pod_metrics_env \<times> namespaces) list \<Rightarrow>
    packet list \<times> gerror option" where
  "pod_Run discovery config client ticks = (case discovery of Some e \<Rightarrow> ([], Some e)
   | None \<Rightarrow> (case config of Some e \<Rightarrow> ([], Some e)
   | None \<Rightarrow> (case client of Some e \<Rightarrow> ([], Some e)
   | None \<Rightarrow> pod_ticks ticks)))"

section \<open>Requests and limits are the effective ones\<close>

text \<open>
  Quantities have amounts: adding adds them, comparing compares them, a copy keeps them, as the library of
  quantities documents.
\<close>

definition quantity_ok :: "'q quantity_lib \<Rightarrow> ('q \<Rightarrow> int) \<Rightarrow> bool" where
  "quantity_ok lib val \<longleftrightarrow>
     (\<forall>a b. val (qlAdd lib a b) = val a + val b \<and> (0 < qlCmp lib a b \<longleftrightarrow> val b < val a))
     \<and> (\<forall>a. \<exists>q. quantityCopy lib a = Inr q \<and> val q = val a)"

definition amount :: "('q \<Rightarrow> int) \<Rightarrow> 'q resource_map \<Rightarrow> string \<Rightarrow> int" where
  "amount val m r = (case map_of m r of None \<Rightarrow> 0 | Some q \<Rightarrow> val q)"

definition resources_ok :: "('q \<Rightarrow> int) \<Rightarrow> 'q resource_map \<Rightarrow> bool" where
  "resources_ok val m \<longleftrightarrow> gm_ok m \<and> list_all (\<lambda>nq. 0 \<le> val (snd nq)) m"

lemma amount_simps [simp]:
  "amount val [] r = 0"
  "amount val (AList.update n q m) r = (if r = n then val q else amount val m r)"
  by (simp_all add: amount_def update_conv')

lemma amount_Cons:
  "resources_ok val ((n, q) # m) \<Longrightarrow> amount val ((n, q) # m) r = (if r = n then val q else amount val m r)
     \<and> amount val m n = 0 \<and> 0 \<le> val q \<and> resources_ok val m"
  by (auto simp: amount_def resources_ok_def gm_ok_def split: option.splits dest!: map_of_SomeD intro: rev_image_eqI)

lemma amount_nonneg: "resources_ok val m \<Longrightarrow> 0 \<le> amount val m r"
proof (induction m)
  case (Cons nq m)
  then show ?case using amount_Cons [of val "fst nq" "snd nq" m r] by simp
qed simp

lemma resources_ok_Nil [simp]: "resources_ok val []"
  by (simp add: resources_ok_def)

lemma resources_ok_update:
  "resources_ok val m \<Longrightarrow> 0 \<le> val q \<Longrightarrow> resources_ok val (AList.update n q m)"
  by (auto simp: resources_ok_def list_all_iff dest!: set_mp [OF set_update_subset])

text \<open>A function merges two maps of resources by a function of their amounts.\<close>

definition merges :: "('q \<Rightarrow> int) \<Rightarrow> ('q resource_map \<Rightarrow> 'q resource_map \<Rightarrow> 'q resource_map res) \<Rightarrow>
    (int \<Rightarrow> int \<Rightarrow> int) \<Rightarrow> bool" where
  "merges val f g \<longleftrightarrow> (\<forall>xs new. resources_ok val xs \<longrightarrow> resources_ok val new \<longrightarrow>
     (\<exists>ys. f xs new = Inr ys \<and> resources_ok val ys \<and> (\<forall>r. amount val ys r = g (amount val xs r) (amount val new r))))"

lemma addResourceList_merges:
  assumes "quantity_ok lib val"
  shows "merges val (addResourceList lib) (+)"
proof -
  have "\<exists>ys. addResourceList lib xs new = Inr ys \<and> resources_ok val ys
      \<and> (\<forall>r. amount val ys r = amount val xs r + amount val new r)"
    if "resources_ok val xs" "resources_ok val new" for xs new
    using that
  proof (induction new arbitrary: xs)
    case (Cons nq new)
    obtain n q where nq: "nq = (n, q)" by fastforce
    note c = amount_Cons [OF Cons.prems(2) [unfolded nq]]
    obtain q' where q': "quantityCopy lib q = Inr q'" "val q' = val q"
      using assms unfolding quantity_ok_def by blast
    show ?case
    proof (cases "map_of xs n")
      case None
      have "resources_ok val (AList.update n q' xs)" using Cons.prems(1) c q' by (simp add: resources_ok_update)
      with Cons.IH c None q' nq show ?thesis by (fastforce simp: amount_def [of val xs n])
    next
      case (Some v)
      then have "amount val xs n = val v" "val (qlAdd lib v q) = val v + val q" "0 \<le> val v"
        using assms amount_nonneg [OF Cons.prems(1), of n] by (auto simp: amount_def quantity_ok_def)
      moreover from this c have "resources_ok val (AList.update n (qlAdd lib v q) xs)"
        using Cons.prems(1) by (simp add: resources_ok_update)
      ultimately show ?thesis using Cons.IH c Some nq by fastforce
    qed
  qed simp
  then show ?thesis by (simp add: merges_def)
qed

lemma maxResourceList_merges:
  assumes "quantity_ok lib val"
  shows "merges val (maxResourceList lib) max"
proof -
  have "\<exists>ys. maxResourceList lib xs new = Inr ys \<and> resources_ok val ys
      \<and> (\<forall>r. amount val ys r = max (amount val xs r) (amount val new r))"
    if "resources_ok val xs" "resources_ok val new" for xs new
    using that
  proof (induction new arbitrary: xs)
    case Nil
    with amount_nonneg [OF Nil.prems(1)] show ?case by (simp add: max_absorb1)
  next
    case (Cons nq new)
    obtain n q where nq: "nq = (n, q)" by fastforce
    note c = amount_Cons [OF Cons.prems(2) [unfolded nq]]
    obtain q' where q': "quantityCopy lib q = Inr q'" "val q' = val q"
      using assms unfolding quantity_ok_def by blast
    have ok: "resources_ok val (AList.update n q' xs)" using Cons.prems(1) c q' by (simp add: resources_ok_update)
    have pos: "0 \<le> amount val xs n" by (rule amount_nonneg) (rule Cons.prems(1))
    show ?case
    proof (cases "map_of xs n")
      case None
      then have "amount val xs n = 0" by (simp add: amount_def)
      with Cons.IH [OF ok] c None q' nq show ?thesis by fastforce
    next
      case (Some v)
      then have v: "amount val xs n = val v" "0 < qlCmp lib q v \<longleftrightarrow> val v < val q"
        using assms by (auto simp: amount_def quantity_ok_def)
      show ?thesis
      proof (cases "val v < val q")
        case True
        with Cons.IH [OF ok] c Some q' nq v show ?thesis by fastforce
      next
        case False
        with Cons.IH [OF Cons.prems(1)] c Some nq v pos show ?thesis by fastforce
      qed
    qed
  qed
  then show ?thesis by (simp add: merges_def)
qed

definition container_ok :: "('q \<Rightarrow> int) \<Rightarrow> 'q metric_container \<Rightarrow> bool" where
  "container_ok val c \<longleftrightarrow> resources_ok val (mcRequests c) \<and> resources_ok val (mcLimits c)"

lemma merge_containers_amounts:
  assumes "merges val f g"
  shows "\<lbrakk>list_all (container_ok val) cs; resources_ok val xs; resources_ok val ys\<rbrakk> \<Longrightarrow>
    \<exists>xs' ys'. merge_containers f cs (xs, ys) = Inr (xs', ys') \<and> resources_ok val xs' \<and> resources_ok val ys'
      \<and> (\<forall>r. amount val xs' r = fold (\<lambda>c a. g a (amount val (mcRequests c) r)) cs (amount val xs r)
           \<and> amount val ys' r = fold (\<lambda>c a. g a (amount val (mcLimits c) r)) cs (amount val ys r))"
proof (induction cs arbitrary: xs ys)
  case (Cons c cs)
  from Cons.prems assms obtain xs1 where x: "f xs (mcRequests c) = Inr xs1" "resources_ok val xs1"
      "\<forall>r. amount val xs1 r = g (amount val xs r) (amount val (mcRequests c) r)"
    by (fastforce simp: merges_def container_ok_def)
  from Cons.prems assms obtain ys1 where y: "f ys (mcLimits c) = Inr ys1" "resources_ok val ys1"
      "\<forall>r. amount val ys1 r = g (amount val ys r) (amount val (mcLimits c) r)"
    by (fastforce simp: merges_def container_ok_def)
  from Cons.IH [of xs1 ys1] Cons.prems x y show ?case by simp
qed simp

text \<open>What Kubernetes takes a pod to need: the sum of its containers, but no less than any of the initial ones.\<close>

definition effective :: "('q \<Rightarrow> int) \<Rightarrow> ('q metric_container \<Rightarrow> 'q resource_map) \<Rightarrow> 'q metric_pod \<Rightarrow> string \<Rightarrow> int" where
  "effective val sel pod r = Max (insert (\<Sum>c\<leftarrow>mpContainers pod. amount val (sel c) r)
     ((\<lambda>c. amount val (sel c) r) ` set (mpInitContainers pod)))"

definition metric_pod_ok :: "('q \<Rightarrow> int) \<Rightarrow> 'q metric_pod \<Rightarrow> bool" where
  "metric_pod_ok val pod \<longleftrightarrow> list_all (container_ok val) (mpContainers pod @ mpInitContainers pod)"

lemma fold_sum: "fold (\<lambda>c a. a + h c) cs (x :: int) = x + (\<Sum>c\<leftarrow>cs. h c)"
  by (induction cs arbitrary: x) auto

lemma fold_max: "fold (\<lambda>c a. max a (h c)) cs (x :: int) = Max (insert x (h ` set cs))"
proof (induction cs arbitrary: x)
  case (Cons c cs)
  have "Max (insert (max x (h c)) (h ` set cs)) = Max (insert x (insert (h c) (h ` set cs)))"
    by (cases "set cs = {}") (simp_all add: max.assoc)
  with Cons show ?case by simp
qed simp

lemma PodRequestsAndLimits_effective:
  assumes "quantity_ok lib val" "metric_pod_ok val pod"
  shows "\<exists>reqs limits. PodRequestsAndLimits lib pod = Inr (reqs, limits)
    \<and> resources_ok val reqs \<and> resources_ok val limits
    \<and> (\<forall>r. amount val reqs r = effective val mcRequests pod r \<and> amount val limits r = effective val mcLimits pod r)"
proof -
  from assms(2) have ok: "list_all (container_ok val) (mpContainers pod)" "list_all (container_ok val) (mpInitContainers pod)"
    by (simp_all add: metric_pod_ok_def)
  from merge_containers_amounts [OF addResourceList_merges [OF assms(1)] ok(1), of "[]" "[]"] obtain xs ys
    where x: "merge_containers (addResourceList lib) (mpContainers pod) ([], []) = Inr (xs, ys)"
      "resources_ok val xs" "resources_ok val ys"
      "\<forall>r. amount val xs r = (\<Sum>c\<leftarrow>mpContainers pod. amount val (mcRequests c) r)
         \<and> amount val ys r = (\<Sum>c\<leftarrow>mpContainers pod. amount val (mcLimits c) r)"
    by (auto simp: fold_sum)
  from merge_containers_amounts [OF maxResourceList_merges [OF assms(1)] ok(2) x(2,3)] x(1,4) show ?thesis
    by (auto simp: PodRequestsAndLimits_def fold_max effective_def)
qed

lemma pods_loop_effective:
  assumes "quantity_ok lib val"
  shows "\<lbrakk>list_all (metric_pod_ok val) pods; resources_ok val xs; resources_ok val ys\<rbrakk> \<Longrightarrow>
    \<exists>xs' ys'. pods_loop lib pods (xs, ys) = Inr (xs', ys')
      \<and> (\<forall>r. amount val xs' r = amount val xs r + (\<Sum>p\<leftarrow>pods. effective val mcRequests p r)
           \<and> amount val ys' r = amount val ys r + (\<Sum>p\<leftarrow>pods. effective val mcLimits p r))"
proof (induction pods arbitrary: xs ys)
  case (Cons pod pods)
  from PodRequestsAndLimits_effective [OF assms, of pod] Cons.prems obtain rs ls where p:
      "PodRequestsAndLimits lib pod = Inr (rs, ls)" "resources_ok val rs" "resources_ok val ls"
      "\<forall>r. amount val rs r = effective val mcRequests pod r \<and> amount val ls r = effective val mcLimits pod r"
    by auto
  note add = addResourceList_merges [OF assms, unfolded merges_def, rule_format]
  from add [OF Cons.prems(2) p(2)] obtain xs1 where x: "addResourceList lib xs rs = Inr xs1" "resources_ok val xs1"
      "\<forall>r. amount val xs1 r = amount val xs r + amount val rs r"
    by blast
  from add [OF Cons.prems(3) p(3)] obtain ys1 where y: "addResourceList lib ys ls = Inr ys1" "resources_ok val ys1"
      "\<forall>r. amount val ys1 r = amount val ys r + amount val ls r"
    by blast
  from Cons.IH [of xs1 ys1] Cons.prems p x y show ?case by (auto simp: add.assoc)
qed simp


text \<open>Quantities as tallies.\<close>

definition tallies :: "string quantity_lib" where
  "tallies = \<lparr>qlAdd = (@), qlCmp = (\<lambda>a b. int (length a) - int (length b)), qlMarshal = Inr, qlUnmarshal = Inr,
     qlString = id, qlZero = [], qlDecimalZero = [], qlBinaryZero = []\<rparr>"

definition tally_pod :: "string \<Rightarrow> string \<Rightarrow> string metric_pod" where
  "tally_pod a b = \<lparr>mpContainers = [\<lparr>mcRequests = [(''cpu'', a)], mcLimits = []\<rparr>, \<lparr>mcRequests = [(''cpu'', ''x'')], mcLimits = []\<rparr>],
     mpInitContainers = [\<lparr>mcRequests = [(''cpu'', b)], mcLimits = [(''memory'', b)]\<rparr>]\<rparr>"

lemma tallies_ok: "quantity_ok tallies (\<lambda>s. int (length s))"
  by (simp add: quantity_ok_def tallies_def quantityCopy_def)


section \<open>What the collectors send\<close>

lemma nodes_loop_map: "nodes_loop lib env nodes = map (\<lambda>n. projr (node_iter lib env n))
    (filter (\<lambda>n. \<not> isl (node_iter lib env n)) nodes)"
  by (induction nodes) (auto split: sum.splits)

lemma node_status_not_empty: "node_status cs st \<noteq> []"
  by (induction cs st rule: node_status.induct) simp_all

text \<open>The namespaces before the first that fails get one packet each, and those after it none.\<close>

theorem pod_tick_sent:
  assumes "\<And>ms. \<exists>content. peMarshal env ms = Inr content"
  shows "pod_tick env nss = (map (\<lambda>ns. mk_packet (env_key ns) PodMetricsSync
      (projr (peMarshal env (projr (runTopPod env ns))))) (takeWhile (\<lambda>ns. \<not> isl (runTopPod env ns)) nss),
    (case dropWhile (\<lambda>ns. \<not> isl (runTopPod env ns)) nss of [] \<Rightarrow> None | ns # _ \<Rightarrow> Some (projl (runTopPod env ns))))"
proof (induction nss)
  case (Cons ns nss)
  show ?case
  proof (cases "runTopPod env ns")
    case (Inr ms)
    obtain c where "peMarshal env ms = Inr c" using assms by blast
    with Cons Inr show ?thesis by (simp add: Let_def)
  qed simp
qed simp

text \<open>
  C40: A namespace with pods but without measurements ends the collector of pods: those before it are reported,
  nothing is sent for those after it, in this tick or any later one.
\<close>

theorem empty_metrics_end:
  assumes "\<And>ms. \<exists>content. peMarshal env ms = Inr content"
    and "\<And>n. n \<in> set before \<Longrightarrow> \<exists>ms. runTopPod env n = Inr ms"
    and "peServerGroups env = Inr True" "peApiMetrics env ns = Inr xs" "peConvert env xs = Inr []"
    and "pePods env ns = Inr (pod # pods)"
    and "ns_GetAll nss = before @ ns # after"
  shows "\<exists>ps e. pod_Run None None None ((env, nss) # later) = (ps, Some e) \<and> map pkKey ps = map env_key before"
proof -
  have bad: "runTopPod env ns = Inl (ages_loop (peDuration env) (pod # pods))"
    using assms(3-6) by (simp add: runTopPod_def getMetricsFromMetricsAPI_def verifyEmptyMetrics_def)
  have good: "\<not> isl (runTopPod env n)" if "n \<in> set before" for n
    using assms(2) [OF that] by auto
  have "takeWhile (\<lambda>n. \<not> isl (runTopPod env n)) (before @ ns # after) = before"
    "dropWhile (\<lambda>n. \<not> isl (runTopPod env n)) (before @ ns # after) = ns # after"
    using good bad by (simp_all add: takeWhile_append dropWhile_append)
  then show ?thesis
    using pod_tick_sent [of env "ns_GetAll nss", OF assms(1)]
    by (simp add: pod_Run_def assms(7) bad mk_packet_def comp_def)
qed

definition demo_pods :: "nat pod_metrics_env" where
  "demo_pods = \<lparr>peServerGroups = Inr True, peApiMetrics = \<lambda>ns. Inr (if ns = ''idle'' then [] else [1]), peConvert = Inr,
     peHeapster = \<lambda>_. Inr [], pePods = \<lambda>ns. Inr [\<lparr>apNamespace = ns, apName = ''p'', apAge = 5\<rparr>], peDuration = \<lambda>_. [],
     peMarshal = \<lambda>_. Inr []\<rparr>"

lemma empty_metrics_end_witness:
  "\<exists>ps e. pod_Run None None None [(demo_pods, [(''a'', True), (''idle'', True), (''b'', True)])] = (ps, Some e)
     \<and> map pkKey ps = [''env:a'']"
proof -
  have "\<exists>ps e. pod_Run None None None [(demo_pods, [(''a'', True), (''idle'', True), (''b'', True)])] = (ps, Some e)
     \<and> map pkKey ps = map env_key [''a'']"
    by (rule empty_metrics_end [where before = "[''a'']" and ns = "''idle''" and after = "[''b'']"])
      (simp_all add: demo_pods_def ns_GetAll_def runTopPod_def getMetricsFromMetricsAPI_def)
  then show ?thesis by (simp add: env_key_def)
qed

end
