(* ===== verification/ApiGroups.thy ===== *)
theory ApiGroups
  imports GoStrings GoSort
begin

text \<open>
  The registry of API groups (\<^verbatim>\<open>certificate/apimachinery\<close>, and its use for the certificates in
  \<^verbatim>\<open>pkg/apis/certificate/v1alpha1\<close>): groups and their versions are announced, then registered and enabled in
  a manager, which answers what is enabled and in which order of preference.

  The scheme that types are added to is a state of any type \<^verbatim>\<open>'s\<close>, with the kinds it knows of a version as an
  argument; functions on it are not nil.  A set is an association list to the unit type; a nil set of kinds is
  empty.  Errors are values of a type of their own, without the printed maps of their messages.
\<close>

section \<open>Groups\<close>

text \<open>A group and a version of it.\<close>

type_synonym group_version = "string \<times> string"

datatype reg_error =
    InvalidApiVersion string string
  | GroupAlreadyRegistered string
  | RegisterBeforeEnabling "group_version list"
  | GroupNotRegistered string
  | UnsupportedVersion group_version
  | WrongGroup string string
  | InterfaceWithoutVersion group_version
  | PartiallyAnnounced
  | NoVersionsAnnounced string
  | PreferenceDuplicates string "string list"
  | ForeignVersion string string string
  | NeverAnnounced string "string list"
  | VersionAlreadyAnnounced string string
  | GroupAlreadyAnnounced string
  | ErrorRegistering string reg_error
  | ErrorEnabling string reg_error

definition gv_String :: "group_version \<Rightarrow> string" where
  "gv_String gv = (if fst gv \<noteq> [] then fst gv @ ''/'' @ snd gv else snd gv)"

definition ParseGroupVersion :: "string \<Rightarrow> group_version option" where
  "ParseGroupVersion gv = (if gv = [] \<or> gv = ''/'' then Some ([], [])
     else (case split_char gv CHR ''/'' of
         [v] \<Rightarrow> Some ([], v)
       | [g, v] \<Rightarrow> Some (g, v)
       | _ \<Rightarrow> None))"

text \<open>The mapper of one group: its versions and the kinds added to it, with whether they are at the root.\<close>

record scheme_mapper =
  smVersions :: "group_version list"
  smKinds :: "(group_version \<times> string \<times> bool) list"

text \<open>
  The metadata of a group.  The function \<^verbatim>\<open>InterfacesFor\<close> is only ever set to
  \<^verbatim>\<open>DefaultInterfacesFor\<close>, so that the field tells whether it is set; the interfaces of every version are the
  scheme and an accessor.
\<close>

record group_meta =
  gmGroupVersion :: group_version
  gmGroupVersions :: "group_version list"
  gmRESTMapper :: "scheme_mapper option"
  gmInterfacesFor :: bool
  gmInterfacesByVersion :: "(group_version, unit) gomap"

definition DefaultInterfacesFor :: "group_meta \<Rightarrow> group_version \<Rightarrow> reg_error + unit" where
  "DefaultInterfacesFor gm version = (case map_of (gmInterfacesByVersion gm) version of
     Some v \<Rightarrow> Inr v | None \<Rightarrow> Inl (UnsupportedVersion version))"

definition AddVersionInterfaces :: "group_meta \<Rightarrow> group_version \<Rightarrow> reg_error option \<times> group_meta" where
  "AddVersionInterfaces gm version =
     (if fst version \<noteq> fst (gmGroupVersion gm) then (Some (WrongGroup (fst version) (fst (gmGroupVersion gm))), gm)
      else (if version \<in> set (gmGroupVersions gm) then None else Some (InterfaceWithoutVersion version),
        gm\<lparr>gmInterfacesByVersion := AList.update version () (gmInterfacesByVersion gm)\<rparr>))"

section \<open>The manager\<close>

record api_manager =
  amRegistered :: "(group_version, unit) gomap"
  amEnabled :: "(group_version, unit) gomap"
  amGroups :: "(string, group_meta) gomap"
  amRequested :: "group_version list"

fun requested_loop :: "string \<Rightarrow> string list \<Rightarrow> group_version list \<Rightarrow> reg_error + group_version list" where
  "requested_loop env [] acc = Inr acc"
| "requested_loop env (version # rest) acc = (case ParseGroupVersion version of
     None \<Rightarrow> Inl (InvalidApiVersion version env)
   | Some gv \<Rightarrow> requested_loop env rest (acc @ [gv]))"

definition NewAPIRegistrationManager :: "string \<Rightarrow> reg_error + api_manager" where
  "NewAPIRegistrationManager kubeAPIVersions =
     map_sum id (\<lambda>gvs. \<lparr>amRegistered = [], amEnabled = [], amGroups = [], amRequested = gvs\<rparr>)
       (if kubeAPIVersions \<noteq> [] then requested_loop kubeAPIVersions (split_char kubeAPIVersions CHR '','') [] else Inr [])"

definition NewOrDie :: "string \<Rightarrow> api_manager go" where
  "NewOrDie kubeAPIVersions = (case NewAPIRegistrationManager kubeAPIVersions of Inl e \<Rightarrow> Panic | Inr m \<Rightarrow> Ret m)"

definition RegisterVersions :: "api_manager \<Rightarrow> group_version list \<Rightarrow> api_manager" where
  "RegisterVersions m vs = m\<lparr>amRegistered := fold (\<lambda>v. AList.update v ()) vs (amRegistered m)\<rparr>"

definition RegisterGroup :: "api_manager \<Rightarrow> group_meta \<Rightarrow> reg_error option \<times> api_manager" where
  "RegisterGroup m gm = (let groupName = fst (gmGroupVersion gm) in
     if gm_has (amGroups m) groupName then (Some (GroupAlreadyRegistered groupName), m)
     else (None, m\<lparr>amGroups := AList.update groupName gm (amGroups m)\<rparr>))"

definition IsRegisteredVersion :: "api_manager \<Rightarrow> group_version \<Rightarrow> bool" where
  "IsRegisteredVersion m v = gm_has (amRegistered m) v"

text \<open>The versions are enabled before the missing ones are complained of.\<close>

definition EnableVersions :: "api_manager \<Rightarrow> group_version list \<Rightarrow> reg_error option \<times> api_manager" where
  "EnableVersions m vs = (let unregisteredVersions = filter (\<lambda>v. \<not> IsRegisteredVersion m v) vs in
     (if unregisteredVersions \<noteq> [] then Some (RegisterBeforeEnabling unregisteredVersions) else None,
      m\<lparr>amEnabled := fold (\<lambda>v. AList.update v ()) vs (amEnabled m)\<rparr>))"

definition IsAllowedVersion :: "api_manager \<Rightarrow> group_version \<Rightarrow> bool" where
  "IsAllowedVersion m v = (amRequested m = [] \<or> v \<in> set (amRequested m))"

definition IsEnabledVersion :: "api_manager \<Rightarrow> group_version \<Rightarrow> bool" where
  "IsEnabledVersion m v = gm_has (amEnabled m) v"

definition EnabledVersions :: "api_manager \<Rightarrow> group_version list" where
  "EnabledVersions m = concat (map (\<lambda>ggm. filter (IsEnabledVersion m) (gmGroupVersions (snd ggm))) (amGroups m))"

definition EnabledVersionsForGroup :: "api_manager \<Rightarrow> string \<Rightarrow> group_version list" where
  "EnabledVersionsForGroup m groupName = (case map_of (amGroups m) groupName of
     None \<Rightarrow> []
   | Some gm \<Rightarrow> filter (IsEnabledVersion m) (gmGroupVersions gm))"

definition am_Group :: "api_manager \<Rightarrow> string \<Rightarrow> reg_error + group_meta" where
  "am_Group m groupName = (case map_of (amGroups m) groupName of None \<Rightarrow> Inl (GroupNotRegistered groupName) | Some gm \<Rightarrow> Inr gm)"

definition IsRegistered :: "api_manager \<Rightarrow> string \<Rightarrow> bool" where
  "IsRegistered m groupName = gm_has (amGroups m) groupName"

definition RegisteredGroupVersions :: "api_manager \<Rightarrow> group_version list" where
  "RegisteredGroupVersions m = gm_keys (amRegistered m)"

definition InterfacesFor :: "api_manager \<Rightarrow> group_version \<Rightarrow> (reg_error + unit) go" where
  "InterfacesFor m version = (case am_Group m (fst version) of
     Inl e \<Rightarrow> Ret (Inl e)
   | Inr gm \<Rightarrow> if gmInterfacesFor gm then Ret (DefaultInterfacesFor gm version) else Panic)"

definition GroupOrDie :: "api_manager \<Rightarrow> string \<Rightarrow> group_meta go" where
  "GroupOrDie m groupName = (case map_of (amGroups m) groupName of None \<Rightarrow> Panic | Some gm \<Rightarrow> Ret gm)"

text \<open>A version with the star that stands for every resource or kind; the group and version of a pattern.\<close>

record priority_mapper =
  pmDelegate :: "scheme_mapper option list"
  pmResource :: "(group_version \<times> string) list"
  pmKind :: "(group_version \<times> string) list"

definition any_of :: "group_version \<Rightarrow> group_version \<times> string" where
  "any_of gv = (gv, ''*'')"

definition prioritiesForGroups
  :: "api_manager \<Rightarrow> string list \<Rightarrow> (group_version \<times> string) list \<times> (group_version \<times> string) list" where
  "prioritiesForGroups m groups =
     (let firsts = concat (map (\<lambda>g. case EnabledVersionsForGroup m g of [] \<Rightarrow> [] | v # _ \<Rightarrow> [any_of v]) groups);
          rest = map (\<lambda>g. any_of (g, ''*'')) groups
      in (firsts @ rest, firsts @ rest))"

text \<open>One mapper for each group that has an enabled version; an absent group is dereferenced nil.\<close>

fun union_loop :: "api_manager \<Rightarrow> group_version list \<Rightarrow> string list \<Rightarrow> scheme_mapper option list go" where
  "union_loop m [] groups = Ret []"
| "union_loop m (v # vs) groups =
     (if fst v \<in> set groups then union_loop m vs groups
      else (case map_of (amGroups m) (fst v) of
          None \<Rightarrow> Panic
        | Some gm \<Rightarrow> go_map ((#) (gmRESTMapper gm)) (union_loop m vs (fst v # groups))))"

definition prioritizedGroups :: "string list" where
  "prioritizedGroups = [[], ''extensions'', ''metrics'']"

definition RESTMapper :: "api_manager \<Rightarrow> group_version list \<Rightarrow> priority_mapper go" where
  "RESTMapper m versionPatterns = go_map (\<lambda>unionMapper.
     if versionPatterns \<noteq> []
     then \<lparr>pmDelegate = unionMapper, pmResource = map any_of versionPatterns, pmKind = map any_of versionPatterns\<rparr>
     else if amRequested m \<noteq> []
     then \<lparr>pmDelegate = unionMapper, pmResource = map any_of (amRequested m), pmKind = map any_of (amRequested m)\<rparr>
     else (let (rp, kp) = prioritiesForGroups m prioritizedGroups;
             remainingGroups = sort_by (\<lambda>a b. a < b)
               (remdups (filter (\<lambda>g. g \<notin> set prioritizedGroups) (map fst (gm_keys (amEnabled m)))));
             (rp', kp') = prioritiesForGroups m remainingGroups
           in \<lparr>pmDelegate = unionMapper, pmResource = rp @ rp', pmKind = kp @ kp'\<rparr>))
     (union_loop m (gm_keys (amEnabled m)) [])"

definition AllPreferredGroupVersions :: "api_manager \<Rightarrow> string" where
  "AllPreferredGroupVersions m = (if amGroups m = [] then []
     else join (sort_by (\<lambda>a b. a < b) (map (\<lambda>ggm. gv_String (gmGroupVersion (snd ggm))) (amGroups m))) '','')"

definition ValidateEnvRequestedVersions :: "api_manager \<Rightarrow> group_version list" where
  "ValidateEnvRequestedVersions m = filter (\<lambda>v. \<not> gm_has (amEnabled m) v) (amRequested m)"

section \<open>Factories\<close>

type_synonym 's scheme_func = "'s \<Rightarrow> gerror option \<times> 's"

record 's version_args =
  vaGroupName :: string
  vaVersionName :: string
  vaAddToScheme :: "'s scheme_func"

record 's group_args =
  gaGroupName :: string
  gaPreference :: "string list"
  gaRootScoped :: "string list"
  gaIgnored :: "string list"
  gaInternal :: "'s scheme_func option"

record 's group_factory =
  gfArgs :: "'s group_args option"
  gfVersions :: "(string, 's version_args) gomap"
  gfPrioritized :: "group_version list"

definition NewGroupMetaFactory :: "'s group_args \<Rightarrow> (string, 's scheme_func) gomap \<Rightarrow> 's group_factory" where
  "NewGroupMetaFactory groupArgs versions = \<lparr>gfArgs = Some groupArgs,
     gfVersions = map (\<lambda>(v, f). (v, \<lparr>vaGroupName = gaGroupName groupArgs, vaVersionName = v, vaAddToScheme = f\<rparr>)) versions,
     gfPrioritized = []\<rparr>"

text \<open>The versions that are not in the order of preference; those that are, are taken out of the set.\<close>

fun versions_loop :: "string \<Rightarrow> 's version_args list \<Rightarrow> string list \<Rightarrow> group_version list \<Rightarrow>
    reg_error + string list \<times> group_version list" where
  "versions_loop g [] pvSet unprioritized = Inr (pvSet, unprioritized)"
| "versions_loop g (v # vs) pvSet unprioritized =
     (if vaGroupName v \<noteq> g then Inl (ForeignVersion (vaGroupName v) (vaVersionName v) g)
      else if vaVersionName v \<in> set pvSet then versions_loop g vs (removeAll (vaVersionName v) pvSet) unprioritized
      else versions_loop g vs pvSet (unprioritized @ [(vaGroupName v, vaVersionName v)]))"

definition gmf_Register
  :: "'s group_factory \<Rightarrow> api_manager \<Rightarrow> reg_error option \<times> 's group_factory \<times> api_manager" where
  "gmf_Register gmf m = (case gfArgs gmf of
     None \<Rightarrow> (Some PartiallyAnnounced, gmf, m)
   | Some args \<Rightarrow>
      (let g = gaGroupName args; pref = gaPreference args in
       if gfVersions gmf = [] then (Some (NoVersionsAnnounced g), gmf, m)
       else if \<not> distinct pref then (Some (PreferenceDuplicates g pref), gmf, m)
       else (case versions_loop g (map snd (gfVersions gmf)) pref [] of
           Inl e \<Rightarrow> (Some e, gmf, m)
         | Inr (pvSet, unprioritized) \<Rightarrow>
            if pvSet \<noteq> [] then (Some (NeverAnnounced g pvSet), gmf, m)
            else (let prioritized = map (Pair g) pref @ unprioritized in
              (None, gmf\<lparr>gfPrioritized := prioritized\<rparr>, RegisterVersions m prioritized)))))"

definition newRESTMapper
  :: "'s group_args \<Rightarrow> ('s \<Rightarrow> group_version \<Rightarrow> string list) \<Rightarrow> 's \<Rightarrow> group_version list \<Rightarrow> scheme_mapper" where
  "newRESTMapper args known scheme externalVersions = \<lparr>smVersions = externalVersions,
     smKinds = concat (map (\<lambda>gv. map (\<lambda>kind. (gv, kind, kind \<in> set (gaRootScoped args)))
       (filter (\<lambda>kind. kind \<notin> set (gaIgnored args)) (known scheme gv))) externalVersions)\<rparr>"

text \<open>The error of a function that adds types to the scheme is not looked at.\<close>

fun enable_loop :: "'s group_factory \<Rightarrow> group_version list \<Rightarrow> group_version list \<Rightarrow> api_manager \<Rightarrow> 's \<Rightarrow>
    ((reg_error + group_version list) \<times> api_manager \<times> 's) go" where
  "enable_loop gmf [] external m scheme = Ret (Inr external, m, scheme)"
| "enable_loop gmf (v # vs) external m scheme =
     (if \<not> IsAllowedVersion m v then enable_loop gmf vs external m scheme
      else (case EnableVersions m [v] of
          (Some e, m') \<Rightarrow> Ret (Inl e, m', scheme)
        | (None, m') \<Rightarrow> (case map_of (gfVersions gmf) (snd v) of
            None \<Rightarrow> Panic
          | Some va \<Rightarrow> enable_loop gmf vs (external @ [v]) m' (snd (vaAddToScheme va scheme)))))"

fun interfaces_loop
  :: "'s group_factory \<Rightarrow> group_version list \<Rightarrow> group_meta \<Rightarrow> (reg_error option \<times> group_meta) go" where
  "interfaces_loop gmf [] gm = Ret (None, gm)"
| "interfaces_loop gmf (v # vs) gm = (case map_of (gfVersions gmf) (snd v) of
     None \<Rightarrow> Panic
   | Some va \<Rightarrow> (case AddVersionInterfaces gm (vaGroupName va, vaVersionName va) of
       (Some e, gm') \<Rightarrow> Ret (Some e, gm')
     | (None, gm') \<Rightarrow> interfaces_loop gmf vs gm'))"

text \<open>The arguments of a group that was registered are there.\<close>

definition gmf_Enable :: "('s \<Rightarrow> group_version \<Rightarrow> string list) \<Rightarrow> 's group_factory \<Rightarrow> api_manager \<Rightarrow> 's \<Rightarrow>
    (reg_error option \<times> api_manager \<times> 's) go" where
  "gmf_Enable known gmf m scheme =
     go_bind (enable_loop gmf (gfPrioritized gmf) [] m scheme) (\<lambda>(r, m1, scheme1). case r of
       Inl e \<Rightarrow> Ret (Some e, m1, scheme1)
     | Inr external \<Rightarrow> (case external of
         [] \<Rightarrow> Ret (None, m1, scheme1)
       | preferred # _ \<Rightarrow> (case gfArgs gmf of
           None \<Rightarrow> Panic
         | Some args \<Rightarrow>
            (let scheme2 = (case gaInternal args of None \<Rightarrow> scheme1 | Some f \<Rightarrow> snd (f scheme1)) in
             go_bind (interfaces_loop gmf external \<lparr>gmGroupVersion = preferred, gmGroupVersions = external,
                 gmRESTMapper = None, gmInterfacesFor = False, gmInterfacesByVersion = []\<rparr>) (\<lambda>(e, gm). case e of
               Some e \<Rightarrow> Ret (Some e, m1, scheme2)
             | None \<Rightarrow>
                (let (e', m2) = RegisterGroup m1 (gm\<lparr>gmInterfacesFor := True,
                   gmRESTMapper := Some (newRESTMapper args known scheme2 external)\<rparr>)
                 in Ret (e', m2, scheme2)))))))"

definition RegisterAndEnable :: "('s \<Rightarrow> group_version \<Rightarrow> string list) \<Rightarrow> 's group_factory \<Rightarrow> api_manager \<Rightarrow> 's \<Rightarrow>
    (reg_error option \<times> api_manager \<times> 's) go" where
  "RegisterAndEnable known gmf m scheme = (case gmf_Register gmf m of
     (Some e, gmf', m') \<Rightarrow> Ret (Some e, m', scheme)
   | (None, gmf', m') \<Rightarrow> gmf_Enable known gmf' m' scheme)"

section \<open>The registry of factories\<close>

type_synonym 's factory_registry = "(string, 's group_factory) gomap"

definition empty_factory :: "'s group_factory" where
  "empty_factory = \<lparr>gfArgs = None, gfVersions = [], gfPrioritized = []\<rparr>"

definition gar_group :: "'s factory_registry \<Rightarrow> string \<Rightarrow> 's group_factory" where
  "gar_group gar groupName = gm_get empty_factory gar groupName"

definition AnnounceGroupVersion
  :: "'s factory_registry \<Rightarrow> 's version_args \<Rightarrow> reg_error option \<times> 's factory_registry" where
  "AnnounceGroupVersion gar gvf = (let gmf = gar_group gar (vaGroupName gvf) in
     if gm_has (gfVersions gmf) (vaVersionName gvf)
     then (Some (VersionAlreadyAnnounced (vaVersionName gvf) (vaGroupName gvf)), AList.update (vaGroupName gvf) gmf gar)
     else (None, AList.update (vaGroupName gvf)
       (gmf\<lparr>gfVersions := AList.update (vaVersionName gvf) gvf (gfVersions gmf)\<rparr>) gar))"

definition AnnounceGroup :: "'s factory_registry \<Rightarrow> 's group_args \<Rightarrow> reg_error option \<times> 's factory_registry" where
  "AnnounceGroup gar args = (let gmf = gar_group gar (gaGroupName args) in
     if gfArgs gmf \<noteq> None then (Some (GroupAlreadyAnnounced (gaGroupName args)), AList.update (gaGroupName args) gmf gar)
     else (None, AList.update (gaGroupName args) (gmf\<lparr>gfArgs := Some args\<rparr>) gar))"

definition AnnouncePreconstructedFactory
  :: "'s factory_registry \<Rightarrow> 's group_factory \<Rightarrow> (reg_error option \<times> 's factory_registry) go" where
  "AnnouncePreconstructedFactory gar gmf = (case gfArgs gmf of
     None \<Rightarrow> Panic
   | Some args \<Rightarrow> if gm_has gar (gaGroupName args) then Ret (Some (GroupAlreadyAnnounced (gaGroupName args)), gar)
       else Ret (None, AList.update (gaGroupName args) gmf gar))"

definition gmf_Announce :: "'s group_factory \<Rightarrow> 's factory_registry \<Rightarrow> 's factory_registry go" where
  "gmf_Announce gmf gar = go_bind (AnnouncePreconstructedFactory gar gmf) (\<lambda>(err, gar').
     case err of Some e \<Rightarrow> Panic | None \<Rightarrow> Ret gar')"

text \<open>The factories remember their order of versions, but nothing asks for it again.\<close>

fun RegisterAndEnableAll :: "('s \<Rightarrow> group_version \<Rightarrow> string list) \<Rightarrow> 's factory_registry \<Rightarrow> api_manager \<Rightarrow> 's \<Rightarrow>
    (reg_error option \<times> api_manager \<times> 's) go" where
  "RegisterAndEnableAll known [] m scheme = Ret (None, m, scheme)"
| "RegisterAndEnableAll known ((groupName, gmf) # gar) m scheme = (case gmf_Register gmf m of
     (Some e, gmf', m') \<Rightarrow> Ret (Some (ErrorRegistering groupName e), m', scheme)
   | (None, gmf', m') \<Rightarrow> go_bind (gmf_Enable known gmf' m' scheme) (\<lambda>(err, m'', scheme'). case err of
       Some e \<Rightarrow> Ret (Some (ErrorEnabling groupName e), m'', scheme')
     | None \<Rightarrow> RegisterAndEnableAll known gar m'' scheme'))"

section \<open>The group of the certificates\<close>

definition GroupName :: string where "GroupName = ''certmanager.k8s.io''"

definition SchemeGroupVersion :: group_version where "SchemeGroupVersion = (GroupName, ''v1alpha1'')"

text \<open>What the group adds to the scheme is an argument.\<close>

definition Install :: "'s scheme_func \<Rightarrow> ('s \<Rightarrow> group_version \<Rightarrow> string list) \<Rightarrow> 's factory_registry \<Rightarrow> api_manager \<Rightarrow> 's \<Rightarrow>
    ('s factory_registry \<times> api_manager \<times> 's) go" where
  "Install addToScheme known gar m scheme =
     (let gmf = NewGroupMetaFactory \<lparr>gaGroupName = GroupName, gaPreference = [snd SchemeGroupVersion], gaRootScoped = [],
          gaIgnored = [], gaInternal = None\<rparr> [(snd SchemeGroupVersion, addToScheme)]
      in go_bind (gmf_Announce gmf gar) (\<lambda>gar'.
         go_bind (RegisterAndEnable known gmf m scheme) (\<lambda>(err, m', scheme').
           case err of Some e \<Rightarrow> Panic | None \<Rightarrow> Ret (gar', m', scheme'))))"

section \<open>Registration\<close>

definition factory_ok :: "string \<Rightarrow> 's group_factory \<Rightarrow> bool" where
  "factory_ok g gmf \<longleftrightarrow> (case gfArgs gmf of None \<Rightarrow> True | Some args \<Rightarrow> gaGroupName args = g) \<and> gm_ok (gfVersions gmf)
     \<and> list_all (\<lambda>(v, va). vaGroupName va = g \<and> vaVersionName va = v) (gfVersions gmf)"

lemma factory_ok_names:
  "factory_ok g gmf \<Longrightarrow> map (\<lambda>va. vaVersionName (snd va)) (gfVersions gmf) = gm_keys (gfVersions gmf)"
  by (auto simp: factory_ok_def gm_keys_def list_all_iff)

lemma versions_loop_correct:
  assumes "versions_loop g vs pv acc = Inr (pv', acc')" "distinct (map vaVersionName vs)"
  shows "pv' = filter (\<lambda>n. n \<notin> vaVersionName ` set vs) pv
    \<and> acc' = acc @ map (Pair g) (filter (\<lambda>n. n \<notin> set pv) (map vaVersionName vs))"
  using assms
proof (induction vs arbitrary: pv acc)
  case (Cons v vs)
  show ?case
  proof (cases "vaVersionName v \<in> set pv")
    case True
    have "vaVersionName x \<noteq> vaVersionName v" if "x \<in> set vs" for x
      using Cons.prems(2) that by (metis distinct.simps(2) image_eqI list.simps(9) set_map)
    moreover from this have "filter (\<lambda>n. n \<notin> set (removeAll (vaVersionName v) pv)) (map vaVersionName vs) =
        filter (\<lambda>n. n \<notin> set pv) (map vaVersionName vs)"
      by (intro filter_cong) auto
    ultimately show ?thesis
      using Cons.IH [of "removeAll (vaVersionName v) pv" acc] Cons.prems True
      by (auto simp: removeAll_filter_not_eq split: if_splits intro!: filter_cong)
  next
    case False
    with Cons.IH [of pv "acc @ [(g, vaVersionName v)]"] Cons.prems show ?thesis
      by (auto split: if_splits intro!: filter_cong)
  qed
qed simp

text \<open>The order in which the versions of a group are preferred.\<close>

definition preference :: "'s group_args \<Rightarrow> 's group_factory \<Rightarrow> string list" where
  "preference args gmf = gaPreference args @ filter (\<lambda>v. v \<notin> set (gaPreference args)) (gm_keys (gfVersions gmf))"

lemma Register_correct:
  assumes "factory_ok g gmf" "gmf_Register gmf m = (None, gmf', m')"
  obtains args where "gfArgs gmf = Some args" "gmf' = gmf\<lparr>gfPrioritized := map (Pair g) (preference args gmf)\<rparr>"
    "m' = RegisterVersions m (map (Pair g) (preference args gmf))" "distinct (preference args gmf)"
    "set (preference args gmf) = set (gm_keys (gfVersions gmf))"
proof -
  from assms(2) obtain args where a: "gfArgs gmf = Some args"
    by (auto simp: gmf_Register_def split: option.splits)
  with assms(1) have g: "gaGroupName args = g" by (simp add: factory_ok_def)
  let ?pref = "gaPreference args" and ?names = "gm_keys (gfVersions gmf)"
  have n: "map vaVersionName (map snd (gfVersions gmf)) = ?names"
    using factory_ok_names [OF assms(1)] by (simp add: comp_def)
  have dn: "distinct ?names" using assms(1) by (simp add: factory_ok_def gm_ok_def gm_keys_def)
  from assms(2) a g obtain unp where l: "versions_loop g (map snd (gfVersions gmf)) ?pref [] = Inr ([], unp)"
      and d: "distinct ?pref" and r: "gmf' = gmf\<lparr>gfPrioritized := map (Pair g) ?pref @ unp\<rparr>"
        "m' = RegisterVersions m (map (Pair g) ?pref @ unp)"
    by (auto simp: gmf_Register_def Let_def split: if_splits sum.splits prod.splits)
  from versions_loop_correct [OF l] n dn have u: "unp = map (Pair g) (filter (\<lambda>v. v \<notin> set ?pref) ?names)"
      "filter (\<lambda>v. v \<notin> vaVersionName ` set (map snd (gfVersions gmf))) ?pref = []"
    by simp_all
  have "vaVersionName ` set (map snd (gfVersions gmf)) = set ?names" by (metis n set_map)
  with u(2) have "set ?pref \<subseteq> set ?names" by (auto simp: filter_empty_conv)
  then show thesis
    using a r u(1) d dn by (intro that [of args]) (auto simp: preference_def)
qed

section \<open>What is enabled\<close>

lemma gm_has_fold [simp]: "gm_has (fold (\<lambda>v. AList.update v ()) vs m) x \<longleftrightarrow> x \<in> set vs \<or> gm_has m x"
  by (induction vs arbitrary: m) auto

lemma manager_simps [simp]:
  "IsAllowedVersion (RegisterVersions m vs) = IsAllowedVersion m"
  "IsEnabledVersion (RegisterVersions m vs) = IsEnabledVersion m"
  "amGroups (RegisterVersions m vs) = amGroups m"
  "IsRegisteredVersion (RegisterVersions m vs) v \<longleftrightarrow> v \<in> set vs \<or> IsRegisteredVersion m v"
  by (auto simp: RegisterVersions_def IsAllowedVersion_def IsEnabledVersion_def IsRegisteredVersion_def fun_eq_iff)

lemma Enable_one: "IsRegisteredVersion m v \<Longrightarrow>
    EnableVersions m [v] = (None, m\<lparr>amEnabled := AList.update v () (amEnabled m)\<rparr>)"
  by (simp add: EnableVersions_def)

lemma enable_loop_correct:
  assumes "list_all (\<lambda>v. IsRegisteredVersion m v \<and> gm_has (gfVersions gmf) (snd v)) vs"
  shows "\<exists>scheme'. enable_loop gmf vs ext m scheme =
    Ret (Inr (ext @ filter (IsAllowedVersion m) vs),
      m\<lparr>amEnabled := fold (\<lambda>v. AList.update v ()) (filter (IsAllowedVersion m) vs) (amEnabled m)\<rparr>, scheme')"
  using assms
proof (induction vs arbitrary: ext m scheme)
  case (Cons v vs)
  show ?case
  proof (cases "IsAllowedVersion m v")
    case True
    let ?m = "m\<lparr>amEnabled := AList.update v () (amEnabled m)\<rparr>"
    from Cons.prems obtain va where va: "map_of (gfVersions gmf) (snd v) = Some va" by (auto simp: gm_has_def)
    have e: "EnableVersions m [v] = (None, ?m)" using Cons.prems by (simp add: Enable_one)
    have s: "IsAllowedVersion ?m = IsAllowedVersion m" "IsRegisteredVersion ?m = IsRegisteredVersion m"
      by (simp_all add: IsAllowedVersion_def IsRegisteredVersion_def fun_eq_iff)
    with Cons.IH [of ?m "ext @ [v]" "snd (vaAddToScheme va scheme)"] Cons.prems True va e
    show ?thesis by simp
  qed (use Cons in simp)
qed simp

lemma interfaces_loop_correct:
  assumes "list_all (\<lambda>v. fst v = fst (gmGroupVersion gm) \<and> v \<in> set (gmGroupVersions gm)
      \<and> (\<exists>va. map_of (gfVersions gmf) (snd v) = Some va \<and> (vaGroupName va, vaVersionName va) = v)) vs"
  shows "interfaces_loop gmf vs gm = Ret (None, gm\<lparr>gmInterfacesByVersion :=
    fold (\<lambda>v. AList.update v ()) vs (gmInterfacesByVersion gm)\<rparr>)"
  using assms
proof (induction vs arbitrary: gm)
  case (Cons v vs)
  then obtain va where va: "map_of (gfVersions gmf) (snd v) = Some va" "(vaGroupName va, vaVersionName va) = v" by auto
  with Cons.prems have "AddVersionInterfaces gm v =
      (None, gm\<lparr>gmInterfacesByVersion := AList.update v () (gmInterfacesByVersion gm)\<rparr>)"
    by (simp add: AddVersionInterfaces_def)
  with va Cons.IH [of "gm\<lparr>gmInterfacesByVersion := AList.update v () (gmInterfacesByVersion gm)\<rparr>"] Cons.prems
  show ?case by simp
qed simp

text \<open>The state of a manager: what is enabled belongs to a registered group, and a group has only that.\<close>

definition group_ok :: "api_manager \<Rightarrow> string \<Rightarrow> group_meta \<Rightarrow> bool" where
  "group_ok m g gm \<longleftrightarrow> gmGroupVersions gm \<noteq> [] \<and> gmGroupVersion gm = hd (gmGroupVersions gm) \<and> gmInterfacesFor gm
     \<and> distinct (gmGroupVersions gm)
     \<and> list_all (\<lambda>v. fst v = g \<and> IsEnabledVersion m v \<and> gm_has (gmInterfacesByVersion gm) v) (gmGroupVersions gm)"

definition manager_ok :: "api_manager \<Rightarrow> bool" where
  "manager_ok m \<longleftrightarrow> gm_ok (amEnabled m) \<and> gm_ok (amGroups m)
     \<and> (\<forall>g gm. map_of (amGroups m) g = Some gm \<longrightarrow> group_ok m g gm)
     \<and> (\<forall>v. IsEnabledVersion m v \<longrightarrow> IsRegisteredVersion m v
          \<and> (\<exists>gm. map_of (amGroups m) (fst v) = Some gm \<and> v \<in> set (gmGroupVersions gm)))"

definition enabled_more :: "api_manager \<Rightarrow> group_version list \<Rightarrow> api_manager" where
  "enabled_more m vs = m\<lparr>amEnabled := fold (\<lambda>v. AList.update v ()) vs (amEnabled m)\<rparr>"

lemma enabled_more_simps [simp]:
  "IsEnabledVersion (enabled_more m vs) v \<longleftrightarrow> v \<in> set vs \<or> IsEnabledVersion m v"
  "IsAllowedVersion (enabled_more m vs) = IsAllowedVersion m"
  "IsRegisteredVersion (enabled_more m vs) = IsRegisteredVersion m"
  "amGroups (enabled_more m vs) = amGroups m"
  "amRequested (enabled_more m vs) = amRequested m"
  by (simp_all add: enabled_more_def IsEnabledVersion_def IsAllowedVersion_def IsRegisteredVersion_def fun_eq_iff)

lemma enabled_more_Nil [simp]: "enabled_more m [] = m"
  by (simp add: enabled_more_def)

lemma Enable_registers:
  assumes "enable_loop gmf (gfPrioritized gmf) [] m scheme = Ret (Inr (p # rest), m1, sc)" "gfArgs gmf = Some args"
    and "interfaces_loop gmf (p # rest) \<lparr>gmGroupVersion = p, gmGroupVersions = p # rest, gmRESTMapper = None,
      gmInterfacesFor = False, gmInterfacesByVersion = []\<rparr> = Ret (None, gm)"
    and "\<not> gm_has (amGroups m1) (fst (gmGroupVersion gm))"
  shows "\<exists>mapper sc'. gmf_Enable known gmf m scheme = Ret (None, m1\<lparr>amGroups := AList.update (fst (gmGroupVersion gm))
    (gm\<lparr>gmInterfacesFor := True, gmRESTMapper := Some mapper\<rparr>) (amGroups m1)\<rparr>, sc')"
  using assms by (auto simp: gmf_Enable_def Let_def RegisterGroup_def simp del: interfaces_loop.simps)

text \<open>Enabling what was just registered never fails for a new group.\<close>

lemma Enable_correct:
  assumes f: "factory_ok g gmf" and r: "gmf_Register gmf m = (None, gmf', m')"
    and new: "\<not> gm_has (amGroups m) g"
  obtains args ext scheme' where "gfArgs gmf = Some args"
    "ext = filter (IsAllowedVersion m) (map (Pair g) (preference args gmf))" "distinct ext"
    "set ext = {(g, v) | v. gm_has (gfVersions gmf) v \<and> IsAllowedVersion m (g, v)}"
    "ext = [] \<longrightarrow> gmf_Enable known gmf' m' scheme = Ret (None, m', scheme')"
    "ext \<noteq> [] \<longrightarrow> (\<exists>gm. gmf_Enable known gmf' m' scheme =
        Ret (None, (enabled_more m' ext)\<lparr>amGroups := AList.update g gm (amGroups m)\<rparr>, scheme')
      \<and> gmGroupVersions gm = ext \<and> gmGroupVersion gm = hd ext \<and> gmInterfacesFor gm
      \<and> (\<forall>v. gm_has (gmInterfacesByVersion gm) v \<longleftrightarrow> v \<in> set ext))"
proof -
  from Register_correct [OF f r] obtain args where a: "gfArgs gmf = Some args"
      and gmf': "gmf' = gmf\<lparr>gfPrioritized := map (Pair g) (preference args gmf)\<rparr>"
      and m': "m' = RegisterVersions m (map (Pair g) (preference args gmf))"
      and d: "distinct (preference args gmf)" and s: "set (preference args gmf) = set (gm_keys (gfVersions gmf))" .
  define ext where "ext = filter (IsAllowedVersion m) (map (Pair g) (preference args gmf))"
  have de: "distinct ext" using d by (simp add: ext_def distinct_map inj_on_def)
  have se: "set ext = {(g, v) | v. gm_has (gfVersions gmf) v \<and> IsAllowedVersion m (g, v)}"
    using s by (auto simp: ext_def gm_has_iff gm_keys_def)
  have "list_all (\<lambda>v. IsRegisteredVersion m' v \<and> gm_has (gfVersions gmf') (snd v)) (map (Pair g) (preference args gmf))"
    using s by (auto simp: list_all_iff m' gmf' set_gm_keys)
  from enable_loop_correct [OF this, of "[]" scheme] obtain sc where
      l: "enable_loop gmf' (gfPrioritized gmf') [] m' scheme = Ret (Inr ext, enabled_more m' ext, sc)"
    by (auto simp: gmf' m' ext_def enabled_more_def)
  show thesis
  proof (cases ext)
    case Nil
    with l have "gmf_Enable known gmf' m' scheme = Ret (None, m', sc)" by (simp add: gmf_Enable_def)
    then show thesis by (intro that [OF a ext_def de se, of sc]) (simp_all add: Nil)
  next
    case (Cons p rest)
    have va: "\<exists>va. map_of (gfVersions gmf') (snd v) = Some va \<and> (vaGroupName va, vaVersionName va) = v" if "v \<in> set ext" for v
    proof -
      from that se obtain x va where "v = (g, x)" "map_of (gfVersions gmf) x = Some va" by (auto simp: gm_has_def)
      moreover from this(2) f have "vaGroupName va = g" "vaVersionName va = x"
        by (auto simp: factory_ok_def list_all_iff dest!: map_of_SomeD)
      ultimately show ?thesis by (simp add: gmf')
    qed
    have fst_ext: "fst v = g" if "v \<in> set ext" for v using that se by auto
    let ?gm0 = "\<lparr>gmGroupVersion = p, gmGroupVersions = ext, gmRESTMapper = None, gmInterfacesFor = False,
      gmInterfacesByVersion = []\<rparr>"
    have "interfaces_loop gmf' ext ?gm0 = Ret (None, ?gm0\<lparr>gmInterfacesByVersion :=
        fold (\<lambda>v. AList.update v ()) ext (gmInterfacesByVersion ?gm0)\<rparr>)"
      by (rule interfaces_loop_correct) (use va fst_ext Cons in \<open>auto simp: list_all_iff\<close>)
    moreover have p: "fst p = g" "hd ext = p" using fst_ext [of p] Cons by simp_all
    ultimately obtain mapper sc' where "gmf_Enable known gmf' m' scheme =
        Ret (None, (enabled_more m' ext)\<lparr>amGroups := AList.update g (?gm0\<lparr>gmInterfacesByVersion :=
          fold (\<lambda>v. AList.update v ()) ext [], gmInterfacesFor := True, gmRESTMapper := Some mapper\<rparr>) (amGroups m)\<rparr>, sc')"
      using Enable_registers [OF l [unfolded Cons], of args _ known] a new by (auto simp: gmf' m' Cons)
    then have ex: "\<exists>gm. gmf_Enable known gmf' m' scheme =
          Ret (None, (enabled_more m' ext)\<lparr>amGroups := AList.update g gm (amGroups m)\<rparr>, sc')
        \<and> gmGroupVersions gm = ext \<and> gmGroupVersion gm = hd ext \<and> gmInterfacesFor gm
        \<and> (\<forall>v. gm_has (gmInterfacesByVersion gm) v \<longleftrightarrow> v \<in> set ext)"
      by (intro exI conjI) (assumption, simp_all add: p(2))
    show thesis by (rule that [OF a ext_def de se]) (use Cons ex in simp_all)
  qed
qed

lemma Register_manager:
  assumes "factory_ok g gmf" "gmf_Register gmf m = (None, gmf', m')"
  shows "amEnabled m' = amEnabled m \<and> amGroups m' = amGroups m \<and> amRequested m' = amRequested m
    \<and> (\<forall>v. IsRegisteredVersion m' v \<longleftrightarrow> IsRegisteredVersion m v \<or> (fst v = g \<and> gm_has (gfVersions gmf) (snd v)))"
proof -
  obtain args where m': "m' = RegisterVersions m (map (Pair g) (preference args gmf))"
      and s: "set (preference args gmf) = set (gm_keys (gfVersions gmf))"
    by (rule Register_correct [OF assms])
  have "v \<in> set (map (Pair g) (preference args gmf)) \<longleftrightarrow> fst v = g \<and> gm_has (gfVersions gmf) (snd v)" for v
    using s by (cases v) (auto simp only: set_map set_gm_keys mem_Collect_eq fst_conv snd_conv image_iff prod.inject)
  then have "IsRegisteredVersion m' v \<longleftrightarrow> IsRegisteredVersion m v \<or> (fst v = g \<and> gm_has (gfVersions gmf) (snd v))" for v
    unfolding m' manager_simps by blast
  then show ?thesis by (simp add: m' RegisterVersions_def)
qed

lemma allowed_requested: "amRequested m = amRequested m' \<Longrightarrow> IsAllowedVersion m = IsAllowedVersion m'"
  by (simp add: IsAllowedVersion_def fun_eq_iff)

lemma enabled_same: "amEnabled m = amEnabled m' \<Longrightarrow> IsEnabledVersion m = IsEnabledVersion m'"
  by (simp add: IsEnabledVersion_def fun_eq_iff)

lemma group_ok_mono:
  "group_ok m g gm \<Longrightarrow> (\<And>v. IsEnabledVersion m v \<Longrightarrow> IsEnabledVersion m' v) \<Longrightarrow> group_ok m' g gm"
  by (auto simp: group_ok_def list_all_iff)

text \<open>A group is new; whatever of it is enabled is its own.\<close>

definition adds_group :: "api_manager \<Rightarrow> string \<Rightarrow> 's group_factory \<Rightarrow> api_manager \<Rightarrow> bool" where
  "adds_group m g gmf m'' \<longleftrightarrow> amRequested m'' = amRequested m
     \<and> (\<forall>v. IsEnabledVersion m'' v \<longleftrightarrow> IsEnabledVersion m v
          \<or> (fst v = g \<and> gm_has (gfVersions gmf) (snd v) \<and> IsAllowedVersion m v))
     \<and> (\<forall>h. gm_has (amGroups m'') h \<longrightarrow> h = g \<or> gm_has (amGroups m) h)
     \<and> (\<exists>args. gfArgs gmf = Some args \<and> EnabledVersionsForGroup m'' g =
          filter (IsAllowedVersion m) (map (Pair g) (preference args gmf)))
     \<and> (\<forall>h. h \<noteq> g \<longrightarrow> EnabledVersionsForGroup m'' h = EnabledVersionsForGroup m h)"

lemma manager_ok_unused:
  assumes "manager_ok m" "\<not> gm_has (amGroups m) (fst v)"
  shows "\<not> IsEnabledVersion m v"
proof -
  from assms(1) have "IsEnabledVersion m v \<longrightarrow> (\<exists>gm. map_of (amGroups m) (fst v) = Some gm)"
    unfolding manager_ok_def by blast
  with assms(2) show ?thesis by (auto simp: gm_has_def)
qed

lemma new_group:
  assumes ok: "manager_ok m" and new: "\<not> gm_has (amGroups m) g"
    and ext: "ext \<noteq> []" "distinct ext" "\<And>v. v \<in> set ext \<Longrightarrow> fst v = g \<and> IsRegisteredVersion m2 v"
    and gm: "gmGroupVersions gm = ext" "gmGroupVersion gm = hd ext" "gmInterfacesFor gm"
      "\<And>v. gm_has (gmInterfacesByVersion gm) v \<longleftrightarrow> v \<in> set ext"
    and m2: "\<And>v. IsEnabledVersion m2 v \<longleftrightarrow> v \<in> set ext \<or> IsEnabledVersion m v" "amGroups m2 = AList.update g gm (amGroups m)"
      "\<And>v. IsRegisteredVersion m v \<Longrightarrow> IsRegisteredVersion m2 v" "gm_ok (amEnabled m2)"
  shows "manager_ok m2 \<and> EnabledVersionsForGroup m2 g = ext
    \<and> (\<forall>h. h \<noteq> g \<longrightarrow> EnabledVersionsForGroup m2 h = EnabledVersionsForGroup m h)"
proof (intro conjI allI impI)
  have groups: "group_ok m2 h k" if k: "map_of (amGroups m2) h = Some k" for h k
  proof (cases "h = g")
    case True
    with k m2(2) have "k = gm" by (simp add: update_conv')
    with True gm ext show ?thesis by (auto simp: group_ok_def list_all_iff m2(1))
  next
    case False
    with k m2(2) have "group_ok m h k" using ok by (simp add: update_conv' manager_ok_def)
    then show ?thesis by (rule group_ok_mono) (simp add: m2(1))
  qed
  have "IsRegisteredVersion m2 v \<and> (\<exists>k. map_of (amGroups m2) (fst v) = Some k \<and> v \<in> set (gmGroupVersions k))"
    if v: "IsEnabledVersion m2 v" for v
  proof (cases "v \<in> set ext")
    case True
    with ext(3) [of v] m2(2) gm(1) show ?thesis by (simp add: update_conv')
  next
    case False
    with v m2(1) have e: "IsEnabledVersion m v" by simp
    with ok have k: "IsRegisteredVersion m v" "\<exists>k. map_of (amGroups m) (fst v) = Some k \<and> v \<in> set (gmGroupVersions k)"
      unfolding manager_ok_def by blast+
    moreover have "fst v \<noteq> g" using manager_ok_unused [OF ok, of v] e new by blast
    ultimately show ?thesis using m2(2,3) by (simp add: update_conv')
  qed
  with groups show "manager_ok m2" using ok m2(2,4) by (simp add: manager_ok_def)
  show "EnabledVersionsForGroup m2 g = ext"
    by (simp add: EnabledVersionsForGroup_def m2(1,2) update_conv' gm(1) filter_id_conv)
  show "EnabledVersionsForGroup m2 h = EnabledVersionsForGroup m h" if h: "h \<noteq> g" for h
  proof -
    have "filter (IsEnabledVersion m2) (gmGroupVersions k) = filter (IsEnabledVersion m) (gmGroupVersions k)"
      if "map_of (amGroups m) h = Some k" for k
      using ok that h ext(3) by (intro filter_cong) (auto simp: manager_ok_def group_ok_def list_all_iff m2(1))
    with h show ?thesis by (simp add: EnabledVersionsForGroup_def m2(2) update_conv' split: option.split)
  qed
qed

lemma no_new_group:
  assumes "manager_ok m" "\<not> gm_has (amGroups m) g" "amEnabled m' = amEnabled m" "amGroups m' = amGroups m"
    and "\<And>v. IsRegisteredVersion m v \<Longrightarrow> IsRegisteredVersion m' v"
  shows "manager_ok m' \<and> EnabledVersionsForGroup m' g = []
    \<and> (\<forall>h. EnabledVersionsForGroup m' h = EnabledVersionsForGroup m h)"
proof -
  have same: "IsEnabledVersion m' = IsEnabledVersion m" using assms(3) by (rule enabled_same)
  have "EnabledVersionsForGroup m' h = EnabledVersionsForGroup m h" for h
    unfolding EnabledVersionsForGroup_def same using assms(4) by simp
  moreover have "EnabledVersionsForGroup m g = []"
    using assms(2) by (simp add: EnabledVersionsForGroup_def gm_has_def split: option.split)
  moreover have "group_ok m' = group_ok m" by (simp add: group_ok_def fun_eq_iff same)
  ultimately show ?thesis using assms unfolding manager_ok_def same by auto
qed

lemma Enable_adds:
  assumes ok: "manager_ok m" and f: "factory_ok g gmf" and r: "gmf_Register gmf m = (None, gmf', m')"
    and new: "\<not> gm_has (amGroups m) g"
  shows "\<exists>m'' scheme'. gmf_Enable known gmf' m' scheme = Ret (None, m'', scheme') \<and> manager_ok m'' \<and> adds_group m g gmf m''"
proof -
  note reg = Register_manager [OF f r]
  have en: "IsEnabledVersion m' = IsEnabledVersion m" using reg by (blast intro: enabled_same)
  from Enable_correct [OF f r new, where known = known and scheme = scheme] obtain args ext scheme' where
      a: "gfArgs gmf = Some args"
      and ext: "ext = filter (IsAllowedVersion m) (map (Pair g) (preference args gmf))" "distinct ext"
        "set ext = {(g, v) | v. gm_has (gfVersions gmf) v \<and> IsAllowedVersion m (g, v)}"
      and none: "ext = [] \<longrightarrow> gmf_Enable known gmf' m' scheme = Ret (None, m', scheme')"
      and some: "ext \<noteq> [] \<longrightarrow> (\<exists>gm. gmf_Enable known gmf' m' scheme =
          Ret (None, (enabled_more m' ext)\<lparr>amGroups := AList.update g gm (amGroups m)\<rparr>, scheme')
        \<and> gmGroupVersions gm = ext \<and> gmGroupVersion gm = hd ext \<and> gmInterfacesFor gm
        \<and> (\<forall>v. gm_has (gmInterfacesByVersion gm) v \<longleftrightarrow> v \<in> set ext))" .
  have ext_iff: "v \<in> set ext \<longleftrightarrow> fst v = g \<and> gm_has (gfVersions gmf) (snd v) \<and> IsAllowedVersion m v" for v
    by (cases v) (auto simp: ext(3))
  show ?thesis
  proof (cases "ext = []")
    case True
    have "manager_ok m' \<and> EnabledVersionsForGroup m' g = ext
        \<and> (\<forall>h. EnabledVersionsForGroup m' h = EnabledVersionsForGroup m h)"
      unfolding True by (rule no_new_group [OF ok new]) (use reg in blast)+
    moreover have "\<not> (fst v = g \<and> gm_has (gfVersions gmf) (snd v) \<and> IsAllowedVersion m v)" for v
      using ext_iff [of v] True by simp
    ultimately have "manager_ok m' \<and> adds_group m g gmf m'"
      using a reg unfolding adds_group_def en ext(1) by metis
    with none True show ?thesis by blast
  next
    case False
    with some obtain gm where e: "gmf_Enable known gmf' m' scheme =
          Ret (None, (enabled_more m' ext)\<lparr>amGroups := AList.update g gm (amGroups m)\<rparr>, scheme')"
        and gm: "gmGroupVersions gm = ext" "gmGroupVersion gm = hd ext" "gmInterfacesFor gm"
          "\<And>v. gm_has (gmInterfacesByVersion gm) v \<longleftrightarrow> v \<in> set ext"
      by blast
    define m2 where "m2 = (enabled_more m' ext)\<lparr>amGroups := AList.update g gm (amGroups m)\<rparr>"
    have m2: "IsEnabledVersion m2 v \<longleftrightarrow> v \<in> set ext \<or> IsEnabledVersion m v" "amGroups m2 = AList.update g gm (amGroups m)"
        "IsRegisteredVersion m2 = IsRegisteredVersion m'" "gm_ok (amEnabled m2)" "amRequested m2 = amRequested m" for v
      using en ok reg
      by (auto simp: m2_def enabled_more_def IsEnabledVersion_def IsRegisteredVersion_def manager_ok_def fun_eq_iff)
    have rv: "IsRegisteredVersion m2 v \<longleftrightarrow> IsRegisteredVersion m v \<or> (fst v = g \<and> gm_has (gfVersions gmf) (snd v))" for v
      unfolding m2(3) using reg by blast
    have "manager_ok m2 \<and> EnabledVersionsForGroup m2 g = ext
        \<and> (\<forall>h. h \<noteq> g \<longrightarrow> EnabledVersionsForGroup m2 h = EnabledVersionsForGroup m h)"
      by (rule new_group [OF ok new False ext(2) _ gm m2(1,2) _ m2(4)]) (use ext_iff rv in blast)+
    moreover have "IsEnabledVersion m2 v \<longleftrightarrow> IsEnabledVersion m v
        \<or> (fst v = g \<and> gm_has (gfVersions gmf) (snd v) \<and> IsAllowedVersion m v)" for v
      using m2(1) [of v] ext_iff [of v] by blast
    moreover have "gm_has (amGroups m2) h \<longrightarrow> h = g \<or> gm_has (amGroups m) h" for h by (simp add: m2(2))
    ultimately have "manager_ok m2 \<and> adds_group m g gmf m2"
      using a m2(5) unfolding adds_group_def ext(1) by blast
    with e show ?thesis unfolding m2_def by blast
  qed
qed

text \<open>What a manager has enabled after the factories of a registry, each of a group of its own.\<close>

definition registers_all :: "api_manager \<Rightarrow> 's factory_registry \<Rightarrow> api_manager \<Rightarrow> bool" where
  "registers_all m gar m' \<longleftrightarrow> manager_ok m' \<and> amRequested m' = amRequested m
     \<and> (\<forall>v. IsEnabledVersion m' v \<longleftrightarrow> IsEnabledVersion m v
          \<or> (\<exists>gmf. map_of gar (fst v) = Some gmf \<and> gm_has (gfVersions gmf) (snd v) \<and> IsAllowedVersion m v))
     \<and> (\<forall>g. EnabledVersionsForGroup m' g = (case map_of gar g of
          None \<Rightarrow> EnabledVersionsForGroup m g
        | Some gmf \<Rightarrow> filter (IsAllowedVersion m) (map (Pair g) (preference (the (gfArgs gmf)) gmf))))"

lemma registers_all_Cons:
  assumes "adds_group m g gmf m2" "registers_all m2 gar m'" "map_of gar g = None"
  shows "registers_all m ((g, gmf) # gar) m'"
proof -
  have al: "IsAllowedVersion m2 = IsAllowedVersion m" using assms(1) unfolding adds_group_def by (blast intro: allowed_requested)
  have "IsEnabledVersion m' v \<longleftrightarrow> IsEnabledVersion m v
      \<or> (\<exists>k. map_of ((g, gmf) # gar) (fst v) = Some k \<and> gm_has (gfVersions k) (snd v) \<and> IsAllowedVersion m v)" for v
    using assms al by (cases v; cases "fst v = g") (simp_all add: adds_group_def registers_all_def)
  moreover have "EnabledVersionsForGroup m' h = (case map_of ((g, gmf) # gar) h of
       None \<Rightarrow> EnabledVersionsForGroup m h
     | Some gmf \<Rightarrow> filter (IsAllowedVersion m) (map (Pair h) (preference (the (gfArgs gmf)) gmf)))" for h
    using assms al by (cases "h = g") (auto simp: adds_group_def registers_all_def split: option.splits)
  ultimately show ?thesis using assms(1,2) by (simp add: registers_all_def adds_group_def)
qed

lemma RegisterAndEnableAll_adds:
  assumes "manager_ok m" "gm_ok gar" "list_all (\<lambda>(g, gmf). factory_ok g gmf \<and> \<not> gm_has (amGroups m) g) gar"
  shows "\<exists>err m' scheme'. RegisterAndEnableAll known gar m scheme = Ret (err, m', scheme')
    \<and> (case err of Some e \<Rightarrow> \<exists>g e'. e = ErrorRegistering g e' | None \<Rightarrow> registers_all m gar m')"
  using assms
proof (induction gar arbitrary: m scheme)
  case Nil
  then show ?case by (simp add: registers_all_def)
next
  case (Cons ggmf gar)
  obtain g gmf where gg: "ggmf = (g, gmf)" by fastforce
  obtain err gmf' m1 where r: "gmf_Register gmf m = (err, gmf', m1)" by (cases "gmf_Register gmf m") auto
  show ?case
  proof (cases err)
    case None
    from Cons.prems gg have f: "factory_ok g gmf" and new: "\<not> gm_has (amGroups m) g" and g: "map_of gar g = None"
        and ok: "gm_ok gar"
      by (auto simp: gm_ok_def map_of_eq_None_iff)
    from Enable_adds [OF Cons.prems(1) f _ new] r None obtain m2 sc where
        e: "gmf_Enable known gmf' m1 scheme = Ret (None, m2, sc)" and m2: "manager_ok m2" and add: "adds_group m g gmf m2"
      by blast
    have "list_all (\<lambda>(h, k). factory_ok h k \<and> \<not> gm_has (amGroups m2) h) gar"
      using Cons.prems(2,3) gg add unfolding list_all_iff adds_group_def gm_ok_def
      by (fastforce intro: rev_image_eqI)
    from Cons.IH [OF m2 ok this, of sc] obtain err' m' sc' where
        "RegisterAndEnableAll known gar m2 sc = Ret (err', m', sc')"
        "case err' of Some e \<Rightarrow> \<exists>g e'. e = ErrorRegistering g e' | None \<Rightarrow> registers_all m2 gar m'"
      by blast
    moreover from this r None e gg have "RegisterAndEnableAll known (ggmf # gar) m scheme = Ret (err', m', sc')" by simp
    ultimately show ?thesis using registers_all_Cons [OF add _ g] gg by (auto split: option.splits)
  qed (use r gg in auto)
qed

section \<open>What was announced is what is enabled\<close>

text \<open>The registries that announcements lead to, whether they succeed or not.\<close>

inductive announced :: "'s factory_registry \<Rightarrow> bool" where
  start: "announced []"
| version: "announced gar \<Longrightarrow> announced (snd (AnnounceGroupVersion gar gvf))"
| groupArgs: "announced gar \<Longrightarrow> announced (snd (AnnounceGroup gar args))"
| factory: "announced gar \<Longrightarrow> gm_ok versions \<Longrightarrow> gmf_Announce (NewGroupMetaFactory args versions) gar = Ret gar'
    \<Longrightarrow> announced gar'"

definition registry_ok :: "'s factory_registry \<Rightarrow> bool" where
  "registry_ok gar \<longleftrightarrow> gm_ok gar \<and> (\<forall>g gmf. map_of gar g = Some gmf \<longrightarrow> factory_ok g gmf)"

lemma registry_ok_update: "registry_ok gar \<Longrightarrow> factory_ok g gmf \<Longrightarrow> registry_ok (AList.update g gmf gar)"
  by (simp add: registry_ok_def update_conv')

lemma gar_group_ok: "registry_ok gar \<Longrightarrow> factory_ok g (gar_group gar g)"
  by (cases "map_of gar g") (simp_all add: registry_ok_def gar_group_def gm_get_def empty_factory_def factory_ok_def [of _ "\<lparr>gfArgs = None, gfVersions = [], gfPrioritized = []\<rparr>"])

lemma factory_ok_version:
  "factory_ok g gmf \<Longrightarrow> vaGroupName va = g \<Longrightarrow>
    factory_ok g (gmf\<lparr>gfVersions := AList.update (vaVersionName va) va (gfVersions gmf)\<rparr>)"
  by (auto simp: factory_ok_def list_all_iff dest!: set_mp [OF set_update_subset])

lemma NewGroupMetaFactory_ok: "gm_ok versions \<Longrightarrow> factory_ok (gaGroupName args) (NewGroupMetaFactory args versions)"
  by (auto simp: factory_ok_def NewGroupMetaFactory_def gm_ok_def list_all_iff comp_def split_beta)

lemma announced_ok: "announced gar \<Longrightarrow> registry_ok gar"
proof (induction rule: announced.induct)
  case start
  show ?case by (simp add: registry_ok_def)
next
  case (version gar gvf)
  then show ?case
    by (auto simp: AnnounceGroupVersion_def Let_def intro!: registry_ok_update factory_ok_version gar_group_ok)
next
  case (groupArgs gar args)
  have "factory_ok (gaGroupName args) ((gar_group gar (gaGroupName args))\<lparr>gfArgs := Some args\<rparr>)"
    using gar_group_ok [OF groupArgs.IH, of "gaGroupName args"] by (simp add: factory_ok_def)
  with groupArgs show ?case
    by (auto simp: AnnounceGroup_def Let_def intro!: registry_ok_update gar_group_ok)
next
  case (factory gar versions args gar')
  then have "gar' = AList.update (gaGroupName args) (NewGroupMetaFactory args versions) gar"
    by (auto simp: gmf_Announce_def AnnouncePreconstructedFactory_def NewGroupMetaFactory_def go_bind_eq_Ret split: if_splits)
  with factory NewGroupMetaFactory_ok [of versions args] show ?case by (simp add: registry_ok_update)
qed

lemma distinct_concat_groups:
  assumes "distinct (map fst gs)" "\<And>g x. (g, x) \<in> set gs \<Longrightarrow> distinct (f x) \<and> fst ` set (f x) \<subseteq> {g}"
  shows "distinct (concat (map (\<lambda>gx. f (snd gx)) gs))"
  using assms
proof (induction gs)
  case (Cons gx gs)
  obtain g x where gx: "gx = (g, x)" by fastforce
  have "set (f x) \<inter> set (f y) = {}" if y: "(h, y) \<in> set gs" for h y
  proof -
    have "h \<in> fst ` set gs" using y by force
    then have "g \<noteq> h" using Cons.prems(1) gx by auto
    moreover have "fst ` set (f x) \<subseteq> {g}" "fst ` set (f y) \<subseteq> {h}" using Cons.prems(2) y gx by auto
    ultimately show ?thesis by blast
  qed
  then have "set (f x) \<inter> set (concat (map (\<lambda>gx. f (snd gx)) gs)) = {}" by fastforce
  moreover have "distinct (f x)" "distinct (concat (map (\<lambda>gx. f (snd gx)) gs))"
    using Cons gx by auto
  ultimately show ?case using gx by simp
qed simp

lemma EnabledVersions_mset:
  assumes "manager_ok m"
  shows "mset (EnabledVersions m) = mset (gm_keys (amEnabled m))"
proof -
  have g: "map_of (amGroups m) g = Some gm \<longleftrightarrow> (g, gm) \<in> set (amGroups m)" for g gm
    using assms by (simp add: manager_ok_def gm_ok_map_of)
  have k: "group_ok m g gm" if "(g, gm) \<in> set (amGroups m)" for g gm
    using assms that by (simp add: manager_ok_def g)
  have "distinct (EnabledVersions m)"
    unfolding EnabledVersions_def
    by (rule distinct_concat_groups)
      (use assms k in \<open>auto simp: manager_ok_def gm_ok_def group_ok_def list_all_iff\<close>)
  moreover have "distinct (gm_keys (amEnabled m))" using assms by (simp add: manager_ok_def gm_ok_def gm_keys_def)
  moreover have "set (EnabledVersions m) = {v. IsEnabledVersion m v}"
  proof -
    have "v \<in> set (EnabledVersions m)" if v: "IsEnabledVersion m v" for v
    proof -
      from assms v obtain gm where "map_of (amGroups m) (fst v) = Some gm" "v \<in> set (gmGroupVersions gm)"
        unfolding manager_ok_def by blast
      with v show ?thesis by (auto simp: EnabledVersions_def g intro!: bexI)
    qed
    then show ?thesis by (auto simp: EnabledVersions_def)
  qed
  ultimately show ?thesis
    using set_eq_iff_mset_eq_distinct [of "EnabledVersions m" "gm_keys (amEnabled m)"]
    by (simp add: set_gm_keys IsEnabledVersion_def)
qed

lemma union_loop_Panic:
  assumes "\<forall>g \<in> set gs. gm_has (amGroups m) g"
  shows "union_loop m vs gs = Panic \<longleftrightarrow> (\<exists>v \<in> set vs. \<not> gm_has (amGroups m) (fst v))"
  using assms
proof (induction vs arbitrary: gs)
  case (Cons v vs)
  show ?case
  proof (cases "fst v \<in> set gs")
    case True
    with Cons show ?thesis by auto
  next
    case False
    with Cons show ?thesis
      by (cases "map_of (amGroups m) (fst v)") (auto simp: gm_has_def go_map_eq_Panic)
  qed
qed simp

lemma RESTMapper_Panic:
  "RESTMapper m pats = Panic \<longleftrightarrow> (\<exists>v. IsEnabledVersion m v \<and> \<not> IsRegistered m (fst v))"
proof -
  have "RESTMapper m pats = Panic \<longleftrightarrow> union_loop m (gm_keys (amEnabled m)) [] = Panic"
    by (simp add: RESTMapper_def go_map_eq_Panic)
  also have "\<dots> \<longleftrightarrow> (\<exists>v \<in> set (gm_keys (amEnabled m)). \<not> gm_has (amGroups m) (fst v))"
    by (rule union_loop_Panic) simp
  finally show ?thesis
    by (auto simp: set_gm_keys IsEnabledVersion_def IsRegistered_def)
qed

text \<open>
  Versions that were not registered are complained of and enabled all the same, against the comment on the
  field that wants enabled versions to be registered; one of an unknown group makes every later question for
  the mapper panic.
\<close>

theorem enable_unregistered:
  "\<exists>err m'. EnableVersions m vs = (err, m')
    \<and> (err = None \<longleftrightarrow> (\<forall>v \<in> set vs. IsRegisteredVersion m v))
    \<and> (\<forall>v. IsEnabledVersion m' v \<longleftrightarrow> v \<in> set vs \<or> IsEnabledVersion m v)
    \<and> ((\<exists>v \<in> set vs. \<not> IsRegistered m (fst v)) \<longrightarrow> RESTMapper m' pats = Panic)"
proof -
  have "EnableVersions m vs = (fst (EnableVersions m vs), enabled_more m vs)"
    by (simp add: EnableVersions_def Let_def enabled_more_def)
  moreover have "fst (EnableVersions m vs) = None \<longleftrightarrow> (\<forall>v \<in> set vs. IsRegisteredVersion m v)"
    by (auto simp: EnableVersions_def Let_def filter_empty_conv)
  moreover have "RESTMapper (enabled_more m vs) pats = Panic" if "v \<in> set vs" "\<not> IsRegistered m (fst v)" for v
    using that enabled_more_simps(1) [of m vs v] unfolding RESTMapper_Panic IsRegistered_def enabled_more_simps by blast
  ultimately show ?thesis by (intro exI conjI) auto
qed

lemma enable_unregistered_witness:
  "\<exists>err m'. EnableVersions \<lparr>amRegistered = [], amEnabled = [], amGroups = [], amRequested = []\<rparr> [(''g'', ''v1'')] = (err, m')
     \<and> err \<noteq> None \<and> IsEnabledVersion m' (''g'', ''v1'') \<and> RESTMapper m' [] = Panic"
  using enable_unregistered [of "\<lparr>amRegistered = [], amEnabled = [], amGroups = [], amRequested = []\<rparr>" "[(''g'', ''v1'')]" "[]"]
  by (auto simp: IsRegisteredVersion_def IsRegistered_def)

text \<open>
  C38: However groups and versions were announced, registering them all never panics, and fails only when the
  announcements of some group contradict each other.  Then exactly the announced versions that the environment
  allows are enabled, all of them registered, in the order of preference of their group; the list of enabled
  versions has each of them once, and the mapper can be asked for.
\<close>

theorem registration_complete:
  assumes "announced gar" "NewAPIRegistrationManager kubeAPIVersions = Inr m0"
  shows "\<exists>err m scheme'. RegisterAndEnableAll known gar m0 scheme = Ret (err, m, scheme')
    \<and> (case err of Some e \<Rightarrow> \<exists>g e'. e = ErrorRegistering g e'
       | None \<Rightarrow> (\<forall>v. IsEnabledVersion m v \<longleftrightarrow> (\<exists>gmf. map_of gar (fst v) = Some gmf
              \<and> gm_has (gfVersions gmf) (snd v) \<and> IsAllowedVersion m0 v))
          \<and> (\<forall>v. IsEnabledVersion m v \<longrightarrow> IsRegisteredVersion m v)
          \<and> (\<forall>g gmf. map_of gar g = Some gmf \<longrightarrow> EnabledVersionsForGroup m g =
               filter (IsAllowedVersion m0) (map (Pair g) (preference (the (gfArgs gmf)) gmf)))
          \<and> mset (EnabledVersions m) = mset (gm_keys (amEnabled m))
          \<and> (\<forall>pats. RESTMapper m pats \<noteq> Panic))"
proof -
  from assms(2) have m0: "amEnabled m0 = []" "amGroups m0 = []"
    by (auto simp: NewAPIRegistrationManager_def map_sum_def split: if_splits sum.splits)
  then have ok0: "manager_ok m0" and none: "\<not> IsEnabledVersion m0 v" for v
    by (simp_all add: manager_ok_def IsEnabledVersion_def)
  from announced_ok [OF assms(1)] have gar: "gm_ok gar"
      "list_all (\<lambda>(g, gmf). factory_ok g gmf \<and> \<not> gm_has (amGroups m0) g) gar"
    by (auto simp: registry_ok_def list_all_iff m0 gm_ok_map_of)
  from RegisterAndEnableAll_adds [OF ok0 gar] obtain err m scheme' where
      r: "RegisterAndEnableAll known gar m0 scheme = Ret (err, m, scheme')"
      and c: "case err of Some e \<Rightarrow> \<exists>g e'. e = ErrorRegistering g e' | None \<Rightarrow> registers_all m0 gar m"
    by blast
  show ?thesis
  proof (cases err)
    case None
    with c have all: "registers_all m0 gar m" and ok: "manager_ok m" by (simp_all add: registers_all_def)
    have "RESTMapper m pats \<noteq> Panic" for pats
      using ok unfolding RESTMapper_Panic manager_ok_def IsRegistered_def gm_has_def by blast
    with all ok EnabledVersions_mset [OF ok] none r None show ?thesis
      unfolding registers_all_def manager_ok_def by (intro exI conjI) auto
  qed (use r c in auto)
qed

definition demo_version :: "string \<Rightarrow> string list version_args" where
  "demo_version v = \<lparr>vaGroupName = ''g'', vaVersionName = v, vaAddToScheme = \<lambda>s. (None, v # s)\<rparr>"

definition demo_registry :: "string list factory_registry" where
  "demo_registry = snd (AnnounceGroupVersion (snd (AnnounceGroup (snd (AnnounceGroupVersion [] (demo_version ''v1'')))
     \<lparr>gaGroupName = ''g'', gaPreference = [''v2''], gaRootScoped = [], gaIgnored = [], gaInternal = None\<rparr>)) (demo_version ''v2''))"

lemma registration_complete_witness:
  "\<exists>m scheme'. RegisterAndEnableAll (\<lambda>_ _. [''Kind'']) demo_registry
        \<lparr>amRegistered = [], amEnabled = [], amGroups = [], amRequested = []\<rparr> [] = Ret (None, m, scheme')
     \<and> EnabledVersionsForGroup m ''g'' = [(''g'', ''v2''), (''g'', ''v1'')] \<and> RESTMapper m [] \<noteq> Panic"
proof -
  let ?m0 = "\<lparr>amRegistered = [], amEnabled = [], amGroups = [], amRequested = []\<rparr> :: api_manager"
  have a: "announced demo_registry" unfolding demo_registry_def by (intro announced.intros)
  have n: "NewAPIRegistrationManager [] = Inr ?m0" by (simp add: NewAPIRegistrationManager_def)
  have e: "(case RegisterAndEnableAll (\<lambda>_ _. [''Kind'']) demo_registry ?m0 [] of
      Ret r \<Rightarrow> Option.is_none (fst r) | Panic \<Rightarrow> False)"
    unfolding demo_registry_def demo_version_def by code_simp
  have g: "\<exists>gmf. map_of demo_registry ''g'' = Some gmf \<and> preference (the (gfArgs gmf)) gmf = [''v2'', ''v1'']"
    unfolding demo_registry_def demo_version_def
    by (simp add: AnnounceGroupVersion_def AnnounceGroup_def gar_group_def gm_get_def Let_def empty_factory_def
        preference_def gm_keys_def)
  have al: "IsAllowedVersion ?m0 v" for v by (simp add: IsAllowedVersion_def)
  from registration_complete [OF a n, of "\<lambda>_ _. [''Kind'']" "[]"] e g al show ?thesis
    by (auto simp: Option.is_none_def split: option.splits)
qed

text \<open>The group of the certificates can be installed once; a second time it panics.\<close>

theorem install_once:
  assumes "NewAPIRegistrationManager [] = Inr m0"
  shows "\<exists>gar m scheme'. Install addToScheme known [] m0 scheme = Ret (gar, m, scheme')
    \<and> EnabledVersions m = [SchemeGroupVersion] \<and> Install addToScheme known gar m scheme' = Panic"
proof -
  from assms have m0: "m0 = \<lparr>amRegistered = [], amEnabled = [], amGroups = [], amRequested = []\<rparr>"
    by (simp add: NewAPIRegistrationManager_def)
  show ?thesis
    by (simp add: Install_def Let_def gmf_Announce_def AnnouncePreconstructedFactory_def NewGroupMetaFactory_def
        RegisterAndEnable_def gmf_Register_def RegisterVersions_def gmf_Enable_def IsAllowedVersion_def EnableVersions_def
        IsRegisteredVersion_def AddVersionInterfaces_def RegisterGroup_def m0 SchemeGroupVersion_def EnabledVersions_def
        IsEnabledVersion_def gm_has_def)
qed

end
