(* ===== verification/Operator.thy ===== *)
theory Operator
  imports Controllers ApiGroups
begin

text \<open>
  How the controllers are set up for a namespace (\<^verbatim>\<open>pkg/operator\<close>, \<^verbatim>\<open>pkg/controller/controller.go\<close> and the
  functions \<^verbatim>\<open>Add\<close>), and the way of an event from the watched object to the requests of the controllers
  (the handlers of \<^verbatim>\<open>controller-runtime\<close>).
\<close>

section \<open>Handlers of events\<close>

text \<open>A Go type of objects is named by the group, version and kind under which Kubernetes declares it.\<close>

type_synonym go_type = "string \<times> string \<times> string"

record owner_ref =
  orAPIVersion :: string
  orKind :: string
  orName :: string
  orController :: "bool option"

record event_meta =
  emName :: string
  emNamespace :: string
  emOwners :: "owner_ref list"

datatype obj_event = CreateEvent event_meta | UpdateEvent event_meta event_meta | DeleteEvent event_meta
  | GenericEvent event_meta

text \<open>The handler of owners keeps the group and kind of its type; the type is parsed when it is injected.\<close>

datatype event_handler =
    EnqueueRequestForObject
  | EnqueueRequestForOwner go_type bool "string \<times> string"

text \<open>
  What comes from the client: a manager for a namespace, the functions that extend its scheme, the setting of a
  controller, the source of the objects of a type, the kinds of a type in the scheme, and for a group and kind in
  a version whether it is at the root.
\<close>

record manager_lib =
  mlNewMgr :: "string \<Rightarrow> gerror option"
  mlSchemaFuncs :: "gerror option list"
  mlAdd :: "string \<Rightarrow> gerror option"
  mlSource :: "go_type \<Rightarrow> gerror option"
  mlObjectKinds :: "go_type \<Rightarrow> go_type list res"
  mlRESTMapping :: "string \<times> string \<Rightarrow> string \<Rightarrow> bool res"

definition GetControllerOf :: "event_meta \<Rightarrow> owner_ref option" where
  "GetControllerOf o1 = find (\<lambda>r. orController r = Some True) (emOwners o1)"

definition getOwnersReferences :: "bool \<Rightarrow> event_meta \<Rightarrow> owner_ref list" where
  "getOwnersReferences isController o1 = (if \<not> isController then emOwners o1
     else (case GetControllerOf o1 of Some r \<Rightarrow> [r] | None \<Rightarrow> []))"

definition parseOwnerTypeGroupKind :: "manager_lib \<Rightarrow> go_type \<Rightarrow> (string \<times> string) res" where
  "parseOwnerTypeGroupKind lib ty = res_bind (mlObjectKinds lib ty) (\<lambda>kinds. case kinds of
     [(g, v, k)] \<Rightarrow> Inr (g, k)
   | _ \<Rightarrow> Inl ''Expected exactly 1 kind for OwnerType'')"

text \<open>A reference that cannot be read or mapped leaves no request at all.\<close>

fun owner_loop :: "manager_lib \<Rightarrow> string \<times> string \<Rightarrow> event_meta \<Rightarrow> owner_ref list \<Rightarrow> request list \<Rightarrow> request list" where
  "owner_loop lib gk o1 [] result = result"
| "owner_loop lib gk o1 (ref # refs) result = (case ParseGroupVersion (orAPIVersion ref) of
     None \<Rightarrow> []
   | Some (g, v) \<Rightarrow>
      if orKind ref = snd gk \<and> g = fst gk
      then (case mlRESTMapping lib gk v of
          Inl e \<Rightarrow> []
        | Inr root \<Rightarrow> owner_loop lib gk o1 refs
            (result @ [\<lparr>rqName = orName ref, rqNamespace = (if root then [] else emNamespace o1)\<rparr>]))
      else owner_loop lib gk o1 refs result)"

definition getOwnerReconcileRequest :: "manager_lib \<Rightarrow> string \<times> string \<Rightarrow> bool \<Rightarrow> event_meta \<Rightarrow> request list" where
  "getOwnerReconcileRequest lib gk isController o1 = owner_loop lib gk o1 (getOwnersReferences isController o1) []"

definition object_request :: "event_meta \<Rightarrow> request" where
  "object_request o1 = \<lparr>rqName = emName o1, rqNamespace = emNamespace o1\<rparr>"

text \<open>An update counts for the object before and after.\<close>

fun event_metas :: "obj_event \<Rightarrow> event_meta list" where
  "event_metas (CreateEvent o1) = [o1]"
| "event_metas (UpdateEvent old new) = [old, new]"
| "event_metas (DeleteEvent o1) = [o1]"
| "event_metas (GenericEvent o1) = [o1]"

fun handle_event :: "manager_lib \<Rightarrow> event_handler \<Rightarrow> obj_event \<Rightarrow> request list" where
  "handle_event lib EnqueueRequestForObject evt = map object_request (event_metas evt)"
| "handle_event lib (EnqueueRequestForOwner ty isController gk) evt =
     concat (map (getOwnerReconcileRequest lib gk isController) (event_metas evt))"

section \<open>Adding a controller\<close>

type_synonym watches = "(go_type \<times> event_handler) list"

text \<open>The controllers of a manager, each with its name and watches.\<close>

type_synonym controllers = "(string \<times> watches) list"

fun InjectScheme :: "manager_lib \<Rightarrow> event_handler \<Rightarrow> event_handler res" where
  "InjectScheme lib EnqueueRequestForObject = Inr EnqueueRequestForObject"
| "InjectScheme lib (EnqueueRequestForOwner ty isController gk) =
     map_sum id (EnqueueRequestForOwner ty isController) (parseOwnerTypeGroupKind lib ty)"

definition ctl_Watch :: "manager_lib \<Rightarrow> go_type \<Rightarrow> event_handler \<Rightarrow> watches \<Rightarrow> gerror option \<times> watches" where
  "ctl_Watch lib src h ws = (case mlSource lib src of
     Some e \<Rightarrow> (Some e, ws)
   | None \<Rightarrow> (case InjectScheme lib h of
       Inl e \<Rightarrow> (Some e, ws)
     | Inr h' \<Rightarrow> (None, ws @ [(src, h')])))"

fun watch_all :: "manager_lib \<Rightarrow> watches \<Rightarrow> watches \<Rightarrow> gerror option \<times> watches" where
  "watch_all lib [] ws = (None, ws)"
| "watch_all lib ((src, h) # rest) ws = (case ctl_Watch lib src h ws of
     (Some e, ws') \<Rightarrow> (Some e, ws')
   | (None, ws') \<Rightarrow> watch_all lib rest ws')"

text \<open>A controller whose watches fail has been added already.\<close>

definition add_controller :: "manager_lib \<Rightarrow> string \<Rightarrow> watches \<Rightarrow> controllers \<Rightarrow> gerror option \<times> controllers" where
  "add_controller lib name ws mgr = (case mlAdd lib name of
     Some e \<Rightarrow> (Some e, mgr)
   | None \<Rightarrow> (let r = watch_all lib ws [] in (fst r, mgr @ [(name, snd r)])))"

definition for_object :: "string \<Rightarrow> string \<Rightarrow> string \<Rightarrow> go_type \<times> event_handler" where
  "for_object g v k = ((g, v, k), EnqueueRequestForObject)"

text \<open>The pods whose controller is of the type.\<close>

definition pod_type :: go_type where "pod_type = ([], ''v1'', ''Pod'')"

definition for_pods_of :: "string \<Rightarrow> string \<Rightarrow> string \<Rightarrow> go_type \<times> event_handler" where
  "for_pods_of g v k = (pod_type, EnqueueRequestForOwner (g, v, k) True ([], []))"

type_synonym add_func = "controllers \<Rightarrow> gerror option \<times> controllers"

definition unless_restricted :: "globals \<Rightarrow> add_func \<Rightarrow> add_func" where
  "unless_restricted gl add mgr = (if glRestrictedModel gl then (None, mgr) else add mgr)"

definition add_c7nhelmrelease :: "manager_lib \<Rightarrow> add_func" where
  "add_c7nhelmrelease lib = add_controller lib ''c7nhelmrelease-controller''
     [for_object ''choerodon.io'' ''v1alpha1'' ''C7NHelmRelease'']"

definition add_configmap :: "manager_lib \<Rightarrow> add_func" where
  "add_configmap lib = add_controller lib ''configmap-controller'' [for_object [] ''v1'' ''ConfigMap'']"

definition add_cronjob :: "manager_lib \<Rightarrow> add_func" where
  "add_cronjob lib = add_controller lib ''cronjob-controller'' [for_object ''batch'' ''v1beta1'' ''CronJob'']"

definition add_daemonset :: "manager_lib \<Rightarrow> add_func" where
  "add_daemonset lib = add_controller lib ''daemonset-controller''
     [for_object ''apps'' ''v1'' ''DaemonSet'', for_pods_of ''apps'' ''v1'' ''DaemonSet'']"

definition add_deployment :: "manager_lib \<Rightarrow> add_func" where
  "add_deployment lib = add_controller lib ''deployment-controller''
     [for_object ''apps'' ''v1'' ''Deployment'', for_pods_of ''apps'' ''v1'' ''Deployment'']"

definition add_endpoints :: "manager_lib \<Rightarrow> add_func" where
  "add_endpoints lib = add_controller lib ''endpoints-controller'' [for_object [] ''v1'' ''Endpoints'']"

definition add_event :: "manager_lib \<Rightarrow> add_func" where
  "add_event lib = add_controller lib ''event-controller''
     [for_object [] ''v1'' ''Event'', for_pods_of [] ''v1'' ''Event'']"

definition add_ingress :: "manager_lib \<Rightarrow> add_func" where
  "add_ingress lib = add_controller lib ''ingress-controller'' [for_object ''extensions'' ''v1beta1'' ''Ingress'']"

definition add_job :: "manager_lib \<Rightarrow> add_func" where
  "add_job lib = add_controller lib ''job-controller''
     [for_object ''batch'' ''v1'' ''Job'', for_pods_of ''batch'' ''v1'' ''Job'']"

definition add_namespace :: "manager_lib \<Rightarrow> globals \<Rightarrow> add_func" where
  "add_namespace lib gl = unless_restricted gl
     (add_controller lib ''namespace-controller'' [for_object [] ''v1'' ''Namespace''])"

definition add_persistentvolume :: "manager_lib \<Rightarrow> globals \<Rightarrow> add_func" where
  "add_persistentvolume lib gl = unless_restricted gl
     (add_controller lib ''persistentVolume-controller'' [for_object [] ''v1'' ''PersistentVolume''])"

definition add_persistentvolumeclaim :: "manager_lib \<Rightarrow> globals \<Rightarrow> add_func" where
  "add_persistentvolumeclaim lib gl = unless_restricted gl
     (add_controller lib ''persistentVolumeClaim-controller'' [for_object [] ''v1'' ''PersistentVolumeClaim''])"

definition add_pod :: "manager_lib \<Rightarrow> add_func" where
  "add_pod lib = add_controller lib ''pod-controller'' [for_object [] ''v1'' ''Pod'', for_pods_of [] ''v1'' ''Pod'']"

definition add_replicaset :: "manager_lib \<Rightarrow> add_func" where
  "add_replicaset lib = add_controller lib ''replicaset-controller''
     [for_object ''apps'' ''v1'' ''ReplicaSet'', for_pods_of ''apps'' ''v1'' ''ReplicaSet'']"

definition add_secret :: "manager_lib \<Rightarrow> add_func" where
  "add_secret lib = add_controller lib ''secret-controller'' [for_object [] ''v1'' ''Secret'']"

definition add_service :: "manager_lib \<Rightarrow> add_func" where
  "add_service lib = add_controller lib ''service-controller''
     [for_object [] ''v1'' ''Service'', for_pods_of [] ''v1'' ''Service'']"

definition AddServicePod :: "manager_lib \<Rightarrow> add_func" where
  "AddServicePod lib = add_controller lib ''service-pod-controller'' [for_object [] ''v1'' ''Pod'']"

text \<open>The owner is named by a type of an older version.\<close>

definition add_statefulset :: "manager_lib \<Rightarrow> add_func" where
  "add_statefulset lib = add_controller lib ''statefulset-controller''
     [for_object ''apps'' ''v1'' ''StatefulSet'', for_pods_of ''apps'' ''v1beta1'' ''StatefulSet'']"

text \<open>The files of a package are initialised in the order of their names.\<close>

definition AddToManagerFuncs :: "manager_lib \<Rightarrow> globals \<Rightarrow> add_func list" where
  "AddToManagerFuncs lib gl = [add_c7nhelmrelease lib, add_configmap lib, add_cronjob lib, add_daemonset lib,
     add_deployment lib, add_endpoints lib, add_event lib, add_ingress lib, add_job lib, add_namespace lib gl,
     add_persistentvolume lib gl, add_persistentvolumeclaim lib gl, add_pod lib, add_replicaset lib, add_secret lib,
     add_service lib, AddServicePod lib, add_statefulset lib]"

fun AddToManager :: "add_func list \<Rightarrow> add_func" where
  "AddToManager [] mgr = (None, mgr)"
| "AddToManager (f # fs) mgr = (case f mgr of (Some e, mgr') \<Rightarrow> (Some e, mgr') | (None, mgr') \<Rightarrow> AddToManager fs mgr')"

text \<open>The first function of the scheme that fails.\<close>

fun schema_loop :: "gerror option list \<Rightarrow> gerror option" where
  "schema_loop [] = None"
| "schema_loop (r # rs) = (case r of Some e \<Rightarrow> Some e | None \<Rightarrow> schema_loop rs)"

definition operator_New :: "manager_lib \<Rightarrow> globals \<Rightarrow> string \<Rightarrow> controllers res" where
  "operator_New lib gl namespace = (case mlNewMgr lib namespace of
     Some e \<Rightarrow> Inl e
   | None \<Rightarrow> (case schema_loop (mlSchemaFuncs lib) of
       Some e \<Rightarrow> Inl e
     | None \<Rightarrow> (case AddToManager (AddToManagerFuncs lib gl) [] of
         (Some e, mgr) \<Rightarrow> Inl e
       | (None, mgr) \<Rightarrow> Inr mgr)))"

text \<open>The requests that an event on an object of a type puts into the queues of the controllers.\<close>

definition watch_requests :: "manager_lib \<Rightarrow> go_type \<Rightarrow> obj_event \<Rightarrow> watches \<Rightarrow> request list" where
  "watch_requests lib src evt ws = concat (map (\<lambda>(s, h). if s = src then handle_event lib h evt else []) ws)"

definition route :: "manager_lib \<Rightarrow> controllers \<Rightarrow> go_type \<Rightarrow> obj_event \<Rightarrow> (string \<times> request) list" where
  "route lib mgr src evt = concat (map (\<lambda>(name, ws). map (Pair name) (watch_requests lib src evt ws)) mgr)"

section \<open>The controllers of a namespace\<close>

definition controllers_in :: "bool \<Rightarrow> controllers" where
  "controllers_in restricted =
     [(''c7nhelmrelease-controller'', [for_object ''choerodon.io'' ''v1alpha1'' ''C7NHelmRelease'']),
      (''configmap-controller'', [for_object [] ''v1'' ''ConfigMap'']),
      (''cronjob-controller'', [for_object ''batch'' ''v1beta1'' ''CronJob'']),
      (''daemonset-controller'', [for_object ''apps'' ''v1'' ''DaemonSet'', for_pods_of ''apps'' ''v1'' ''DaemonSet'']),
      (''deployment-controller'', [for_object ''apps'' ''v1'' ''Deployment'', for_pods_of ''apps'' ''v1'' ''Deployment'']),
      (''endpoints-controller'', [for_object [] ''v1'' ''Endpoints'']),
      (''event-controller'', [for_object [] ''v1'' ''Event'', for_pods_of [] ''v1'' ''Event'']),
      (''ingress-controller'', [for_object ''extensions'' ''v1beta1'' ''Ingress'']),
      (''job-controller'', [for_object ''batch'' ''v1'' ''Job'', for_pods_of ''batch'' ''v1'' ''Job''])]
     @ (if restricted then [] else
     [(''namespace-controller'', [for_object [] ''v1'' ''Namespace'']),
      (''persistentVolume-controller'', [for_object [] ''v1'' ''PersistentVolume'']),
      (''persistentVolumeClaim-controller'', [for_object [] ''v1'' ''PersistentVolumeClaim''])])
     @ [(''pod-controller'', [for_object [] ''v1'' ''Pod'', for_pods_of [] ''v1'' ''Pod'']),
      (''replicaset-controller'', [for_object ''apps'' ''v1'' ''ReplicaSet'', for_pods_of ''apps'' ''v1'' ''ReplicaSet'']),
      (''secret-controller'', [for_object [] ''v1'' ''Secret'']),
      (''service-controller'', [for_object [] ''v1'' ''Service'', for_pods_of [] ''v1'' ''Service'']),
      (''service-pod-controller'', [for_object [] ''v1'' ''Pod'']),
      (''statefulset-controller'', [for_object ''apps'' ''v1'' ''StatefulSet'', for_pods_of ''apps'' ''v1beta1'' ''StatefulSet''])]"

definition controller_table :: "globals \<Rightarrow> controllers" where
  "controller_table gl = controllers_in (glRestrictedModel gl)"

lemmas add_func_defs = add_c7nhelmrelease_def add_configmap_def add_cronjob_def add_daemonset_def
  add_deployment_def add_endpoints_def add_event_def add_ingress_def add_job_def add_namespace_def
  add_persistentvolume_def add_persistentvolumeclaim_def add_pod_def add_replicaset_def add_secret_def
  add_service_def AddServicePod_def add_statefulset_def

lemma AddToManager_skip: "AddToManager ((\<lambda>mgr. (None, mgr)) # fs) = AddToManager fs"
  by (rule ext) simp

lemma unless_restricted_eq:
  "unless_restricted gl add = (if glRestrictedModel gl then (\<lambda>mgr. (None, mgr)) else add)"
  by (rule ext) (simp add: unless_restricted_def)

text \<open>The functions add the controllers of the table; in restricted mode three of them do nothing.\<close>

lemma AddToManager_table:
  "AddToManager (AddToManagerFuncs lib gl) mgr =
     AddToManager (map (\<lambda>(n, ws). add_controller lib n ws) (controller_table gl)) mgr"
proof (cases "glRestrictedModel gl")
  case True
  then show ?thesis
    by (simp only: AddToManagerFuncs_def add_func_defs unless_restricted_eq controller_table_def controllers_in_def if_True
        list.map append.simps prod.case AddToManager.simps(2) AddToManager_skip fst_conv snd_conv option.case)
next
  case False
  then show ?thesis
    by (simp only: AddToManagerFuncs_def add_func_defs unless_restricted_eq controller_table_def controllers_in_def if_False
        list.map append.simps prod.case)
qed

text \<open>What the library has to accept of a controller, and its watches once they are set up.\<close>

definition watch_ok :: "manager_lib \<Rightarrow> go_type \<times> event_handler \<Rightarrow> bool" where
  "watch_ok lib w = (mlSource lib (fst w) = None \<and> (case InjectScheme lib (snd w) of Inl _ \<Rightarrow> False | Inr _ \<Rightarrow> True))"

definition injected :: "manager_lib \<Rightarrow> event_handler \<Rightarrow> event_handler" where
  "injected lib h = (case InjectScheme lib h of Inl _ \<Rightarrow> h | Inr h' \<Rightarrow> h')"

definition set_up :: "manager_lib \<Rightarrow> controllers \<Rightarrow> controllers" where
  "set_up lib = map (apsnd (map (apsnd (injected lib))))"

lemma watch_all_ok:
  "watch_all lib rest ws = (None, ws') \<longleftrightarrow>
     list_all (watch_ok lib) rest \<and> ws' = ws @ map (apsnd (injected lib)) rest"
  by (induction rest arbitrary: ws)
    (auto simp: ctl_Watch_def watch_ok_def injected_def split: option.splits sum.splits prod.splits)

lemma add_controller_ok:
  "add_controller lib name ws mgr = (None, mgr') \<longleftrightarrow>
     mlAdd lib name = None \<and> list_all (watch_ok lib) ws \<and> mgr' = mgr @ [(name, map (apsnd (injected lib)) ws)]"
  using watch_all_ok [of lib ws "[]" "snd (watch_all lib ws [])"]
    watch_all_ok [of lib ws "[]" "map (apsnd (injected lib)) ws"]
  by (cases "watch_all lib ws []") (auto simp: add_controller_def split: option.split)

lemma AddToManager_ok:
  "AddToManager (map (\<lambda>(n, ws). add_controller lib n ws) tab) mgr = (None, mgr') \<longleftrightarrow>
     list_all (\<lambda>(n, ws). mlAdd lib n = None \<and> list_all (watch_ok lib) ws) tab \<and> mgr' = mgr @ set_up lib tab"
proof (induction tab arbitrary: mgr)
  case (Cons c tab)
  obtain n ws where c: "c = (n, ws)" by fastforce
  show ?case
  proof (cases "add_controller lib n ws mgr")
    case (Pair err mgr1)
    with add_controller_ok [of lib n ws mgr mgr1]
      add_controller_ok [of lib n ws mgr "mgr @ [(n, map (apsnd (injected lib)) ws)]"]
    show ?thesis by (cases err) (auto simp: c Cons.IH set_up_def)
  qed
qed (simp add: set_up_def eq_commute)

lemma schema_loop_None: "schema_loop rs = None \<longleftrightarrow> (\<forall>r\<in>set rs. r = None)"
  by (induction rs) (auto split: option.splits)

lemma operator_New_ok:
  "operator_New lib gl namespace = Inr mgr \<longleftrightarrow>
     mlNewMgr lib namespace = None \<and> (\<forall>r\<in>set (mlSchemaFuncs lib). r = None)
     \<and> list_all (\<lambda>(n, ws). mlAdd lib n = None \<and> list_all (watch_ok lib) ws) (controller_table gl)
     \<and> mgr = set_up lib (controller_table gl)"
proof -
  have "AddToManager (AddToManagerFuncs lib gl) [] = (None, mgr) \<longleftrightarrow>
      list_all (\<lambda>(n, ws). mlAdd lib n = None \<and> list_all (watch_ok lib) ws) (controller_table gl)
      \<and> mgr = set_up lib (controller_table gl)"
    by (simp add: AddToManager_table AddToManager_ok)
  then show ?thesis
    unfolding operator_New_def schema_loop_None [symmetric] by (auto split: option.splits prod.splits)
qed

section \<open>The way of an event\<close>

text \<open>The controllers that watch a type, and those that watch the pods of the owners of a group and kind.\<close>

definition watchers :: "globals \<Rightarrow> go_type \<Rightarrow> string list" where
  "watchers gl src = map fst (filter (\<lambda>(n, ws). (src, EnqueueRequestForObject) \<in> set ws) (controller_table gl))"

definition pod_owners :: "(string \<times> string \<times> string) list" where
  "pod_owners =
     [(''daemonset-controller'', ''apps'', ''DaemonSet''), (''deployment-controller'', ''apps'', ''Deployment''),
      (''event-controller'', [], ''Event''), (''job-controller'', ''batch'', ''Job''), (''pod-controller'', [], ''Pod''),
      (''replicaset-controller'', ''apps'', ''ReplicaSet''), (''service-controller'', [], ''Service''),
      (''statefulset-controller'', ''apps'', ''StatefulSet'')]"

lemma controllers_in_owners:
  "list_all (\<lambda>(n, ws). list_all (\<lambda>(src, h). case h of
       EnqueueRequestForObject \<Rightarrow> True
     | EnqueueRequestForOwner (g, v, k) ic gk \<Rightarrow> src = pod_type \<and> ic \<and> (n, g, k) \<in> set pod_owners) ws)
     (controllers_in restricted)"
  by (rule bool_induct [where x = restricted]; code_simp)

lemma pod_owners_in:
  "list_all (\<lambda>(n, g, k). list_ex (\<lambda>(m, ws). m = n \<and> list_ex (\<lambda>(src, h). src = pod_type \<and> (case h of
       EnqueueRequestForObject \<Rightarrow> False
     | EnqueueRequestForOwner (g', v, k') ic gk \<Rightarrow> g' = g \<and> k' = k \<and> ic)) ws) (controllers_in restricted)) pod_owners"
  by (rule bool_induct [where x = restricted]; code_simp)

lemma owner_watches:
  assumes "(n, ws) \<in> set (controller_table gl)" "(src, EnqueueRequestForOwner (g, v, k) ic gk) \<in> set ws"
  shows "src = pod_type \<and> ic \<and> (n, g, k) \<in> set pod_owners"
  using controllers_in_owners [of "glRestrictedModel gl"] assms
  unfolding controller_table_def list_all_iff by fastforce

lemma pod_owner_watches:
  assumes "(n, g, k) \<in> set pod_owners"
  shows "\<exists>ws v gk. (n, ws) \<in> set (controller_table gl) \<and> (pod_type, EnqueueRequestForOwner (g, v, k) True gk) \<in> set ws"
proof -
  from bspec [OF pod_owners_in [of "glRestrictedModel gl", unfolded list_all_iff] assms]
  obtain ws h where w: "(n, ws) \<in> set (controller_table gl)" "(pod_type, h) \<in> set ws"
      "case h of EnqueueRequestForObject \<Rightarrow> False
       | EnqueueRequestForOwner (g', v, k') ic gk \<Rightarrow> g' = g \<and> k' = k \<and> ic"
    unfolding controller_table_def list_ex_iff by blast
  from w(3) obtain v gk where "h = EnqueueRequestForOwner (g, v, k) True gk"
    by (cases h) auto
  with w(1,2) show ?thesis by blast
qed

lemma owner_watch_iff:
  "(\<exists>ws g v k ic gk. (n, ws) \<in> set (controller_table gl)
       \<and> (src, EnqueueRequestForOwner (g, v, k) ic gk) \<in> set ws \<and> Q ic g k) \<longleftrightarrow>
     src = pod_type \<and> (\<exists>g k. (n, g, k) \<in> set pod_owners \<and> Q True g k)" (is "?l \<longleftrightarrow> ?r")
proof
  assume ?l
  then obtain ws g v k ic gk where w: "(n, ws) \<in> set (controller_table gl)"
      "(src, EnqueueRequestForOwner (g, v, k) ic gk) \<in> set ws" "Q ic g k" by blast
  from owner_watches [OF w(1,2)] w(3) show ?r by auto
next
  assume ?r
  then obtain g k where k: "src = pod_type" "(n, g, k) \<in> set pod_owners" "Q True g k" by blast
  from pod_owner_watches [OF k(2)] k(1,3) show ?l by blast
qed

lemma mem_watch_requests:
  "rq \<in> set (watch_requests lib src evt (map (apsnd f) ws)) \<longleftrightarrow>
     (\<exists>h. (src, h) \<in> set ws \<and> rq \<in> set (handle_event lib (f h) evt))"
  by (induction ws) (auto simp: watch_requests_def)

lemma mem_route:
  "(n, rq) \<in> set (route lib (set_up lib tab) src evt) \<longleftrightarrow>
     (\<exists>ws h. (n, ws) \<in> set tab \<and> (src, h) \<in> set ws \<and> rq \<in> set (handle_event lib (injected lib h) evt))"
proof -
  have "(n, rq) \<in> set (route lib (set_up lib tab) src evt) \<longleftrightarrow>
      (\<exists>ws. (n, ws) \<in> set tab \<and> rq \<in> set (watch_requests lib src evt (map (apsnd (injected lib)) ws)))"
    by (induction tab) (auto simp: route_def set_up_def)
  then show ?thesis unfolding mem_watch_requests by blast
qed

lemma controller_requests:
  "rq \<in> set (getOwnerReconcileRequest lib gk True o1) \<longleftrightarrow>
     (\<exists>r v root. GetControllerOf o1 = Some r \<and> ParseGroupVersion (orAPIVersion r) = Some (fst gk, v)
       \<and> orKind r = snd gk \<and> mlRESTMapping lib gk v = Inr root
       \<and> rq = \<lparr>rqName = orName r, rqNamespace = (if root then [] else emNamespace o1)\<rparr>)"
proof (cases "GetControllerOf o1")
  case (Some r)
  show ?thesis
  proof (cases "ParseGroupVersion (orAPIVersion r)")
    case (Some gv)
    then show ?thesis using \<open>GetControllerOf o1 = Some r\<close>
      by (cases gv; cases "mlRESTMapping lib gk (snd gv)")
        (auto simp: getOwnerReconcileRequest_def getOwnersReferences_def)
  qed (simp add: getOwnerReconcileRequest_def getOwnersReferences_def Some)
qed (simp add: getOwnerReconcileRequest_def getOwnersReferences_def)

lemma injected_simps:
  "injected lib EnqueueRequestForObject = EnqueueRequestForObject"
  "mlObjectKinds lib (g, v, k) = Inr [(g, v, k)] \<Longrightarrow>
     injected lib (EnqueueRequestForOwner (g, v, k) ic gk) = EnqueueRequestForOwner (g, v, k) ic (g, k)"
  by (simp_all add: injected_def parseOwnerTypeGroupKind_def)

lemma ex_event_handler:
  "(\<exists>h. P h) \<longleftrightarrow> P EnqueueRequestForObject \<or> (\<exists>g v k ic gk. P (EnqueueRequestForOwner (g, v, k) ic gk))"
  by (metis event_handler.exhaust prod.exhaust)

text \<open>The requests for owners that an event leads to.\<close>

definition owner_request :: "manager_lib \<Rightarrow> event_meta \<Rightarrow> string \<Rightarrow> string \<Rightarrow> request \<Rightarrow> bool" where
  "owner_request lib o1 g k rq = (case GetControllerOf o1 of
     None \<Rightarrow> False
   | Some r \<Rightarrow> orKind r = k \<and> (case ParseGroupVersion (orAPIVersion r) of
       None \<Rightarrow> False
     | Some (g', v) \<Rightarrow> g' = g \<and> (case mlRESTMapping lib (g, k) v of
         Inl e \<Rightarrow> False
       | Inr root \<Rightarrow> rq = \<lparr>rqName = orName r, rqNamespace = (if root then [] else emNamespace o1)\<rparr>)))"

lemma owner_request_iff:
  "owner_request lib o1 g k rq \<longleftrightarrow> rq \<in> set (getOwnerReconcileRequest lib (g, k) True o1)"
  by (auto simp: owner_request_def controller_requests split: option.splits sum.splits)

text \<open>
  C36: In a namespace whose controllers could be set up, an event on an object reaches exactly the controllers that
  watch the type of the object, with the name and namespace of the object, and, when the object is a pod, the
  controllers of its controlling owner, compared by group and kind but not by version, with the name of the owner;
  an update counts for the object before and after it.
\<close>

theorem events_routed:
  assumes new: "operator_New lib gl namespace = Inr mgr"
    and types: "\<And>ty. mlObjectKinds lib ty = Inr [ty]"
  shows "(n, rq) \<in> set (route lib mgr src evt) \<longleftrightarrow> (\<exists>o1\<in>set (event_metas evt).
       n \<in> set (watchers gl src) \<and> rq = object_request o1
     \<or> src = pod_type \<and> (\<exists>(c, g, k)\<in>set pod_owners. c = n \<and> owner_request lib o1 g k rq))"
proof -
  have mgr: "mgr = set_up lib (controller_table gl)" using new by (simp add: operator_New_ok)
  let ?tab = "controller_table gl"
  have own: "(\<exists>ws. (n, ws) \<in> set ?tab \<and> (src, EnqueueRequestForObject) \<in> set ws) \<longleftrightarrow> n \<in> set (watchers gl src)"
    by (force simp: watchers_def)
  have "(n, rq) \<in> set (route lib mgr src evt) \<longleftrightarrow>
      (\<exists>ws. (n, ws) \<in> set ?tab \<and> (src, EnqueueRequestForObject) \<in> set ws) \<and> rq \<in> object_request ` set (event_metas evt)
      \<or> (\<exists>ws g v k ic gk. (n, ws) \<in> set ?tab \<and> (src, EnqueueRequestForOwner (g, v, k) ic gk) \<in> set ws
          \<and> (\<exists>o1\<in>set (event_metas evt). rq \<in> set (getOwnerReconcileRequest lib (g, k) ic o1)))"
    (is "_ \<longleftrightarrow> _ \<or> ?owner")
  proof -
    have "(\<exists>h. (src, h) \<in> set ws \<and> rq \<in> set (handle_event lib (injected lib h) evt)) \<longleftrightarrow>
        (src, EnqueueRequestForObject) \<in> set ws \<and> rq \<in> object_request ` set (event_metas evt)
        \<or> (\<exists>g v k ic gk. (src, EnqueueRequestForOwner (g, v, k) ic gk) \<in> set ws
          \<and> (\<exists>o1\<in>set (event_metas evt). rq \<in> set (getOwnerReconcileRequest lib (g, k) ic o1)))" for ws
      using ex_event_handler [of "\<lambda>h. (src, h) \<in> set ws \<and> rq \<in> set (handle_event lib (injected lib h) evt)"]
      by (simp add: injected_simps types)
    then show ?thesis unfolding mgr mem_route by blast
  qed
  also have "?owner \<longleftrightarrow> src = pod_type \<and> (\<exists>g k. (n, g, k) \<in> set pod_owners
      \<and> (\<exists>o1\<in>set (event_metas evt). rq \<in> set (getOwnerReconcileRequest lib (g, k) True o1)))"
    by (rule owner_watch_iff)
  finally show ?thesis unfolding own owner_request_iff by fastforce
qed

text \<open>
  A manager that accepts everything.  A pod of a deployment is controlled by its replica set, so that the watch
  of the pods of deployments never fires for it.
\<close>

definition demo_manager :: manager_lib where
  "demo_manager = \<lparr>mlNewMgr = \<lambda>_. None, mlSchemaFuncs = [None], mlAdd = \<lambda>_. None, mlSource = \<lambda>_. None,
     mlObjectKinds = \<lambda>ty. Inr [ty], mlRESTMapping = \<lambda>_ _. Inr False\<rparr>"

definition demo_replica_pod :: event_meta where
  "demo_replica_pod = \<lparr>emName = ''web-1-x'', emNamespace = ''ns'', emOwners =
     [\<lparr>orAPIVersion = ''apps/v1'', orKind = ''ReplicaSet'', orName = ''web-1'', orController = Some True\<rparr>]\<rparr>"

lemma demo_manager_new: "operator_New demo_manager gl namespace = Inr (set_up demo_manager (controller_table gl))"
proof -
  have "watch_ok demo_manager w" for w
    by (cases w; cases "snd w") (auto simp: watch_ok_def demo_manager_def parseOwnerTypeGroupKind_def)
  then show ?thesis by (simp add: operator_New_ok list_all_iff split_beta) (simp add: demo_manager_def)
qed

lemma demo_owner_request:
  "owner_request demo_manager demo_replica_pod g k rq \<longleftrightarrow>
     g = ''apps'' \<and> k = ''ReplicaSet'' \<and> rq = \<lparr>rqName = ''web-1'', rqNamespace = ''ns''\<rparr>"
proof -
  have "ParseGroupVersion ''apps/v1'' = Some (''apps'', ''v1'')" by code_simp
  then show ?thesis
    by (auto simp: owner_request_def GetControllerOf_def demo_replica_pod_def demo_manager_def)
qed

lemma events_routed_witness:
  "(''replicaset-controller'', \<lparr>rqName = ''web-1'', rqNamespace = ''ns''\<rparr>)
     \<in> set (route demo_manager (set_up demo_manager (controller_table demo_globals_k)) pod_type (CreateEvent demo_replica_pod))
   \<and> (\<forall>rq. (''deployment-controller'', rq)
     \<notin> set (route demo_manager (set_up demo_manager (controller_table demo_globals_k)) pod_type (CreateEvent demo_replica_pod)))"
proof -
  have types: "mlObjectKinds demo_manager ty = Inr [ty]" for ty by (simp add: demo_manager_def)
  have "''deployment-controller'' \<notin> set (watchers demo_globals_k pod_type)" by code_simp
  then show ?thesis
    unfolding events_routed [OF demo_manager_new types]
    by (auto simp: demo_owner_request pod_owners_def)
qed

section \<open>From an event to the platform\<close>

text \<open>The controllers of plain objects: the kind, the name of the controller, the type that it watches.\<close>

definition kind_controllers :: "(string \<times> string \<times> go_type) list" where
  "kind_controllers =
     [(''CronJob'', ''cronjob-controller'', ''batch'', ''v1beta1'', ''CronJob''),
      (''DaemonSet'', ''daemonset-controller'', ''apps'', ''v1'', ''DaemonSet''),
      (''Deployment'', ''deployment-controller'', ''apps'', ''v1'', ''Deployment''),
      (''Ingress'', ''ingress-controller'', ''extensions'', ''v1beta1'', ''Ingress''),
      (''PersistentVolume'', ''persistentVolume-controller'', [], ''v1'', ''PersistentVolume''),
      (''PersistentVolumeClaim'', ''persistentVolumeClaim-controller'', [], ''v1'', ''PersistentVolumeClaim''),
      (''Pod'', ''pod-controller'', pod_type),
      (''ReplicaSet'', ''replicaset-controller'', ''apps'', ''v1'', ''ReplicaSet''),
      (''StatefulSet'', ''statefulset-controller'', ''apps'', ''v1'', ''StatefulSet'')]"

definition cluster_kind :: "string \<Rightarrow> bool" where
  "cluster_kind kind \<longleftrightarrow> kind = ''PersistentVolume'' \<or> kind = ''PersistentVolumeClaim''"

text \<open>The queue of one controller.\<close>

definition requests_of :: "string \<Rightarrow> (string \<times> request) list \<Rightarrow> request list" where
  "requests_of name qs = map snd (filter (\<lambda>q. fst q = name) qs)"

lemma requests_of_append [simp]: "requests_of name (qs @ rs) = requests_of name qs @ requests_of name rs"
  by (simp add: requests_of_def)

lemma requests_of_Pair [simp]: "requests_of name (map (Pair n) rqs) = (if n = name then rqs else [])"
  by (induction rqs) (auto simp: requests_of_def)

lemma requests_of_route:
  assumes "distinct (map fst mgr)"
  shows "requests_of name (route lib mgr src evt) =
    (case map_of mgr name of None \<Rightarrow> [] | Some ws \<Rightarrow> watch_requests lib src evt ws)"
  using assms
proof (induction mgr)
  case (Cons c mgr)
  obtain n ws where c: "c = (n, ws)" by fastforce
  have "requests_of name (route lib (c # mgr) src evt) =
      (if n = name then watch_requests lib src evt ws else []) @ requests_of name (route lib mgr src evt)"
    by (simp add: route_def c)
  moreover have "map_of mgr n = None" using Cons.prems by (simp add: c map_of_eq_None_iff)
  ultimately show ?case using Cons by (auto simp: c)
qed (simp add: route_def requests_of_def)

lemma map_of_set_up: "map_of (set_up lib tab) name = map_option (map (apsnd (injected lib))) (map_of tab name)"
  by (induction tab) (auto simp: set_up_def)

lemma set_up_names [simp]: "map fst (set_up lib tab) = map fst tab"
  by (simp add: set_up_def)

lemma controllers_in_distinct: "distinct (map fst (controllers_in restricted))"
  by (rule bool_induct [where x = restricted]; code_simp)

lemma kind_controllers_watch:
  "list_all (\<lambda>(kind, name, src). case map_of (controllers_in restricted) name of
       None \<Rightarrow> restricted \<and> cluster_kind kind
     | Some ws \<Rightarrow> \<not> (restricted \<and> cluster_kind kind) \<and> (case ws of
         [w] \<Rightarrow> w = (src, EnqueueRequestForObject)
       | [w, (s, EnqueueRequestForOwner ty ic gk)] \<Rightarrow> w = (src, EnqueueRequestForObject) \<and> s = pod_type \<and> ic
           \<and> (src = pod_type \<longrightarrow> ty = pod_type)
       | _ \<Rightarrow> False)) kind_controllers"
  by (rule bool_induct [where x = restricted]; code_simp)

lemma no_pod_owner:
  assumes "\<And>r. GetControllerOf o1 = Some r \<Longrightarrow> orKind r \<noteq> ''Pod''"
  shows "getOwnerReconcileRequest lib (g, ''Pod'') True o1 = []"
  using assms by (auto simp: getOwnerReconcileRequest_def getOwnersReferences_def split: option.split)

lemma deleted_requests:
  assumes new: "operator_New lib gl namespace = Inr mgr"
    and types: "\<And>ty. mlObjectKinds lib ty = Inr [ty]"
    and kind: "(kind, name, src) \<in> set kind_controllers"
    and owner: "\<And>r. GetControllerOf o1 = Some r \<Longrightarrow> orKind r \<noteq> ''Pod''"
  shows "requests_of name (route lib mgr src (DeleteEvent o1)) =
    (if glRestrictedModel gl \<and> cluster_kind kind then [] else [object_request o1])"
proof -
  have mgr: "mgr = set_up lib (controllers_in (glRestrictedModel gl))"
    using new by (simp add: operator_New_ok controller_table_def)
  have r: "requests_of name (route lib mgr src (DeleteEvent o1)) =
      (case map_of (controllers_in (glRestrictedModel gl)) name of None \<Rightarrow> []
       | Some ws \<Rightarrow> watch_requests lib src (DeleteEvent o1) (map (apsnd (injected lib)) ws))"
    by (simp add: mgr requests_of_route controllers_in_distinct map_of_set_up split: option.split)
  from bspec [OF kind_controllers_watch [of "glRestrictedModel gl", unfolded list_all_iff] kind]
  consider "map_of (controllers_in (glRestrictedModel gl)) name = None" "glRestrictedModel gl \<and> cluster_kind kind"
    | "map_of (controllers_in (glRestrictedModel gl)) name = Some [(src, EnqueueRequestForObject)]"
        "\<not> (glRestrictedModel gl \<and> cluster_kind kind)"
    | ty gk where "map_of (controllers_in (glRestrictedModel gl)) name =
          Some [(src, EnqueueRequestForObject), (pod_type, EnqueueRequestForOwner ty True gk)]"
        "\<not> (glRestrictedModel gl \<and> cluster_kind kind)" "src = pod_type \<Longrightarrow> ty = pod_type"
    by (auto split: option.splits list.splits prod.splits event_handler.splits)
  then show ?thesis
  proof cases
    case 3
    obtain g v k where ty: "ty = (g, v, k)" by (cases ty) auto
    have "src = pod_type \<Longrightarrow> k = ''Pod''" using 3(3) ty by (simp add: pod_type_def)
    with 3(1,2) show ?thesis unfolding r
      by (auto simp: watch_requests_def injected_simps types ty no_pod_owner [OF owner])
  qed (simp_all add: r watch_requests_def injected_simps)
qed

text \<open>
  C37: The deletion of an object of any of nine kinds, if its read finds it absent, leads through the queue of the
  controller of its kind to exactly one report of the deletion, under the name and namespace of the object, where
  the kind is watched there; a restricted agent does not hear of volumes and claims.
\<close>

theorem deletion_reported_once:
  assumes "operator_New lib gl namespace = Inr mgr" "\<And>ty. mlObjectKinds lib ty = Inr [ty]"
    and "(kind, name, src) \<in> set kind_controllers" "(kind, run) \<in> set (object_controllers marshal args)"
    and "\<And>r. GetControllerOf o1 = Some r \<Longrightarrow> orKind r \<noteq> ''Pod''"
    and "got (object_request o1) = Inl e" "IsNotFound e"
  shows "sent run (map (\<lambda>rq. (rq, got rq)) (requests_of name (route lib mgr src (DeleteEvent o1)))) =
    (if glRestrictedModel gl \<and> cluster_kind kind \<or> \<not> kind_watched kind args (object_request o1) then []
     else [del_rep kind (object_request o1)])"
proof -
  let ?q = "[(object_request o1, Inl e)]"
  have "sent run ?q = (if kind_watched kind args (object_request o1) then [del_rep kind (object_request o1)] else [])"
    using reconciler.deletions_sent [OF controllers_contract [OF assms(4)], of ?q] assms(7)
    by (simp add: read_gone_def split: if_splits)
  with deleted_requests [OF assms(1,2,3,5)] assms(6) show ?thesis by (simp add: sent_def)
qed

lemma deletion_reported_once_witness:
  "sent (rec_Pod demo_args) (map (\<lambda>rq. (rq, Inl (NotFoundErr ''gone'')))
     (requests_of ''pod-controller'' (route demo_manager (set_up demo_manager (controller_table demo_globals_k)) pod_type
       (DeleteEvent demo_replica_pod)))) = [del_rep ''Pod'' \<lparr>rqName = ''web-1-x'', rqNamespace = ''ns''\<rparr>]"
proof -
  have types: "mlObjectKinds demo_manager ty = Inr [ty]" for ty by (simp add: demo_manager_def)
  have owner: "orKind r \<noteq> ''Pod''" if "GetControllerOf demo_replica_pod = Some r" for r
    using that by (auto simp: GetControllerOf_def demo_replica_pod_def)
  have "(''Pod'', ''pod-controller'', pod_type) \<in> set kind_controllers"
    "(''Pod'', rec_Pod demo_args) \<in> set (object_controllers (\<lambda>_. Inl []) demo_args)"
    by (simp_all add: kind_controllers_def object_controllers_def)
  from deletion_reported_once [OF demo_manager_new [of demo_globals_k] types this owner,
      where got = "\<lambda>_. Inl (NotFoundErr ''gone'')" and e = "NotFoundErr ''gone''"]
  show ?thesis
    by (simp add: IsNotFound_def demo_globals_k_def kind_watched_def object_request_def demo_replica_pod_def)
qed

end
