(* ===== verification/CertStatus.thy ===== *)
theory CertStatus
  imports Prelude
begin

text \<open>
  The helpers on certificates and issuers (\<^verbatim>\<open>helpers.go\<close> of \<^verbatim>\<open>pkg/apis/certificate/v1alpha1\<close>): their
  conditions, the look-ups in their configuration, and imported certificates.  A pointer that may be nil is an
  option; the time of a call is an argument.
\<close>

section \<open>Conditions\<close>

text \<open>The conditions of issuers and of certificates have the same fields.\<close>

record condition =
  cdType :: string
  cdStatus :: string
  cdTime :: int
  cdReason :: string
  cdMessage :: string

text \<open>The receiver, whose nil has no condition, is given by its conditions.\<close>

definition HasCondition :: "condition list option \<Rightarrow> condition \<Rightarrow> bool" where
  "HasCondition conds c = (case conds of None \<Rightarrow> False
   | Some cs \<Rightarrow> list_ex (\<lambda>cond. cdType c = cdType cond \<and> cdStatus c = cdStatus cond) cs)"

definition new_condition :: "int \<Rightarrow> string \<Rightarrow> string \<Rightarrow> string \<Rightarrow> string \<Rightarrow> condition" where
  "new_condition t ty status reason message =
     \<lparr>cdType = ty, cdStatus = status, cdTime = t, cdReason = reason, cdMessage = message\<rparr>"

text \<open>
  The first condition of the type is replaced, with the time of the call where its status changes or the time
  is forced; what the flag adds is the new condition when there is none of the type.
\<close>

fun replace_condition :: "bool \<Rightarrow> bool \<Rightarrow> condition \<Rightarrow> condition list \<Rightarrow> condition list" where
  "replace_condition adds force c [] = (if adds then [c\<lparr>cdTime := 0\<rparr>] else [])"
| "replace_condition adds force c (cond # cs) =
     (if cdType cond = cdType c
      then (if cdStatus cond \<noteq> cdStatus c \<or> force then c else c\<lparr>cdTime := cdTime cond\<rparr>) # cs
      else cond # replace_condition adds force c cs)"

text \<open>Of issuers and cluster issuers.\<close>

definition iss_UpdateStatusCondition
  :: "int \<Rightarrow> string \<Rightarrow> string \<Rightarrow> string \<Rightarrow> string \<Rightarrow> condition list \<Rightarrow> condition list" where
  "iss_UpdateStatusCondition t ty status reason message conds =
     (let c = new_condition t ty status reason message in
      if conds = [] then [c] else replace_condition False False c conds)"

text \<open>Of certificates: a condition that is appended has no time.\<close>

definition crt_UpdateStatusCondition
  :: "int \<Rightarrow> string \<Rightarrow> string \<Rightarrow> string \<Rightarrow> string \<Rightarrow> bool \<Rightarrow> condition list \<Rightarrow> condition list" where
  "crt_UpdateStatusCondition t ty status reason message forceTime conds =
     (let c = new_condition t ty status reason message in
      if conds = [] then [c] else replace_condition True forceTime c conds)"

section \<open>The contract of an update\<close>

definition find_condition :: "condition list \<Rightarrow> string \<Rightarrow> condition option" where
  "find_condition cs ty = find (\<lambda>c. cdType c = ty) cs"

lemma find_condition_simps [simp]:
  "find_condition [] ty = None"
  "find_condition (c # cs) ty = (if cdType c = ty then Some c else find_condition cs ty)"
  by (simp_all add: find_condition_def)

lemma find_condition_None: "find_condition cs ty = None \<longleftrightarrow> ty \<notin> set (map cdType cs)"
  by (induction cs) auto

lemma find_condition_has: "find_condition cs (cdType c) = Some c \<Longrightarrow> HasCondition (Some cs) c"
  by (auto simp: HasCondition_def find_condition_def list_ex_iff find_Some_iff)

text \<open>
  An update records a condition when \<^verbatim>\<open>takes\<close> it, leaves the conditions of other types alone, and keeps the
  types apart.
\<close>

locale condition_update =
  fixes takes :: "condition list \<Rightarrow> string \<Rightarrow> bool"
    and upd :: "string \<Rightarrow> string \<Rightarrow> condition list \<Rightarrow> condition list"
  assumes taken: "takes cs ty \<Longrightarrow> \<exists>c. find_condition (upd ty st cs) ty = Some c \<and> cdStatus c = st"
    and dropped: "\<not> takes cs ty \<Longrightarrow> upd ty st cs = cs"
    and others: "ty' \<noteq> ty \<Longrightarrow> find_condition (upd ty st cs) ty' = find_condition cs ty'"
    and apart: "distinct (map cdType cs) \<Longrightarrow> distinct (map cdType (upd ty st cs))"
    and known: "ty \<in> set (map cdType cs) \<Longrightarrow> takes cs ty"
begin

definition run :: "(string \<times> string) list \<Rightarrow> condition list \<Rightarrow> condition list" where
  "run us cs = fold (\<lambda>(ty, st). upd ty st) us cs"

lemma run_apart: "distinct (map cdType cs) \<Longrightarrow> distinct (map cdType (run us cs))"
  by (induction us arbitrary: cs) (auto simp: run_def apart)

lemma find_kept:
  assumes "ty \<in> set (map cdType cs)"
  shows "ty \<in> set (map cdType (upd ty' st cs))"
proof (cases "ty = ty'")
  case True
  with taken [OF known [OF assms]] show ?thesis
    by (metis find_condition_None option.distinct(1))
next
  case False
  with others [OF False] assms show ?thesis by (metis find_condition_None)
qed

text \<open>After any updates a type that was there has the status of its last update, or the one it had.\<close>

lemma run_status:
  assumes "ty \<in> set (map cdType cs)"
  shows "map_option cdStatus (find_condition (run us cs) ty) =
    (case map_of (rev us) ty of Some st \<Rightarrow> Some st | None \<Rightarrow> map_option cdStatus (find_condition cs ty))"
  using assms
proof (induction us arbitrary: cs)
  case (Cons u us)
  obtain ty' st where u: "u = (ty', st)" by fastforce
  have k: "ty \<in> set (map cdType (upd ty' st cs))" by (rule find_kept) (rule Cons.prems)
  have e: "map_option cdStatus (find_condition (upd ty' st cs) ty) =
      (if ty = ty' then Some st else map_option cdStatus (find_condition cs ty))"
    using taken [OF known [OF Cons.prems]] others [of ty ty'] by fastforce
  have "map_option cdStatus (find_condition (run (u # us) cs) ty) =
      map_option cdStatus (find_condition (run us (upd ty' st cs)) ty)"
    by (simp add: run_def u)
  also have "\<dots> = (case map_of (rev us) ty of Some st \<Rightarrow> Some st
      | None \<Rightarrow> map_option cdStatus (find_condition (upd ty' st cs) ty))"
    by (rule Cons.IH [OF k])
  finally show ?case by (simp add: u e map_of_append map_add_def split: option.splits)
qed (simp add: run_def)

end

lemma replace_find:
  "find_condition (replace_condition adds force c cs) ty =
     (if ty \<noteq> cdType c then find_condition cs ty
      else (case find_condition cs ty of
          None \<Rightarrow> if adds then Some (c\<lparr>cdTime := 0\<rparr>) else None
        | Some old \<Rightarrow> Some (if cdStatus old \<noteq> cdStatus c \<or> force then c else c\<lparr>cdTime := cdTime old\<rparr>)))"
  by (induction cs) auto

lemma replace_types:
  "map cdType (replace_condition adds force c cs) =
     (if cdType c \<in> set (map cdType cs) \<or> \<not> adds then map cdType cs else map cdType cs @ [cdType c])"
  by (induction cs) auto

lemma replace_none: "cdType c \<notin> set (map cdType cs) \<Longrightarrow> replace_condition False force c cs = cs"
  by (induction cs) auto

lemma replace_known:
  "cdType c \<in> set (map cdType cs) \<Longrightarrow> replace_condition False force c cs = replace_condition True force c cs"
  by (induction cs) auto

lemma new_condition_simps [simp]:
  "cdType (new_condition t ty st r m) = ty" "cdStatus (new_condition t ty st r m) = st" "cdTime (new_condition t ty st r m) = t"
  by (simp_all add: new_condition_def)

interpretation issuer: condition_update "\<lambda>cs ty. cs = [] \<or> ty \<in> set (map cdType cs)"
    "\<lambda>ty st cs. iss_UpdateStatusCondition t ty st reason message cs"
  by unfold_locales
    (auto simp: iss_UpdateStatusCondition_def Let_def replace_find replace_types replace_none find_condition_None
      split: option.split)

interpretation certificate: condition_update "\<lambda>cs ty. True"
    "\<lambda>ty st cs. crt_UpdateStatusCondition t ty st reason message forceTime cs"
  by unfold_locales
    (auto simp: crt_UpdateStatusCondition_def Let_def replace_find replace_types split: option.split)

section \<open>Configuration\<close>

text \<open>
  The verb \<^verbatim>\<open>%q\<close> of \<^verbatim>\<open>fmt\<close>, which escapes quotes, backslashes and control characters; bytes from 128 on are
  taken for parts of printable characters.
\<close>

definition hex_digit :: "nat \<Rightarrow> char" where
  "hex_digit n = ''0123456789abcdef'' ! n"

definition quote_char :: "char \<Rightarrow> string" where
  "quote_char c = (let n = of_char c :: nat in
     if n = 34 \<or> n = 92 then [CHR 0x5C, c]
     else if 7 \<le> n \<and> n \<le> 13 then [CHR 0x5C, ''abtnvfr'' ! (n - 7)]
     else if n < 32 \<or> n = 127 then [CHR 0x5C, CHR ''x'', hex_digit (n div 16), hex_digit (n mod 16)]
     else [c])"

definition go_quote :: "string \<Rightarrow> string" where
  "go_quote s = ''\"'' @ concat (map quote_char s) @ ''\"''"

record 'p dns01_provider =
  dpName :: string
  dpConfig :: 'p

definition Provider :: "'p dns01_provider list option \<Rightarrow> string \<Rightarrow> 'p dns01_provider res" where
  "Provider a name = (case find (\<lambda>p. dpName p = name) (case a of None \<Rightarrow> [] | Some ps \<Rightarrow> ps) of
     Some p \<Rightarrow> Inr p
   | None \<Rightarrow> Inl (''issuer does not contain DNS01 configuration for provider named '' @ go_quote name))"

record 'c domain_config =
  dcDomains :: "string list"
  dcSolver :: "'c option"

definition empty_domain_config :: "'c domain_config" where
  "empty_domain_config = \<lparr>dcDomains = [], dcSolver = None\<rparr>"

definition ConfigForDomain :: "'c domain_config list option \<Rightarrow> string \<Rightarrow> 'c domain_config" where
  "ConfigForDomain a domain = (case find (\<lambda>cfg. domain \<in> set (dcDomains cfg)) (case a of None \<Rightarrow> [] | Some cs \<Rightarrow> cs) of
     Some cfg \<Rightarrow> cfg | None \<Rightarrow> empty_domain_config)"

text \<open>
  The ACME part of a status is made when it is missing; a nil status gets one that is not kept.  The status that
  is kept comes with the result.
\<close>

definition ACMEStatus :: "'a \<Rightarrow> 'a option option \<Rightarrow> 'a \<times> 'a option option" where
  "ACMEStatus zero st = (case st of None \<Rightarrow> (zero, None)
   | Some None \<Rightarrow> (zero, Some (Some zero))
   | Some (Some a) \<Rightarrow> (a, st))"

definition CertificateCommitIdKey :: string where "CertificateCommitIdKey = ''choerodon.io/commit''"

definition GetCommitId :: "(string, string) gomap \<Rightarrow> string" where
  "GetCommitId annotations = gm_get [] annotations CertificateCommitIdKey"

definition FormatMessage :: "(string, string) gomap \<Rightarrow> string \<Rightarrow> string" where
  "FormatMessage annotations msg = ''['' @ GetCommitId annotations @ ''] '' @ msg"

text \<open>An imported certificate has a key and a certificate.\<close>

definition IsImport :: "string \<Rightarrow> string \<Rightarrow> bool" where
  "IsImport key cert \<longleftrightarrow> \<not> (key = [] \<or> cert = [])"

section \<open>What an update records\<close>

text \<open>
  An update of a certificate records the condition, and its time is that of the call exactly when the status
  changes, when it is forced, or when it is the first condition of all; an update of an issuer that already has
  conditions, but none of the type, is lost without a trace.  Conditions of other types stay as they are.
\<close>

theorem condition_recorded:
  assumes "crt = crt_UpdateStatusCondition t ty st reason message forceTime conds"
    and "iss = iss_UpdateStatusCondition t ty st reason message conds"
  shows "HasCondition (Some crt) (new_condition t ty st reason message)
    \<and> (case find_condition conds ty of
         Some old \<Rightarrow> find_condition crt ty = Some (new_condition
           (if cdStatus old \<noteq> st \<or> forceTime then t else cdTime old) ty st reason message)
       | None \<Rightarrow> find_condition crt ty = Some (new_condition (if conds = [] then t else 0) ty st reason message))
    \<and> (if conds \<noteq> [] \<and> find_condition conds ty = None then iss = conds
       else iss = crt_UpdateStatusCondition t ty st reason message False conds)
    \<and> (\<forall>ty'. ty' \<noteq> ty \<longrightarrow> find_condition crt ty' = find_condition conds ty')"
proof (intro conjI allI impI)
  obtain c where "find_condition crt ty = Some c" "cdStatus c = st"
    using certificate.taken [of t ty st reason message forceTime conds] assms(1) by auto
  moreover from this(1) have "c \<in> set crt" "cdType c = ty" by (auto simp: find_condition_def find_Some_iff)
  ultimately show "HasCondition (Some crt) (new_condition t ty st reason message)"
    by (auto simp: HasCondition_def list_ex_iff)
  show "case find_condition conds ty of
         Some old \<Rightarrow> find_condition crt ty = Some (new_condition
           (if cdStatus old \<noteq> st \<or> forceTime then t else cdTime old) ty st reason message)
       | None \<Rightarrow> find_condition crt ty = Some (new_condition (if conds = [] then t else 0) ty st reason message)"
    by (auto simp: assms(1) crt_UpdateStatusCondition_def Let_def replace_find split: option.split)
      (simp_all add: new_condition_def)
  show "if conds \<noteq> [] \<and> find_condition conds ty = None then iss = conds
       else iss = crt_UpdateStatusCondition t ty st reason message False conds"
    using replace_none [of "new_condition t ty st reason message" conds False]
      replace_known [of "new_condition t ty st reason message" conds False]
    by (auto simp: assms(2) iss_UpdateStatusCondition_def crt_UpdateStatusCondition_def Let_def find_condition_None)
  show "find_condition crt ty' = find_condition conds ty'" if "ty' \<noteq> ty" for ty'
    unfolding assms(1) by (rule certificate.others [OF that])
qed

lemma condition_recorded_witness:
  "iss_UpdateStatusCondition 9 ''Valid'' ''True'' [] [] [new_condition 1 ''Ready'' ''True'' [] []]
     = [new_condition 1 ''Ready'' ''True'' [] []]
   \<and> HasCondition (Some (crt_UpdateStatusCondition 9 ''Valid'' ''True'' [] [] False [new_condition 1 ''Ready'' ''True'' [] []]))
       (new_condition 9 ''Valid'' ''True'' [] [])"
  using condition_recorded [OF HOL.refl HOL.refl, of 9 "''Valid''" "''True''" "[]" "[]" False
      "[new_condition 1 ''Ready'' ''True'' [] []]"]
  by simp

end
