(* ===== verification/Errors.thy ===== *)
theory Errors
  imports KubeApi
begin

text \<open>
  The errors of the API (\<^verbatim>\<open>pkg/util/errors\<close>): a category, a help text for the user and the underlying error,
  with their form in JSON.  JSON texts are the values that they denote.
\<close>

section \<open>Errors\<close>

record api_error =
  erType :: string
  erHelp :: string
  erErr :: "gerror option"

definition ErrServer :: string where "ErrServer = ''server''"
definition ErrMissing :: string where "ErrMissing = ''missing''"
definition ErrUser :: string where "ErrUser = ''user''"

text \<open>An error value of Go: one of these, or any other with its text.\<close>

datatype error_value = ApiError api_error | OtherError gerror

text \<open>The text of an error without an underlying one is that of nil.\<close>

definition err_Error :: "api_error \<Rightarrow> gerror go" where
  "err_Error e = (case erErr e of None \<Rightarrow> Panic | Some m \<Rightarrow> Ret m)"

definition IsMissing :: "error_value \<Rightarrow> bool" where
  "IsMissing v = (case v of ApiError e \<Rightarrow> erType e = ErrMissing | OtherError _ \<Rightarrow> False)"

section \<open>JSON\<close>

definition err_MarshalJSON :: "api_error \<Rightarrow> json" where
  "err_MarshalJSON e = (let errMsg = (case erErr e of None \<Rightarrow> [] | Some m \<Rightarrow> m) in
     JObj ([(''type'', JStr (erType e)), (''help'', JStr (erHelp e))]
       @ (if errMsg = [] then [] else [(''error'', JStr errMsg)])))"

text \<open>
  How \<^verbatim>\<open>encoding/json\<close> reads an object into the fields of a structure of strings: names are compared without
  regard to case, unknown ones and null are passed over, a value that is no string is remembered as the error of
  the call, and the rest is read.
\<close>

record error_fields =
  efType :: string
  efHelp :: string
  efErr :: string

definition set_field :: "string \<Rightarrow> string \<Rightarrow> error_fields \<Rightarrow> error_fields" where
  "set_field name s fs = (let n = to_lower name in
     if n = ''type'' then fs\<lparr>efType := s\<rparr> else if n = ''help'' then fs\<lparr>efHelp := s\<rparr>
     else if n = ''error'' then fs\<lparr>efErr := s\<rparr> else fs)"

definition known_field :: "string \<Rightarrow> bool" where
  "known_field name = (to_lower name \<in> {''type'', ''help'', ''error''})"

fun read_fields :: "(string \<times> json) list \<Rightarrow> gerror option \<times> error_fields \<Rightarrow> gerror option \<times> error_fields" where
  "read_fields [] r = r"
| "read_fields ((name, v) # rest) (err, fs) = read_fields rest
     (if \<not> known_field name then (err, fs)
      else (case v of
          JStr s \<Rightarrow> (err, set_field name s fs)
        | JNull \<Rightarrow> (err, fs)
        | _ \<Rightarrow> (case err of None \<Rightarrow> Some ''json: cannot unmarshal'' | Some e \<Rightarrow> Some e, fs)))"

text \<open>
  The structure is behind a pointer, which null sets to nil.  An absent text of the underlying error leaves the
  one that the receiver has.
\<close>

definition err_UnmarshalJSON :: "json \<Rightarrow> api_error \<Rightarrow> (gerror option \<times> api_error) go" where
  "err_UnmarshalJSON j e = (case j of
     JNull \<Rightarrow> Panic
   | JObj fvs \<Rightarrow> (case read_fields fvs (None, \<lparr>efType = [], efHelp = [], efErr = []\<rparr>) of
       (Some err, fs) \<Rightarrow> Ret (Some err, e)
     | (None, fs) \<Rightarrow> Ret (None, e\<lparr>erType := efType fs, erHelp := efHelp fs,
         erErr := (if efErr fs \<noteq> [] then Some (efErr fs) else erErr e)\<rparr>))
   | _ \<Rightarrow> Ret (Some ''json: cannot unmarshal'', e))"

section \<open>What survives\<close>

lemma known_fields [simp]: "known_field ''type''" "known_field ''help''" "known_field ''error''"
  by code_simp+

lemma set_field_simps [simp]:
  "set_field ''type'' s fs = fs\<lparr>efType := s\<rparr>"
  "set_field ''help'' s fs = fs\<lparr>efHelp := s\<rparr>"
  "set_field ''error'' s fs = fs\<lparr>efErr := s\<rparr>"
proof -
  have "to_lower ''type'' = ''type''" "to_lower ''help'' = ''help''" "to_lower ''error'' = ''error''"
    by code_simp+
  then show "set_field ''type'' s fs = fs\<lparr>efType := s\<rparr>" "set_field ''help'' s fs = fs\<lparr>efHelp := s\<rparr>"
    "set_field ''error'' s fs = fs\<lparr>efErr := s\<rparr>"
    by (simp_all add: set_field_def Let_def)
qed

text \<open>
  An error that is written and read into a fresh one is the same again exactly when its underlying error is not
  there or has a text; read into one that is in use, a missing text leaves the old underlying error.
\<close>

theorem error_json_roundtrip:
  "err_UnmarshalJSON (err_MarshalJSON e) e0 = Ret (None, e\<lparr>erErr :=
       (if erErr e = None \<or> erErr e = Some [] then erErr e0 else erErr e)\<rparr>)
   \<and> (err_UnmarshalJSON (err_MarshalJSON e) \<lparr>erType = [], erHelp = [], erErr = None\<rparr> = Ret (None, e)
       \<longleftrightarrow> erErr e \<noteq> Some [])"
proof -
  have r: "err_UnmarshalJSON (err_MarshalJSON e) e0 = Ret (None, e\<lparr>erErr :=
       (if erErr e = None \<or> erErr e = Some [] then erErr e0 else erErr e)\<rparr>)" for e0
    by (cases e; cases e0; cases "erErr e")
      (auto simp: err_UnmarshalJSON_def err_MarshalJSON_def Let_def)
  then show ?thesis by (cases e) (auto simp: r)
qed

end
