(* ===== verification/Spec2Isabelle.thy ===== *)
theory Spec2Isabelle
  imports Kubectl KubeCmd Startup Endpoints Helm2to3 Metrics Operator CertStatus Errors
begin

text \<open>
  A model of the Choerodon cluster agent, a Go program that runs in a Kubernetes cluster, takes commands from
  the Choerodon platform over a websocket, keeps the environments of the cluster in step with git
  repositories, operates Helm releases, and reports what happens in the cluster.

  \<^bold>\<open>How the parts work together.\<close>  \<^verbatim>\<open>cmd/manager/options\<close> starts the program: it becomes leader, makes the
  clients, starts the websocket client and the worker.  The client (\<^verbatim>\<open>pkg/websocket\<close>) puts commands into
  one channel and takes responses from another; the worker (\<^verbatim>\<open>pkg/agent/worker.go\<close>) looks the type of a
  command up in a table (\<^verbatim>\<open>pkg/command/add_*.go\<close>) and runs its handler in a goroutine of its own.
  The first command, \<^verbatim>\<open>agent_init\<close>, starts for every environment a manager of controllers
  (\<^verbatim>\<open>pkg/controller\<close>) and the goroutines of \<^verbatim>\<open>pkg/gitops\<close>: one that mirrors the repository
  (\<^verbatim>\<open>pkg/git\<close>), one that waits for refreshes, timers and requests, and which synchronises: clone,
  load the manifests (\<^verbatim>\<open>pkg/kubernetes/resource\<close>), mark them (\<^verbatim>\<open>pkg/kube\<close>), compare
  with what the cluster exports (\<^verbatim>\<open>pkg/kubernetes\<close>), and let \<^verbatim>\<open>pkg/kubectl\<close> delete and
  apply.  The controllers report every change of an object, and ask the worker for the operations that a
  C7NHelmRelease resource is marked with, which \<^verbatim>\<open>pkg/helm\<close> carries out.  \<^verbatim>\<open>pkg/polaris\<close>
  audits the workloads on request.

  \<^bold>\<open>Conventions\<close> (Prelude, GoStrings, GoSort).  A panic is \<^verbatim>\<open>Panic\<close> in the type \<^verbatim>\<open>go\<close>; an
  error is the left side of a sum, or \<^verbatim>\<open>Some\<close> text; a Go map is an association list with distinct keys
  whose order stands for the order of iteration, so that a theorem over all lists is one over all orders; a
  state is a record that is returned updated; what is sent to a channel is a list of packets.  Executables,
  servers and libraries that are not part of the repository are arguments: git and kubectl (functions from
  the state or the history of commands to outcomes), the Kubernetes API, the Helm library, the readers and
  printers of YAML and JSON, the file system, the wire.  Theorems that need something of them state it as a
  hypothesis, and a witness gives a concrete function that has it.

  \<^bold>\<open>Theories and code.\<close>
  \<^item> Packets: \<^verbatim>\<open>pkg/agent/model\<close> and \<^verbatim>\<open>pkg/util/command\<close>: packets, their namespace, error packets,
    types of commands, labels.
  \<^item> Namespaces: \<^verbatim>\<open>pkg/agent/namespace\<close>, \<^verbatim>\<open>pkg/util/operator\<close>: the watched namespaces and the
    managers with their stop channels.
  \<^item> ResourceId: \<^verbatim>\<open>pkg/util/resource\<close>: identifiers, their text and parser, sets and lists of them.
  \<^item> Manifests: \<^verbatim>\<open>pkg/kubernetes/resource\<close>: splitting, parsing and loading of manifests.
  \<^item> Cluster: \<^verbatim>\<open>pkg/kubernetes\<close>: what of the cluster is exported, and the staging of changes.
  \<^item> Kubectl: \<^verbatim>\<open>pkg/kubectl\<close>: commands, their order, the fall-back to single objects.
  \<^item> GitCmd, GitRepo: \<^verbatim>\<open>pkg/git\<close>: each git command; the mirror as a state machine
    (\<^verbatim>\<open>repo_step\<close>, \<^verbatim>\<open>repo_reach\<close>), the clones.
  \<^item> GitSync, GitLoop, GitSsh: \<^verbatim>\<open>pkg/gitops\<close>: one synchronisation; the loops, their timers and the
    goroutine that serves them (\<^verbatim>\<open>sync_run\<close>); the ssh configuration.
  \<^item> KubeApi: \<^verbatim>\<open>pkg/kube\<close>: queries, creation or update, logs, marking of objects, certificates.
  \<^item> AgentSync, AgentCmd: \<^verbatim>\<open>pkg/agent/sync\<close>, \<^verbatim>\<open>pkg/command/agent\<close>,
    \<^verbatim>\<open>pkg/command/gitops\<close>: reports after a connection; initialisation and environments.
  \<^item> WsClient, Pipes: \<^verbatim>\<open>pkg/websocket\<close>, \<^verbatim>\<open>pkg/util/pipe\<close>: connections, the queue of
    responses, pipes for shells and logs, downloads.
  \<^item> KubeCmd: \<^verbatim>\<open>pkg/command/kubernetes\<close>: commands on single objects.
  \<^item> Controllers, Endpoints: \<^verbatim>\<open>pkg/controller\<close>, \<^verbatim>\<open>pkg/util/service\<close>: the reconcilers; the
    endpoints of services over several releases, with the variable of the loop as an explicit store.
  \<^item> Helm, HelmCmd, ReleaseFlow: \<^verbatim>\<open>pkg/helm\<close>, \<^verbatim>\<open>pkg/command/helm\<close>,
    \<^verbatim>\<open>pkg/controller/c7nhelmrelease\<close>, \<^verbatim>\<open>pkg/agent/worker.go\<close>: the client, the handlers, the
    controller, the worker (\<^verbatim>\<open>worker_step\<close>) and how an operation passes through them.
  \<^item> Polaris, PolarisAudit, PolarisScan: \<^verbatim>\<open>pkg/polaris\<close>, \<^verbatim>\<open>pkg/command/polaris\<close>: checks and
    exemptions, validation, summaries, resources and the command.
  \<^item> Helm2to3: \<^verbatim>\<open>pkg/helm/helm2to3\<close>: the conversion of releases of Helm 2 and their removal.
  \<^item> Metrics: \<^verbatim>\<open>pkg/metrics\<close>: the collectors of node and pod metrics, over any type of quantities.
  \<^item> Operator: \<^verbatim>\<open>pkg/operator\<close>, \<^verbatim>\<open>pkg/controller/controller.go\<close> and the functions \<^verbatim>\<open>Add\<close>: which
    controllers a namespace gets, and which of them an event reaches.
  \<^item> ApiGroups, CertStatus: \<^verbatim>\<open>certificate/apimachinery\<close> and \<^verbatim>\<open>pkg/apis/certificate/v1alpha1\<close>: the registry
    of groups and versions with the group of certificates; the conditions of certificates and issuers.
  \<^item> Errors: \<^verbatim>\<open>pkg/util/errors\<close>: the errors of the API and their JSON.
  \<^item> Startup: \<^verbatim>\<open>cmd/manager/options\<close>, \<^verbatim>\<open>pkg/command/add_*.go\<close>, \<^verbatim>\<open>pkg/util/cron\<close>: the
    table of handlers, the start, the upgrade of the agent.

  \<^bold>\<open>Interfaces as locales.\<close>  \<^verbatim>\<open>key_store\<close> (a set of keys; the watched namespaces and sets of
  identifiers), \<^verbatim>\<open>signal\<close> (a channel of capacity 1 that is notified without blocking; the three of the
  repositories and loops), \<^verbatim>\<open>weak_order\<close> (the orders that Go sorts by; kubectl and the keys of
  audits, roles of nodes, groups of the API), \<^verbatim>\<open>condition_update\<close> (recording a condition; those of
  certificates and of issuers), \<^verbatim>\<open>upsert\<close> (create or update; services, ingresses, secrets), \<^verbatim>\<open>reconciler\<close> (what
  every controller owes to its queue; ten controllers), \<^verbatim>\<open>command_flow\<close> (handlers that lead a command
  to its end; those of releases).

  \<^bold>\<open>What the lemmas show.\<close>
  \<^item> Synchronisation: exactly the exported objects that the repository lacks are deleted and exactly the
    changed ones applied, in the order of kinds, and every error is reported; a synchronisation does not
    panic; loading keeps every resource under its key; what the agent marks is what it exports; a repository
    whose git works becomes ready; which loops keep being woken, and the two ways in which they stop.
  \<^item> Connection: responses are written in order and once over any sequence of lost connections; a lost
    connection resets the state; long messages are cut within the limit; logs are relayed unchanged.
  \<^item> Environments: initialisation is all or error; what deleting an environment leaves; a failed
    initialisation is never repeated.
  \<^item> Releases: every request ends within eight steps with one answer under every schedule, an operation is
    asked for once, stopping and starting scale the workloads of the manifest, the upgrade of the agent
    itself is repeated for as long as it fails.
  \<^item> Audits: the results are exactly the checks that are due, in every order of the maps; reports are well
    formed, the summary counts them; panics are confined to controllers without template.
  \<^item> Controllers: deletions and failed reads are answered; endpoints are those of the eligible pods and
    settle after one check, but name the node of the pod listed last.
  \<^item> Migration: a conversion stores the newest versions in order, a clean-up removes exactly the versions;
    but the hooks of a converted release never fire.
  \<^item> Controllers and their queues: an event reaches exactly the controllers that watch its object or, for a
    pod, its controlling owner, whatever the version of the owner; a deletion leads to exactly one
    report.
  \<^item> Metrics: the totals of a node are the sums of what its pods need at most; a namespace without metrics
    ends the collector of pods.
  \<^item> Registry: registering all announced groups enables exactly the allowed versions in their order, and the
    mapper that is made of them does not panic.
  \<^item> Faults of the code are stated as theorems where they show: what the code does instead of what its
    comments or names say.

  \<^bold>\<open>Bounds and fuel.\<close>  \<^verbatim>\<open>yaml_max\<close> is the limit of 1048576 bytes that the loader gives its scanner,
  65536 that of Go's scanner in the search for git's error line; \<^verbatim>\<open>sync_interval_size\<close> is the capacity
  100 of the channel of expired timers; the dial of a download gives up after 21 attempts, other connections
  after six errors, installations after five.  There is no fuel: loops either end by a measure
  (\<^verbatim>\<open>termination\<close>), or run over an explicit list of events or outcomes, so that a theorem over all
  lists is one over all runs, or are step relations.  Counters and replicas keep their width (words of 32 and
  64 bits).

  \<^bold>\<open>Not modelled.\<close>  The types that \<^verbatim>\<open>pkg/apis\<close> declares, and its generated clients, informers and deep
  copies.  The flags, signals and the shutdown of the program; the ping and the deadlines of a connection;
  waiting times, which are left out where they only delay; logging.  The queues, caches and rate limits of the
  controller runtime: a request is taken as soon as it is there.  Small declarations of types and globals.
  Concurrency is modelled where it decides: the steps of loops, of the worker and of repositories are taken in
  any order, a handler is one step.
\<close>

end
